(* ===== verification/Prelude.thy ===== *)
theory Prelude
  imports Main "HOL-Library.Word"
begin

text \<open>
  The vocabulary shared by every theory: the machine types of the C sources, the
  errno values that the tools return, an error-and-state monad for functions of
  type int that report \<open>-errno\<close>, the little-endian byte codec of the
  integer types, and the interface \<open>codec\<close> that every on-disk structure is
  shown to satisfy.
\<close>

unbundle bit_operations_syntax

named_theorems codec_simps \<open>sizes and round trips of the on-disk codecs\<close>
named_theorems monad_simps \<open>unfolding of the error-and-state monad\<close>

section \<open>Machine types and error values\<close>

type_synonym byte = "8 word"
type_synonym u16 = "16 word"
type_synonym u32 = "32 word"
type_synonym u64 = "64 word"

datatype errno =
    EPERM | ENOENT | EINTR | EIO | EBADF | ENOMEM | EACCES | EBUSY | EEXIST
  | ENODEV | EINVAL | EFBIG | ENOSPC | EROFS | ERANGE | EILSEQ | ENOTDIR
  | ENOTSUP | EUCLEAN | ENODATA | ENOSYS | EAGAIN | ENAMETOOLONG | EFSCORRUPTED
  | EOVERFLOW | ENXIO | EISDIR | ENOTEMPTY | EMFILE | EXDEV | EOPNOTSUPP
  | EBADE | E2BIG | ENOTTY

type_synonym 'a result = "errno + 'a"

section \<open>Functions that return an error code and change the world\<close>

type_synonym ('w, 'a) action = "'w \<Rightarrow> 'a result \<times> 'w"

definition okE :: "'a \<Rightarrow> ('w, 'a) action" where
  "okE x w = (Inr x, w)"

definition failE :: "errno \<Rightarrow> ('w, 'a) action" where
  "failE e w = (Inl e, w)"

definition bindE :: "('w, 'a) action \<Rightarrow> ('a \<Rightarrow> ('w, 'b) action) \<Rightarrow> ('w, 'b) action" where
  "bindE m f w = (case m w of (Inl e, w') \<Rightarrow> (Inl e, w') | (Inr x, w') \<Rightarrow> f x w')"

definition guardE :: "bool \<Rightarrow> errno \<Rightarrow> ('w, unit) action" where
  "guardE b e = (if b then okE () else failE e)"

text \<open>A pure computation that may fail, run inside an action.\<close>

definition liftE :: "'a result \<Rightarrow> ('w, 'a) action" where
  "liftE r w = (r, w)"

text \<open>What is done on the error path before the error is returned.\<close>

definition cleanupE :: "('w, 'a) action \<Rightarrow> ('w \<Rightarrow> 'w) \<Rightarrow> ('w, 'a) action" where
  "cleanupE m c w = (case m w of (Inl e, w') \<Rightarrow> (Inl e, c w') | (Inr x, w') \<Rightarrow> (Inr x, w'))"

text \<open>What is done on every path before the function returns.\<close>

definition finallyE :: "('w, 'a) action \<Rightarrow> ('w \<Rightarrow> 'w) \<Rightarrow> ('w, 'a) action" where
  "finallyE m c w = (let (r, w') = m w in (r, c w'))"

text \<open>A C for loop over a list of indices, left at the first error.\<close>

primrec forE :: "('i \<Rightarrow> 's \<Rightarrow> ('w, 's) action) \<Rightarrow> 'i list \<Rightarrow> 's \<Rightarrow> ('w, 's) action" where
  "forE f [] s = okE s"
| "forE f (i # is) s = bindE (f i s) (forE f is)"

lemma bindE_okE [simp, monad_simps]: "bindE (okE x) f = f x"
  by (simp add: bindE_def okE_def fun_eq_iff)

lemma bindE_failE [simp, monad_simps]: "bindE (failE e) f = failE e"
  by (simp add: bindE_def failE_def fun_eq_iff)

lemma bindE_assoc: "bindE (bindE m f) g = bindE m (\<lambda>x. bindE (f x) g)"
  by (simp add: bindE_def fun_eq_iff split: prod.splits sum.splits)

lemma guardE_True [simp, monad_simps]: "guardE True e = okE ()"
  by (simp add: guardE_def)

lemma guardE_False [simp, monad_simps]: "guardE False e = failE e"
  by (simp add: guardE_def)

lemma liftE_Inr [simp, monad_simps]: "liftE (Inr x) = okE x"
  by (simp add: liftE_def okE_def fun_eq_iff)

lemma liftE_Inl [simp, monad_simps]: "liftE (Inl e) = failE e"
  by (simp add: liftE_def failE_def fun_eq_iff)

lemma okE_run [simp]: "okE x w = (Inr x, w)"
  by (simp add: okE_def)

lemma failE_run [simp]: "failE e w = (Inl e, w)"
  by (simp add: failE_def)

lemma bindE_Pair [simp, monad_simps]:
  "bindE (Pair (Inr x)) f = f x" "bindE (Pair (Inl e)) f = Pair (Inl e)"
  by (simp_all add: bindE_def fun_eq_iff)

lemma bindE_run_Inr: "m w = (Inr x, w') \<Longrightarrow> bindE m f w = f x w'"
  by (simp add: bindE_def)

lemma bindE_run_Inl: "m w = (Inl e, w') \<Longrightarrow> bindE m f w = (Inl e, w')"
  by (simp add: bindE_def)

lemma cleanupE_eq_Inr [simp]: "cleanupE m c w = (Inr x, w') \<longleftrightarrow> m w = (Inr x, w')"
  by (auto simp: cleanupE_def split: prod.splits sum.splits)

lemma cleanupE_run_Inr: "m w = (Inr x, w') \<Longrightarrow> cleanupE m c w = (Inr x, w')"
  by simp

lemma finallyE_run: "m w = (r, w') \<Longrightarrow> finallyE m c w = (r, c w')"
  by (simp add: finallyE_def)

lemma finallyE_eq_Inr: "finallyE m c w = (Inr x, w'') \<longleftrightarrow> (\<exists>w'. m w = (Inr x, w') \<and> w'' = c w')"
  by (auto simp: finallyE_def split: prod.splits)

lemma bindE_eq_Inr:
  "bindE m f w = (Inr y, w'') \<longleftrightarrow> (\<exists>x w'. m w = (Inr x, w') \<and> f x w' = (Inr y, w''))"
  by (auto simp: bindE_def split: prod.splits sum.splits)

lemma bindE_InrE:
  assumes "bindE m f w = (Inr y, w'')"
  obtains x w' where "m w = (Inr x, w')" "f x w' = (Inr y, w'')"
  using assms by (auto simp: bindE_eq_Inr)

lemma guardE_eq_Inr [simp]: "guardE b e w = (Inr x, w') \<longleftrightarrow> b \<and> w' = w"
  by (auto simp: guardE_def)

lemma okE_eq_Inr [simp]: "okE x w = (Inr y, w') \<longleftrightarrow> y = x \<and> w' = w"
  by auto

lemma failE_eq_Inr [simp]: "failE e w = (Inr y, w') \<longleftrightarrow> False"
  by auto

lemma liftE_eq_Inr [simp]: "liftE r w = (Inr y, w') \<longleftrightarrow> r = Inr y \<and> w' = w"
  by (auto simp: liftE_def)

text \<open>An action keeps a property of the world when both of its parts do.\<close>

definition keeps :: "('w \<Rightarrow> bool) \<Rightarrow> ('w, 'a) action \<Rightarrow> bool" where
  "keeps P m \<longleftrightarrow> (\<forall>w. P w \<longrightarrow> P (snd (m w)))"

lemma keepsI: "(\<And>w. P w \<Longrightarrow> P (snd (m w))) \<Longrightarrow> keeps P m"
  by (simp add: keeps_def)

lemma keepsD: "keeps P m \<Longrightarrow> P w \<Longrightarrow> m w = (r, w') \<Longrightarrow> P w'"
  by (auto simp: keeps_def dest!: spec [of _ w])

lemma keeps_okE [simp, intro]: "keeps P (okE x)"
  by (simp add: keeps_def)

lemma keeps_failE [simp, intro]: "keeps P (failE e)"
  by (simp add: keeps_def)

lemma keeps_Pair [simp, intro]: "keeps P (Pair r)"
  by (simp add: keeps_def)

lemma keeps_guardE [simp, intro]: "keeps P (guardE b e)"
  by (simp add: guardE_def)

lemma keeps_liftE [simp, intro]: "keeps P (liftE r)"
  by (simp add: keeps_def liftE_def)

lemma keeps_bindE [intro]:
  assumes "keeps P m" "\<And>x. keeps P (f x)"
  shows "keeps P (bindE m f)"
proof (rule keepsI)
  fix w assume "P w"
  then show "P (snd (bindE m f w))"
    using assms keepsD [OF assms(1), of w]
    by (cases "m w") (auto simp: bindE_def keeps_def split: sum.splits)
qed

lemma keeps_forE [intro]: "(\<And>i s. keeps P (f i s)) \<Longrightarrow> keeps P (forE f is s)"
  by (induction "is" arbitrary: s) auto

lemma keeps_cleanupE: "keeps P m \<Longrightarrow> (\<And>w. P w \<Longrightarrow> P (c w)) \<Longrightarrow> keeps P (cleanupE m c)"
  by (auto simp: keeps_def cleanupE_def split: prod.split sum.split)

lemma keeps_finallyE: "keeps P m \<Longrightarrow> (\<And>w. P w \<Longrightarrow> P (c w)) \<Longrightarrow> keeps P (finallyE m c)"
  by (auto simp: keeps_def finallyE_def split: prod.split)

lemma keeps_if [intro]: "keeps P m \<Longrightarrow> keeps P n \<Longrightarrow> keeps P (if b then m else n)"
  by simp

text \<open>
  Partial and total correctness of an action: \<open>ensures\<close> speaks of the runs that succeed,
  \<open>succeeds\<close> says that the action does.
\<close>

definition ensures :: "('w \<Rightarrow> bool) \<Rightarrow> ('w, 'a) action \<Rightarrow> ('a \<Rightarrow> 'w \<Rightarrow> bool) \<Rightarrow> bool" where
  "ensures P m Q \<longleftrightarrow> (\<forall>w x w'. P w \<longrightarrow> m w = (Inr x, w') \<longrightarrow> Q x w')"

definition succeeds :: "('w \<Rightarrow> bool) \<Rightarrow> ('w, 'a) action \<Rightarrow> ('a \<Rightarrow> 'w \<Rightarrow> bool) \<Rightarrow> bool" where
  "succeeds P m Q \<longleftrightarrow> (\<forall>w. P w \<longrightarrow> (\<exists>x w'. m w = (Inr x, w') \<and> Q x w'))"

lemma ensuresI: "(\<And>w x w'. P w \<Longrightarrow> m w = (Inr x, w') \<Longrightarrow> Q x w') \<Longrightarrow> ensures P m Q"
  by (simp add: ensures_def)

lemma ensuresD: "ensures P m Q \<Longrightarrow> P w \<Longrightarrow> m w = (Inr x, w') \<Longrightarrow> Q x w'"
  by (simp add: ensures_def)

lemma ensures_bindE: "ensures P m R \<Longrightarrow> (\<And>x. ensures (R x) (f x) Q) \<Longrightarrow> ensures P (bindE m f) Q"
  unfolding ensures_def by (metis bindE_InrE)

lemma ensures_ex: "(\<And>y. ensures (P y) m Q) \<Longrightarrow> ensures (\<lambda>w. \<exists>y. P y w) m Q"
  unfolding ensures_def by blast

lemma ensures_conseq:
  "ensures P m Q \<Longrightarrow> (\<And>w. P' w \<Longrightarrow> P w) \<Longrightarrow> (\<And>x w. Q x w \<Longrightarrow> Q' x w) \<Longrightarrow> ensures P' m Q'"
  unfolding ensures_def by blast

lemma ensures_keeps: "keeps P m \<Longrightarrow> ensures P m (\<lambda>_. P)"
  unfolding ensures_def keeps_def by (metis snd_conv)

lemma succeedsI: "(\<And>w. P w \<Longrightarrow> \<exists>x w'. m w = (Inr x, w') \<and> Q x w') \<Longrightarrow> succeeds P m Q"
  by (simp add: succeeds_def)

lemma succeedsD: "succeeds P m Q \<Longrightarrow> P w \<Longrightarrow> \<exists>x w'. m w = (Inr x, w') \<and> Q x w'"
  by (simp add: succeeds_def)

lemma succeeds_bindE: "succeeds P m R \<Longrightarrow> (\<And>x. succeeds (R x) (f x) Q) \<Longrightarrow> succeeds P (bindE m f) Q"
  unfolding succeeds_def by (metis bindE_run_Inr)

lemma succeeds_okE: "(\<And>w. P w \<Longrightarrow> Q x w) \<Longrightarrow> succeeds P (okE x) Q"
  by (simp add: succeeds_def)

lemma succeeds_conseq:
  "succeeds P m Q \<Longrightarrow> (\<And>w. P' w \<Longrightarrow> P w) \<Longrightarrow> (\<And>x w. Q x w \<Longrightarrow> Q' x w) \<Longrightarrow> succeeds P' m Q'"
  unfolding succeeds_def by blast

lemma succeeds_forE:
  "(\<And>i s. i \<in> set is \<Longrightarrow> I s \<Longrightarrow> succeeds P (f i s) (\<lambda>s w. I s \<and> P w)) \<Longrightarrow> I s \<Longrightarrow>
    succeeds P (forE f is s) (\<lambda>s w. I s \<and> P w)"
proof (induction "is" arbitrary: s)
  case (Cons i "is")
  show ?case
    unfolding forE.simps
  proof (rule succeeds_bindE)
    show "succeeds P (f i s) (\<lambda>s w. I s \<and> P w)"
      using Cons.prems by simp
    show "succeeds (\<lambda>w. I x \<and> P w) (forE f is x) (\<lambda>s w. I s \<and> P w)" for x
      using Cons.IH [of x] Cons.prems(1) by (fastforce simp: succeeds_def)
  qed
qed (simp add: succeeds_def)

text \<open>An action that keeps a property and whose results satisfy another one.\<close>

definition yields :: "('w \<Rightarrow> bool) \<Rightarrow> ('w, 'a) action \<Rightarrow> ('a \<Rightarrow> bool) \<Rightarrow> bool" where
  "yields P m C \<longleftrightarrow> (\<forall>w r w'. P w \<longrightarrow> m w = (r, w') \<longrightarrow> P w' \<and> (\<forall>x. r = Inr x \<longrightarrow> C x))"

lemma yieldsI: "keeps P m \<Longrightarrow> ensures P m (\<lambda>x w. C x) \<Longrightarrow> yields P m C"
  unfolding yields_def keeps_def ensures_def by (metis snd_conv)

lemma yieldsD: "yields P m C \<Longrightarrow> P w \<Longrightarrow> m w = (r, w') \<Longrightarrow> P w' \<and> (\<forall>x. r = Inr x \<longrightarrow> C x)"
  by (simp add: yields_def)

lemma yields_keeps: "keeps P m \<Longrightarrow> yields P m (\<lambda>_. True)"
  unfolding yields_def keeps_def by (metis snd_conv)

lemma yields_bindE:
  assumes "yields P m C" "\<And>x. C x \<Longrightarrow> yields P (f x) D"
  shows "yields P (bindE m f) D"
  unfolding yields_def
proof (intro allI impI)
  fix w r w' assume w: "P w" and run: "bindE m f w = (r, w')"
  obtain s w1 where s: "m w = (s, w1)"
    by fastforce
  show "P w' \<and> (\<forall>x. r = Inr x \<longrightarrow> D x)"
    using run s yieldsD [OF assms(1) w s] yieldsD [OF assms(2), of _ w1 r w']
    by (cases s) (auto simp: bindE_def)
qed

lemma yields_cleanupE: "yields P m C \<Longrightarrow> (\<And>w. P w \<Longrightarrow> P (c w)) \<Longrightarrow> yields P (cleanupE m c) C"
  unfolding yields_def cleanupE_def by (auto split: prod.splits sum.splits)

lemma yields_finallyE: "yields P m C \<Longrightarrow> (\<And>w. P w \<Longrightarrow> P (c w)) \<Longrightarrow> yields P (finallyE m c) C"
  unfolding yields_def finallyE_def by (auto split: prod.splits)

lemma yields_okE: "C x \<Longrightarrow> yields P (okE x) C"
  by (simp add: yields_def)

lemma yields_forE:
  assumes "\<And>i s. C s \<Longrightarrow> yields P (f i s) C" "C s"
  shows "yields P (forE f is s) C"
  using assms(2) by (induction "is" arbitrary: s) (auto intro: yields_okE yields_bindE assms(1))

section \<open>Lists\<close>

lemma take_drop_update_same:
  "length ys = n \<Longrightarrow> off + n \<le> length xs \<Longrightarrow>
   take n (drop off (take off xs @ ys @ drop (off + n) xs)) = ys"
  by simp

lemma list_split3: "off + n \<le> length xs \<Longrightarrow> xs = take off xs @ take n (drop off xs) @ drop (off + n) xs"
  by (metis add.commute append_take_drop_id drop_drop)

section \<open>Exclusive or\<close>

lemma xor_right_cancel: "a XOR c = b XOR c \<longleftrightarrow> a = (b :: 'a::len word)"
proof
  assume "a XOR c = b XOR c"
  then have "(a XOR c) XOR c = (b XOR c) XOR c"
    by simp
  then show "a = b"
    by (simp add: xor.assoc)
qed simp

lemma xor_left_cancel: "c XOR a = c XOR b \<longleftrightarrow> a = (b :: 'a::len word)"
  by (simp add: xor.commute [of c] xor_right_cancel)

lemma xor_zero_iff: "a XOR b = 0 \<longleftrightarrow> a = (b :: 'a::len word)"
  using xor_right_cancel [of a b b] by simp

section \<open>Little-endian integers\<close>

text \<open>
  The layout of \<open>aetherfs_cpu_to_le16/32/64\<close> in memory: on either byte order
  of the host the stored bytes are the little-endian ones.
\<close>

primrec le_bytes :: "nat \<Rightarrow> 'a::len word \<Rightarrow> byte list" where
  "le_bytes 0 w = []"
| "le_bytes (Suc n) w = ucast w # le_bytes n (drop_bit 8 w)"

primrec of_le :: "byte list \<Rightarrow> 'a::len word" where
  "of_le [] = 0"
| "of_le (b # bs) = ucast b OR push_bit 8 (of_le bs)"

lemma length_le_bytes [simp, codec_simps]: "length (le_bytes n w) = n"
  by (induction n arbitrary: w) auto

lemma of_le_le_bytes: "of_le (le_bytes n w) = take_bit (8 * n) (w :: 'a::len word)"
proof (induction n arbitrary: w)
  case (Suc n)
  show ?case
    by (rule bit_word_eqI) (auto simp: Suc bit_simps)
qed simp

lemma of_le_le_bytes_full: "LENGTH('a) \<le> 8 * n \<Longrightarrow> of_le (le_bytes n w) = (w :: 'a::len word)"
  by (simp add: of_le_le_bytes take_bit_word_eq_self)

lemma bit_of_le_bound: "bit (of_le bs :: 'a::len word) i \<Longrightarrow> i < 8 * length bs"
proof (induction bs arbitrary: i)
  case (Cons b bs)
  then show ?case
    by (cases "i < 8") (auto simp: bit_simps dest!: Cons.IH dest: bit_imp_le_length)
qed simp

lemma le_bytes_of_le:
  "8 * length bs \<le> LENGTH('a) \<Longrightarrow> le_bytes (length bs) (of_le bs :: 'a::len word) = bs"
proof (induction bs)
  case (Cons b bs)
  have "ucast (ucast b OR push_bit 8 (of_le bs) :: 'a word) = b"
    using Cons.prems by (intro bit_word_eqI) (auto simp: bit_simps)
  moreover have "drop_bit 8 (ucast b OR push_bit 8 (of_le bs) :: 'a word) = of_le bs"
    using Cons.prems by (intro bit_word_eqI) (auto simp: bit_simps dest: bit_of_le_bound bit_imp_le_length)
  ultimately show ?case
    using Cons by simp
qed simp

abbreviation le8 :: "byte \<Rightarrow> byte list" where "le8 \<equiv> le_bytes 1"
abbreviation le16 :: "u16 \<Rightarrow> byte list" where "le16 \<equiv> le_bytes 2"
abbreviation le32 :: "u32 \<Rightarrow> byte list" where "le32 \<equiv> le_bytes 4"
abbreviation le64 :: "u64 \<Rightarrow> byte list" where "le64 \<equiv> le_bytes 8"

definition dec8 :: "byte list \<Rightarrow> byte \<times> byte list" where
  "dec8 b = (of_le (take 1 b), drop 1 b)"

definition dec16 :: "byte list \<Rightarrow> u16 \<times> byte list" where
  "dec16 b = (of_le (take 2 b), drop 2 b)"

definition dec32 :: "byte list \<Rightarrow> u32 \<times> byte list" where
  "dec32 b = (of_le (take 4 b), drop 4 b)"

definition dec64 :: "byte list \<Rightarrow> u64 \<times> byte list" where
  "dec64 b = (of_le (take 8 b), drop 8 b)"

text \<open>A byte array member, and an array of structures.\<close>

definition dec_bytes :: "nat \<Rightarrow> byte list \<Rightarrow> byte list \<times> byte list" where
  "dec_bytes n b = (take n b, drop n b)"

definition enc_array :: "('a \<Rightarrow> byte list) \<Rightarrow> 'a list \<Rightarrow> byte list" where
  "enc_array enc xs = concat (map enc xs)"

primrec dec_array :: "(byte list \<Rightarrow> 'a \<times> byte list) \<Rightarrow> nat \<Rightarrow> byte list \<Rightarrow> 'a list \<times> byte list" where
  "dec_array dec 0 b = ([], b)"
| "dec_array dec (Suc n) b = (let (x, b) = dec b; (xs, b) = dec_array dec n b in (x # xs, b))"

section \<open>The codec interface\<close>

text \<open>
  What a packed structure of \<open>sz\<close> bytes promises: reading back what was
  written gives the value and leaves the bytes after it, and writing what was read
  gives the bytes back.  \<open>wf\<close> says that the array members have their declared
  lengths.
\<close>

locale codec =
  fixes wf :: "'a \<Rightarrow> bool"
    and enc :: "'a \<Rightarrow> byte list"
    and dec :: "byte list \<Rightarrow> 'a \<times> byte list"
    and sz :: nat
  assumes dec_enc: "wf x \<Longrightarrow> dec (enc x @ r) = (x, r)"
    and enc_len: "wf x \<Longrightarrow> length (enc x) = sz"
    and dec_rest: "snd (dec b) = drop sz b"
    and dec_wf: "sz \<le> length b \<Longrightarrow> wf (fst (dec b))"
    and enc_dec: "sz \<le> length b \<Longrightarrow> enc (fst (dec b)) = take sz b"
begin

lemma dec_enc_exact: "wf x \<Longrightarrow> fst (dec (enc x)) = x"
  using dec_enc [of x "[]"] by simp

lemma enc_inj: "wf x \<Longrightarrow> wf y \<Longrightarrow> enc x = enc y \<Longrightarrow> x = y"
  by (metis dec_enc_exact)

lemma dec_enc_fst: "wf x \<Longrightarrow> fst (dec (enc x @ r)) = x"
  by (simp add: dec_enc)

lemma dec_take: "sz \<le> length b \<Longrightarrow> fst (dec (take sz b)) = fst (dec b)"
  by (metis dec_enc_exact dec_wf enc_dec)

lemma array_dec_enc:
  "length xs = n \<Longrightarrow> list_all wf xs \<Longrightarrow> dec_array dec n (enc_array enc xs @ r) = (xs, r)"
  by (induction xs arbitrary: n) (auto simp: enc_array_def dec_enc)

lemma array_enc_len: "list_all wf xs \<Longrightarrow> length (enc_array enc xs) = length xs * sz"
  by (induction xs) (auto simp: enc_array_def enc_len)

lemma array_dec_rest: "snd (dec_array dec n b) = drop (n * sz) b"
  by (induction n arbitrary: b) (simp_all add: case_prod_beta Let_def dec_rest add.commute)

lemma array_dec_length [simp]: "length (fst (dec_array dec n b)) = n"
  by (induction n arbitrary: b) (simp_all add: case_prod_beta Let_def)

lemma array_dec_wf: "n * sz \<le> length b \<Longrightarrow> list_all wf (fst (dec_array dec n b))"
  by (induction n arbitrary: b) (simp_all add: case_prod_beta Let_def dec_wf dec_rest)

lemma array_enc_dec: "n * sz \<le> length b \<Longrightarrow> enc_array enc (fst (dec_array dec n b)) = take (n * sz) b"
proof (induction n arbitrary: b)
  case (Suc n)
  then show ?case
    by (simp add: case_prod_beta Let_def dec_rest enc_array_def enc_dec take_add)
qed (simp add: enc_array_def)

text \<open>An array of structures is a structure.\<close>

lemma array_codec:
  "codec (\<lambda>xs. length xs = n \<and> list_all wf xs) (enc_array enc) (dec_array dec n) (n * sz)"
  by unfold_locales
    (auto simp: array_dec_enc array_enc_len array_dec_rest array_dec_wf array_enc_dec)

end

abbreviation any :: "'a \<Rightarrow> bool" where "any \<equiv> \<lambda>_. True"

lemma le_bytes_of_le_take:
  "n \<le> length b \<Longrightarrow> 8 * n \<le> LENGTH('a) \<Longrightarrow> le_bytes n (of_le (take n b) :: 'a::len word) = take n b"
  using le_bytes_of_le [of "take n b"] by simp

interpretation u8: codec any le8 dec8 1
  by unfold_locales (simp_all add: dec8_def of_le_le_bytes_full le_bytes_of_le_take del: One_nat_def)

interpretation u16: codec any le16 dec16 2
  by unfold_locales (simp_all add: dec16_def of_le_le_bytes_full le_bytes_of_le_take)

interpretation u32: codec any le32 dec32 4
  by unfold_locales (simp_all add: dec32_def of_le_le_bytes_full le_bytes_of_le_take)

interpretation u64: codec any le64 dec64 8
  by unfold_locales (simp_all add: dec64_def of_le_le_bytes_full le_bytes_of_le_take)

interpretation bytes: codec "\<lambda>b. length b = n" "\<lambda>b. b" "dec_bytes n" n for n
  by unfold_locales (simp_all add: dec_bytes_def)

section \<open>Words of different widths\<close>

lemma unat_ucast_u64: "unat (ucast (x :: u32) :: u64) = unat x"
  by (simp add: unsigned_ucast_eq take_bit_nat_eq_self_iff order_less_trans [OF unsigned_less])

lemma unat_ucast_u32_small: "unat (x :: u64) < 2 ^ 32 \<Longrightarrow> unat (ucast x :: u32) = unat x"
  by (simp add: unsigned_ucast_eq take_bit_nat_eq_self_iff)

end
