(* ===== verification/Checksum.thy ===== *)
theory Checksum
  imports Prelude
begin

text \<open>
  The checksum of every metadata structure and data block: \<open>aetherfs_crc32c\<close> of
  \<open>kernel/include/uapi/linux/aetherfs_format.h\<close>.  The lemmas show that one bit
  step is a linear bijection of the register, hence that a change confined to four
  consecutive bytes always changes the checksum, and which polynomial is computed.
\<close>

section \<open>The code\<close>

definition crc_bit :: "u32 \<Rightarrow> u32" where
  "crc_bit c = drop_bit 1 c XOR (if c AND 1 \<noteq> 0 then 0xEDB88320 else 0)"

definition crc_byte :: "u32 \<Rightarrow> byte \<Rightarrow> u32" where
  "crc_byte c p = (crc_bit ^^ 8) (c XOR ucast p)"

definition aetherfs_crc32c :: "u32 \<Rightarrow> byte list \<Rightarrow> u32" where
  "aetherfs_crc32c crc buf = foldl crc_byte (crc XOR 0xFFFFFFFF) buf XOR 0xFFFFFFFF"

definition AETHERFS_CRC_SEED :: u32 where
  "AETHERFS_CRC_SEED = 0xFFFFFFFF"

definition aetherfs_crc32c_data :: "byte list \<Rightarrow> u32" where
  "aetherfs_crc32c_data data = aetherfs_crc32c AETHERFS_CRC_SEED data"

section \<open>One bit step is a linear bijection\<close>

lemma crc_bit_alt: "crc_bit c = drop_bit 1 c XOR (if bit c 0 then 0xEDB88320 else 0)"
proof -
  have "(c AND 1 \<noteq> 0) = bit c 0"
    by (simp add: bit_0 and_one_eq odd_iff_mod_2_eq_one)
  then show ?thesis
    by (simp add: crc_bit_def)
qed

lemma crc_bit_xor: "crc_bit (a XOR b) = crc_bit a XOR crc_bit b"
  by (cases "bit a 0"; cases "bit b 0")
    (simp_all add: crc_bit_alt drop_bit_xor bit_xor_iff ac_simps)

lemma crc_bit_0 [simp]: "crc_bit 0 = 0"
  by (simp add: crc_bit_def)

lemma bit31_crc_bit: "bit (crc_bit c) 31 = bit c 0"
proof -
  have "\<not> bit (drop_bit 1 c) 31"
    using bit_imp_le_length [of c 32] by (auto simp: bit_drop_bit_eq)
  moreover have "bit (0xEDB88320 :: u32) 31"
    by simp
  ultimately show ?thesis
    by (simp add: crc_bit_alt bit_xor_iff)
qed

lemma crc_bit_eq_0: "crc_bit c = 0 \<Longrightarrow> c = 0"
proof -
  assume z: "crc_bit c = 0"
  then have b0: "\<not> bit c 0"
    using bit31_crc_bit [of c] by simp
  then have d: "drop_bit 1 c = 0"
    using z by (simp add: crc_bit_alt)
  have "\<not> bit c i" for i
    using b0 arg_cong [OF d, of "\<lambda>x. bit x (i - 1)"] by (cases i) (simp_all add: bit_drop_bit_eq)
  then show "c = 0"
    by (auto intro: bit_word_eqI)
qed

lemma crc_bits_xor: "(crc_bit ^^ n) (a XOR b) = (crc_bit ^^ n) a XOR (crc_bit ^^ n) b"
  by (induction n) (simp_all add: crc_bit_xor)

lemma crc_bits_eq_0: "(crc_bit ^^ n) c = 0 \<Longrightarrow> c = 0"
  by (induction n) (auto dest: crc_bit_eq_0)

lemma crc_bits_inj: "(crc_bit ^^ n) a = (crc_bit ^^ n) b \<longleftrightarrow> a = b"
proof
  assume "(crc_bit ^^ n) a = (crc_bit ^^ n) b"
  then have "(crc_bit ^^ n) (a XOR b) = 0"
    by (simp add: crc_bits_xor)
  then have "a XOR b = 0"
    by (rule crc_bits_eq_0)
  then show "a = b"
    by (simp add: xor_zero_iff)
qed simp

lemma crc_bits_push_bit:
  "n \<le> 32 \<Longrightarrow> (\<And>i. bit x i \<Longrightarrow> i < 32 - n) \<Longrightarrow> (crc_bit ^^ n) (push_bit n x) = x"
proof (induction n arbitrary: x)
  case (Suc n)
  have "crc_bit (push_bit (Suc n) x) = push_bit n x"
  proof (rule bit_word_eqI)
    fix i assume i: "i < LENGTH(32)"
    have "\<not> bit (push_bit (Suc n) x) 0"
      by (simp add: bit_push_bit_iff del: push_bit_Suc)
    then have "bit (crc_bit (push_bit (Suc n) x)) i = bit (push_bit (Suc n) x) (Suc i)"
      by (simp add: crc_bit_alt bit_drop_bit_eq)
    also have "\<dots> = (n \<le> i \<and> bit x (i - n))"
      using i Suc.prems(2) [of "i - n"] by (auto simp: bit_push_bit_iff simp del: push_bit_Suc)
    also have "\<dots> = bit (push_bit n x) i"
      using i by (auto simp: bit_push_bit_iff)
    finally show "bit (crc_bit (push_bit (Suc n) x)) i = bit (push_bit n x) i" .
  qed
  moreover have "(crc_bit ^^ n) (push_bit n x) = x"
    using Suc.prems by (intro Suc.IH) force+
  ultimately show ?case
    by (simp only: funpow_Suc_right o_apply)
qed simp

section \<open>Runs of bytes\<close>

lemma crc_byte_unroll:
  "crc_byte c p = crc_bit (crc_bit (crc_bit (crc_bit (crc_bit (crc_bit (crc_bit (crc_bit (c XOR ucast p))))))))"
  by (simp add: crc_byte_def numeral_eq_Suc)

lemma crc_byte_inj: "crc_byte a p = crc_byte b p \<longleftrightarrow> a = b"
  by (simp add: crc_byte_def crc_bits_inj xor_right_cancel)

lemma crc_fold_inj: "foldl crc_byte a bs = foldl crc_byte b bs \<longleftrightarrow> a = b"
  by (induction bs arbitrary: a b) (simp_all add: crc_byte_inj)

lemma crc_fold_word:
  "length bs \<le> 4 \<Longrightarrow> foldl crc_byte s bs = (crc_bit ^^ (8 * length bs)) (s XOR of_le bs)"
proof (induction bs arbitrary: s)
  case (Cons b bs)
  let ?L = "of_le bs :: u32"
  have L: "bit ?L i \<Longrightarrow> i < 24" for i
    using bit_of_le_bound [of bs i, where 'a = 32] Cons.prems by auto
  have split: "of_le (b # bs) = (ucast b :: u32) XOR push_bit 8 ?L"
    by (intro bit_word_eqI) (auto simp: bit_simps dest: bit_imp_le_length)
  have "(crc_bit ^^ 8) (s XOR of_le (b # bs)) = crc_byte s b XOR ?L"
    unfolding split crc_byte_def xor.assoc [symmetric]
    using L by (simp add: crc_bits_xor crc_bits_push_bit)
  moreover have "8 * length (b # bs) = 8 * length bs + 8"
    by simp
  ultimately show ?case
    using Cons by (simp only: funpow_add o_apply) simp
qed simp

lemma of_le_inj:
  "length xs = length ys \<Longrightarrow> 8 * length xs \<le> LENGTH('a) \<Longrightarrow>
   (of_le xs :: 'a::len word) = of_le ys \<longleftrightarrow> xs = ys"
  by (metis le_bytes_of_le)

lemma crc_fold_short_inj:
  assumes "length xs = length ys" "length xs \<le> 4" "foldl crc_byte s xs = foldl crc_byte s ys"
  shows "xs = ys"
proof -
  have "s XOR of_le xs = s XOR (of_le ys :: u32)"
    using assms by (simp add: crc_fold_word crc_bits_inj)
  then have "(of_le xs :: u32) = of_le ys"
    by (simp add: xor_left_cancel)
  then show ?thesis
    using assms by (simp add: of_le_inj)
qed

text \<open>Two buffers that differ only inside a window of at most four bytes.\<close>

lemma crc_window_inj:
  assumes "length ys = length zs" "length ys \<le> 4"
    and "aetherfs_crc32c crc (xs @ ys @ us) = aetherfs_crc32c crc (xs @ zs @ us)"
  shows "ys = zs"
  using assms(3) crc_fold_short_inj [OF assms(1,2)]
  by (simp add: aetherfs_crc32c_def xor_right_cancel crc_fold_inj)

lemma crc_incremental:
  "aetherfs_crc32c (aetherfs_crc32c crc xs) ys = aetherfs_crc32c crc (xs @ ys)"
  by (simp add: aetherfs_crc32c_def xor.assoc)

lemma crc_zeroes: "aetherfs_crc32c_data (replicate n 0) = 0xFFFFFFFF"
proof -
  have "foldl crc_byte 0 (replicate n 0) = 0"
    by (induction n) (simp_all add: crc_byte_def numeral_eq_Suc)
  then show ?thesis
    by (simp add: aetherfs_crc32c_data_def aetherfs_crc32c_def AETHERFS_CRC_SEED_def)
qed

lemma crc_check_value:
  "aetherfs_crc32c 0 [0x31, 0x32, 0x33, 0x34, 0x35, 0x36, 0x37, 0x38, 0x39] = 0xCBF43926"
  by (simp add: aetherfs_crc32c_def crc_byte_unroll crc_bit_def)

end
