(* ===== verification/Format.thy ===== *)
theory Format
  imports Checksum
begin

text \<open>
  The on-disk format, version 5, of \<open>kernel/include/uapi/linux/aetherfs_format.h\<close>:
  the constants the tools use, one record per packed structure with the members in
  the order of the header, its encoder and decoder, and the checksum functions.  A
  record holds the host values of the members; \<open>enc_\<close> lays them out as the
  packed little-endian bytes that the tools read and write.  Every structure is shown
  to satisfy the \<open>codec\<close> interface at the size that the static assertions of the
  header fix.
\<close>

section \<open>Constants\<close>

abbreviation (input) AETHERFS_MAGIC :: u32 where "AETHERFS_MAGIC \<equiv> 0x41455448"
abbreviation (input) AETHERFS_VERSION :: u32 where "AETHERFS_VERSION \<equiv> 5"
abbreviation (input) AETHERFS_DEF_BLOCK_SIZE :: nat where "AETHERFS_DEF_BLOCK_SIZE \<equiv> 4096"
abbreviation (input) AETHERFS_INODE_SIZE :: nat where "AETHERFS_INODE_SIZE \<equiv> 512"
abbreviation (input) AETHERFS_MAX_NAMELEN :: nat where "AETHERFS_MAX_NAMELEN \<equiv> 255"
abbreviation (input) AETHERFS_EXTENT_LOG_MAX :: nat where "AETHERFS_EXTENT_LOG_MAX \<equiv> 102"
abbreviation (input) AETHERFS_BITMAP_BYTES :: nat where "AETHERFS_BITMAP_BYTES \<equiv> 4080"
abbreviation (input) AETHERFS_BITMAP_BITS :: nat where "AETHERFS_BITMAP_BITS \<equiv> 32640"
abbreviation (input) AETHERFS_BLOCKS_PER_AG :: u32 where "AETHERFS_BLOCKS_PER_AG \<equiv> 2097152"
abbreviation (input) AETHERFS_MAX_INODES :: nat where "AETHERFS_MAX_INODES \<equiv> 32640"
abbreviation (input) AETHERFS_MAX_DEVICES :: nat where "AETHERFS_MAX_DEVICES \<equiv> 8"
abbreviation (input) AETHERFS_COW_MODE :: u16 where "AETHERFS_COW_MODE \<equiv> 0"
abbreviation (input) AETHERFS_OVERWRITE_MODE :: u16 where "AETHERFS_OVERWRITE_MODE \<equiv> 1"
abbreviation (input) AETHERFS_APPEND_MODE :: u16 where "AETHERFS_APPEND_MODE \<equiv> 2"
abbreviation (input) AETHERFS_F_COW :: u32 where "AETHERFS_F_COW \<equiv> 0x0001"
abbreviation (input) AETHERFS_F_APPEND :: u32 where "AETHERFS_F_APPEND \<equiv> 0x0020"
abbreviation (input) AETHERFS_DEV_CLASS_NONE :: u32 where "AETHERFS_DEV_CLASS_NONE \<equiv> 0"
abbreviation (input) AETHERFS_DEV_CLASS_FAST :: u32 where "AETHERFS_DEV_CLASS_FAST \<equiv> 1"
abbreviation (input) AETHERFS_DEV_CLASS_CAPACITY :: u32 where "AETHERFS_DEV_CLASS_CAPACITY \<equiv> 2"
abbreviation (input) AETHERFS_DEV_CLASS_ARCHIVAL :: u32 where "AETHERFS_DEV_CLASS_ARCHIVAL \<equiv> 4"
abbreviation (input) AETHERFS_DEV_CLASS_METADATA :: u32 where "AETHERFS_DEV_CLASS_METADATA \<equiv> 8"
abbreviation (input) AETHERFS_DEV_CLASS_LOG :: u32 where "AETHERFS_DEV_CLASS_LOG \<equiv> 0x10"
abbreviation (input) AETHERFS_DEV_CLASS_CACHE :: u32 where "AETHERFS_DEV_CLASS_CACHE \<equiv> 0x20"
abbreviation (input) AETHERFS_POOL_MAGIC :: u32 where "AETHERFS_POOL_MAGIC \<equiv> 0x504F4F4C"
abbreviation (input) AETHERFS_POOL_VERSION :: u32 where "AETHERFS_POOL_VERSION \<equiv> 1"
abbreviation (input) AETHERFS_CHECKPOINT_ROOT_MAGIC :: u32 where "AETHERFS_CHECKPOINT_ROOT_MAGIC \<equiv> 0x43505254"
abbreviation (input) AETHERFS_CHECKPOINT_ROOT_VERSION :: u32 where "AETHERFS_CHECKPOINT_ROOT_VERSION \<equiv> 1"
abbreviation (input) AETHERFS_POOL_PROFILE_SINGLE :: u32 where "AETHERFS_POOL_PROFILE_SINGLE \<equiv> 0"
abbreviation (input) AETHERFS_POOL_PROFILE_MIRROR :: u32 where "AETHERFS_POOL_PROFILE_MIRROR \<equiv> 1"
abbreviation (input) AETHERFS_POOL_PROFILE_STRIPE :: u32 where "AETHERFS_POOL_PROFILE_STRIPE \<equiv> 2"
abbreviation (input) AETHERFS_POOL_PROFILE_PARITY :: u32 where "AETHERFS_POOL_PROFILE_PARITY \<equiv> 3"
abbreviation (input) AETHERFS_POOL_PROFILE_TIERED :: u32 where "AETHERFS_POOL_PROFILE_TIERED \<equiv> 4"
abbreviation (input) AETHERFS_POOL_MEMBER_DATA :: u32 where "AETHERFS_POOL_MEMBER_DATA \<equiv> 1"
abbreviation (input) AETHERFS_POOL_MEMBER_METADATA :: u32 where "AETHERFS_POOL_MEMBER_METADATA \<equiv> 2"
abbreviation (input) AETHERFS_POOL_MEMBER_LOG :: u32 where "AETHERFS_POOL_MEMBER_LOG \<equiv> 4"
abbreviation (input) AETHERFS_POOL_MEMBER_CACHE :: u32 where "AETHERFS_POOL_MEMBER_CACHE \<equiv> 8"
abbreviation (input) AETHERFS_POOL_LABEL_BLOCK :: u64 where "AETHERFS_POOL_LABEL_BLOCK \<equiv> 0"
abbreviation (input) AETHERFS_SUPERBLOCK_BLOCK :: u64 where "AETHERFS_SUPERBLOCK_BLOCK \<equiv> 1"
abbreviation (input) AETHERFS_ROOT_INODE_BLOCK :: u64 where "AETHERFS_ROOT_INODE_BLOCK \<equiv> 2"
abbreviation (input) AETHERFS_ROOT_DIR_BLOCK :: u64 where "AETHERFS_ROOT_DIR_BLOCK \<equiv> 3"
abbreviation (input) AETHERFS_JOURNAL_BLOCK :: u64 where "AETHERFS_JOURNAL_BLOCK \<equiv> 4"
abbreviation (input) AETHERFS_INODE_BITMAP_BLOCK :: u64 where "AETHERFS_INODE_BITMAP_BLOCK \<equiv> 5"
abbreviation (input) AETHERFS_FREE_EXTENT_BLOCK :: u64 where "AETHERFS_FREE_EXTENT_BLOCK \<equiv> 6"
abbreviation (input) AETHERFS_CHECKPOINT_ROOT_BLOCK :: u64 where "AETHERFS_CHECKPOINT_ROOT_BLOCK \<equiv> 7"
abbreviation (input) AETHERFS_DATA_START_BLOCK :: u64 where "AETHERFS_DATA_START_BLOCK \<equiv> 8"
abbreviation (input) AETHERFS_ROOT_INO :: u64 where "AETHERFS_ROOT_INO \<equiv> 16"
abbreviation (input) AETHERFS_DIR_ENTRY_BASE_SIZE :: nat where "AETHERFS_DIR_ENTRY_BASE_SIZE \<equiv> 14"
abbreviation (input) AETHERFS_FT_REG_FILE :: byte where "AETHERFS_FT_REG_FILE \<equiv> 1"
abbreviation (input) AETHERFS_FT_DIR :: byte where "AETHERFS_FT_DIR \<equiv> 2"
abbreviation (input) AETHERFS_CHECKSUMS_PER_BLOCK :: nat where "AETHERFS_CHECKSUMS_PER_BLOCK \<equiv> 1020"

definition AETHERFS_INODES_PER_BLOCK :: "nat \<Rightarrow> nat" where
  "AETHERFS_INODES_PER_BLOCK block_size = block_size div AETHERFS_INODE_SIZE"

definition AETHERFS_DIR_REC_LEN :: "u32 \<Rightarrow> u16" where
  "AETHERFS_DIR_REC_LEN name_len = ucast ((14 + name_len + 3) AND NOT 3)"

section \<open>Structures\<close>

record super =
  s_magic :: u32
  s_version :: u32
  s_blocksize :: u32
  s_blocks_count :: u64
  s_free_blocks :: u64
  s_blocks_per_ag :: u32
  s_ag_count :: u32
  s_device_count :: u32
  s_mode :: u16
  s_features :: u16
  s_checksum :: u32
  s_uuid :: "byte list"
  s_checkpoint_num :: u32
  s_checkpoint_mask :: u32
  s_checkpoint :: "u64 list"
  s_journal_addr :: u64
  s_root_inode :: u64
  s_generation :: u32
  s_inodes_count :: u32
  s_meta_tree :: u64
  s_extent_tree :: u64
  s_free_tree :: u64
  s_snap_tree :: u64
  s_scrub_journal :: u64
  s_health_journal :: u64
  s_reserved2 :: "u64 list"

definition wf_super :: "super \<Rightarrow> bool" where
  "wf_super x \<longleftrightarrow> length (s_uuid x) = 16 \<and> length (s_checkpoint x) = 8 \<and> length (s_reserved2 x) = 6"

definition enc_super :: "super \<Rightarrow> byte list" where
  "enc_super x =
    le32 (s_magic x) @ le32 (s_version x) @ le32 (s_blocksize x) @ le64 (s_blocks_count x) @
    le64 (s_free_blocks x) @ le32 (s_blocks_per_ag x) @ le32 (s_ag_count x) @
    le32 (s_device_count x) @ le16 (s_mode x) @ le16 (s_features x) @ le32 (s_checksum x) @
    s_uuid x @ le32 (s_checkpoint_num x) @ le32 (s_checkpoint_mask x) @
    enc_array le64 (s_checkpoint x) @ le64 (s_journal_addr x) @ le64 (s_root_inode x) @
    le32 (s_generation x) @ le32 (s_inodes_count x) @ le64 (s_meta_tree x) @
    le64 (s_extent_tree x) @ le64 (s_free_tree x) @ le64 (s_snap_tree x) @
    le64 (s_scrub_journal x) @ le64 (s_health_journal x) @ enc_array le64 (s_reserved2 x)"

definition dec_super :: "byte list \<Rightarrow> super \<times> byte list" where
  "dec_super b =
   (let (v1, b) = dec32 b; (v2, b) = dec32 b; (v3, b) = dec32 b; (v4, b) = dec64 b;
      (v5, b) = dec64 b; (v6, b) = dec32 b; (v7, b) = dec32 b; (v8, b) = dec32 b;
      (v9, b) = dec16 b; (v10, b) = dec16 b; (v11, b) = dec32 b; (v12, b) = dec_bytes 16 b;
      (v13, b) = dec32 b; (v14, b) = dec32 b; (v15, b) = dec_array dec64 8 b;
      (v16, b) = dec64 b; (v17, b) = dec64 b; (v18, b) = dec32 b; (v19, b) = dec32 b;
      (v20, b) = dec64 b; (v21, b) = dec64 b; (v22, b) = dec64 b; (v23, b) = dec64 b;
      (v24, b) = dec64 b; (v25, b) = dec64 b; (v26, b) = dec_array dec64 6 b
    in (\<lparr>s_magic = v1, s_version = v2, s_blocksize = v3, s_blocks_count = v4,
      s_free_blocks = v5, s_blocks_per_ag = v6, s_ag_count = v7, s_device_count = v8,
      s_mode = v9, s_features = v10, s_checksum = v11, s_uuid = v12, s_checkpoint_num = v13,
      s_checkpoint_mask = v14, s_checkpoint = v15, s_journal_addr = v16, s_root_inode = v17,
      s_generation = v18, s_inodes_count = v19, s_meta_tree = v20, s_extent_tree = v21,
      s_free_tree = v22, s_snap_tree = v23, s_scrub_journal = v24, s_health_journal = v25,
      s_reserved2 = v26\<rparr>, b))"

record inode =
  i_mode :: u16
  i_links_count :: u16
  i_uid :: u32
  i_gid :: u32
  i_size :: u64
  i_blocks :: u64
  i_atime :: u64
  i_ctime :: u64
  i_mtime :: u64
  i_extent_root :: u64
  i_nlink :: u32
  i_flags :: u32
  i_xattr :: u64
  i_reflink :: u64
  i_parent :: u64
  i_snapshot_id :: u64
  i_checksum :: u32
  i_inline_len :: u32
  i_data_gen :: u64
  i_data :: "byte list"
  i_inline :: "byte list"

definition wf_inode :: "inode \<Rightarrow> bool" where
  "wf_inode x \<longleftrightarrow> length (i_data x) = 24 \<and> length (i_inline x) = 372"

definition enc_inode :: "inode \<Rightarrow> byte list" where
  "enc_inode x =
    le16 (i_mode x) @ le16 (i_links_count x) @ le32 (i_uid x) @ le32 (i_gid x) @
    le64 (i_size x) @ le64 (i_blocks x) @ le64 (i_atime x) @ le64 (i_ctime x) @
    le64 (i_mtime x) @ le64 (i_extent_root x) @ le32 (i_nlink x) @ le32 (i_flags x) @
    le64 (i_xattr x) @ le64 (i_reflink x) @ le64 (i_parent x) @ le64 (i_snapshot_id x) @
    le32 (i_checksum x) @ le32 (i_inline_len x) @ le64 (i_data_gen x) @ i_data x @ i_inline x"

definition dec_inode :: "byte list \<Rightarrow> inode \<times> byte list" where
  "dec_inode b =
   (let (v1, b) = dec16 b; (v2, b) = dec16 b; (v3, b) = dec32 b; (v4, b) = dec32 b;
      (v5, b) = dec64 b; (v6, b) = dec64 b; (v7, b) = dec64 b; (v8, b) = dec64 b;
      (v9, b) = dec64 b; (v10, b) = dec64 b; (v11, b) = dec32 b; (v12, b) = dec32 b;
      (v13, b) = dec64 b; (v14, b) = dec64 b; (v15, b) = dec64 b; (v16, b) = dec64 b;
      (v17, b) = dec32 b; (v18, b) = dec32 b; (v19, b) = dec64 b; (v20, b) = dec_bytes 24 b;
      (v21, b) = dec_bytes 372 b
    in (\<lparr>i_mode = v1, i_links_count = v2, i_uid = v3, i_gid = v4, i_size = v5,
      i_blocks = v6, i_atime = v7, i_ctime = v8, i_mtime = v9, i_extent_root = v10,
      i_nlink = v11, i_flags = v12, i_xattr = v13, i_reflink = v14, i_parent = v15,
      i_snapshot_id = v16, i_checksum = v17, i_inline_len = v18, i_data_gen = v19,
      i_data = v20, i_inline = v21\<rparr>, b))"

record extent =
  e_lstart :: u64
  e_pstart :: u64
  e_csum_start :: u64
  e_len :: u64
  e_flags :: u32
  e_reserved :: u32

definition enc_extent :: "extent \<Rightarrow> byte list" where
  "enc_extent x =
    le64 (e_lstart x) @ le64 (e_pstart x) @ le64 (e_csum_start x) @ le64 (e_len x) @
    le32 (e_flags x) @ le32 (e_reserved x)"

definition dec_extent :: "byte list \<Rightarrow> extent \<times> byte list" where
  "dec_extent b =
   (let (v1, b) = dec64 b; (v2, b) = dec64 b; (v3, b) = dec64 b; (v4, b) = dec64 b;
      (v5, b) = dec32 b; (v6, b) = dec32 b
    in (\<lparr>e_lstart = v1, e_pstart = v2, e_csum_start = v3, e_len = v4, e_flags = v5,
      e_reserved = v6\<rparr>, b))"

record extent_node =
  en_next :: u64
  en_count :: u32
  en_checksum :: u32
  en_extents :: "extent list"

definition wf_extent_node :: "extent_node \<Rightarrow> bool" where
  "wf_extent_node x \<longleftrightarrow> length (en_extents x) = 102"

definition enc_extent_node :: "extent_node \<Rightarrow> byte list" where
  "enc_extent_node x =
    le64 (en_next x) @ le32 (en_count x) @ le32 (en_checksum x) @
    enc_array enc_extent (en_extents x)"

definition dec_extent_node :: "byte list \<Rightarrow> extent_node \<times> byte list" where
  "dec_extent_node b =
   (let (v1, b) = dec64 b; (v2, b) = dec32 b; (v3, b) = dec32 b;
      (v4, b) = dec_array dec_extent 102 b
    in (\<lparr>en_next = v1, en_count = v2, en_checksum = v3, en_extents = v4\<rparr>, b))"

record checksum_block =
  cb_next :: u64
  cb_entries :: u32
  cb_checksum :: u32
  cb_sums :: "u32 list"

definition wf_checksum_block :: "checksum_block \<Rightarrow> bool" where
  "wf_checksum_block x \<longleftrightarrow> length (cb_sums x) = 1020"

definition enc_checksum_block :: "checksum_block \<Rightarrow> byte list" where
  "enc_checksum_block x =
    le64 (cb_next x) @ le32 (cb_entries x) @ le32 (cb_checksum x) @ enc_array le32 (cb_sums x)"

definition dec_checksum_block :: "byte list \<Rightarrow> checksum_block \<times> byte list" where
  "dec_checksum_block b =
   (let (v1, b) = dec64 b; (v2, b) = dec32 b; (v3, b) = dec32 b;
      (v4, b) = dec_array dec32 1020 b
    in (\<lparr>cb_next = v1, cb_entries = v2, cb_checksum = v3, cb_sums = v4\<rparr>, b))"

record intent_log =
  il_start :: u64
  il_end :: u64
  il_head :: u64
  il_commit :: u64
  il_total :: u32
  il_outstanding :: u32
  il_checksum :: u32
  il_reserved :: u32

definition enc_intent_log :: "intent_log \<Rightarrow> byte list" where
  "enc_intent_log x =
    le64 (il_start x) @ le64 (il_end x) @ le64 (il_head x) @ le64 (il_commit x) @
    le32 (il_total x) @ le32 (il_outstanding x) @ le32 (il_checksum x) @ le32 (il_reserved x)"

definition dec_intent_log :: "byte list \<Rightarrow> intent_log \<times> byte list" where
  "dec_intent_log b =
   (let (v1, b) = dec64 b; (v2, b) = dec64 b; (v3, b) = dec64 b; (v4, b) = dec64 b;
      (v5, b) = dec32 b; (v6, b) = dec32 b; (v7, b) = dec32 b; (v8, b) = dec32 b
    in (\<lparr>il_start = v1, il_end = v2, il_head = v3, il_commit = v4, il_total = v5,
      il_outstanding = v6, il_checksum = v7, il_reserved = v8\<rparr>, b))"

record bitmap_block =
  bb_checksum :: u32
  bb_total_bits :: u32
  bb_set_bits :: u32
  bb_reserved :: u32
  bb_bits :: "byte list"

definition wf_bitmap_block :: "bitmap_block \<Rightarrow> bool" where
  "wf_bitmap_block x \<longleftrightarrow> length (bb_bits x) = 4080"

definition enc_bitmap_block :: "bitmap_block \<Rightarrow> byte list" where
  "enc_bitmap_block x =
    le32 (bb_checksum x) @ le32 (bb_total_bits x) @ le32 (bb_set_bits x) @
    le32 (bb_reserved x) @ bb_bits x"

definition dec_bitmap_block :: "byte list \<Rightarrow> bitmap_block \<times> byte list" where
  "dec_bitmap_block b =
   (let (v1, b) = dec32 b; (v2, b) = dec32 b; (v3, b) = dec32 b; (v4, b) = dec32 b;
      (v5, b) = dec_bytes 4080 b
    in (\<lparr>bb_checksum = v1, bb_total_bits = v2, bb_set_bits = v3, bb_reserved = v4,
      bb_bits = v5\<rparr>, b))"

record pool_member =
  pm_uuid :: "byte list"
  pm_total_blocks :: u64
  pm_data_blocks :: u64
  pm_class_mask :: u32
  pm_role_mask :: u32
  pm_index :: u32
  pm_reserved :: u32

definition wf_pool_member :: "pool_member \<Rightarrow> bool" where
  "wf_pool_member x \<longleftrightarrow> length (pm_uuid x) = 16"

definition enc_pool_member :: "pool_member \<Rightarrow> byte list" where
  "enc_pool_member x =
    pm_uuid x @ le64 (pm_total_blocks x) @ le64 (pm_data_blocks x) @ le32 (pm_class_mask x) @
    le32 (pm_role_mask x) @ le32 (pm_index x) @ le32 (pm_reserved x)"

definition dec_pool_member :: "byte list \<Rightarrow> pool_member \<times> byte list" where
  "dec_pool_member b =
   (let (v1, b) = dec_bytes 16 b; (v2, b) = dec64 b; (v3, b) = dec64 b; (v4, b) = dec32 b;
      (v5, b) = dec32 b; (v6, b) = dec32 b; (v7, b) = dec32 b
    in (\<lparr>pm_uuid = v1, pm_total_blocks = v2, pm_data_blocks = v3, pm_class_mask = v4,
      pm_role_mask = v5, pm_index = v6, pm_reserved = v7\<rparr>, b))"

record pool_label =
  pl_magic :: u32
  pl_version :: u32
  pl_checksum :: u32
  pl_profile :: u32
  pl_member_count :: u32
  pl_member_index :: u32
  pl_stripe_blocks :: u32
  pl_flags :: u32
  pl_metadata_mask :: u32
  pl_data_mask :: u32
  pl_log_mask :: u32
  pl_cache_mask :: u32
  pl_logical_blocks :: u64
  pl_logical_data_blocks :: u64
  pl_pool_uuid :: "byte list"
  pl_members :: "pool_member list"
  pl_reserved :: "u64 list"

definition wf_pool_label :: "pool_label \<Rightarrow> bool" where
  "wf_pool_label x \<longleftrightarrow> length (pl_pool_uuid x) = 16 \<and> length (pl_members x) = 8 \<and> list_all wf_pool_member (pl_members x) \<and> length (pl_reserved x) = 45"

definition enc_pool_label :: "pool_label \<Rightarrow> byte list" where
  "enc_pool_label x =
    le32 (pl_magic x) @ le32 (pl_version x) @ le32 (pl_checksum x) @ le32 (pl_profile x) @
    le32 (pl_member_count x) @ le32 (pl_member_index x) @ le32 (pl_stripe_blocks x) @
    le32 (pl_flags x) @ le32 (pl_metadata_mask x) @ le32 (pl_data_mask x) @
    le32 (pl_log_mask x) @ le32 (pl_cache_mask x) @ le64 (pl_logical_blocks x) @
    le64 (pl_logical_data_blocks x) @ pl_pool_uuid x @
    enc_array enc_pool_member (pl_members x) @ enc_array le64 (pl_reserved x)"

definition dec_pool_label :: "byte list \<Rightarrow> pool_label \<times> byte list" where
  "dec_pool_label b =
   (let (v1, b) = dec32 b; (v2, b) = dec32 b; (v3, b) = dec32 b; (v4, b) = dec32 b;
      (v5, b) = dec32 b; (v6, b) = dec32 b; (v7, b) = dec32 b; (v8, b) = dec32 b;
      (v9, b) = dec32 b; (v10, b) = dec32 b; (v11, b) = dec32 b; (v12, b) = dec32 b;
      (v13, b) = dec64 b; (v14, b) = dec64 b; (v15, b) = dec_bytes 16 b;
      (v16, b) = dec_array dec_pool_member 8 b; (v17, b) = dec_array dec64 45 b
    in (\<lparr>pl_magic = v1, pl_version = v2, pl_checksum = v3, pl_profile = v4,
      pl_member_count = v5, pl_member_index = v6, pl_stripe_blocks = v7, pl_flags = v8,
      pl_metadata_mask = v9, pl_data_mask = v10, pl_log_mask = v11, pl_cache_mask = v12,
      pl_logical_blocks = v13, pl_logical_data_blocks = v14, pl_pool_uuid = v15,
      pl_members = v16, pl_reserved = v17\<rparr>, b))"

record checkpoint_root =
  cr_magic :: u32
  cr_version :: u32
  cr_checksum :: u32
  cr_generation :: u32
  cr_ag_count :: u32
  cr_region_count :: u32
  cr_super_block :: u64
  cr_root_inode_block :: u64
  cr_root_dir_block :: u64
  cr_journal_block :: u64
  cr_inode_bitmap_block :: u64
  cr_free_space_root :: u64
  cr_metadata_tree_root :: u64
  cr_extent_tree_root :: u64
  cr_snapshot_root :: u64
  cr_scrub_journal :: u64
  cr_health_journal :: u64
  cr_metadata_region_start :: u64
  cr_metadata_region_end :: u64
  cr_data_region_start :: u64
  cr_data_region_end :: u64
  cr_special_metadata_root :: u64
  cr_cache_root :: u64
  cr_parity_root :: u64
  cr_reserved :: "u64 list"

definition wf_checkpoint_root :: "checkpoint_root \<Rightarrow> bool" where
  "wf_checkpoint_root x \<longleftrightarrow> length (cr_reserved x) = 491"

definition enc_checkpoint_root :: "checkpoint_root \<Rightarrow> byte list" where
  "enc_checkpoint_root x =
    le32 (cr_magic x) @ le32 (cr_version x) @ le32 (cr_checksum x) @ le32 (cr_generation x) @
    le32 (cr_ag_count x) @ le32 (cr_region_count x) @ le64 (cr_super_block x) @
    le64 (cr_root_inode_block x) @ le64 (cr_root_dir_block x) @ le64 (cr_journal_block x) @
    le64 (cr_inode_bitmap_block x) @ le64 (cr_free_space_root x) @
    le64 (cr_metadata_tree_root x) @ le64 (cr_extent_tree_root x) @
    le64 (cr_snapshot_root x) @ le64 (cr_scrub_journal x) @ le64 (cr_health_journal x) @
    le64 (cr_metadata_region_start x) @ le64 (cr_metadata_region_end x) @
    le64 (cr_data_region_start x) @ le64 (cr_data_region_end x) @
    le64 (cr_special_metadata_root x) @ le64 (cr_cache_root x) @ le64 (cr_parity_root x) @
    enc_array le64 (cr_reserved x)"

definition dec_checkpoint_root :: "byte list \<Rightarrow> checkpoint_root \<times> byte list" where
  "dec_checkpoint_root b =
   (let (v1, b) = dec32 b; (v2, b) = dec32 b; (v3, b) = dec32 b; (v4, b) = dec32 b;
      (v5, b) = dec32 b; (v6, b) = dec32 b; (v7, b) = dec64 b; (v8, b) = dec64 b;
      (v9, b) = dec64 b; (v10, b) = dec64 b; (v11, b) = dec64 b; (v12, b) = dec64 b;
      (v13, b) = dec64 b; (v14, b) = dec64 b; (v15, b) = dec64 b; (v16, b) = dec64 b;
      (v17, b) = dec64 b; (v18, b) = dec64 b; (v19, b) = dec64 b; (v20, b) = dec64 b;
      (v21, b) = dec64 b; (v22, b) = dec64 b; (v23, b) = dec64 b; (v24, b) = dec64 b;
      (v25, b) = dec_array dec64 491 b
    in (\<lparr>cr_magic = v1, cr_version = v2, cr_checksum = v3, cr_generation = v4,
      cr_ag_count = v5, cr_region_count = v6, cr_super_block = v7, cr_root_inode_block = v8,
      cr_root_dir_block = v9, cr_journal_block = v10, cr_inode_bitmap_block = v11,
      cr_free_space_root = v12, cr_metadata_tree_root = v13, cr_extent_tree_root = v14,
      cr_snapshot_root = v15, cr_scrub_journal = v16, cr_health_journal = v17,
      cr_metadata_region_start = v18, cr_metadata_region_end = v19,
      cr_data_region_start = v20, cr_data_region_end = v21, cr_special_metadata_root = v22,
      cr_cache_root = v23, cr_parity_root = v24, cr_reserved = v25\<rparr>, b))"

text \<open>The fixed part of a directory entry; the name bytes follow it.\<close>

record dir_entry =
  de_ino :: u64
  de_rec_len :: u16
  de_name_len :: u16
  de_file_type :: byte
  de_checksum :: byte

definition enc_dir_entry :: "dir_entry \<Rightarrow> byte list" where
  "enc_dir_entry x =
    le64 (de_ino x) @ le16 (de_rec_len x) @ le16 (de_name_len x) @ le8 (de_file_type x) @ le8 (de_checksum x)"

definition dec_dir_entry :: "byte list \<Rightarrow> dir_entry \<times> byte list" where
  "dec_dir_entry b =
   (let (v1, b) = dec64 b; (v2, b) = dec16 b; (v3, b) = dec16 b; (v4, b) = dec8 b; (v5, b) = dec8 b
    in (\<lparr>de_ino = v1, de_rec_len = v2, de_name_len = v3, de_file_type = v4, de_checksum = v5\<rparr>, b))"

section \<open>Checksum functions\<close>

definition aetherfs_super_checksum :: "super \<Rightarrow> u32" where
  "aetherfs_super_checksum s = aetherfs_crc32c_data (enc_super (s\<lparr>s_checksum := 0\<rparr>))"

definition aetherfs_inode_checksum :: "inode \<Rightarrow> u32" where
  "aetherfs_inode_checksum n = aetherfs_crc32c_data (enc_inode (n\<lparr>i_checksum := 0\<rparr>))"

definition aetherfs_bitmap_checksum :: "bitmap_block \<Rightarrow> u32" where
  "aetherfs_bitmap_checksum bm = aetherfs_crc32c_data (enc_bitmap_block (bm\<lparr>bb_checksum := 0\<rparr>))"

text \<open>The journal checksum covers the bytes before \<open>il_checksum\<close>.\<close>

definition aetherfs_journal_checksum :: "intent_log \<Rightarrow> u32" where
  "aetherfs_journal_checksum j = aetherfs_crc32c_data (take 40 (enc_intent_log j))"

definition aetherfs_extent_node_checksum :: "extent_node \<Rightarrow> u32" where
  "aetherfs_extent_node_checksum n = aetherfs_crc32c_data (enc_extent_node (n\<lparr>en_checksum := 0\<rparr>))"

definition aetherfs_checksum_block_checksum :: "checksum_block \<Rightarrow> u32" where
  "aetherfs_checksum_block_checksum c = aetherfs_crc32c_data (enc_checksum_block (c\<lparr>cb_checksum := 0\<rparr>))"

definition aetherfs_pool_label_checksum :: "pool_label \<Rightarrow> u32" where
  "aetherfs_pool_label_checksum l = aetherfs_crc32c_data (enc_pool_label (l\<lparr>pl_checksum := 0\<rparr>))"

definition aetherfs_checkpoint_root_checksum :: "checkpoint_root \<Rightarrow> u32" where
  "aetherfs_checkpoint_root_checksum r = aetherfs_crc32c_data (enc_checkpoint_root (r\<lparr>cr_checksum := 0\<rparr>))"

section \<open>Every structure is a codec\<close>

lemma take_drop_join: "m = n + k \<Longrightarrow> take n (drop k b) @ drop m b = drop k b"
  by (metis add.commute append_take_drop_id drop_drop)

lemma take_drop_join_take:
  "m = n + k \<Longrightarrow> take n (drop k b) @ take j (drop m b) = take (n + j) (drop k b)"
  by (simp add: take_add)

lemma take_join_take: "take n b @ take j (drop n b) = take (n + j) b"
  by (simp add: take_add)

lemma list_all_True_iff: "list_all any xs"
  by (induction xs) auto

lemmas codec_laws =
  u8.dec_enc u16.dec_enc u32.dec_enc u64.dec_enc bytes.dec_enc u32.array_dec_enc u64.array_dec_enc
  u8.dec_rest u16.dec_rest u32.dec_rest u64.dec_rest bytes.dec_rest u32.array_dec_rest u64.array_dec_rest
  u8.enc_dec u16.enc_dec u32.enc_dec u64.enc_dec bytes.enc_dec u32.array_enc_dec u64.array_enc_dec
  u32.array_enc_len u64.array_enc_len bytes.dec_wf

lemmas codec_proof =
  codec_laws list_all_True_iff Let_def case_prod_beta take_drop_join_take take_join_take

interpretation super: codec wf_super enc_super dec_super 256
  by unfold_locales (simp_all add: wf_super_def enc_super_def dec_super_def codec_proof)

interpretation inode: codec wf_inode enc_inode dec_inode 512
  by unfold_locales (simp_all add: wf_inode_def enc_inode_def dec_inode_def codec_proof)

interpretation extent: codec any enc_extent dec_extent 40
  by unfold_locales (simp_all add: enc_extent_def dec_extent_def codec_proof)

lemmas extent_laws = extent.array_dec_enc extent.array_dec_rest extent.array_enc_dec extent.array_enc_len

interpretation extent_node: codec wf_extent_node enc_extent_node dec_extent_node 4096
  by unfold_locales (simp_all add: wf_extent_node_def enc_extent_node_def dec_extent_node_def codec_proof extent_laws)

interpretation checksum_block: codec wf_checksum_block enc_checksum_block dec_checksum_block 4096
  by unfold_locales (simp_all add: wf_checksum_block_def enc_checksum_block_def dec_checksum_block_def codec_proof)

interpretation intent_log: codec any enc_intent_log dec_intent_log 48
  by unfold_locales (simp_all add: enc_intent_log_def dec_intent_log_def codec_proof)

interpretation bitmap_block: codec wf_bitmap_block enc_bitmap_block dec_bitmap_block 4096
  by unfold_locales (simp_all add: wf_bitmap_block_def enc_bitmap_block_def dec_bitmap_block_def codec_proof)

interpretation pool_member: codec wf_pool_member enc_pool_member dec_pool_member 48
  by unfold_locales (simp_all add: wf_pool_member_def enc_pool_member_def dec_pool_member_def codec_proof)

lemmas pool_member_laws =
  pool_member.array_dec_enc pool_member.array_dec_rest pool_member.array_enc_dec pool_member.array_enc_len
  pool_member.array_dec_wf

interpretation pool_label: codec wf_pool_label enc_pool_label dec_pool_label 824
  by unfold_locales (simp_all add: wf_pool_label_def enc_pool_label_def dec_pool_label_def codec_proof pool_member_laws)

interpretation checkpoint_root: codec wf_checkpoint_root enc_checkpoint_root dec_checkpoint_root 4096
  by unfold_locales (simp_all add: wf_checkpoint_root_def enc_checkpoint_root_def dec_checkpoint_root_def codec_proof)

interpretation dir_entry: codec any enc_dir_entry dec_dir_entry 14
  by unfold_locales (simp_all add: enc_dir_entry_def dec_dir_entry_def codec_proof del: One_nat_def le_bytes.simps)

end
