(* ===== verification/Blockio.thy ===== *)
theory Blockio
  imports Format
begin

text \<open>
  Files, descriptors and the transfer loops of the tools.  A world holds the files by
  path, the open descriptors and a finite schedule of outcomes that the operating system
  gives to the next calls: an error, an interruption or a short transfer; once the
  schedule is used up every call transfers all it can.  \<open>w_junk\<close> and \<open>w_after\<close> are memory
  that the tools read without having written it: the uninitialised descriptors of
  \<open>aetherfs_image_open_pool\<close> and the bytes behind the directory buffer of an image.  \<open>w_uid\<close>,
  \<open>w_gid\<close> and \<open>w_clock\<close> are what \<open>getuid\<close>, \<open>getgid\<close> and \<open>clock_gettime\<close> return.
  \<open>aetherfs_read_all\<close> and
  \<open>aetherfs_write_all\<close> (\<open>aetherfsprogs/image.c\<close>) retry on these outcomes; the
  lemmas show that under every schedule they either fail or transfer exactly the
  requested range, and that they succeed when the schedule holds no error.
\<close>

section \<open>The world\<close>

datatype file_kind = S_IFREG | S_IFBLK | S_IFDIR | S_IFOTHER

record vfile =
  vf_kind :: file_kind
  vf_readonly :: bool
  vf_data :: "byte list"

datatype outcome = Io_full | Io_short nat | Io_intr | Io_err errno

type_synonym path = string

record world =
  w_files :: "path \<Rightarrow> vfile option"
  w_fds :: "int \<Rightarrow> (path \<times> bool) option"
  w_nextfd :: int
  w_sched :: "outcome list"
  w_junk :: "nat \<Rightarrow> int"
  w_after :: "byte list"
  w_uid :: u32
  w_gid :: u32
  w_clock :: "u64 option"

text \<open>The outcome of the next call.\<close>

definition next_outcome :: "world \<Rightarrow> outcome \<times> world" where
  "next_outcome w = (case w_sched w of [] \<Rightarrow> (Io_full, w) | x # xs \<Rightarrow> (x, w\<lparr>w_sched := xs\<rparr>))"

definition fd_file :: "world \<Rightarrow> int \<Rightarrow> vfile option" where
  "fd_file w fd = (case w_fds w fd of None \<Rightarrow> None | Some (p, wr) \<Rightarrow> w_files w p)"

text \<open>The number of bytes a transfer of \<open>n\<close> bytes moves under an outcome.\<close>

definition xfer_len :: "outcome \<Rightarrow> nat \<Rightarrow> nat" where
  "xfer_len x n = (case x of Io_short k \<Rightarrow> min n (max 1 k) | _ \<Rightarrow> n)"

definition pread :: "int \<Rightarrow> nat \<Rightarrow> u64 \<Rightarrow> (world, byte list) action" where
  "pread fd n off w = (case fd_file w fd of None \<Rightarrow> (Inl EBADF, w) | Some f \<Rightarrow>
    if sint off < 0 then (Inl EINVAL, w)
    else let (x, w) = next_outcome w in
      (case x of
         Io_err e \<Rightarrow> (Inl e, w)
       | Io_intr \<Rightarrow> (Inl EINTR, w)
       | _ \<Rightarrow> (Inr (take (xfer_len x n) (drop (unat off) (vf_data f))), w)))"

text \<open>Replacing the bytes from an offset on; a gap before them reads as zeroes.\<close>

definition put_bytes :: "nat \<Rightarrow> byte list \<Rightarrow> byte list \<Rightarrow> byte list" where
  "put_bytes off bs d = (if bs = [] then d
     else take off d @ replicate (off - length d) 0 @ bs @ drop (off + length bs) d)"

definition set_data :: "path \<Rightarrow> byte list \<Rightarrow> world \<Rightarrow> world" where
  "set_data p d w = w\<lparr>w_files := (w_files w)(p := map_option (\<lambda>f. f\<lparr>vf_data := d\<rparr>) (w_files w p))\<rparr>"

text \<open>A regular file grows; a block device ends at its size.\<close>

definition pwrite_room :: "vfile \<Rightarrow> nat \<Rightarrow> nat \<Rightarrow> nat" where
  "pwrite_room f off n = (case vf_kind f of S_IFREG \<Rightarrow> n | _ \<Rightarrow> min n (length (vf_data f) - off))"

definition pwrite :: "int \<Rightarrow> byte list \<Rightarrow> u64 \<Rightarrow> (world, nat) action" where
  "pwrite fd buf off w = (case w_fds w fd of None \<Rightarrow> (Inl EBADF, w) | Some (p, wr) \<Rightarrow>
    (case w_files w p of None \<Rightarrow> (Inl EBADF, w) | Some f \<Rightarrow>
    if \<not> wr then (Inl EBADF, w)
    else if sint off < 0 then (Inl EINVAL, w)
    else let (x, w) = next_outcome w in
      (case x of
         Io_err e \<Rightarrow> (Inl e, w)
       | Io_intr \<Rightarrow> (Inl EINTR, w)
       | _ \<Rightarrow> let n = pwrite_room f (unat off) (xfer_len x (length buf)) in
           if n = 0 \<and> buf \<noteq> [] then (Inl ENOSPC, w)
           else (Inr n, set_data p (put_bytes (unat off) (take n buf) (vf_data f)) w))))"

text \<open>A call with no transfer that can only succeed or fail.\<close>

definition syscall :: "(world, unit) action" where
  "syscall w = (let (x, w) = next_outcome w in
     (case x of Io_err e \<Rightarrow> (Inl e, w) | _ \<Rightarrow> (Inr (), w)))"

definition open_file :: "path \<Rightarrow> bool \<Rightarrow> (world, int) action" where
  "open_file p wr = bindE syscall (\<lambda>_ w.
     case w_files w p of
       None \<Rightarrow> (Inl ENOENT, w)
     | Some f \<Rightarrow> if wr \<and> vf_readonly f then (Inl EACCES, w)
         else (Inr (w_nextfd w), w\<lparr>w_fds := (w_fds w)(w_nextfd w := Some (p, wr)),
                                   w_nextfd := w_nextfd w + 1\<rparr>))"

definition close_fd :: "int \<Rightarrow> world \<Rightarrow> world" where
  "close_fd fd w = w\<lparr>w_fds := (w_fds w)(fd := None)\<rparr>"

text \<open>\<open>fstat\<close>: the kind and the size of an open file; \<open>BLKGETSIZE64\<close> gives the size of a device.\<close>

definition fstat :: "int \<Rightarrow> (world, file_kind \<times> nat) action" where
  "fstat fd = bindE syscall (\<lambda>_ w. case fd_file w fd of
      None \<Rightarrow> (Inl EBADF, w) | Some f \<Rightarrow> (Inr (vf_kind f, length (vf_data f)), w))"

definition blkgetsize64 :: "int \<Rightarrow> (world, u64) action" where
  "blkgetsize64 fd = bindE syscall (\<lambda>_ w. case fd_file w fd of
      None \<Rightarrow> (Inl EBADF, w) | Some f \<Rightarrow> (Inr (of_nat (length (vf_data f))), w))"

text \<open>\<open>access\<close>: whether the file is there; a failing call counts as a missing file.\<close>

definition access_ok :: "path \<Rightarrow> world \<Rightarrow> bool \<times> world" where
  "access_ok p w = (case syscall w of (Inl _, w) \<Rightarrow> (False, w) | (Inr _, w) \<Rightarrow> (w_files w p \<noteq> None, w))"

text \<open>\<open>open\<close> with \<open>O_RDWR | O_CREAT\<close>.\<close>

definition open_creat :: "path \<Rightarrow> (world, int) action" where
  "open_creat p = bindE syscall (\<lambda>_ w.
     case w_files w p of
       None \<Rightarrow> (Inr (w_nextfd w),
         w\<lparr>w_files := (w_files w)(p \<mapsto> \<lparr>vf_kind = S_IFREG, vf_readonly = False, vf_data = []\<rparr>),
           w_fds := (w_fds w)(w_nextfd w := Some (p, True)), w_nextfd := w_nextfd w + 1\<rparr>)
     | Some f \<Rightarrow> if vf_readonly f then (Inl EACCES, w)
         else (Inr (w_nextfd w), w\<lparr>w_fds := (w_fds w)(w_nextfd w := Some (p, True)), w_nextfd := w_nextfd w + 1\<rparr>))"

text \<open>\<open>open\<close> with \<open>O_WRONLY | O_CREAT | O_TRUNC\<close>, \<open>stat\<close> and \<open>mkdir\<close>.\<close>

definition open_trunc :: "path \<Rightarrow> (world, int) action" where
  "open_trunc p = bindE (open_creat p) (\<lambda>fd w. (Inr fd, set_data p [] w))"

definition stat_kind :: "path \<Rightarrow> (world, file_kind) action" where
  "stat_kind p = bindE syscall (\<lambda>_ w. case w_files w p of None \<Rightarrow> (Inl ENOENT, w) | Some f \<Rightarrow> (Inr (vf_kind f), w))"

definition make_dir :: "path \<Rightarrow> (world, unit) action" where
  "make_dir p = bindE syscall (\<lambda>_ w. case w_files w p of
      None \<Rightarrow> (Inr (), w\<lparr>w_files := (w_files w)(p \<mapsto> \<lparr>vf_kind = S_IFDIR, vf_readonly = False, vf_data = []\<rparr>)\<rparr>)
    | Some _ \<Rightarrow> (Inl EEXIST, w))"

text \<open>
  \<open>open\<close> with \<open>O_RDWR | O_TRUNC\<close>, \<open>mkstemp\<close>, \<open>rename\<close> and \<open>unlink\<close>.  \<open>mkstemp\<close> replaces
  the last six characters of its template by a suffix that the library picks.
\<close>

definition open_rdwr_trunc :: "path \<Rightarrow> (world, int) action" where
  "open_rdwr_trunc p = bindE (open_file p True) (\<lambda>fd w. (Inr fd, set_data p [] w))"

definition mkstemp :: "(path \<Rightarrow> world \<Rightarrow> string) \<Rightarrow> path \<Rightarrow> (world, path \<times> int) action" where
  "mkstemp pick template = bindE syscall (\<lambda>_ w.
     let p = take (length template - 6) template @ pick template w in
     if w_files w p \<noteq> None then (Inl EEXIST, w)
     else (Inr (p, w_nextfd w),
       w\<lparr>w_files := (w_files w)(p \<mapsto> \<lparr>vf_kind = S_IFREG, vf_readonly = False, vf_data = []\<rparr>),
         w_fds := (w_fds w)(w_nextfd w := Some (p, True)), w_nextfd := w_nextfd w + 1\<rparr>))"

definition rename_file :: "path \<Rightarrow> path \<Rightarrow> (world, unit) action" where
  "rename_file old new = bindE syscall (\<lambda>_ w.
     case w_files w old of
       None \<Rightarrow> (Inl ENOENT, w)
     | Some f \<Rightarrow> (Inr (), if old = new then w else w\<lparr>w_files := (w_files w)(new \<mapsto> f, old := None)\<rparr>))"

definition unlink_file :: "path \<Rightarrow> world \<Rightarrow> world" where
  "unlink_file p w = (case syscall w of
     (Inl _, w) \<Rightarrow> w | (Inr _, w) \<Rightarrow> w\<lparr>w_files := (w_files w)(p := None)\<rparr>)"

definition ftruncate :: "int \<Rightarrow> u64 \<Rightarrow> (world, unit) action" where
  "ftruncate fd len = bindE syscall (\<lambda>_ w. case w_fds w fd of
      None \<Rightarrow> (Inl EBADF, w)
    | Some (p, wr) \<Rightarrow> (case w_files w p of
        None \<Rightarrow> (Inl EBADF, w)
      | Some f \<Rightarrow> if \<not> wr \<or> sint len < 0 then (Inl EINVAL, w)
          else (Inr (), set_data p (take (unat len) (vf_data f) @ replicate (unat len - length (vf_data f)) 0) w)))"

definition fsync :: "int \<Rightarrow> (world, unit) action" where
  "fsync fd = bindE syscall (\<lambda>_ w. case w_fds w fd of None \<Rightarrow> (Inl EBADF, w) | Some _ \<Rightarrow> (Inr (), w))"

section \<open>The transfer loops\<close>

lemma next_outcome_sched:
  "next_outcome w = (x, w') \<Longrightarrow> length (w_sched w') \<le> length (w_sched w)"
  "next_outcome w = (x, w') \<Longrightarrow> x \<noteq> Io_full \<Longrightarrow> length (w_sched w') < length (w_sched w)"
  by (auto simp: next_outcome_def split: list.splits)

lemma next_outcome_files:
  "next_outcome w = (x, w') \<Longrightarrow> w_files w' = w_files w"
  "next_outcome w = (x, w') \<Longrightarrow> w_fds w' = w_fds w"
  "next_outcome w = (x, w') \<Longrightarrow> w_nextfd w' = w_nextfd w"
  by (auto simp: next_outcome_def split: list.splits)

lemma set_data_sched [simp]:
  "w_sched (set_data p d w) = w_sched w" "w_fds (set_data p d w) = w_fds w"
  "w_nextfd (set_data p d w) = w_nextfd w"
  by (simp_all add: set_data_def)

lemma pread_sched: "pread fd n off w = (r, w') \<Longrightarrow> length (w_sched w') \<le> length (w_sched w)"
  by (auto simp: pread_def split: option.splits if_splits prod.splits outcome.splits
      dest: next_outcome_sched)

lemma pread_intr: "pread fd n off w = (Inl EINTR, w') \<Longrightarrow> length (w_sched w') < length (w_sched w)"
  by (auto simp: pread_def split: option.splits if_splits prod.splits outcome.splits
      dest: next_outcome_sched(2))

lemma pread_data: "pread fd n off w = (Inr bs, w') \<Longrightarrow> length bs \<le> n"
  by (auto simp: pread_def xfer_len_def split: option.splits if_splits prod.splits outcome.splits)

lemma pwrite_sched: "pwrite fd buf off w = (r, w') \<Longrightarrow> length (w_sched w') \<le> length (w_sched w)"
  by (auto simp: pwrite_def Let_def split: option.splits if_splits prod.splits outcome.splits
      dest: next_outcome_sched)

lemma pwrite_intr: "pwrite fd buf off w = (Inl EINTR, w') \<Longrightarrow> length (w_sched w') < length (w_sched w)"
  by (auto simp: pwrite_def Let_def split: option.splits if_splits prod.splits outcome.splits
      dest: next_outcome_sched(2))

function read_loop :: "int \<Rightarrow> u64 \<Rightarrow> nat \<Rightarrow> byte list \<Rightarrow> (world, byte list) action" where
  "read_loop fd offset len acc w =
    (if length acc < len then
       (case pread fd (len - length acc) (offset + of_nat (length acc)) w of
          (Inl e, w') \<Rightarrow> if e = EINTR then read_loop fd offset len acc w' else (Inl e, w')
        | (Inr bs, w') \<Rightarrow> if bs = [] then (Inl EIO, w') else read_loop fd offset len (acc @ bs) w')
     else (Inr acc, w))"
  by pat_completeness auto
termination
  by (relation "measure (\<lambda>(fd, off, len, acc, w). length (w_sched w) + (len - length acc))")
    (auto dest!: pread_intr [OF sym] pread_sched [of _ _ _ _ "Inr r" for r, OF sym] simp: neq_Nil_conv)

definition aetherfs_read_all :: "int \<Rightarrow> u64 \<Rightarrow> nat \<Rightarrow> (world, byte list) action" where
  "aetherfs_read_all fd offset len = read_loop fd offset len []"

function write_loop :: "int \<Rightarrow> u64 \<Rightarrow> byte list \<Rightarrow> nat \<Rightarrow> (world, unit) action" where
  "write_loop fd offset buf written w =
    (if written < length buf then
       (case pwrite fd (drop written buf) (offset + of_nat written) w of
          (Inl e, w') \<Rightarrow> if e = EINTR then write_loop fd offset buf written w' else (Inl e, w')
        | (Inr n, w') \<Rightarrow> if n = 0 then (Inl EIO, w') else write_loop fd offset buf (written + n) w')
     else (Inr (), w))"
  by pat_completeness auto
termination
  by (relation "measure (\<lambda>(fd, off, buf, written, w). length (w_sched w) + (length buf - written))")
    (auto dest!: pwrite_intr [OF sym] pwrite_sched [of _ _ _ _ "Inr r" for r, OF sym])

definition aetherfs_write_all :: "int \<Rightarrow> u64 \<Rightarrow> byte list \<Rightarrow> (world, unit) action" where
  "aetherfs_write_all fd offset buf = write_loop fd offset buf 0"

declare read_loop.simps [simp del] write_loop.simps [simp del]

section \<open>Splicing\<close>

lemma length_put_bytes:
  "length (put_bytes off bs d) = (if bs = [] then length d else max (length d) (off + length bs))"
  by (auto simp: put_bytes_def)

lemma length_put_bytes_inside [simp]: "off + length bs \<le> length d \<Longrightarrow> length (put_bytes off bs d) = length d"
  by (simp add: length_put_bytes)

lemma put_bytes_inside:
  "off + length bs \<le> length d \<Longrightarrow> put_bytes off bs d = take off d @ bs @ drop (off + length bs) d"
  by (simp add: put_bytes_def)

lemma put_bytes_twice: "put_bytes (off + length a) b (put_bytes off a d) = put_bytes off (a @ b) d"
proof (cases "a = [] \<or> b = []")
  case False
  define P where "P = take off d @ replicate (off - length d) 0"
  have len: "length P = off"
    by (simp add: P_def)
  have eq: "put_bytes off c d = P @ c @ drop (off + length c) d" if "c \<noteq> []" for c
    using that by (simp add: put_bytes_def P_def)
  have "put_bytes (off + length a) b (P @ a @ drop (off + length a) d)
      = (P @ a) @ b @ drop (length b + (off + length a)) d"
    using False len by (simp add: put_bytes_def)
  then show ?thesis
    using False by (simp add: eq add.commute add.left_commute)
qed (auto simp: put_bytes_def)

lemma put_bytes_read_same: "bs \<noteq> [] \<Longrightarrow> take (length bs) (drop off (put_bytes off bs d)) = bs"
  by (simp add: put_bytes_def min_def)

lemma put_bytes_read_other:
  assumes "off + length bs \<le> length d" "a + n \<le> off \<or> off + length bs \<le> a"
  shows "take n (drop a (put_bytes off bs d)) = take n (drop a d)"
proof (cases "a + n \<le> off")
  case True
  have "take n (drop a (take off d @ X)) = take n (drop a d)" for X
    using True assms(1) by (auto simp: drop_take min_def)
  then show ?thesis
    using assms(1) by (simp only: put_bytes_inside)
next
  case False
  then show ?thesis
    using assms by (simp add: put_bytes_inside)
qed

section \<open>The transfer loops are correct under every schedule\<close>

text \<open>The world moves on in the schedule only.\<close>

definition sched_adv :: "world \<Rightarrow> world \<Rightarrow> bool" where
  "sched_adv w w' \<longleftrightarrow> w_files w' = w_files w \<and> w_fds w' = w_fds w \<and> w_nextfd w' = w_nextfd w \<and>
     set (w_sched w') \<subseteq> set (w_sched w) \<and> length (w_sched w') \<le> length (w_sched w)"

definition is_err :: "outcome \<Rightarrow> bool" where
  "is_err x = (case x of Io_err e \<Rightarrow> True | _ \<Rightarrow> False)"

text \<open>No call fails by itself; interruptions and short transfers may still come.\<close>

definition benign :: "world \<Rightarrow> bool" where
  "benign w \<longleftrightarrow> list_all (\<lambda>x. \<not> is_err x) (w_sched w)"

lemma sched_adv_refl [simp, intro]: "sched_adv w w"
  by (simp add: sched_adv_def)

lemma sched_adv_trans [trans]: "sched_adv w w' \<Longrightarrow> sched_adv w' w'' \<Longrightarrow> sched_adv w w''"
  by (auto simp: sched_adv_def)

lemma sched_adv_fields:
  assumes "sched_adv w w'"
  shows "w_files w' = w_files w" "w_fds w' = w_fds w" "w_nextfd w' = w_nextfd w"
    "fd_file w' fd = fd_file w fd" "benign w \<Longrightarrow> benign w'"
  using assms by (auto simp: fd_file_def benign_def list_all_iff sched_adv_def split: option.splits)

lemma next_outcome_adv: "next_outcome w = (x, w') \<Longrightarrow> sched_adv w w'"
  by (auto simp: next_outcome_def sched_adv_def split: list.splits)

lemma next_outcome_benign: "next_outcome w = (x, w') \<Longrightarrow> benign w \<Longrightarrow> x \<noteq> Io_err e \<and> benign w'"
  by (auto simp: next_outcome_def benign_def is_err_def split: list.splits outcome.splits)

lemma pread_adv: "pread fd n off w = (r, w') \<Longrightarrow> sched_adv w w'"
  by (auto simp: pread_def next_outcome_adv split: option.splits if_splits prod.splits outcome.splits)

lemma sint_nonneg: "unat (x :: u64) < 2 ^ 63 \<Longrightarrow> \<not> sint x < 0"
  using bit_last_iff [of x] unat_drop_bit_eq [of 63 x]
  by (auto simp: bit_iff_odd_drop_bit drop_bit_eq_div unat_eq_zero)

lemma unat_add_small:
  "unat (x :: u64) + n < 2 ^ 63 \<Longrightarrow> unat (x + of_nat n) = unat x + n"
  by (simp add: unat_word_ariths unat_of_nat)

lemma pread_Inr:
  assumes "pread fd n off w = (Inr bs, w')" "fd_file w fd = Some f"
  shows "\<exists>k. bs = take k (drop (unat off) (vf_data f)) \<and> (0 < n \<longrightarrow> 0 < k) \<and> k \<le> n"
  using assms
  by (auto simp: pread_def xfer_len_def split: if_splits prod.splits outcome.splits)

lemma read_loop_adv: "read_loop fd offset len acc w = (r, w') \<Longrightarrow> sched_adv w w'"
proof (induction fd offset len acc w rule: read_loop.induct)
  case (1 fd offset len acc w)
  obtain r1 w1 where p: "pread fd (len - length acc) (offset + of_nat (length acc)) w = (r1, w1)"
    by fastforce
  show ?case
    using "1.prems" "1.IH"(1) [OF _ p [symmetric]] "1.IH"(2) [OF _ p [symmetric]] pread_adv [OF p]
      read_loop.simps [of fd offset len acc w]
    by (auto simp: p split: if_splits sum.splits intro: sched_adv_trans)
qed

lemma read_loop_sound:
  assumes "fd_file w fd = Some f" "unat offset + len < 2 ^ 63" "length acc \<le> len"
    and "D = drop (unat offset) (vf_data f)" "take (length acc) D = acc"
    and "read_loop fd offset len acc w = (Inr bs, w')"
  shows "take len D = bs \<and> length bs = len"
  using assms
proof (induction fd offset len acc w rule: read_loop.induct)
  case (1 fd offset len acc w)
  obtain r1 w1 where p: "pread fd (len - length acc) (offset + of_nat (length acc)) w = (r1, w1)"
    by fastforce
  have fl: "fd_file w1 fd = Some f"
    using "1.prems"(1) sched_adv_fields(4) [OF pread_adv [OF p]] by simp
  note unfold = "1.prems"(6) [unfolded read_loop.simps [of fd offset len acc w] p]
  show ?case
  proof (cases "length acc < len")
    case less: True
    have off: "unat (offset + of_nat (length acc)) = unat offset + length acc"
      using "1.prems"(2) less by (intro unat_add_small) linarith
    show ?thesis
    proof (cases r1)
      case (Inl e)
      then show ?thesis
        using unfold less "1.IH"(1) [OF less p [symmetric] Inl _ fl "1.prems"(2-5)]
        by (auto split: if_splits)
    next
      case (Inr b)
      obtain k where k: "b = take k (drop (length acc) D)" "k \<le> len - length acc"
        using pread_Inr [OF p [unfolded Inr] "1.prems"(1)] off "1.prems"(4) by (auto simp: add.commute)
      then have "take (length b) (drop (length acc) D) = b"
        by (metis append_eq_conv_conj append_take_drop_id)
      then have "take (length (acc @ b)) D = acc @ b"
        using "1.prems"(5) by (simp add: take_add)
      moreover have "length (acc @ b) \<le> len"
        using k less by auto
      ultimately show ?thesis
        using unfold less "1.IH"(2) [OF less p [symmetric] Inr _ fl "1.prems"(2) _ "1.prems"(4)] Inr
        by (auto split: if_splits)
    qed
  next
    case False
    then show ?thesis
      using unfold "1.prems"(3,5) by auto
  qed
qed

lemma pread_benign:
  assumes "benign w" "fd_file w fd = Some f" "unat off < length (vf_data f)" "unat off < 2 ^ 63" "0 < n"
  shows "\<exists>w'. benign w' \<and> (pread fd n off w = (Inl EINTR, w') \<or>
    (\<exists>bs. bs \<noteq> [] \<and> pread fd n off w = (Inr bs, w')))"
  using assms sint_nonneg [of off] next_outcome_benign
  by (fastforce simp: pread_def xfer_len_def split: prod.splits outcome.splits)

lemma read_loop_benign:
  assumes "benign w" "fd_file w fd = Some f" "unat offset + len \<le> length (vf_data f)"
    and "unat offset + len < 2 ^ 63" "length acc \<le> len"
  shows "\<exists>bs w'. read_loop fd offset len acc w = (Inr bs, w')"
  using assms
proof (induction fd offset len acc w rule: read_loop.induct)
  case (1 fd offset len acc w)
  obtain r1 w1 where p: "pread fd (len - length acc) (offset + of_nat (length acc)) w = (r1, w1)"
    by fastforce
  have fl: "fd_file w1 fd = Some f"
    using "1.prems"(2) sched_adv_fields(4) [OF pread_adv [OF p]] by simp
  show ?case
  proof (cases "length acc < len")
    case less: True
    have off: "unat (offset + of_nat (length acc)) = unat offset + length acc"
      using "1.prems" less by (intro unat_add_small) linarith
    consider "r1 = Inl EINTR" "benign w1" | bs where "bs \<noteq> []" "r1 = Inr bs" "benign w1"
      using pread_benign [OF "1.prems"(1,2), of "offset + of_nat (length acc)" "len - length acc"]
        off p "1.prems" less by auto
    then show ?thesis
    proof cases
      case 1
      then show ?thesis
        using "1.prems" less p "1.IH"(1) [OF less p [symmetric] 1(1)] fl
        by (subst read_loop.simps) simp
    next
      case (2 bs)
      then show ?thesis
        using "1.prems" less p "1.IH"(2) [OF less p [symmetric] 2(2) 2(1)] fl
          pread_data [OF p [unfolded 2(2)]]
        by (subst read_loop.simps) auto
    qed
  next
    case False
    then show ?thesis
      by (subst read_loop.simps) auto
  qed
qed

text \<open>The contract of \<open>aetherfs_read_all\<close>.\<close>

lemma read_all_adv: "aetherfs_read_all fd offset len w = (r, w') \<Longrightarrow> sched_adv w w'"
  unfolding aetherfs_read_all_def by (rule read_loop_adv)

lemma read_all_sound:
  assumes "fd_file w fd = Some f" "unat offset + len < 2 ^ 63"
    and "aetherfs_read_all fd offset len w = (Inr bs, w')"
  shows "bs = take len (drop (unat offset) (vf_data f)) \<and> length bs = len"
  using read_loop_sound [OF assms(1,2), of "[]", OF _ refl] assms(3) by (auto simp: aetherfs_read_all_def)

lemma read_all_benign:
  assumes "benign w" "fd_file w fd = Some f" "unat offset + len \<le> length (vf_data f)" "unat offset + len < 2 ^ 63"
  shows "\<exists>w'. aetherfs_read_all fd offset len w = (Inr (take len (drop (unat offset) (vf_data f))), w') \<and>
    sched_adv w w'"
  using read_loop_benign [OF assms, of "[]"] read_all_sound [OF assms(2,4)] read_all_adv
  by (fastforce simp: aetherfs_read_all_def)

lemma set_data_set_data: "sched_adv (set_data p d1 w) w1 \<Longrightarrow> sched_adv (set_data p d2 w1) w2 \<Longrightarrow> sched_adv (set_data p d2 w) w2"
  by (auto simp: sched_adv_def set_data_def option.map_comp comp_def)

lemma set_data_same: "w_files w p = Some f \<Longrightarrow> vf_data f = d \<Longrightarrow> set_data p d w = w"
  by (auto simp: set_data_def fun_eq_iff intro!: world.equality)

lemma set_data_mono: "sched_adv w w' \<Longrightarrow> sched_adv (set_data p d w) (set_data p d w')"
  by (auto simp: sched_adv_def set_data_def)

lemma set_data_file [simp]:
  "w_files (set_data p d w) p = map_option (\<lambda>f. f\<lparr>vf_data := d\<rparr>) (w_files w p)"
  "q \<noteq> p \<Longrightarrow> w_files (set_data p d w) q = w_files w q"
  by (auto simp: set_data_def)

lemma benign_set_data [simp]: "benign (set_data p d w) = benign w"
  by (simp add: benign_def)

lemma pwrite_Inl: "pwrite fd buf off w = (Inl e, w') \<Longrightarrow> sched_adv w w'"
  by (auto simp: pwrite_def Let_def next_outcome_adv
      split: option.splits if_splits prod.splits outcome.splits)

lemma pwrite_Inr:
  assumes "pwrite fd buf off w = (Inr n, w')" "w_fds w fd = Some (p, wr)" "w_files w p = Some f"
  shows "n \<le> length buf \<and> sched_adv (set_data p (put_bytes (unat off) (take n buf) (vf_data f)) w) w'"
proof -
  obtain x w1 where x: "next_outcome w = (x, w1)"
    by fastforce
  have "sched_adv (set_data p d w) (set_data p d w1)" for d
    using x next_outcome_adv set_data_mono by blast
  moreover have "pwrite_room f (unat off) (xfer_len x (length buf)) \<le> length buf"
    by (auto simp: pwrite_room_def xfer_len_def split: file_kind.split outcome.split)
  ultimately show ?thesis
    using assms x by (cases x) (auto simp: pwrite_def Let_def split: if_splits)
qed

lemma write_loop_sound:
  assumes "w_fds w fd = Some (p, True)" "w_files w p = Some f" "unat offset + length buf < 2 ^ 63"
    and "written \<le> length buf" "vf_data f = put_bytes (unat offset) (take written buf) d"
    and "write_loop fd offset buf written w = (r, w')"
  shows "\<exists>k \<le> length buf. sched_adv (set_data p (put_bytes (unat offset) (take k buf) d) w) w' \<and>
    (r = Inr () \<longrightarrow> k = length buf)"
  using assms
proof (induction fd offset buf written w arbitrary: f rule: write_loop.induct)
  case (1 fd offset buf written w)
  obtain r1 w1 where p: "pwrite fd (drop written buf) (offset + of_nat written) w = (r1, w1)"
    by fastforce
  note unfold = "1.prems"(6) [unfolded write_loop.simps [of fd offset buf written w] p]
  have self: "set_data p (put_bytes (unat offset) (take written buf) d) w = w"
    using "1.prems"(2,5) by (simp add: set_data_same)
  show ?case
  proof (cases "written < length buf")
    case less: True
    have off: "unat (offset + of_nat written) = unat offset + written"
      using "1.prems"(3) less by (intro unat_add_small) linarith
    show ?thesis
    proof (cases r1)
      case (Inl e)
      then have adv: "sched_adv w w1"
        using p pwrite_Inl by blast
      note same = sched_adv_fields(1,2) [OF adv]
      show ?thesis
      proof (cases "e = EINTR")
        case True
        obtain k where "k \<le> length buf" "r = Inr () \<longrightarrow> k = length buf"
          "sched_adv (set_data p (put_bytes (unat offset) (take k buf) d) w1) w'"
          using "1.IH"(1) [OF less p [symmetric] Inl True, of f] "1.prems" same unfold Inl True less
          by auto
        then show ?thesis
          using set_data_mono [OF adv] sched_adv_trans by blast
      next
        case False
        then show ?thesis
          using unfold Inl less adv "1.prems"(4) self by (intro exI [of _ written]) auto
      qed
    next
      case (Inr n)
      let ?f = "f\<lparr>vf_data := put_bytes (unat offset) (take (written + n) buf) d\<rparr>"
      have n: "n \<le> length buf - written"
        and adv: "sched_adv (set_data p (put_bytes (unat offset + written) (take n (drop written buf)) (vf_data f)) w) w1"
        using pwrite_Inr [OF p [unfolded Inr] "1.prems"(1,2)] off by auto
      have wn: "written + n \<le> length buf"
        using n less by linarith
      have "put_bytes (unat offset + written) (take n (drop written buf)) (vf_data f)
          = put_bytes (unat offset) (take (written + n) buf) d"
        using put_bytes_twice [of "unat offset" "take written buf"] less
        by (simp add: "1.prems"(5) take_add min_def)
      then have adv: "sched_adv (set_data p (put_bytes (unat offset) (take (written + n) buf) d) w) w1"
        using adv by simp
      show ?thesis
      proof (cases "n = 0")
        case True
        then show ?thesis
          using unfold Inr less adv "1.prems"(4) by (intro exI [of _ written]) auto
      next
        case False
        obtain k where "k \<le> length buf" "r = Inr () \<longrightarrow> k = length buf"
          "sched_adv (set_data p (put_bytes (unat offset) (take k buf) d) w1) w'"
          using "1.IH"(2) [OF less p [symmetric] Inr False, of ?f] "1.prems" sched_adv_fields(1,2) [OF adv]
            unfold Inr False less wn by auto
        then show ?thesis
          using set_data_set_data [OF adv] by blast
      qed
    qed
  next
    case False
    then show ?thesis
      using unfold "1.prems"(4) self by (intro exI [of _ written]) auto
  qed
qed

lemma pwrite_benign:
  assumes "benign w" "w_fds w fd = Some (p, True)" "w_files w p = Some f"
    and "unat off + length buf \<le> length (vf_data f)" "unat off < 2 ^ 63" "buf \<noteq> []"
  shows "\<exists>w'. benign w' \<and> (pwrite fd buf off w = (Inl EINTR, w') \<or>
    (\<exists>n. n \<noteq> 0 \<and> pwrite fd buf off w = (Inr n, w')))"
proof -
  obtain x w1 where x: "next_outcome w = (x, w1)"
    by fastforce
  then have b: "benign w1" "\<And>e. x \<noteq> Io_err e"
    using assms(1) next_outcome_benign by blast+
  have "0 < length buf"
    using assms(6) by simp
  moreover from this have "0 < xfer_len x (length buf)" "xfer_len x (length buf) \<le> length buf"
    by (auto simp: xfer_len_def max_def split: outcome.split)
  ultimately have "pwrite_room f (unat off) (xfer_len x (length buf)) \<noteq> 0"
    using assms(4) by (simp add: pwrite_room_def split: file_kind.split)
  then show ?thesis
    using assms(2,3) b x sint_nonneg [OF assms(5)]
    by (cases x) (auto simp: pwrite_def Let_def)
qed

lemma write_loop_benign:
  assumes "benign w" "w_fds w fd = Some (p, True)" "w_files w p = Some f"
    and "unat offset + length buf \<le> length (vf_data f)" "unat offset + length buf < 2 ^ 63"
    and "written \<le> length buf"
  shows "\<exists>w'. write_loop fd offset buf written w = (Inr (), w')"
  using assms
proof (induction fd offset buf written w arbitrary: f rule: write_loop.induct)
  case (1 fd offset buf written w)
  obtain r1 w1 where p: "pwrite fd (drop written buf) (offset + of_nat written) w = (r1, w1)"
    by fastforce
  show ?case
  proof (cases "written < length buf")
    case less: True
    have off: "unat (offset + of_nat written) = unat offset + written"
      using "1.prems"(5) less by (intro unat_add_small) linarith
    consider "r1 = Inl EINTR" "benign w1" | n where "n \<noteq> 0" "r1 = Inr n" "benign w1"
      using pwrite_benign [OF "1.prems"(1-3), of "offset + of_nat written" "drop written buf"]
        off p "1.prems" less by auto
    then show ?thesis
    proof cases
      case 1
      then show ?thesis
        using less p "1.IH"(1) [OF less p [symmetric] 1(1) refl 1(2), of f] "1.prems"(2-6)
          sched_adv_fields(1,2) [OF pwrite_Inl [OF p [unfolded 1(1)]]]
        by (subst write_loop.simps) simp
    next
      case (2 n)
      have n: "n \<le> length (drop written buf)"
        and adv: "sched_adv (set_data p (put_bytes (unat offset + written) (take n (drop written buf)) (vf_data f)) w) w1"
        using pwrite_Inr [OF p [unfolded 2(2)] "1.prems"(2,3)] off by auto
      let ?f = "f\<lparr>vf_data := put_bytes (unat offset + written) (take n (drop written buf)) (vf_data f)\<rparr>"
      have "\<exists>w'. write_loop fd offset buf (written + n) w1 = (Inr (), w')"
        using "1.prems" n less sched_adv_fields(1,2) [OF adv]
        by (intro "1.IH"(2) [OF less p [symmetric] 2(2,1,3), of ?f]) (auto simp: length_put_bytes)
      then show ?thesis
        using less p 2 by (subst write_loop.simps) simp
    qed
  next
    case False
    then show ?thesis
      by (subst write_loop.simps) auto
  qed
qed

text \<open>The contract of \<open>aetherfs_write_all\<close>: a prefix of the buffer is written, all of it on success.\<close>

lemma write_all_sound:
  assumes "w_fds w fd = Some (p, True)" "w_files w p = Some f" "unat offset + length buf < 2 ^ 63"
    and "aetherfs_write_all fd offset buf w = (r, w')"
  shows "\<exists>k \<le> length buf. sched_adv (set_data p (put_bytes (unat offset) (take k buf) (vf_data f)) w) w' \<and>
    (r = Inr () \<longrightarrow> k = length buf)"
  using write_loop_sound [OF assms(1-3), of 0 "vf_data f"] assms(4)
  by (simp add: aetherfs_write_all_def put_bytes_def)

lemma write_all_benign:
  assumes "benign w" "w_fds w fd = Some (p, True)" "w_files w p = Some f"
    and "unat offset + length buf \<le> length (vf_data f)" "unat offset + length buf < 2 ^ 63"
  shows "\<exists>w'. aetherfs_write_all fd offset buf w = (Inr (), w') \<and>
    sched_adv (set_data p (put_bytes (unat offset) buf (vf_data f)) w) w'"
  using write_loop_benign [OF assms, of 0] write_all_sound [OF assms(2,3,5)]
  by (fastforce simp: aetherfs_write_all_def)

text \<open>A descriptor that is not open for writing leaves the world alone.\<close>

lemma write_all_readonly:
  assumes "w_fds w fd = Some (p, False)" "buf \<noteq> []"
  shows "aetherfs_write_all fd offset buf w = (Inl EBADF, w)"
  using assms
  by (auto simp: aetherfs_write_all_def write_loop.simps pwrite_def split: option.splits)

section \<open>The block store interface\<close>

text \<open>
  What a layer of the tools relies on from the layer below it: under the invariant every
  valid block can be read and gives its contents, reading changes no contents, and
  writing replaces the contents of that block only.  The interface is met by the members
  of a pool, by the logical blocks of an opened image and by the target of mkfs.
\<close>

locale block_store =
  fixes inv :: "'w \<Rightarrow> bool"
    and valid :: "'b \<Rightarrow> bool"
    and peek :: "'w \<Rightarrow> 'b \<Rightarrow> byte list"
    and rd :: "'b \<Rightarrow> ('w, byte list) action"
    and wr :: "'b \<Rightarrow> byte list \<Rightarrow> ('w, unit) action"
  assumes rd_ok: "inv w \<Longrightarrow> valid b \<Longrightarrow>
      \<exists>w'. rd b w = (Inr (peek w b), w') \<and> inv w' \<and> (\<forall>c. valid c \<longrightarrow> peek w' c = peek w c)"
    and wr_ok: "inv w \<Longrightarrow> valid b \<Longrightarrow> length d = AETHERFS_DEF_BLOCK_SIZE \<Longrightarrow>
      \<exists>w'. wr b d w = (Inr (), w') \<and> inv w' \<and> (\<forall>c. valid c \<longrightarrow> peek w' c = (if c = b then d else peek w c))"
    and peek_len: "inv w \<Longrightarrow> valid b \<Longrightarrow> length (peek w b) = AETHERFS_DEF_BLOCK_SIZE"
begin

lemma read_after_write:
  assumes "inv w" "valid b" "valid c" "length d = AETHERFS_DEF_BLOCK_SIZE"
  shows "\<exists>w'. bindE (wr b d) (\<lambda>_. rd c) w = (Inr (if c = b then d else peek w c), w') \<and> inv w'"
proof -
  obtain w1 where 1: "wr b d w = (Inr (), w1)" "inv w1"
    "peek w1 c = (if c = b then d else peek w c)"
    using wr_ok [OF assms(1,2,4)] assms(3) by auto
  then show ?thesis
    using rd_ok [OF 1(2) assms(3)] by (auto simp: bindE_run_Inr)
qed

text \<open>A sequence of block writes, the last one of a block deciding its contents.\<close>

lemma write_sequence:
  assumes "inv w" "\<forall>(b, d) \<in> set ws. valid b \<and> length d = AETHERFS_DEF_BLOCK_SIZE"
  shows "\<exists>w'. forE (\<lambda>(b, d) _. wr b d) ws () w = (Inr (), w') \<and> inv w' \<and>
    (\<forall>c. valid c \<longrightarrow> peek w' c = (case map_of (rev ws) c of Some d \<Rightarrow> d | None \<Rightarrow> peek w c))"
  using assms
proof (induction ws arbitrary: w)
  case (Cons x ws)
  obtain b d where x: "x = (b, d)"
    by fastforce
  obtain w1 where 1: "wr b d w = (Inr (), w1)" "inv w1"
    "\<forall>c. valid c \<longrightarrow> peek w1 c = (if c = b then d else peek w c)"
    using wr_ok [of w b d] Cons.prems x by auto
  then show ?case
    using Cons.IH [OF 1(2)] Cons.prems x
    by (auto simp: bindE_run_Inr map_add_def split: option.splits)
qed simp

lemma reads_keep:
  assumes "inv w" "\<forall>b \<in> set bs. valid b"
  shows "\<exists>w'. forE (\<lambda>b acc. bindE (rd b) (\<lambda>d. okE (acc @ [d]))) bs acc w = (Inr (acc @ map (peek w) bs), w') \<and>
    inv w' \<and> (\<forall>c. valid c \<longrightarrow> peek w' c = peek w c)"
  using assms
proof (induction bs arbitrary: acc w)
  case (Cons b bs)
  obtain w1 where 1: "rd b w = (Inr (peek w b), w1)" "inv w1" "\<forall>c. valid c \<longrightarrow> peek w1 c = peek w c"
    using rd_ok [of w b] Cons.prems by auto
  have "map (peek w1) bs = map (peek w) bs"
    using 1(3) Cons.prems(2) by auto
  then show ?case
    using Cons.IH [OF 1(2), of "acc @ [peek w b]"] Cons.prems 1 by (auto simp: bindE_run_Inr)
qed simp

end

end
