(* ===== verification/Pool.thy ===== *)
theory Pool
  imports Blockio
begin

text \<open>
  Storage pools: the image structure of \<open>aetherfsprogs/image.h\<close>, the member masks,
  the placement of logical blocks on the members for the linear, mirror, stripe and
  parity profiles, and reading and writing of logical blocks
  (\<open>aetherfsprogs/image.c\<close>, lines 141 to 287, 433 to 596 and 814 to 923).
\<close>

section \<open>Data\<close>

record device_spec =
  ds_path :: path
  ds_class_mask :: u32

record image_member =
  im_fd :: int
  im_is_block_device :: bool
  im_size_bytes :: u64
  im_blocks :: u64
  im_class_mask :: u32
  im_role_mask :: u32
  im_member_index :: u32

record image =
  img_fd :: int
  img_writable :: bool
  img_is_block_device :: bool
  img_size_bytes :: u64
  img_blocks :: u64
  img_member_count :: u32
  img_pool_label :: pool_label
  img_checkpoint_root :: checkpoint_root
  img_members :: "image_member list"
  img_super :: super
  img_journal :: intent_log
  img_inode_bitmap :: bitmap_block
  img_free_extents :: extent_node
  img_inode_table :: "inode list"
  img_root_dir :: "byte list"

record pool_mapping =
  mp_member_index :: u32
  mp_parity_member_index :: u32
  mp_member_block :: u64

section \<open>Member masks\<close>

definition aetherfs_mask_first :: "u32 \<Rightarrow> nat option" where
  "aetherfs_mask_first m = find (\<lambda>index. m AND push_bit index 1 \<noteq> 0) [0..<AETHERFS_MAX_DEVICES]"

definition aetherfs_mask_count :: "u32 \<Rightarrow> u32" where
  "aetherfs_mask_count m = of_nat (length (filter (bit m) [0..<32]))"

primrec mask_nth_loop :: "u32 \<Rightarrow> nat list \<Rightarrow> u32 \<Rightarrow> nat option" where
  "mask_nth_loop m [] ordinal = None"
| "mask_nth_loop m (index # rest) ordinal =
    (if m AND push_bit index 1 = 0 then mask_nth_loop m rest ordinal
     else if ordinal = 0 then Some index
     else mask_nth_loop m rest (ordinal - 1))"

definition aetherfs_mask_nth :: "u32 \<Rightarrow> u32 \<Rightarrow> nat option" where
  "aetherfs_mask_nth m ordinal = mask_nth_loop m [0..<AETHERFS_MAX_DEVICES] ordinal"

text \<open>
  The member indices that a loop \<open>for (ordinal = 0; ordinal < aetherfs_mask_count(mask); ++ordinal)\<close>
  visits before it breaks at a negative \<open>aetherfs_mask_nth\<close>.
\<close>

definition mask_members :: "u32 \<Rightarrow> nat list" where
  "mask_members m = map the (takeWhile (\<lambda>x. x \<noteq> None)
     (map (\<lambda>ordinal. aetherfs_mask_nth m (of_nat ordinal)) [0..<unat (aetherfs_mask_count m)]))"

definition aetherfs_pool_member_limit_mask :: "image \<Rightarrow> u32" where
  "aetherfs_pool_member_limit_mask img =
    (if img_member_count img \<ge> 32 then - 1
     else if img_member_count img = 0 then 0 else push_bit (unat (img_member_count img)) 1 - 1)"

definition aetherfs_pool_profile :: "image \<Rightarrow> u32" where
  "aetherfs_pool_profile img = pl_profile (img_pool_label img)"

definition aetherfs_pool_metadata_mask :: "image \<Rightarrow> u32" where
  "aetherfs_pool_metadata_mask img =
    (let m = pl_metadata_mask (img_pool_label img) AND aetherfs_pool_member_limit_mask img
     in if m = 0 \<and> img_member_count img > 0 then 1 else m)"

definition aetherfs_pool_data_mask :: "image \<Rightarrow> u32" where
  "aetherfs_pool_data_mask img =
    (let m = pl_data_mask (img_pool_label img) AND aetherfs_pool_member_limit_mask img
     in if m = 0 \<and> img_member_count img > 0 then 1 else m)"

definition aetherfs_pool_log_mask :: "image \<Rightarrow> u32" where
  "aetherfs_pool_log_mask img =
    (let m = pl_log_mask (img_pool_label img) AND aetherfs_pool_member_limit_mask img
     in if m = 0 then aetherfs_pool_metadata_mask img else m)"

definition aetherfs_pool_member_total_blocks :: "image \<Rightarrow> nat \<Rightarrow> u64" where
  "aetherfs_pool_member_total_blocks img index =
    (let total = pm_total_blocks (pl_members (img_pool_label img) ! index)
     in if total = 0 then im_blocks (img_members img ! index) else total)"

definition aetherfs_pool_member_data_blocks :: "image \<Rightarrow> nat \<Rightarrow> u64" where
  "aetherfs_pool_member_data_blocks img index =
    (let blocks = pm_data_blocks (pl_members (img_pool_label img) ! index)
     in if blocks = 0 \<and> aetherfs_pool_member_total_blocks img index > AETHERFS_DATA_START_BLOCK
        then aetherfs_pool_member_total_blocks img index - AETHERFS_DATA_START_BLOCK
        else blocks)"

section \<open>Blocks of one member\<close>

definition aetherfs_member_read_block :: "image_member \<Rightarrow> u64 \<Rightarrow> (world, byte list) action" where
  "aetherfs_member_read_block m block =
    (if im_fd m < 0 then failE EINVAL
     else aetherfs_read_all (im_fd m) (block * 4096) AETHERFS_DEF_BLOCK_SIZE)"

definition aetherfs_member_write_block :: "image_member \<Rightarrow> u64 \<Rightarrow> byte list \<Rightarrow> (world, unit) action" where
  "aetherfs_member_write_block m block buf =
    (if im_fd m < 0 then failE EINVAL
     else aetherfs_write_all (im_fd m) (block * 4096) buf)"

definition aetherfs_image_read_physical_member :: "image \<Rightarrow> u32 \<Rightarrow> u64 \<Rightarrow> (world, byte list) action" where
  "aetherfs_image_read_physical_member img member_index block =
    (if member_index \<ge> img_member_count img then failE EINVAL
     else aetherfs_member_read_block (img_members img ! unat member_index) block)"

definition aetherfs_image_write_physical_member ::
  "image \<Rightarrow> u32 \<Rightarrow> u64 \<Rightarrow> byte list \<Rightarrow> (world, unit) action" where
  "aetherfs_image_write_physical_member img member_index block buf =
    (if member_index \<ge> img_member_count img then failE EINVAL
     else aetherfs_member_write_block (img_members img ! unat member_index) block buf)"

definition aetherfs_pool_role_mask_for_bootstrap_block :: "image \<Rightarrow> u64 \<Rightarrow> u32" where
  "aetherfs_pool_role_mask_for_bootstrap_block img block =
    (if block = AETHERFS_JOURNAL_BLOCK then aetherfs_pool_log_mask img
     else aetherfs_pool_metadata_mask img)"

section \<open>Placement of data blocks\<close>

abbreviation (input) UINT32_MAX :: u32 where "UINT32_MAX \<equiv> - 1"

primrec map_linear_loop :: "image \<Rightarrow> nat list \<Rightarrow> u64 \<Rightarrow> pool_mapping result" where
  "map_linear_loop img [] remaining = Inl ERANGE"
| "map_linear_loop img (index # rest) remaining =
    (let blocks = aetherfs_pool_member_data_blocks img index in
     if remaining < blocks
     then Inr \<lparr>mp_member_index = of_nat index, mp_parity_member_index = UINT32_MAX,
               mp_member_block = AETHERFS_DATA_START_BLOCK + remaining\<rparr>
     else map_linear_loop img rest (remaining - blocks))"

definition aetherfs_pool_map_linear :: "image \<Rightarrow> u64 \<Rightarrow> pool_mapping result" where
  "aetherfs_pool_map_linear img logical_block =
    map_linear_loop img (mask_members (aetherfs_pool_data_mask img)) (logical_block - AETHERFS_DATA_START_BLOCK)"

definition aetherfs_pool_map_mirror :: "image \<Rightarrow> u64 \<Rightarrow> pool_mapping result" where
  "aetherfs_pool_map_mirror img logical_block =
    (case aetherfs_mask_first (aetherfs_pool_data_mask img) of
       None \<Rightarrow> Inl EINVAL
     | Some index \<Rightarrow> Inr \<lparr>mp_member_index = of_nat index, mp_parity_member_index = UINT32_MAX,
                         mp_member_block = logical_block\<rparr>)"

definition aetherfs_pool_map_stripe :: "image \<Rightarrow> u64 \<Rightarrow> pool_mapping result" where
  "aetherfs_pool_map_stripe img logical_block =
    (let m = aetherfs_pool_data_mask img;
         data_members = aetherfs_mask_count m;
         stripe_blocks = pl_stripe_blocks (img_pool_label img);
         relative = logical_block - AETHERFS_DATA_START_BLOCK in
     if data_members = 0 \<or> stripe_blocks = 0 then Inl EINVAL
     else let stripe_number = relative div ucast stripe_blocks;
              member_ordinal = ucast (stripe_number mod ucast data_members);
              member_stripe = stripe_number div ucast data_members;
              within_stripe = relative mod ucast stripe_blocks in
       (case aetherfs_mask_nth m member_ordinal of
          None \<Rightarrow> Inl EINVAL
        | Some member_index \<Rightarrow>
            let member_block = AETHERFS_DATA_START_BLOCK + member_stripe * ucast stripe_blocks + within_stripe in
            if member_block \<ge> AETHERFS_DATA_START_BLOCK + aetherfs_pool_member_data_blocks img member_index
            then Inl ERANGE
            else Inr \<lparr>mp_member_index = of_nat member_index, mp_parity_member_index = UINT32_MAX,
                      mp_member_block = member_block\<rparr>))"

definition aetherfs_pool_map_parity :: "image \<Rightarrow> u64 \<Rightarrow> pool_mapping result" where
  "aetherfs_pool_map_parity img logical_block =
    (let m = aetherfs_pool_data_mask img;
         data_members = aetherfs_mask_count m;
         stripe_blocks = pl_stripe_blocks (img_pool_label img);
         relative = logical_block - AETHERFS_DATA_START_BLOCK in
     if data_members < 3 \<or> stripe_blocks = 0 then Inl EINVAL
     else let row_blocks = ucast (data_members - 1) * ucast stripe_blocks;
              row = relative div row_blocks;
              position = relative mod row_blocks;
              parity_ordinal = ucast (row mod ucast data_members) :: u32;
              data_ordinal = ucast (position div ucast stripe_blocks) :: u32;
              actual_ordinal = (if data_ordinal \<ge> parity_ordinal then data_ordinal + 1 else data_ordinal);
              within_stripe = position mod ucast stripe_blocks in
       (case (aetherfs_mask_nth m actual_ordinal, aetherfs_mask_nth m parity_ordinal) of
          (Some member_index, Some parity_member_index) \<Rightarrow>
            let member_block = AETHERFS_DATA_START_BLOCK + row * ucast stripe_blocks + within_stripe in
            if member_block \<ge> AETHERFS_DATA_START_BLOCK + aetherfs_pool_member_data_blocks img member_index \<or>
               member_block \<ge> AETHERFS_DATA_START_BLOCK + aetherfs_pool_member_data_blocks img parity_member_index
            then Inl ERANGE
            else Inr \<lparr>mp_member_index = of_nat member_index, mp_parity_member_index = of_nat parity_member_index,
                      mp_member_block = member_block\<rparr>
        | _ \<Rightarrow> Inl EINVAL))"

definition aetherfs_pool_map_data_block :: "image \<Rightarrow> u64 \<Rightarrow> pool_mapping result" where
  "aetherfs_pool_map_data_block img logical_block =
    (let profile = aetherfs_pool_profile img in
     if profile = AETHERFS_POOL_PROFILE_SINGLE \<or> profile = AETHERFS_POOL_PROFILE_TIERED
     then aetherfs_pool_map_linear img logical_block
     else if profile = AETHERFS_POOL_PROFILE_MIRROR then aetherfs_pool_map_mirror img logical_block
     else if profile = AETHERFS_POOL_PROFILE_STRIPE then aetherfs_pool_map_stripe img logical_block
     else if profile = AETHERFS_POOL_PROFILE_PARITY then aetherfs_pool_map_parity img logical_block
     else Inl EINVAL)"

section \<open>Logical blocks\<close>

primrec read_any_member :: "image \<Rightarrow> u64 \<Rightarrow> nat list \<Rightarrow> (world, byte list) action" where
  "read_any_member img block [] = failE EIO"
| "read_any_member img block (index # rest) = (\<lambda>w.
    case aetherfs_image_read_physical_member img (of_nat index) block w of
      (Inr buf, w') \<Rightarrow> (Inr buf, w')
    | (Inl _, w') \<Rightarrow> read_any_member img block rest w')"

definition aetherfs_image_read_block :: "image \<Rightarrow> u64 \<Rightarrow> (world, byte list) action" where
  "aetherfs_image_read_block img block =
    (if block < AETHERFS_DATA_START_BLOCK
     then read_any_member img block (mask_members (aetherfs_pool_role_mask_for_bootstrap_block img block))
     else bindE (liftE (aetherfs_pool_map_data_block img block)) (\<lambda>mapping.
       aetherfs_image_read_physical_member img (mp_member_index mapping) (mp_member_block mapping)))"

definition write_members :: "image \<Rightarrow> u64 \<Rightarrow> byte list \<Rightarrow> nat list \<Rightarrow> (world, unit) action" where
  "write_members img block buf indices =
    forE (\<lambda>index _. aetherfs_image_write_physical_member img (of_nat index) block buf) indices ()"

definition xor_bytes :: "byte list \<Rightarrow> byte list \<Rightarrow> byte list" where
  "xor_bytes = map2 (XOR)"

definition aetherfs_image_write_block :: "image \<Rightarrow> u64 \<Rightarrow> byte list \<Rightarrow> (world, unit) action" where
  "aetherfs_image_write_block img block buf =
    (if \<not> img_writable img then failE EBADF
     else if block < AETHERFS_DATA_START_BLOCK
     then let m = aetherfs_pool_role_mask_for_bootstrap_block img block in
       if m = 0 then failE EINVAL else write_members img block buf (mask_members m)
     else bindE (liftE (aetherfs_pool_map_data_block img block)) (\<lambda>mapping.
       let profile = aetherfs_pool_profile img in
       if profile = AETHERFS_POOL_PROFILE_SINGLE \<or> profile = AETHERFS_POOL_PROFILE_TIERED \<or>
          profile = AETHERFS_POOL_PROFILE_STRIPE
       then aetherfs_image_write_physical_member img (mp_member_index mapping) (mp_member_block mapping) buf
       else if profile = AETHERFS_POOL_PROFILE_MIRROR
       then write_members img (mp_member_block mapping) buf (mask_members (aetherfs_pool_data_mask img))
       else if profile = AETHERFS_POOL_PROFILE_PARITY
       then bindE (aetherfs_image_read_physical_member img (mp_member_index mapping) (mp_member_block mapping)) (\<lambda>old_data.
            bindE (aetherfs_image_read_physical_member img (mp_parity_member_index mapping) (mp_member_block mapping)) (\<lambda>old_parity.
            let new_parity = xor_bytes (xor_bytes old_parity old_data) buf in
            bindE (aetherfs_image_write_physical_member img (mp_parity_member_index mapping) (mp_member_block mapping) new_parity) (\<lambda>_.
            aetherfs_image_write_physical_member img (mp_member_index mapping) (mp_member_block mapping) buf)))
       else failE EINVAL))"

section \<open>Masks enumerate their set bits\<close>

lemma and_exp_eq_0 [simp]: "(m AND 2 ^ index = 0) = (\<not> bit (m :: 'a::len word) index)"
proof
  assume z: "m AND 2 ^ index = 0"
  show "\<not> bit m index"
  proof
    assume b: "bit m index"
    then have "bit (m AND 2 ^ index) index"
      using bit_imp_le_length [OF b] by (simp add: bit_and_iff bit_exp_iff)
    then show False
      using z by simp
  qed
next
  assume "\<not> bit m index"
  then show "m AND 2 ^ index = 0"
    by (intro bit_word_eqI) (auto simp: bit_and_iff bit_exp_iff)
qed

lemma mask_nth_loop_filter:
  "mask_nth_loop m indices ordinal =
    (if unat ordinal < length (filter (bit m) indices) then Some (filter (bit m) indices ! unat ordinal) else None)"
proof (induction indices arbitrary: ordinal)
  case (Cons index indices)
  have "ordinal \<noteq> 0 \<Longrightarrow> unat ordinal = Suc (unat (ordinal - 1))"
    by (metis Suc_pred' unat_gt_0 unat_minus_one)
  then show ?case
    using Cons by auto
qed simp

abbreviation mask_bits :: "u32 \<Rightarrow> nat list" where
  "mask_bits m \<equiv> filter (bit m) [0..<8]"

lemma mask_nth_bits:
  "aetherfs_mask_nth m ordinal = (if unat ordinal < length (mask_bits m) then Some (mask_bits m ! unat ordinal) else None)"
  by (simp only: aetherfs_mask_nth_def mask_nth_loop_filter)

lemma mask_count_bits: "length (mask_bits m) \<le> unat (aetherfs_mask_count m)" "unat (aetherfs_mask_count m) \<le> 32"
proof -
  have "[0..<8 + 24] = [0..<8] @ [8..<8 + 24::nat]"
    by (rule upt_add_eq_append) simp
  then have split: "length (filter (bit m) [0..<32]) = length (mask_bits m) + length (filter (bit m) [8..<8 + 24])"
    by (metis filter_append length_append numeral_plus_numeral add_num_simps)
  have "length (filter (bit m) [0..<32]) \<le> 32"
    using length_filter_le [of "bit m" "[0..<32]"] by simp
  then have "unat (aetherfs_mask_count m) = length (filter (bit m) [0..<32])"
    by (simp add: aetherfs_mask_count_def unat_of_nat)
  then show "length (mask_bits m) \<le> unat (aetherfs_mask_count m)" "unat (aetherfs_mask_count m) \<le> 32"
    using split \<open>length (filter (bit m) [0..<32]) \<le> 32\<close> by linarith+
qed

lemma takeWhile_Some_prefix:
  assumes "length l \<le> n" "\<And>i. i < n \<Longrightarrow> f i = (if i < length l then Some (l ! i) else None)"
  shows "map the (takeWhile (\<lambda>x. x \<noteq> None) (map f [0..<n])) = l"
proof -
  have "[0..<n] = [0..<length l] @ [length l..<n]"
    using assms(1) by (metis le_add_diff_inverse upt_add_eq_append zero_le)
  moreover have "map f [0..<length l] = map Some l"
    using assms by (intro nth_equalityI) auto
  moreover have "map f [length l..<n] = map (\<lambda>_. None) [length l..<n]"
    using assms by auto
  moreover have "takeWhile (\<lambda>x. x \<noteq> None) (map Some l @ map (\<lambda>_. None) ys) = map Some l" for ys :: "nat list"
    by (subst takeWhile_append2) (auto, cases ys, auto)
  ultimately show ?thesis
    by (simp only: map_append) (simp add: comp_def)
qed

lemma mask_members_bits: "mask_members m = mask_bits m"
  unfolding mask_members_def
proof (rule takeWhile_Some_prefix)
  show "length (mask_bits m) \<le> unat (aetherfs_mask_count m)"
    by (rule mask_count_bits)
next
  fix i assume "i < unat (aetherfs_mask_count m)"
  then have "unat (of_nat i :: u32) = i"
    using mask_count_bits(2) [of m] by (simp add: unat_of_nat)
  then show "aetherfs_mask_nth m (of_nat i) = (if i < length (mask_bits m) then Some (mask_bits m ! i) else None)"
    by (simp only: mask_nth_bits)
qed

lemma mask_first_bits: "aetherfs_mask_first m = (case mask_bits m of [] \<Rightarrow> None | i # _ \<Rightarrow> Some i)"
proof -
  have "find P xs = (case filter P xs of [] \<Rightarrow> None | i # _ \<Rightarrow> Some i)" for P and xs :: "nat list"
    by (induction xs) auto
  then show ?thesis
    by (simp add: aetherfs_mask_first_def)
qed

section \<open>The physical blocks of a ready pool\<close>

definition member_file :: "world \<Rightarrow> image \<Rightarrow> nat \<Rightarrow> (path \<times> vfile) option" where
  "member_file w img i = (case w_fds w (im_fd (img_members img ! i)) of
     Some (p, wr) \<Rightarrow> map_option (Pair p) (w_files w p) | None \<Rightarrow> None)"

text \<open>The member is open on a file that holds its blocks.\<close>

definition member_ready :: "world \<Rightarrow> image \<Rightarrow> nat \<Rightarrow> bool" where
  "member_ready w img i \<longleftrightarrow> 0 \<le> im_fd (img_members img ! i) \<and>
    (case member_file w img i of None \<Rightarrow> False | Some (p, f) \<Rightarrow>
       (8 + unat (aetherfs_pool_member_data_blocks img i)) * 4096 \<le> length (vf_data f) \<and>
       length (vf_data f) < 2 ^ 63)"

text \<open>Every member is open, on a file of its own, and the system calls do not fail.\<close>

definition pool_live :: "image \<Rightarrow> world \<Rightarrow> bool" where
  "pool_live img w \<longleftrightarrow> benign w \<and>
    0 < img_member_count img \<and> unat (img_member_count img) \<le> AETHERFS_MAX_DEVICES \<and>
    (\<forall>i < unat (img_member_count img). member_ready w img i) \<and>
    distinct (map (\<lambda>i. map_option fst (member_file w img i)) [0..<unat (img_member_count img)])"

definition member_writable :: "world \<Rightarrow> image \<Rightarrow> nat \<Rightarrow> bool" where
  "member_writable w img i = (case w_fds w (im_fd (img_members img ! i)) of Some (p, wr) \<Rightarrow> wr | None \<Rightarrow> False)"

text \<open>The pool is moreover open for writing.\<close>

definition pool_ready :: "image \<Rightarrow> world \<Rightarrow> bool" where
  "pool_ready img w \<longleftrightarrow> pool_live img w \<and> img_writable img \<and>
    (\<forall>i < unat (img_member_count img). member_writable w img i)"

lemma pool_ready_live: "pool_ready img w \<Longrightarrow> pool_live img w"
  by (simp add: pool_ready_def)

definition phys_valid :: "image \<Rightarrow> u32 \<times> u64 \<Rightarrow> bool" where
  "phys_valid img = (\<lambda>(i, b). i < img_member_count img \<and>
     unat b < 8 + unat (aetherfs_pool_member_data_blocks img (unat i)))"

definition phys_peek :: "image \<Rightarrow> world \<Rightarrow> u32 \<times> u64 \<Rightarrow> byte list" where
  "phys_peek img w = (\<lambda>(i, b). case member_file w img (unat i) of None \<Rightarrow> []
     | Some (p, f) \<Rightarrow> take 4096 (drop (unat b * 4096) (vf_data f)))"

lemma member_file_adv: "sched_adv w w' \<Longrightarrow> member_file w' img i = member_file w img i"
  by (auto simp: member_file_def sched_adv_def split: option.split)

lemma pool_live_adv: "sched_adv w w' \<Longrightarrow> pool_live img w \<Longrightarrow> pool_live img w'"
  by (simp add: pool_live_def member_ready_def member_file_adv sched_adv_fields)

lemma pool_ready_adv: "sched_adv w w' \<Longrightarrow> pool_ready img w \<Longrightarrow> pool_ready img w'"
  by (simp add: pool_ready_def pool_live_adv member_writable_def sched_adv_fields)

lemma phys_peek_adv: "sched_adv w w' \<Longrightarrow> phys_peek img w' = phys_peek img w"
  by (auto simp: phys_peek_def member_file_adv fun_eq_iff)

lemma pool_live_member:
  assumes "pool_live img w" "i < unat (img_member_count img)"
  obtains p f wr where "member_file w img i = Some (p, f)"
    "w_fds w (im_fd (img_members img ! i)) = Some (p, wr)" "w_files w p = Some f"
    "0 \<le> im_fd (img_members img ! i)" "length (vf_data f) < 2 ^ 63"
    "(8 + unat (aetherfs_pool_member_data_blocks img i)) * 4096 \<le> length (vf_data f)"
proof -
  have "member_ready w img i"
    using assms by (simp add: pool_live_def)
  moreover from this obtain p f where pf: "member_file w img i = Some (p, f)"
    by (auto simp: member_ready_def split: option.splits)
  moreover from pf obtain wr where "w_fds w (im_fd (img_members img ! i)) = Some (p, wr)" "w_files w p = Some f"
    by (auto simp: member_file_def split: option.splits prod.splits)
  ultimately show ?thesis
    using that by (simp add: member_ready_def)
qed

lemma pool_live_distinct:
  assumes "pool_live img w" "i < unat (img_member_count img)" "j < unat (img_member_count img)"
    and "member_file w img i = Some (p, f)" "member_file w img j = Some (p, g)"
  shows "i = j"
  using assms by (auto simp: pool_live_def distinct_conv_nth) (metis option.map(2) fst_conv)

lemma unat_block_offset:
  "(8 + n) * 4096 < (2::nat) ^ 63 \<Longrightarrow> unat b < 8 + n \<Longrightarrow> unat ((b :: u64) * 4096) = unat b * 4096"
  using unat_mult_lem [of b 4096] by simp

lemma member_file_set_data:
  "member_file (set_data p d w) img j =
    map_option (\<lambda>(q, f). (q, if q = p then f\<lparr>vf_data := d\<rparr> else f)) (member_file w img j)"
  by (cases "w_fds w (im_fd (img_members img ! j))")
    (auto simp: member_file_def set_data_def option.map_comp comp_def split: prod.splits)

lemma pool_live_set_data:
  assumes "pool_live img w" "member_file w img i = Some (p, f)" "i < unat (img_member_count img)"
    and "length d = length (vf_data f)"
  shows "pool_live img (set_data p d w)"
proof -
  have "member_ready (set_data p d w) img j" if j: "j < unat (img_member_count img)" for j
  proof -
    obtain q g where "member_file w img j = Some (q, g)"
      using pool_live_member [OF assms(1) j] by blast
    moreover have "q = p \<Longrightarrow> g = f"
      using pool_live_distinct [OF assms(1) j assms(3), of q g f] assms(2) calculation by auto
    moreover have "member_ready w img j"
      using assms(1) j by (simp add: pool_live_def)
    ultimately show ?thesis
      using assms(4) by (auto simp: member_ready_def member_file_set_data)
  qed
  then show ?thesis
    using assms(1)
    by (simp add: pool_live_def member_file_set_data option.map_comp comp_def case_prod_beta)
qed

lemma pool_ready_set_data:
  assumes "pool_ready img w" "member_file w img i = Some (p, f)" "i < unat (img_member_count img)"
    and "length d = length (vf_data f)"
  shows "pool_ready img (set_data p d w)"
  using assms pool_live_set_data [of img w i p f d] by (simp add: pool_ready_def member_writable_def)

lemma phys_read:
  assumes "pool_live img w" "phys_valid img (i, b)"
  shows "\<exists>w'. aetherfs_image_read_physical_member img i b w = (Inr (phys_peek img w (i, b)), w') \<and> sched_adv w w'"
proof -
  have i: "i < img_member_count img" "unat i < unat (img_member_count img)"
    and b: "unat b < 8 + unat (aetherfs_pool_member_data_blocks img (unat i))"
    using assms(2) by (simp_all add: phys_valid_def word_less_nat_alt)
  obtain p f wr where f: "member_file w img (unat i) = Some (p, f)"
    "w_fds w (im_fd (img_members img ! unat i)) = Some (p, wr)" "w_files w p = Some f"
    "0 \<le> im_fd (img_members img ! unat i)" "length (vf_data f) < 2 ^ 63"
    "(8 + unat (aetherfs_pool_member_data_blocks img (unat i))) * 4096 \<le> length (vf_data f)"
    using pool_live_member [OF assms(1) i(2)] by blast
  have off: "unat (b * 4096) = unat b * 4096"
    using f b by (intro unat_block_offset) auto
  have "unat (b * 4096) + 4096 \<le> length (vf_data f)"
    using off b f(6) by simp
  then show ?thesis
    using read_all_benign [of w "im_fd (img_members img ! unat i)" f "b * 4096" 4096] assms(1) f off i
    by (auto simp: aetherfs_image_read_physical_member_def aetherfs_member_read_block_def
        pool_live_def fd_file_def phys_peek_def not_le)
qed

lemma phys_write:
  assumes "pool_ready img w" "phys_valid img (i, b)" "length d = AETHERFS_DEF_BLOCK_SIZE"
  shows "\<exists>w'. aetherfs_image_write_physical_member img i b d w = (Inr (), w') \<and> pool_ready img w' \<and>
    (\<forall>c. phys_valid img c \<longrightarrow> phys_peek img w' c = (if c = (i, b) then d else phys_peek img w c))"
proof -
  have i: "i < img_member_count img" "unat i < unat (img_member_count img)"
    and b: "unat b < 8 + unat (aetherfs_pool_member_data_blocks img (unat i))"
    using assms(2) by (simp_all add: phys_valid_def word_less_nat_alt)
  obtain p f where f: "member_file w img (unat i) = Some (p, f)"
    "w_fds w (im_fd (img_members img ! unat i)) = Some (p, True)" "w_files w p = Some f"
    "0 \<le> im_fd (img_members img ! unat i)" "length (vf_data f) < 2 ^ 63"
    "(8 + unat (aetherfs_pool_member_data_blocks img (unat i))) * 4096 \<le> length (vf_data f)"
  proof -
    have "member_writable w img (unat i)"
      using assms(1) i(2) by (simp add: pool_ready_def)
    moreover obtain p f wr where "member_file w img (unat i) = Some (p, f)"
      "w_fds w (im_fd (img_members img ! unat i)) = Some (p, wr)" "w_files w p = Some f"
      "0 \<le> im_fd (img_members img ! unat i)" "length (vf_data f) < 2 ^ 63"
      "(8 + unat (aetherfs_pool_member_data_blocks img (unat i))) * 4096 \<le> length (vf_data f)"
      using pool_live_member [OF pool_ready_live [OF assms(1)] i(2)] by blast
    ultimately show ?thesis
      using that by (simp add: member_writable_def)
  qed
  have off: "unat (b * 4096) = unat b * 4096"
    using f b by (intro unat_block_offset) auto
  have fits: "unat b * 4096 + length d \<le> length (vf_data f)"
    using b f(6) assms(3) by simp
  let ?D = "put_bytes (unat b * 4096) d (vf_data f)"
  obtain w' where w': "aetherfs_write_all (im_fd (img_members img ! unat i)) (b * 4096) d w = (Inr (), w')"
    "sched_adv (set_data p ?D w) w'"
    using write_all_benign [of w "im_fd (img_members img ! unat i)" p f "b * 4096" d] assms(1) f off fits
    by (auto simp: pool_ready_def pool_live_def)
  have "pool_ready img w'"
    using pool_ready_adv [OF w'(2)] pool_ready_set_data [OF assms(1) f(1) i(2)] fits by simp
  moreover have "phys_peek img w' (j, c) = (if (j, c) = (i, b) then d else phys_peek img w (j, c))"
    if v: "phys_valid img (j, c)" for j c
  proof -
    have j: "unat j < unat (img_member_count img)"
      using v by (simp add: phys_valid_def word_less_nat_alt)
    obtain q g where g: "member_file w img (unat j) = Some (q, g)"
      using pool_live_member [OF pool_ready_live [OF assms(1)] j] by blast
    have same: "q = p \<Longrightarrow> j = i"
      using pool_live_distinct [OF pool_ready_live [OF assms(1)] j i(2), of p g f] g f(1) by (auto simp: word_unat_eq_iff)
    have "c \<noteq> b \<Longrightarrow> take 4096 (drop (unat c * 4096) ?D) = take 4096 (drop (unat c * 4096) (vf_data f))"
      using fits assms(3) by (intro put_bytes_read_other) (auto simp: nat_neq_iff word_unat_eq_iff)
    moreover have "take 4096 (drop (unat b * 4096) ?D) = d"
      using put_bytes_read_same [of d "unat b * 4096" "vf_data f"] assms(3) by fastforce
    ultimately show ?thesis
      using same g f(1)
      by (auto simp: phys_peek_def member_file_adv [OF w'(2)] member_file_set_data)
  qed
  ultimately show ?thesis
    using w'(1) i f(4)
    by (auto simp: aetherfs_image_write_physical_member_def aetherfs_member_write_block_def not_le)
qed

lemma phys_peek_length:
  assumes "pool_live img w" "phys_valid img c"
  shows "length (phys_peek img w c) = AETHERFS_DEF_BLOCK_SIZE"
proof -
  obtain i b where c: "c = (i, b)"
    by fastforce
  have i: "unat i < unat (img_member_count img)"
    and b: "unat b < 8 + unat (aetherfs_pool_member_data_blocks img (unat i))"
    using assms(2) c by (simp_all add: phys_valid_def word_less_nat_alt)
  obtain p f where "member_file w img (unat i) = Some (p, f)"
    "(8 + unat (aetherfs_pool_member_data_blocks img (unat i))) * 4096 \<le> length (vf_data f)"
    using pool_live_member [OF assms(1) i] by blast
  then show ?thesis
    using b c by (simp add: phys_peek_def)
qed

interpretation phys: block_store "pool_ready img" "phys_valid img" "phys_peek img"
  "\<lambda>(i, b). aetherfs_image_read_physical_member img i b"
  "\<lambda>(i, b) d. aetherfs_image_write_physical_member img i b d" for img
proof unfold_locales
  fix w and c :: "u32 \<times> u64" and d :: "byte list"
  assume w: "pool_ready img w" "phys_valid img c"
  obtain i b where c: "c = (i, b)"
    by fastforce
  show "\<exists>w'. (case c of (i, b) \<Rightarrow> aetherfs_image_read_physical_member img i b) w = (Inr (phys_peek img w c), w') \<and>
      pool_ready img w' \<and> (\<forall>c. phys_valid img c \<longrightarrow> phys_peek img w' c = phys_peek img w c)"
    using phys_read [OF pool_ready_live [OF w(1)] w(2) [unfolded c]] pool_ready_adv [OF _ w(1)] phys_peek_adv c
    by fastforce
  show "length (phys_peek img w c) = AETHERFS_DEF_BLOCK_SIZE"
    using pool_ready_live [OF w(1)] w(2) by (rule phys_peek_length)
  assume "length d = AETHERFS_DEF_BLOCK_SIZE"
  then show "\<exists>w'. (case c of (i, b) \<Rightarrow> aetherfs_image_write_physical_member img i b) d w = (Inr (), w') \<and>
      pool_ready img w' \<and>
      (\<forall>e. phys_valid img e \<longrightarrow> phys_peek img w' e = (if e = c then d else phys_peek img w e))"
    using phys_write [OF w [unfolded c]] c by simp
qed

section \<open>The role masks name members of the pool\<close>

definition pool_sized :: "image \<Rightarrow> bool" where
  "pool_sized img \<longleftrightarrow> 0 < img_member_count img \<and> unat (img_member_count img) \<le> AETHERFS_MAX_DEVICES"

lemma pool_live_sized: "pool_live img w \<Longrightarrow> pool_sized img"
  by (simp add: pool_live_def pool_sized_def)

lemma pool_ready_sized: "pool_ready img w \<Longrightarrow> pool_sized img"
  using pool_ready_live pool_live_sized by blast

lemma bit_limit_mask:
  assumes "pool_sized img"
  shows "bit (aetherfs_pool_member_limit_mask img) i \<longleftrightarrow> i < unat (img_member_count img)"
proof -
  have "\<not> 32 \<le> img_member_count img"
    using assms by (simp add: pool_sized_def word_le_nat_alt)
  moreover have "img_member_count img \<noteq> 0"
    using assms by (auto simp: pool_sized_def)
  ultimately have "aetherfs_pool_member_limit_mask img = mask (unat (img_member_count img))"
    by (simp add: aetherfs_pool_member_limit_mask_def mask_eq_exp_minus_1)
  moreover have "unat (img_member_count img) \<le> 32"
    using assms by (simp add: pool_sized_def)
  ultimately show ?thesis
    by (auto simp: bit_mask_iff)
qed

text \<open>Every role mask is a non-empty set of members.\<close>

definition member_mask :: "image \<Rightarrow> u32 \<Rightarrow> bool" where
  "member_mask img m \<longleftrightarrow> m \<noteq> 0 \<and> (\<forall>i. bit m i \<longrightarrow> i < unat (img_member_count img))"

lemma member_mask_default:
  assumes "pool_sized img"
  shows "member_mask img (let m = x AND aetherfs_pool_member_limit_mask img in
    if m = 0 \<and> img_member_count img > 0 then 1 else m)"
  using assms
  by (auto simp: member_mask_def Let_def bit_and_iff bit_limit_mask pool_sized_def bit_1_iff word_less_nat_alt)

lemma member_masks:
  assumes "pool_sized img"
  shows "member_mask img (aetherfs_pool_metadata_mask img)" "member_mask img (aetherfs_pool_data_mask img)"
    "member_mask img (aetherfs_pool_log_mask img)"
proof -
  show m: "member_mask img (aetherfs_pool_metadata_mask img)" "member_mask img (aetherfs_pool_data_mask img)"
    unfolding aetherfs_pool_metadata_mask_def aetherfs_pool_data_mask_def
    using assms by (simp_all only: member_mask_default)
  show "member_mask img (aetherfs_pool_log_mask img)"
    using m(1) assms
    by (auto simp: aetherfs_pool_log_mask_def Let_def member_mask_def bit_and_iff bit_limit_mask)
qed

lemma member_mask_role: "pool_sized img \<Longrightarrow> member_mask img (aetherfs_pool_role_mask_for_bootstrap_block img b)"
  by (simp add: aetherfs_pool_role_mask_for_bootstrap_block_def member_masks)

lemma mask_bits_member:
  assumes "pool_sized img" "member_mask img m"
  shows "set (mask_bits m) = {i. bit m i}" "mask_bits m \<noteq> []"
    "i \<in> set (mask_bits m) \<Longrightarrow> i < unat (img_member_count img)"
    "unat (aetherfs_mask_count m) = length (mask_bits m)"
proof -
  have small: "bit m i \<Longrightarrow> i < 8" for i
    using assms by (fastforce simp: member_mask_def pool_sized_def)
  then show s: "set (mask_bits m) = {i. bit m i}"
    by auto
  have "m \<noteq> 0"
    using assms(2) by (simp add: member_mask_def)
  then have "{i. bit m i} \<noteq> {}"
    by (auto simp: bit_eq_iff)
  then show "mask_bits m \<noteq> []"
    using s by force
  show "i \<in> set (mask_bits m) \<Longrightarrow> i < unat (img_member_count img)"
    using assms(2) by (auto simp: member_mask_def)
  have "[0..<8 + 24] = [0..<8] @ [8..<8 + 24::nat]"
    by (rule upt_add_eq_append) simp
  moreover have "filter (bit m) [8..<k] = []" for k
    using small by (fastforce simp: filter_empty_conv)
  ultimately have "filter (bit m) [0..<8 + 24] = mask_bits m"
    by (metis append_Nil2 filter_append)
  then show "unat (aetherfs_mask_count m) = length (mask_bits m)"
    using length_filter_le [of "bit m" "[0..<8]"]
    by (simp add: aetherfs_mask_count_def unat_of_nat)
qed

lemma mask_bits_nth_eq: "i < length (mask_bits m) \<Longrightarrow> j < length (mask_bits m) \<Longrightarrow>
    (of_nat (mask_bits m ! i) :: u32) = of_nat (mask_bits m ! j) \<longleftrightarrow> i = j"
proof -
  assume ij: "i < length (mask_bits m)" "j < length (mask_bits m)"
  have "mask_bits m ! k mod 4294967296 = mask_bits m ! k" if "k < length (mask_bits m)" for k
    using nth_mem [OF that] by auto
  then have "(of_nat (mask_bits m ! i) :: u32) = of_nat (mask_bits m ! j) \<longleftrightarrow> mask_bits m ! i = mask_bits m ! j"
    using ij by (fastforce simp: word_unat_eq_iff unat_of_nat)
  then show ?thesis
    using ij by (simp add: nth_eq_iff_index_eq)
qed

end
