(* ===== verification/Placement.thy ===== *)
theory Placement
  imports Pool
begin

text \<open>
  The placement functions of \<open>Pool\<close> in terms of natural numbers, and what makes them
  correct: every profile sends different logical blocks to different physical blocks
  inside the members, and the parity profile keeps the parity block of a row on a member
  of its own.
\<close>

section \<open>Word arithmetic as arithmetic\<close>

declare unat_ucast_u64 [simp]

lemma unat_relative: "8 \<le> (b :: u64) \<Longrightarrow> unat (b - 8) = unat b - 8"
  by (simp add: unat_sub)

lemma unat_lt_2p64: "unat (x :: u64) < 2 ^ 64"
  using unsigned_less [of x] by simp

text \<open>A product and a sum of words that stay below a word stay exact.\<close>

lemma unat_mult_le: "unat a * unat b \<le> unat (c :: u64) \<Longrightarrow> unat (a * b :: u64) = unat a * unat b"
  using unat_mult_lem [of a b] unat_lt_2p64 [of c] by simp

lemma unat_add_le: "unat a + unat b \<le> unat (c :: u64) \<Longrightarrow> unat (a + b :: u64) = unat a + unat b"
  using unat_add_lem [of a b] unat_lt_2p64 [of c] by simp

section \<open>Stripes\<close>

abbreviation data_bits :: "image \<Rightarrow> nat list" where
  "data_bits img \<equiv> mask_bits (aetherfs_pool_data_mask img)"

abbreviation stripe_len :: "image \<Rightarrow> nat" where
  "stripe_len img \<equiv> unat (pl_stripe_blocks (img_pool_label img))"

lemma data_members_length:
  "pool_sized img \<Longrightarrow> unat (aetherfs_mask_count (aetherfs_pool_data_mask img)) = length (data_bits img)"
  by (simp add: mask_bits_member(4) member_masks)

lemma data_bits_length: "length (data_bits img) \<le> 8"
  using length_filter_le [of "bit (aetherfs_pool_data_mask img)" "[0..<8]"] by simp

lemma map_stripe_spec:
  assumes "pool_sized img" "8 \<le> b" "aetherfs_pool_map_stripe img b = Inr m"
  defines "r \<equiv> unat b - 8" and "s \<equiv> stripe_len img" and "n \<equiv> length (data_bits img)"
  shows "0 < s" "0 < n" "mp_member_index m = of_nat (data_bits img ! (r div s mod n))"
    "unat (mp_member_block m) = 8 + (r div s div n) * s + r mod s"
    "mp_member_block m < 8 + aetherfs_pool_member_data_blocks img (data_bits img ! (r div s mod n))"
proof -
  let ?S = "ucast (pl_stripe_blocks (img_pool_label img)) :: u64"
  let ?N = "ucast (aetherfs_mask_count (aetherfs_pool_data_mask img)) :: u64"
  have N: "unat ?N = n"
    using data_members_length [OF assms(1)] by (simp add: n_def)
  have S: "unat ?S = s"
    by (simp add: s_def)
  have R: "unat (b - 8) = r"
    using unat_relative [OF assms(2)] by (simp add: r_def)
  have nz: "pl_stripe_blocks (img_pool_label img) \<noteq> 0" "aetherfs_mask_count (aetherfs_pool_data_mask img) \<noteq> 0"
    using assms(3) by (auto simp: aetherfs_pool_map_stripe_def Let_def split: if_splits)
  show s: "0 < s" and n: "0 < n"
    using nz N by (auto simp: s_def unat_gt_0 unat_eq_zero)
  have ord: "unat (ucast ((b - 8) div ?S mod ?N) :: u32) = r div s mod n"
    using N S R n data_bits_length [of img]
    by (subst unat_ucast_u32_small) (auto simp: unat_div unat_mod n_def intro: less_trans [OF mod_less_divisor])
  have q: "unat ((b - 8) div ?S div ?N * ?S) = (r div s div n) * s"
    using N S R by (subst unat_mult_le [of _ _ "b - 8"]) (auto simp: unat_div intro: order_trans [OF mult_le_mono1 [OF div_le_dividend]])
  have le: "(r div s div n) * s + r mod s \<le> r"
    by (metis add_le_mono1 div_le_dividend div_mult_mod_eq mult_le_mono1)
  have blk: "unat (8 + (b - 8) div ?S div ?N * ?S + (b - 8) mod ?S) = 8 + (r div s div n) * s + r mod s"
  proof -
    have "unat (8 + (b - 8) div ?S div ?N * ?S) = 8 + (r div s div n) * s"
      using le q assms(2) by (subst unat_add_le [of _ _ b]) (auto simp: r_def word_le_nat_alt)
    then show ?thesis
      using le R S assms(2) by (subst unat_add_le [of _ _ b]) (auto simp: unat_mod r_def word_le_nat_alt)
  qed
  have nth: "aetherfs_mask_nth (aetherfs_pool_data_mask img) (ucast ((b - 8) div ?S mod ?N))
      = Some (data_bits img ! (r div s mod n))"
    using ord n by (simp add: mask_nth_bits n_def)
  then show "mp_member_index m = of_nat (data_bits img ! (r div s mod n))"
    "unat (mp_member_block m) = 8 + (r div s div n) * s + r mod s"
    "mp_member_block m < 8 + aetherfs_pool_member_data_blocks img (data_bits img ! (r div s mod n))"
    using assms(3) nz blk by (auto simp: aetherfs_pool_map_stripe_def Let_def not_le split: if_splits)
qed

text \<open>The logical block is determined by the member ordinal and the block on it.\<close>

lemma stripe_invert: "0 < s \<Longrightarrow> 0 < n \<Longrightarrow>
    r = (((r div s div n) * s + r mod s) div s * n + r div s mod n) * s + ((r div s div n) * s + r mod s) mod s"
  for r s n :: nat
  by simp

lemma map_stripe_inj:
  assumes "pool_sized img" "8 \<le> a" "8 \<le> b"
    and "aetherfs_pool_map_stripe img a = Inr m" "aetherfs_pool_map_stripe img b = Inr m'"
    and "mp_member_index m = mp_member_index m'" "mp_member_block m = mp_member_block m'"
  shows "a = b"
proof -
  define s n where "s = stripe_len img" and "n = length (data_bits img)"
  define ra rb where "ra = unat a - 8" and "rb = unat b - 8"
  note A = map_stripe_spec [OF assms(1,2,4), folded s_def n_def ra_def]
  note B = map_stripe_spec [OF assms(1,3,5), folded s_def n_def rb_def]
  have "ra div s mod n = rb div s mod n"
    using A(2,3) B(3) assms(6) mask_bits_nth_eq [of "ra div s mod n" "aetherfs_pool_data_mask img" "rb div s mod n"]
    by (simp add: n_def)
  moreover have "(ra div s div n) * s + ra mod s = (rb div s div n) * s + rb mod s"
    using A(4) B(4) assms(7) by simp
  ultimately have "ra = rb"
    using stripe_invert [OF A(1,2), of ra] stripe_invert [OF A(1,2), of rb] by metis
  then show ?thesis
    using assms(2,3) by (simp add: ra_def rb_def word_le_nat_alt word_unat_eq_iff)
qed

section \<open>Parity rows\<close>

definition skip_ordinal :: "nat \<Rightarrow> nat \<Rightarrow> nat" where
  "skip_ordinal p d = (if p \<le> d then d + 1 else d)"

lemma skip_ordinal_neq: "skip_ordinal p d \<noteq> p"
  by (simp add: skip_ordinal_def)

lemma skip_ordinal_inj: "skip_ordinal p d = skip_ordinal p e \<longleftrightarrow> d = e"
  by (auto simp: skip_ordinal_def)

lemma map_parity_spec:
  assumes "pool_sized img" "8 \<le> b" "aetherfs_pool_map_parity img b = Inr m"
  defines "r \<equiv> unat b - 8" and "s \<equiv> stripe_len img" and "n \<equiv> length (data_bits img)"
  defines "row \<equiv> r div ((n - 1) * s)" and "pos \<equiv> r mod ((n - 1) * s)"
  defines "a \<equiv> skip_ordinal (row mod n) (pos div s)"
  shows "0 < s" "3 \<le> n" "a < n"
    "mp_member_index m = of_nat (data_bits img ! a)"
    "mp_parity_member_index m = of_nat (data_bits img ! (row mod n))"
    "unat (mp_member_block m) = 8 + row * s + pos mod s"
    "mp_member_block m < 8 + aetherfs_pool_member_data_blocks img (data_bits img ! a)"
    "mp_member_block m < 8 + aetherfs_pool_member_data_blocks img (data_bits img ! (row mod n))"
proof -
  let ?S = "ucast (pl_stripe_blocks (img_pool_label img)) :: u64"
  let ?C = "aetherfs_mask_count (aetherfs_pool_data_mask img)"
  let ?N = "ucast ?C :: u64"
  let ?W = "ucast (?C - 1) * ?S :: u64"
  let ?P = "ucast ((b - 8) div ?W mod ?N) :: u32"
  let ?D = "ucast ((b - 8) mod ?W div ?S) :: u32"
  have C: "unat ?C = n"
    using data_members_length [OF assms(1)] by (simp add: n_def)
  have n8: "n \<le> 8"
    using data_bits_length by (simp add: n_def)
  have S: "unat ?S = s" "s < 2 ^ 32"
    using unsigned_less [of "pl_stripe_blocks (img_pool_label img)"] by (simp_all add: s_def)
  have R: "unat (b - 8) = r"
    using unat_relative [OF assms(2)] by (simp add: r_def)
  have nz: "pl_stripe_blocks (img_pool_label img) \<noteq> 0" "\<not> ?C < 3"
    using assms(3) by (auto simp: aetherfs_pool_map_parity_def Let_def split: if_splits)
  show s: "0 < s" and n: "3 \<le> n"
    using nz C by (auto simp: s_def unat_gt_0 unat_eq_zero word_less_nat_alt)
  have "unat (?C - 1) = n - 1"
    using n C by (simp add: unat_sub word_le_nat_alt)
  moreover have "(n - 1) * s < 2 ^ 64"
  proof -
    have "(n - 1) * s \<le> 8 * 2 ^ 32"
      using n8 S(2) by (intro mult_le_mono) auto
    then show ?thesis by simp
  qed
  ultimately have W: "unat ?W = (n - 1) * s"
    using S by (subst unat_mult_lem [THEN iffD1]) auto
  have rowN: "row mod n < n"
    using n by simp
  have P: "unat ?P = row mod n"
    using W R C rowN n8
    by (subst unat_ucast_u32_small) (auto simp: unat_div unat_mod row_def)
  have pos: "pos < (n - 1) * s"
    using s n by (simp add: pos_def)
  then have dlt: "pos div s < n - 1"
    using s by (simp add: div_less_iff_less_mult mult.commute)
  have D: "unat ?D = pos div s"
    using W R S dlt n8
    by (subst unat_ucast_u32_small) (auto simp: unat_div unat_mod pos_def)
  have A: "unat (if ?P \<le> ?D then ?D + 1 else ?D) = a"
    using P D dlt n8 unat_add_lem [of ?D 1]
    by (auto simp: a_def skip_ordinal_def word_le_nat_alt)
  show a: "a < n"
    using dlt unfolding a_def skip_ordinal_def by auto
  have nths: "aetherfs_mask_nth (aetherfs_pool_data_mask img) (if ?P \<le> ?D then ?D + 1 else ?D) = Some (data_bits img ! a)"
    "aetherfs_mask_nth (aetherfs_pool_data_mask img) ?P = Some (data_bits img ! (row mod n))"
    using A P a rowN unfolding mask_nth_bits n_def [symmetric] by simp_all
  have le: "row * s + pos mod s \<le> r"
  proof -
    have "row * s \<le> row * ((n - 1) * s)"
      using n by (intro mult_le_mono2) (cases "n - 1", auto)
    moreover have "row * ((n - 1) * s) + pos = r"
      unfolding row_def pos_def by (rule div_mult_mod_eq)
    ultimately show ?thesis
      by (metis add_mono mod_less_eq_dividend)
  qed
  have Q: "unat ((b - 8) div ?W * ?S) = row * s"
    using W R S le by (subst unat_mult_le [of _ _ "b - 8"]) (auto simp: unat_div row_def)
  have "unat (8 + (b - 8) div ?W * ?S) = 8 + row * s"
    using Q le assms(2) by (subst unat_add_le [of _ _ b]) (auto simp: r_def word_le_nat_alt)
  then have blk: "unat (8 + (b - 8) div ?W * ?S + (b - 8) mod ?W mod ?S) = 8 + row * s + pos mod s"
    using le R S W assms(2)
    by (subst unat_add_le [of _ _ b]) (auto simp: unat_mod pos_def r_def word_le_nat_alt)
  show "mp_member_index m = of_nat (data_bits img ! a)"
    "mp_parity_member_index m = of_nat (data_bits img ! (row mod n))"
    "unat (mp_member_block m) = 8 + row * s + pos mod s"
    "mp_member_block m < 8 + aetherfs_pool_member_data_blocks img (data_bits img ! a)"
    "mp_member_block m < 8 + aetherfs_pool_member_data_blocks img (data_bits img ! (row mod n))"
    using assms(3) nz nths blk
    by (auto simp: aetherfs_pool_map_parity_def Let_def not_le split: if_splits)
qed

lemma parity_invert:
  "0 < s \<Longrightarrow> r = r div (k * s) * (k * s) + r mod (k * s) div s * s + r mod (k * s) mod s" for r s k :: nat
  by (metis add.assoc div_mult_mod_eq)

lemma map_parity_inj:
  assumes "pool_sized img" "8 \<le> a" "8 \<le> b"
    and "aetherfs_pool_map_parity img a = Inr m" "aetherfs_pool_map_parity img b = Inr m'"
    and "mp_member_index m = mp_member_index m'" "mp_member_block m = mp_member_block m'"
  shows "a = b"
proof -
  define s n where "s = stripe_len img" and "n = length (data_bits img)"
  define ra rb where "ra = unat a - 8" and "rb = unat b - 8"
  note A = map_parity_spec [OF assms(1,2,4), folded s_def n_def ra_def]
  note B = map_parity_spec [OF assms(1,3,5), folded s_def n_def rb_def]
  let ?row = "\<lambda>r. r div ((n - 1) * s)" and ?pos = "\<lambda>r. r mod ((n - 1) * s)"
  have x: "?row ra * s + ?pos ra mod s = ?row rb * s + ?pos rb mod s"
    using A(6) B(6) assms(7) by simp
  have row: "?row ra = ?row rb"
    using arg_cong [OF x, of "\<lambda>x. x div s"] A(1) by simp
  have win: "?pos ra mod s = ?pos rb mod s"
    using x row by simp
  have "skip_ordinal (?row ra mod n) (?pos ra div s) = skip_ordinal (?row rb mod n) (?pos rb div s)"
    using A(3,4) B(3,4) assms(6)
      mask_bits_nth_eq [of "skip_ordinal (?row ra mod n) (?pos ra div s)" "aetherfs_pool_data_mask img"
        "skip_ordinal (?row rb mod n) (?pos rb div s)"]
    by (simp add: n_def)
  then have "?pos ra div s = ?pos rb div s"
    using row by (simp add: skip_ordinal_inj)
  then have "ra = rb"
    using parity_invert [OF A(1), of ra "n - 1"] parity_invert [OF A(1), of rb "n - 1"] row win by metis
  then show ?thesis
    using assms(2,3) by (simp add: ra_def rb_def word_le_nat_alt word_unat_eq_iff)
qed

text \<open>No data block lies where a row keeps its parity.\<close>

lemma map_parity_disjoint:
  assumes "pool_sized img" "8 \<le> a" "8 \<le> b"
    and "aetherfs_pool_map_parity img a = Inr m" "aetherfs_pool_map_parity img b = Inr m'"
    and "mp_member_block m = mp_member_block m'"
  shows "mp_member_index m \<noteq> mp_parity_member_index m'"
    and "mp_parity_member_index m = mp_parity_member_index m'"
proof -
  define s n where "s = stripe_len img" and "n = length (data_bits img)"
  define ra rb where "ra = unat a - 8" and "rb = unat b - 8"
  note A = map_parity_spec [OF assms(1,2,4), folded s_def n_def ra_def]
  note B = map_parity_spec [OF assms(1,3,5), folded s_def n_def rb_def]
  let ?row = "\<lambda>r. r div ((n - 1) * s)" and ?pos = "\<lambda>r. r mod ((n - 1) * s)"
  have "?row ra * s + ?pos ra mod s = ?row rb * s + ?pos rb mod s"
    using A(6) B(6) assms(6) by simp
  from arg_cong [OF this, of "\<lambda>x. x div s"] have row: "?row ra = ?row rb"
    using A(1) by simp
  then show "mp_parity_member_index m = mp_parity_member_index m'"
    using A(5) B(5) by simp
  have "?row ra mod n < n"
    using A(2) by (intro mod_less_divisor) linarith
  then have "(of_nat (data_bits img ! skip_ordinal (?row ra mod n) (?pos ra div s)) :: u32)
      \<noteq> of_nat (data_bits img ! (?row ra mod n))"
    using mask_bits_nth_eq [OF A(3) [unfolded n_def], of "?row ra mod n"] skip_ordinal_neq
    unfolding n_def [symmetric] by blast
  then show "mp_member_index m \<noteq> mp_parity_member_index m'"
    using A(4) B(5) row by simp
qed

section \<open>Linear concatenation\<close>

lemma map_linear_loop_spec:
  assumes "map_linear_loop img is x = Inr m" "unat x + 8 < 2 ^ 64"
  shows "\<exists>k < length is. mp_member_index m = of_nat (is ! k) \<and>
    8 \<le> unat (mp_member_block m) \<and>
    unat x = (\<Sum>i \<leftarrow> take k is. unat (aetherfs_pool_member_data_blocks img i)) + (unat (mp_member_block m) - 8) \<and>
    unat (mp_member_block m) < 8 + unat (aetherfs_pool_member_data_blocks img (is ! k))"
  using assms
proof (induction "is" arbitrary: x)
  case (Cons i "is")
  let ?B = "aetherfs_pool_member_data_blocks img i"
  show ?case
  proof (cases "x < ?B")
    case True
    then have "unat (8 + x) = 8 + unat x"
      using Cons.prems(2) unat_add_lem [of 8 x] by simp
    then show ?thesis
      using True Cons.prems(1) by (intro exI [of _ 0]) (auto simp: Let_def word_less_nat_alt)
  next
    case False
    then have x: "unat (x - ?B) + unat ?B = unat x"
      by (simp add: unat_sub word_le_nat_alt not_less)
    have "map_linear_loop img is (x - ?B) = Inr m"
      using False Cons.prems(1) by (simp add: Let_def)
    from Cons.IH [OF this] obtain k where k: "k < length is" "mp_member_index m = of_nat (is ! k)"
      "8 \<le> unat (mp_member_block m)"
      "unat (x - ?B) = (\<Sum>i \<leftarrow> take k is. unat (aetherfs_pool_member_data_blocks img i)) + (unat (mp_member_block m) - 8)"
      "unat (mp_member_block m) < 8 + unat (aetherfs_pool_member_data_blocks img (is ! k))"
      using Cons.prems(2) x by auto
    then show ?thesis
      using x by (intro exI [of _ "Suc k"]) auto
  qed
qed simp

lemma map_linear_spec:
  assumes "pool_sized img" "8 \<le> b" "aetherfs_pool_map_linear img b = Inr m"
  shows "\<exists>k < length (data_bits img). mp_member_index m = of_nat (data_bits img ! k) \<and>
    8 \<le> unat (mp_member_block m) \<and>
    unat b - 8 = (\<Sum>i \<leftarrow> take k (data_bits img). unat (aetherfs_pool_member_data_blocks img i))
      + (unat (mp_member_block m) - 8) \<and>
    unat (mp_member_block m) < 8 + unat (aetherfs_pool_member_data_blocks img (data_bits img ! k))"
proof -
  have "unat (b - 8) + 8 < 2 ^ 64"
    using assms(2) unat_lt_2p64 [of b] by (simp add: unat_relative word_le_nat_alt)
  then show ?thesis
    using map_linear_loop_spec [of img "data_bits img" "b - 8" m] assms
    by (simp add: aetherfs_pool_map_linear_def mask_members_bits unat_relative)
qed

lemma map_linear_inj:
  assumes "pool_sized img" "8 \<le> a" "8 \<le> b"
    and "aetherfs_pool_map_linear img a = Inr m" "aetherfs_pool_map_linear img b = Inr m'"
    and "mp_member_index m = mp_member_index m'" "mp_member_block m = mp_member_block m'"
  shows "a = b"
proof -
  obtain j where j: "j < length (data_bits img)" "mp_member_index m = of_nat (data_bits img ! j)"
    "unat a - 8 = (\<Sum>i \<leftarrow> take j (data_bits img). unat (aetherfs_pool_member_data_blocks img i)) + (unat (mp_member_block m) - 8)"
    using map_linear_spec [OF assms(1,2,4)] by blast
  obtain k where k: "k < length (data_bits img)" "mp_member_index m' = of_nat (data_bits img ! k)"
    "unat b - 8 = (\<Sum>i \<leftarrow> take k (data_bits img). unat (aetherfs_pool_member_data_blocks img i)) + (unat (mp_member_block m') - 8)"
    using map_linear_spec [OF assms(1,3,5)] by blast
  have "j = k"
    using mask_bits_nth_eq [OF j(1) k(1)] j(2) k(2) assms(6) by simp
  then have "unat a - 8 = unat b - 8"
    using j(3) k(3) assms(7) by simp
  then show ?thesis
    using assms(2,3) by (simp add: word_le_nat_alt word_unat_eq_iff)
qed

text \<open>A linear pool places exactly as many blocks as its data members hold.\<close>

lemma map_linear_loop_total:
  "(\<exists>m. map_linear_loop img is x = Inr m) \<longleftrightarrow>
    unat x < (\<Sum>i \<leftarrow> is. unat (aetherfs_pool_member_data_blocks img i))"
proof (induction "is" arbitrary: x)
  case (Cons i "is")
  let ?B = "aetherfs_pool_member_data_blocks img i"
  show ?case
  proof (cases "x < ?B")
    case False
    then have "unat (x - ?B) + unat ?B = unat x"
      by (simp add: unat_sub word_le_nat_alt not_less)
    then show ?thesis
      using False Cons.IH [of "x - ?B"] by (auto simp: Let_def)
  qed (auto simp: Let_def word_less_nat_alt)
qed simp

end
