(* ===== verification/Image_Store.thy ===== *)
theory Image_Store
  imports Placement
begin

text \<open>
  The logical blocks of an opened image form a block store: on a ready pool of any
  profile, \<open>aetherfs_image_read_block\<close> returns what the last
  \<open>aetherfs_image_write_block\<close> of that block wrote, and a write disturbs no other
  logical block.  Mirrored members stay equal and parity rows stay consistent.
\<close>

section \<open>Where a logical block is read from\<close>

definition log_loc :: "image \<Rightarrow> u64 \<Rightarrow> (u32 \<times> u64) option" where
  "log_loc img b =
    (if b < AETHERFS_DATA_START_BLOCK
     then map_option (\<lambda>i. (of_nat i, b)) (aetherfs_mask_first (aetherfs_pool_role_mask_for_bootstrap_block img b))
     else case aetherfs_pool_map_data_block img b of
       Inr m \<Rightarrow> Some (mp_member_index m, mp_member_block m) | Inl _ \<Rightarrow> None)"

text \<open>The mirror profile places every block; the members must be large enough for it.\<close>

definition log_valid :: "image \<Rightarrow> u64 \<Rightarrow> bool" where
  "log_valid img b \<longleftrightarrow> log_loc img b \<noteq> None \<and>
    (AETHERFS_DATA_START_BLOCK \<le> b \<and> aetherfs_pool_profile img = AETHERFS_POOL_PROFILE_MIRROR \<longrightarrow>
      (\<forall>i \<in> set (data_bits img). unat b < 8 + unat (aetherfs_pool_member_data_blocks img i)))"

definition log_peek :: "image \<Rightarrow> world \<Rightarrow> u64 \<Rightarrow> byte list" where
  "log_peek img w b = (case log_loc img b of Some c \<Rightarrow> phys_peek img w c | None \<Rightarrow> [])"

lemma log_peek_adv: "sched_adv w w' \<Longrightarrow> log_peek img w' b = log_peek img w b"
  by (simp add: log_peek_def phys_peek_adv split: option.split)

lemma unat_member_index: "pool_sized img \<Longrightarrow> i < unat (img_member_count img) \<Longrightarrow> unat (of_nat i :: u32) = i"
  by (simp add: pool_sized_def unat_of_nat)

lemma member_index_less:
  "pool_sized img \<Longrightarrow> i < unat (img_member_count img) \<Longrightarrow> (of_nat i :: u32) < img_member_count img"
  by (simp add: word_less_nat_alt unat_member_index)

lemma phys_validI:
  assumes "pool_sized img" "i < unat (img_member_count img)"
    and "unat b < 8 + unat (aetherfs_pool_member_data_blocks img i)"
  shows "phys_valid img (of_nat i, b)"
  using assms by (simp add: phys_valid_def unat_member_index member_index_less)

lemma data_bits_member: "pool_sized img \<Longrightarrow> i \<in> set (data_bits img) \<Longrightarrow> i < unat (img_member_count img)"
  using mask_bits_member(3) member_masks(2) by blast

lemma less_data_end: "a < 8 + c \<Longrightarrow> unat a < 8 + unat (c :: u64)"
  unfolding word_less_nat_alt unat_word_ariths
  by (rule order_less_le_trans, assumption) (simp add: order_trans [OF mod_less_eq_dividend])

text \<open>What the profiles have in common.\<close>

lemma map_data_block_spec:
  assumes "pool_sized img" "8 \<le> b" "aetherfs_pool_map_data_block img b = Inr m" "log_valid img b"
  shows "phys_valid img (mp_member_index m, mp_member_block m)" "8 \<le> mp_member_block m"
proof -
  have *: "phys_valid img (of_nat (data_bits img ! k), c) \<and> 8 \<le> c"
    if "k < length (data_bits img)" "8 \<le> unat c"
      "unat c < 8 + unat (aetherfs_pool_member_data_blocks img (data_bits img ! k))" for k c
    using that assms(1) data_bits_member [OF assms(1) nth_mem [OF that(1)]]
    by (simp add: word_le_nat_alt phys_validI)
  let ?p = "aetherfs_pool_profile img"
  consider "?p = 0 \<or> ?p = 4" "aetherfs_pool_map_linear img b = Inr m"
    | "?p = 1" "aetherfs_pool_map_mirror img b = Inr m"
    | "?p = 2" "aetherfs_pool_map_stripe img b = Inr m"
    | "?p = 3" "aetherfs_pool_map_parity img b = Inr m"
    using assms(3) by (auto simp: aetherfs_pool_map_data_block_def Let_def split: if_splits)
  then have "phys_valid img (mp_member_index m, mp_member_block m) \<and> 8 \<le> mp_member_block m"
  proof cases
    case 1
    then show ?thesis
      using map_linear_spec [OF assms(1,2), of m] * by auto
  next
    case 2
    obtain i js where i: "data_bits img = i # js"
      using mask_bits_member(2) [OF assms(1) member_masks(2) [OF assms(1)]] by (cases "data_bits img") auto
    then have "m = \<lparr>mp_member_index = of_nat i, mp_parity_member_index = - 1, mp_member_block = b\<rparr>"
      using 2(2) by (simp add: aetherfs_pool_map_mirror_def mask_first_bits)
    moreover have "phys_valid img (of_nat i, b)"
      using assms(1,2,4) 2(1) i data_bits_member [OF assms(1), of i]
      by (intro phys_validI) (auto simp: log_valid_def)
    ultimately show ?thesis
      using assms(2) by simp
  next
    case 3
    note S = map_stripe_spec [OF assms(1,2) 3(2)]
    have "8 \<le> unat (mp_member_block m)"
      unfolding S(4) by (simp only: add.assoc le_add1)
    then show ?thesis
      using * [OF mod_less_divisor [OF S(2)] _ less_data_end [OF S(5)]] unfolding S(3) by blast
  next
    case 4
    note S = map_parity_spec [OF assms(1,2) 4(2)]
    have "8 \<le> unat (mp_member_block m)"
      unfolding S(6) by (simp only: add.assoc le_add1)
    then show ?thesis
      using * [OF S(3) _ less_data_end [OF S(7)]] unfolding S(4) by blast
  qed
  then show "phys_valid img (mp_member_index m, mp_member_block m)" "8 \<le> mp_member_block m"
    by simp_all
qed

lemma map_data_block_inj:
  assumes "pool_sized img" "8 \<le> a" "8 \<le> b"
    and "aetherfs_pool_map_data_block img a = Inr m" "aetherfs_pool_map_data_block img b = Inr m'"
    and "mp_member_index m = mp_member_index m'" "mp_member_block m = mp_member_block m'"
  shows "a = b"
proof -
  have mirror: "aetherfs_pool_map_mirror img a = Inr m \<Longrightarrow> aetherfs_pool_map_mirror img b = Inr m' \<Longrightarrow> a = b"
    using assms(7) by (auto simp: aetherfs_pool_map_mirror_def split: option.splits)
  show ?thesis
    using assms(4,5) mirror map_linear_inj [OF assms(1-3) _ _ assms(6,7)] map_stripe_inj [OF assms(1-3) _ _ assms(6,7)]
      map_parity_inj [OF assms(1-3) _ _ assms(6,7)]
    by (simp add: aetherfs_pool_map_data_block_def Let_def split: if_splits)
qed

lemma log_loc_bootstrap:
  assumes "pool_sized img" "b < 8"
  obtains i js where "mask_bits (aetherfs_pool_role_mask_for_bootstrap_block img b) = i # js"
    "log_loc img b = Some (of_nat i, b)"
proof -
  obtain i js where "mask_bits (aetherfs_pool_role_mask_for_bootstrap_block img b) = i # js"
    using mask_bits_member(2) [OF assms(1) member_mask_role [OF assms(1)]]
    by (cases "mask_bits (aetherfs_pool_role_mask_for_bootstrap_block img b)") auto
  then show ?thesis
    using that assms(2) by (simp add: log_loc_def mask_first_bits)
qed

lemma bootstrap_phys_valid:
  assumes "pool_sized img" "b < 8" "i \<in> set (mask_bits (aetherfs_pool_role_mask_for_bootstrap_block img b))"
  shows "phys_valid img (of_nat i, b)"
  using assms mask_bits_member(3) [OF assms(1) member_mask_role [OF assms(1)]]
  by (intro phys_validI) (auto simp: word_less_nat_alt)

lemma log_loc_valid:
  assumes "pool_sized img" "log_valid img b" "log_loc img b = Some c"
  shows "phys_valid img c" "snd c < 8 \<longleftrightarrow> b < 8"
proof -
  have "phys_valid img c \<and> (snd c < 8 \<longleftrightarrow> b < 8)"
  proof (cases "b < 8")
    case True
    obtain i js where "mask_bits (aetherfs_pool_role_mask_for_bootstrap_block img b) = i # js"
      "log_loc img b = Some (of_nat i, b)"
      using log_loc_bootstrap [OF assms(1) True] by blast
    then show ?thesis
      using bootstrap_phys_valid [OF assms(1) True, of i] assms(3) True by simp
  next
    case False
    then show ?thesis
      using assms map_data_block_spec [OF assms(1), of b]
      by (auto simp: log_loc_def not_less split: sum.splits if_splits)
  qed
  then show "phys_valid img c" "snd c < 8 \<longleftrightarrow> b < 8"
    by simp_all
qed

lemma log_loc_inj:
  assumes "pool_sized img" "log_valid img a" "log_valid img b" "log_loc img a = log_loc img b"
  shows "a = b"
proof -
  obtain c where c: "log_loc img a = Some c" "log_loc img b = Some c"
    using assms(2,4) by (auto simp: log_valid_def)
  show ?thesis
  proof (cases "a < 8")
    case True
    then have "b < 8"
      using log_loc_valid(2) [OF assms(1,2) c(1)] log_loc_valid(2) [OF assms(1,3) c(2)] by simp
    then show ?thesis
      using True c by (auto simp: log_loc_def)
  next
    case False
    then have "\<not> b < 8"
      using log_loc_valid(2) [OF assms(1,2) c(1)] log_loc_valid(2) [OF assms(1,3) c(2)] by simp
    then show ?thesis
      using False c map_data_block_inj [OF assms(1), of a b]
      by (auto simp: log_loc_def split: sum.splits)
  qed
qed

section \<open>Reading and writing\<close>

lemma log_read:
  assumes "pool_live img w" "log_valid img b"
  shows "\<exists>w'. aetherfs_image_read_block img b w = (Inr (log_peek img w b), w') \<and> sched_adv w w'"
proof -
  have sized: "pool_sized img"
    using assms(1) by (rule pool_live_sized)
  show ?thesis
  proof (cases "b < 8")
    case True
    obtain i js where i: "mask_bits (aetherfs_pool_role_mask_for_bootstrap_block img b) = i # js"
      "log_loc img b = Some (of_nat i, b)"
      using log_loc_bootstrap [OF sized True] by blast
    then have "phys_valid img (of_nat i, b)"
      using bootstrap_phys_valid [OF sized True, of i] by simp
    from phys_read [OF assms(1) this] show ?thesis
      using True i by (auto simp: aetherfs_image_read_block_def mask_members_bits log_peek_def)
  next
    case False
    then obtain m where m: "aetherfs_pool_map_data_block img b = Inr m"
      using assms(2) by (auto simp: log_valid_def log_loc_def split: sum.splits)
    then have loc: "log_loc img b = Some (mp_member_index m, mp_member_block m)"
      using False by (simp add: log_loc_def)
    from phys_read [OF assms(1) log_loc_valid(1) [OF sized assms(2) loc]] show ?thesis
      using False m loc by (auto simp: aetherfs_image_read_block_def log_peek_def)
  qed
qed

lemma write_members_ok:
  assumes "pool_ready img w" "\<forall>i \<in> set js. phys_valid img (of_nat i, b)" "length d = AETHERFS_DEF_BLOCK_SIZE"
  shows "\<exists>w'. write_members img b d js w = (Inr (), w') \<and> pool_ready img w' \<and>
    (\<forall>c. phys_valid img c \<longrightarrow>
       phys_peek img w' c = (if snd c = b \<and> fst c \<in> of_nat ` set js then d else phys_peek img w c))"
  using assms(1,2)
proof (induction js arbitrary: w)
  case Nil
  then show ?case
    by (simp add: write_members_def)
next
  case (Cons i js)
  obtain w1 where 1: "aetherfs_image_write_physical_member img (of_nat i) b d w = (Inr (), w1)" "pool_ready img w1"
    "\<forall>c. phys_valid img c \<longrightarrow> phys_peek img w1 c = (if c = (of_nat i, b) then d else phys_peek img w c)"
    using phys_write [OF Cons.prems(1), of "of_nat i" b d] Cons.prems(2) assms(3) by auto
  obtain w2 where 2: "write_members img b d js w1 = (Inr (), w2)" "pool_ready img w2"
    "\<forall>c. phys_valid img c \<longrightarrow>
       phys_peek img w2 c = (if snd c = b \<and> fst c \<in> of_nat ` set js then d else phys_peek img w1 c)"
    using Cons.IH [OF 1(2)] Cons.prems(2) by auto
  have "write_members img b d (i # js) w = (Inr (), w2)"
    using 1(1) 2(1) by (simp add: write_members_def bindE_run_Inr)
  moreover have "phys_peek img w2 c = (if snd c = b \<and> fst c \<in> of_nat ` set (i # js) then d else phys_peek img w c)"
    if "phys_valid img c" for c
    using that 1(3) 2(3) by (cases c) auto
  ultimately show ?case
    using 2(2) by blast
qed

text \<open>
  A write of a logical block that leaves its location with the new contents, and touches
  besides it only physical blocks that no other logical block is read from.
\<close>

lemma log_write_frame:
  assumes "pool_sized img" "log_valid img b" "log_loc img b = Some l"
    and "\<forall>c. phys_valid img c \<longrightarrow> c \<notin> T \<longrightarrow> phys_peek img w' c = phys_peek img w c"
    and "phys_peek img w' l = d"
    and "\<And>a c. log_valid img a \<Longrightarrow> log_loc img a = Some c \<Longrightarrow> a \<noteq> b \<Longrightarrow> c \<notin> T"
  shows "\<forall>c. log_valid img c \<longrightarrow> log_peek img w' c = (if c = b then d else log_peek img w c)"
proof (intro allI impI)
  fix c assume c: "log_valid img c"
  then obtain k where k: "log_loc img c = Some k"
    by (auto simp: log_valid_def)
  show "log_peek img w' c = (if c = b then d else log_peek img w c)"
  proof (cases "c = b")
    case False
    have "phys_peek img w' k = phys_peek img w k"
      using assms(4) assms(6) [OF c k False] log_loc_valid(1) [OF assms(1) c k] by blast
    then show ?thesis
      using False k by (simp add: log_peek_def)
  qed (use assms(3,5) in \<open>simp add: log_peek_def\<close>)
qed

definition write_ok :: "image \<Rightarrow> u64 \<Rightarrow> byte list \<Rightarrow> world \<Rightarrow> bool" where
  "write_ok img b d w \<longleftrightarrow> (\<exists>w'. aetherfs_image_write_block img b d w = (Inr (), w') \<and> pool_ready img w' \<and>
    (\<forall>c. log_valid img c \<longrightarrow> log_peek img w' c = (if c = b then d else log_peek img w c)))"

lemma write_bootstrap:
  assumes "pool_ready img w" "log_valid img b" "b < 8" "length d = AETHERFS_DEF_BLOCK_SIZE"
  shows "write_ok img b d w"
proof -
  have sized: "pool_sized img" and wr: "img_writable img"
    using assms(1) by (auto simp: pool_ready_sized) (simp add: pool_ready_def)
  let ?m = "aetherfs_pool_role_mask_for_bootstrap_block img b"
  obtain i js where i: "mask_bits ?m = i # js" "log_loc img b = Some (of_nat i, b)"
    using log_loc_bootstrap [OF sized assms(3)] by blast
  have "\<forall>i \<in> set (mask_bits ?m). phys_valid img (of_nat i, b)"
    using bootstrap_phys_valid [OF sized assms(3)] by blast
  then obtain w' where w': "write_members img b d (mask_bits ?m) w = (Inr (), w')" "pool_ready img w'"
    "\<forall>c. phys_valid img c \<longrightarrow>
       phys_peek img w' c = (if snd c = b \<and> fst c \<in> of_nat ` set (mask_bits ?m) then d else phys_peek img w c)"
    using write_members_ok [OF assms(1) _ assms(4)] by blast
  have "?m \<noteq> 0"
    using member_mask_role [OF sized] by (auto simp: member_mask_def)
  then have run: "aetherfs_image_write_block img b d w = (Inr (), w')"
    using w'(1) wr assms(3) by (simp add: aetherfs_image_write_block_def mask_members_bits Let_def)
  have "\<forall>c. log_valid img c \<longrightarrow> log_peek img w' c = (if c = b then d else log_peek img w c)"
  proof (rule log_write_frame [OF sized assms(2) i(2), where T = "{c. snd c = b}"])
    show "\<forall>c. phys_valid img c \<longrightarrow> c \<notin> {c. snd c = b} \<longrightarrow> phys_peek img w' c = phys_peek img w c"
      using w'(3) by simp
    show "phys_peek img w' (of_nat i, b) = d"
      using w'(3) i(1) bootstrap_phys_valid [OF sized assms(3), of i] by simp
    show "c \<notin> {c. snd c = b}" if "log_valid img a" "log_loc img a = Some c" "a \<noteq> b" for a c
    proof (cases "a < 8")
      case True
      then show ?thesis
        using that by (auto simp: log_loc_def)
    qed (use that log_loc_valid(2) [OF sized that(1,2)] assms(3) in auto)
  qed
  then show ?thesis
    unfolding write_ok_def using run w'(2) by blast
qed

lemma write_direct:
  assumes "pool_ready img w" "log_valid img b" "\<not> b < 8" "length d = AETHERFS_DEF_BLOCK_SIZE"
    and "aetherfs_pool_profile img \<in> {0, 2, 4}"
  shows "write_ok img b d w"
proof -
  have sized: "pool_sized img" and wr: "img_writable img"
    using assms(1) by (auto simp: pool_ready_sized) (simp add: pool_ready_def)
  obtain m where m: "aetherfs_pool_map_data_block img b = Inr m"
    using assms(2,3) by (auto simp: log_valid_def log_loc_def split: sum.splits)
  let ?l = "(mp_member_index m, mp_member_block m)"
  have loc: "log_loc img b = Some ?l"
    using assms(3) m by (simp add: log_loc_def)
  obtain w' where w': "aetherfs_image_write_physical_member img (mp_member_index m) (mp_member_block m) d w = (Inr (), w')"
    "pool_ready img w'" "\<forall>c. phys_valid img c \<longrightarrow> phys_peek img w' c = (if c = ?l then d else phys_peek img w c)"
    using phys_write [OF assms(1) log_loc_valid(1) [OF sized assms(2) loc] assms(4)] by blast
  have run: "aetherfs_image_write_block img b d w = (Inr (), w')"
    using w'(1) wr assms(3,5) m by (auto simp: aetherfs_image_write_block_def Let_def)
  have "\<forall>c. log_valid img c \<longrightarrow> log_peek img w' c = (if c = b then d else log_peek img w c)"
  proof (rule log_write_frame [OF sized assms(2) loc, where T = "{?l}"])
    show "\<forall>c. phys_valid img c \<longrightarrow> c \<notin> {?l} \<longrightarrow> phys_peek img w' c = phys_peek img w c"
      using w'(3) by auto
    show "phys_peek img w' ?l = d"
      using w'(3) log_loc_valid(1) [OF sized assms(2) loc] by simp
    show "c \<notin> {?l}" if "log_valid img a" "log_loc img a = Some c" "a \<noteq> b" for a c
      using log_loc_inj [OF sized that(1) assms(2)] that loc by auto
  qed
  then show ?thesis
    unfolding write_ok_def using run w'(2) by blast
qed

lemma write_mirror:
  assumes "pool_ready img w" "log_valid img b" "\<not> b < 8" "length d = AETHERFS_DEF_BLOCK_SIZE"
    and "aetherfs_pool_profile img = AETHERFS_POOL_PROFILE_MIRROR"
  shows "write_ok img b d w"
proof -
  have sized: "pool_sized img" and wr: "img_writable img"
    using assms(1) by (auto simp: pool_ready_sized) (simp add: pool_ready_def)
  obtain i js where i: "data_bits img = i # js"
    using mask_bits_member(2) [OF sized member_masks(2) [OF sized]] by (cases "data_bits img") auto
  let ?m = "\<lambda>b. \<lparr>mp_member_index = of_nat i, mp_parity_member_index = - 1, mp_member_block = b\<rparr> :: pool_mapping"
  have m: "aetherfs_pool_map_data_block img a = Inr (?m a)" for a
    using i assms(5) by (simp add: aetherfs_pool_map_data_block_def aetherfs_pool_map_mirror_def mask_first_bits)
  have loc: "\<not> a < 8 \<Longrightarrow> log_loc img a = Some (of_nat i, a)" for a
    using m [of a] by (simp add: log_loc_def)
  have "\<forall>k \<in> set (data_bits img). phys_valid img (of_nat k, b)"
    using assms(2,3,5) data_bits_member [OF sized] by (auto simp: log_valid_def not_less intro!: phys_validI [OF sized])
  then obtain w' where w': "write_members img b d (data_bits img) w = (Inr (), w')" "pool_ready img w'"
    "\<forall>c. phys_valid img c \<longrightarrow>
       phys_peek img w' c = (if snd c = b \<and> fst c \<in> of_nat ` set (data_bits img) then d else phys_peek img w c)"
    using write_members_ok [OF assms(1) _ assms(4)] by blast
  have run: "aetherfs_image_write_block img b d w = (Inr (), w')"
    using w'(1) wr assms(3,5) m [of b] by (simp add: aetherfs_image_write_block_def mask_members_bits Let_def)
  have "\<forall>c. log_valid img c \<longrightarrow> log_peek img w' c = (if c = b then d else log_peek img w c)"
  proof (rule log_write_frame [OF sized assms(2) loc [OF assms(3)], where T = "{c. snd c = b}"])
    show "\<forall>c. phys_valid img c \<longrightarrow> c \<notin> {c. snd c = b} \<longrightarrow> phys_peek img w' c = phys_peek img w c"
      using w'(3) by simp
    show "phys_peek img w' (of_nat i, b) = d"
      using w'(3) i log_loc_valid(1) [OF sized assms(2) loc [OF assms(3)]] by simp
    show "c \<notin> {c. snd c = b}" if "log_valid img a" "log_loc img a = Some c" "a \<noteq> b" for a c
      using that log_loc_valid(2) [OF sized that(1,2)] assms(3) loc [of a] by auto
  qed
  then show ?thesis
    unfolding write_ok_def using run w'(2) by blast
qed

lemma length_xor_bytes [simp]: "length (xor_bytes a b) = min (length a) (length b)"
  by (simp add: xor_bytes_def)

lemma write_parity:
  assumes "pool_ready img w" "log_valid img b" "\<not> b < 8" "length d = AETHERFS_DEF_BLOCK_SIZE"
    and "aetherfs_pool_profile img = AETHERFS_POOL_PROFILE_PARITY"
    and "aetherfs_pool_map_parity img b = Inr m"
  defines "l \<equiv> (mp_member_index m, mp_member_block m)" and "q \<equiv> (mp_parity_member_index m, mp_member_block m)"
  shows "phys_valid img l" "phys_valid img q" "l \<noteq> q"
    "\<exists>w'. aetherfs_image_write_block img b d w = (Inr (), w') \<and> pool_ready img w' \<and>
      (\<forall>c. phys_valid img c \<longrightarrow> phys_peek img w' c = (if c = l then d
         else if c = q then xor_bytes (xor_bytes (phys_peek img w q) (phys_peek img w l)) d
         else phys_peek img w c))"
proof -
  have sized: "pool_sized img" and wr: "img_writable img"
    using assms(1) by (auto simp: pool_ready_sized) (simp add: pool_ready_def)
  have b8: "8 \<le> b"
    using assms(3) by (simp add: not_less)
  note S = map_parity_spec [OF sized b8 assms(6)]
  have m: "aetherfs_pool_map_data_block img b = Inr m"
    using assms(5,6) by (simp add: aetherfs_pool_map_data_block_def)
  have loc: "log_loc img b = Some l"
    using assms(3) m by (simp add: log_loc_def l_def)
  show vl: "phys_valid img l"
    using log_loc_valid(1) [OF sized assms(2) loc] .
  show vq: "phys_valid img q"
  proof -
    have lt: "(unat b - 8) div ((length (data_bits img) - 1) * stripe_len img) mod length (data_bits img) < length (data_bits img)"
      using S(2) by (intro mod_less_divisor) linarith
    show ?thesis
      unfolding q_def S(5)
      using less_data_end [OF S(8)] data_bits_member [OF sized nth_mem [OF lt]]
      by (rule phys_validI [OF sized, rotated])
  qed
  show "l \<noteq> q"
    using map_parity_disjoint(1) [OF sized b8 b8 assms(6,6) refl] by (simp add: l_def q_def)
  obtain w1 where 1: "aetherfs_image_read_physical_member img (fst l) (snd l) w = (Inr (phys_peek img w l), w1)"
    "sched_adv w w1"
    using phys_read [OF pool_ready_live [OF assms(1)], of "fst l" "snd l"] vl by auto
  have r1: "pool_ready img w1"
    using pool_ready_adv [OF 1(2) assms(1)] .
  obtain w2 where 2: "aetherfs_image_read_physical_member img (fst q) (snd q) w1 = (Inr (phys_peek img w q), w2)"
    "sched_adv w1 w2"
    using phys_read [OF pool_ready_live [OF r1], of "fst q" "snd q"] vq phys_peek_adv [OF 1(2)] by auto
  have r2: "pool_ready img w2" and p2: "phys_peek img w2 = phys_peek img w"
    using pool_ready_adv [OF 2(2) r1] phys_peek_adv [OF 1(2)] phys_peek_adv [OF 2(2)] by simp_all
  let ?x = "xor_bytes (xor_bytes (phys_peek img w q) (phys_peek img w l)) d"
  have lx: "length ?x = AETHERFS_DEF_BLOCK_SIZE"
    using phys_peek_length [OF pool_ready_live [OF assms(1)] vl] phys_peek_length [OF pool_ready_live [OF assms(1)] vq] assms(4) by simp
  obtain w3 where 3: "aetherfs_image_write_physical_member img (fst q) (snd q) ?x w2 = (Inr (), w3)" "pool_ready img w3"
    "\<forall>c. phys_valid img c \<longrightarrow> phys_peek img w3 c = (if c = q then ?x else phys_peek img w c)"
    using phys_write [OF r2, of "fst q" "snd q", OF _ lx] vq p2 by auto
  obtain w4 where 4: "aetherfs_image_write_physical_member img (fst l) (snd l) d w3 = (Inr (), w4)" "pool_ready img w4"
    "\<forall>c. phys_valid img c \<longrightarrow> phys_peek img w4 c = (if c = l then d else phys_peek img w3 c)"
    using phys_write [OF 3(2), of "fst l" "snd l", OF _ assms(4)] vl by auto
  have "aetherfs_image_write_block img b d w = (Inr (), w4)"
    using 1(1) 2(1) 3(1) 4(1) wr assms(3,5) m
    by (simp add: aetherfs_image_write_block_def Let_def bindE_run_Inr l_def q_def)
  moreover have "phys_peek img w4 c = (if c = l then d else if c = q then ?x else phys_peek img w c)"
    if "phys_valid img c" for c
    using 3(3) [rule_format, OF that] 4(3) [rule_format, OF that] by simp
  ultimately show "\<exists>w'. aetherfs_image_write_block img b d w = (Inr (), w') \<and> pool_ready img w' \<and>
      (\<forall>c. phys_valid img c \<longrightarrow> phys_peek img w' c = (if c = l then d else if c = q then ?x else phys_peek img w c))"
    using 4(2) by blast
qed

lemma log_write:
  assumes "pool_ready img w" "log_valid img b" "length d = AETHERFS_DEF_BLOCK_SIZE"
  shows "write_ok img b d w"
proof -
  have sized: "pool_sized img"
    using assms(1) by (rule pool_ready_sized)
  let ?p = "aetherfs_pool_profile img"
  consider "b < 8" | "\<not> b < 8" "?p \<in> {0, 2, 4}" | "\<not> b < 8" "?p = 1"
    | m where "\<not> b < 8" "?p = 3" "aetherfs_pool_map_parity img b = Inr m"
    using assms(2)
    by (auto simp: log_valid_def log_loc_def aetherfs_pool_map_data_block_def Let_def split: sum.splits if_splits)
  then show ?thesis
  proof cases
    case (4 m)
    let ?l = "(mp_member_index m, mp_member_block m)" and ?q = "(mp_parity_member_index m, mp_member_block m)"
    note P = write_parity [OF assms(1,2) 4(1) assms(3) 4(2,3)]
    obtain w' where w': "aetherfs_image_write_block img b d w = (Inr (), w')" "pool_ready img w'"
      "\<forall>c. phys_valid img c \<longrightarrow> phys_peek img w' c = (if c = ?l then d
         else if c = ?q then xor_bytes (xor_bytes (phys_peek img w ?q) (phys_peek img w ?l)) d
         else phys_peek img w c)"
      using P(4) by blast
    have map_eq: "\<not> a < 8 \<Longrightarrow> aetherfs_pool_map_data_block img a = aetherfs_pool_map_parity img a" for a
      using 4(2) by (simp add: aetherfs_pool_map_data_block_def)
    have loc: "log_loc img b = Some ?l"
      using 4 map_eq by (simp add: log_loc_def)
    have "\<forall>c. log_valid img c \<longrightarrow> log_peek img w' c = (if c = b then d else log_peek img w c)"
    proof (rule log_write_frame [OF sized assms(2) loc, where T = "{?l, ?q}"])
      show "\<forall>c. phys_valid img c \<longrightarrow> c \<notin> {?l, ?q} \<longrightarrow> phys_peek img w' c = phys_peek img w c"
        using w'(3) by auto
      show "phys_peek img w' ?l = d"
        using w'(3) P(1) by simp
      show "c \<notin> {?l, ?q}" if a: "log_valid img a" "log_loc img a = Some c" "a \<noteq> b" for a c
      proof -
        have "c \<noteq> ?l"
          using log_loc_inj [OF sized a(1) assms(2)] a loc by auto
        moreover have "c \<noteq> ?q"
        proof (cases "a < 8")
          case True
          then show ?thesis
            using log_loc_valid(2) [OF sized a(1,2)] log_loc_valid(2) [OF sized assms(2) loc] 4(1) by auto
        next
          case False
          then obtain n where n: "aetherfs_pool_map_parity img a = Inr n" "c = (mp_member_index n, mp_member_block n)"
            using a(2) map_eq [OF False] by (auto simp: log_loc_def split: sum.splits)
          then show ?thesis
            using map_parity_disjoint(1) [OF sized _ _ n(1) 4(3)] False 4(1) by (auto simp: not_less)
        qed
        ultimately show ?thesis
          by simp
      qed
    qed
    then show ?thesis
      unfolding write_ok_def using w'(1,2) by blast
  qed (use assms write_bootstrap write_direct write_mirror in blast)+
qed

interpretation log: block_store "pool_ready img" "log_valid img" "log_peek img"
  "aetherfs_image_read_block img" "aetherfs_image_write_block img" for img
proof unfold_locales
  fix w b and d :: "byte list"
  assume w: "pool_ready img w" "log_valid img b"
  show "\<exists>w'. aetherfs_image_read_block img b w = (Inr (log_peek img w b), w') \<and> pool_ready img w' \<and>
      (\<forall>c. log_valid img c \<longrightarrow> log_peek img w' c = log_peek img w c)"
  proof -
    obtain w' where "aetherfs_image_read_block img b w = (Inr (log_peek img w b), w')" "sched_adv w w'"
      using log_read [OF pool_ready_live [OF w(1)] w(2)] by blast
    then show ?thesis
      using pool_ready_adv [OF _ w(1)] log_peek_adv by blast
  qed
  show "length (log_peek img w b) = AETHERFS_DEF_BLOCK_SIZE"
    using w log_loc_valid(1) [OF pool_ready_sized [OF w(1)] w(2)] phys_peek_length [OF pool_ready_live [OF w(1)]]
    by (auto simp: log_peek_def log_valid_def)
  assume "length d = AETHERFS_DEF_BLOCK_SIZE"
  then show "\<exists>w'. aetherfs_image_write_block img b d w = (Inr (), w') \<and> pool_ready img w' \<and>
      (\<forall>c. log_valid img c \<longrightarrow> log_peek img w' c = (if c = b then d else log_peek img w c))"
    using log_write [OF w, of d] unfolding write_ok_def by blast
qed

section \<open>Redundancy is kept\<close>

text \<open>The members of a mirror agree on a block.\<close>

definition mirror_synced :: "image \<Rightarrow> world \<Rightarrow> u64 \<Rightarrow> bool" where
  "mirror_synced img w b \<longleftrightarrow>
    (\<forall>i \<in> set (data_bits img). \<forall>j \<in> set (data_bits img).
       phys_peek img w (of_nat i, b) = phys_peek img w (of_nat j, b))"

definition mirror_block :: "image \<Rightarrow> u64 \<Rightarrow> bool" where
  "mirror_block img b \<longleftrightarrow> AETHERFS_DATA_START_BLOCK \<le> b \<and>
    (\<forall>i \<in> set (data_bits img). unat b < 8 + unat (aetherfs_pool_member_data_blocks img i))"

lemma mirror_write_members:
  assumes "pool_ready img w" "aetherfs_pool_profile img = AETHERFS_POOL_PROFILE_MIRROR"
    and "mirror_block img b" "length d = AETHERFS_DEF_BLOCK_SIZE"
  shows "\<exists>w'. aetherfs_image_write_block img b d w = (Inr (), w') \<and> pool_ready img w' \<and>
    (\<forall>i \<in> set (data_bits img). \<forall>c. mirror_block img c \<longrightarrow>
       phys_peek img w' (of_nat i, c) = (if c = b then d else phys_peek img w (of_nat i, c)))"
proof -
  have sized: "pool_sized img" and wr: "img_writable img"
    using assms(1) by (auto simp: pool_ready_sized) (simp add: pool_ready_def)
  have valid: "mirror_block img c \<Longrightarrow> k \<in> set (data_bits img) \<Longrightarrow> phys_valid img (of_nat k, c)" for c k
    using data_bits_member [OF sized, of k] by (auto simp: mirror_block_def intro!: phys_validI [OF sized])
  obtain w' where w': "write_members img b d (data_bits img) w = (Inr (), w')" "pool_ready img w'"
    "\<forall>c. phys_valid img c \<longrightarrow>
       phys_peek img w' c = (if snd c = b \<and> fst c \<in> of_nat ` set (data_bits img) then d else phys_peek img w c)"
    using write_members_ok [OF assms(1), of "data_bits img" b d] valid [OF assms(3)] assms(4) by blast
  obtain i js where "data_bits img = i # js"
    using mask_bits_member(2) [OF sized member_masks(2) [OF sized]] by (cases "data_bits img") auto
  then have "aetherfs_pool_map_data_block img b =
      Inr \<lparr>mp_member_index = of_nat i, mp_parity_member_index = - 1, mp_member_block = b\<rparr>"
    using assms(2) by (simp add: aetherfs_pool_map_data_block_def aetherfs_pool_map_mirror_def mask_first_bits)
  moreover have "\<not> b < 8"
    using assms(3) by (auto simp: mirror_block_def)
  ultimately have "aetherfs_image_write_block img b d w = (Inr (), w')"
    using w'(1) wr assms(2)
    by (simp add: aetherfs_image_write_block_def mask_members_bits Let_def)
  moreover have "phys_peek img w' (of_nat k, c) = (if c = b then d else phys_peek img w (of_nat k, c))"
    if "k \<in> set (data_bits img)" "mirror_block img c" for k c
    using w'(3) [rule_format, OF valid [OF that(2,1)]] that(1) by auto
  ultimately show ?thesis
    using w'(2) by blast
qed

text \<open>The exclusive or of a row, as the validation computes it.\<close>

definition zero_block :: "byte list" where
  "zero_block = replicate 4096 0"

definition parity_row :: "image \<Rightarrow> world \<Rightarrow> u64 \<Rightarrow> byte list" where
  "parity_row img w b =
    foldl (\<lambda>parity i. xor_bytes parity (phys_peek img w (of_nat i, b))) zero_block (data_bits img)"

lemma length_zero_block [simp]: "length zero_block = 4096"
  by (simp add: zero_block_def)

lemma foldl_xor_length:
  "(\<forall>i \<in> set xs. length (f i) = n) \<Longrightarrow> length z = n \<Longrightarrow> length (foldl (\<lambda>a i. xor_bytes a (f i)) z xs) = n"
  by (induction xs arbitrary: z) simp_all

lemma foldl_xor_nth:
  assumes "\<forall>i \<in> set xs. length (f i) = n" "length z = n" "k < n"
  shows "foldl (\<lambda>a i. xor_bytes a (f i)) z xs ! k = foldl (\<lambda>a i. a XOR f i ! k) (z ! k) xs"
  using assms by (induction xs arbitrary: z) (simp_all add: xor_bytes_def)

lemma foldl_xor_start: "foldl (\<lambda>a i. a XOR f i) (z XOR y) xs = foldl (\<lambda>a i. a XOR f i) z xs XOR (y :: byte)"
proof (induction xs arbitrary: z)
  case (Cons i xs)
  have "(z XOR y) XOR f i = (z XOR f i) XOR y"
    by (simp add: ac_simps)
  then show ?case
    using Cons by simp
qed simp

lemma foldl_xor_update:
  assumes "distinct xs" "k \<in> set xs"
  shows "foldl (\<lambda>a i. a XOR (if i = k then v else f i)) z xs = foldl (\<lambda>a i. a XOR f i) z xs XOR f k XOR (v :: byte)"
  using assms
proof (induction xs arbitrary: z)
  case (Cons x xs)
  show ?case
  proof (cases "x = k")
    case True
    then have "foldl (\<lambda>a i. a XOR (if i = k then v else f i)) y xs = foldl (\<lambda>a i. a XOR f i) y xs" for y
      using Cons.prems(1) by (intro foldl_cong) auto
    moreover have "foldl (\<lambda>a i. a XOR f i) (z XOR f k) xs XOR f k XOR v = foldl (\<lambda>a i. a XOR f i) (z XOR v) xs"
      unfolding foldl_xor_start by (simp add: xor.assoc)
    ultimately show ?thesis
      using True by simp
  qed (use Cons in simp)
qed simp

text \<open>Replacing one block and folding the change into the parity block keeps the row.\<close>

lemma parity_update:
  assumes "distinct xs" "j \<in> set xs" "k \<in> set xs" "j \<noteq> k"
    and "\<forall>i \<in> set xs. length (f i) = n" "length z = n" "length d = n"
  shows "foldl (\<lambda>a i. xor_bytes a (if i = j then d else if i = k then xor_bytes (xor_bytes (f k) (f j)) d else f i)) z xs
    = foldl (\<lambda>a i. xor_bytes a (f i)) z xs" (is "?L = ?R")
proof (rule nth_equalityI)
  let ?g = "\<lambda>i. if i = j then d else if i = k then xor_bytes (xor_bytes (f k) (f j)) d else f i"
  have len: "\<forall>i \<in> set xs. length (?g i) = n"
    using assms by auto
  show "length ?L = length ?R"
    using foldl_xor_length [OF len assms(6)] foldl_xor_length [OF assms(5,6)] by simp
  fix x assume "x < length ?L"
  then have x: "x < n"
    using foldl_xor_length [OF len assms(6)] by simp
  let ?v = "f k ! x XOR f j ! x XOR d ! x" and ?h = "\<lambda>i. f i ! x"
  have "?g i ! x = (if i = j then d ! x else if i = k then ?v else ?h i)" for i
    using x assms by (auto simp: xor_bytes_def xor.assoc)
  then have "?L ! x = foldl (\<lambda>a i. a XOR (if i = j then d ! x else if i = k then ?v else ?h i)) (z ! x) xs"
    unfolding foldl_xor_nth [OF len assms(6) x] by (intro foldl_cong) auto
  also have "\<dots> = foldl (\<lambda>a i. a XOR ?h i) (z ! x) xs"
    using foldl_xor_update [OF assms(1,2), of "d ! x" "\<lambda>i. if i = k then ?v else ?h i"]
      foldl_xor_update [OF assms(1,3), of ?v ?h] assms(4) by (simp add: xor.assoc xor.left_commute)
  also have "\<dots> = ?R ! x"
    using foldl_xor_nth [OF assms(5,6) x] by simp
  finally show "?L ! x = ?R ! x" .
qed

lemma parity_write_row:
  assumes "pool_ready img w" "aetherfs_pool_profile img = AETHERFS_POOL_PROFILE_PARITY"
    and "log_valid img b" "AETHERFS_DATA_START_BLOCK \<le> b" "length d = AETHERFS_DEF_BLOCK_SIZE"
  shows "\<exists>w'. aetherfs_image_write_block img b d w = (Inr (), w') \<and> pool_ready img w' \<and>
    (\<forall>c. mirror_block img c \<longrightarrow> parity_row img w' c = parity_row img w c)"
proof -
  have sized: "pool_sized img"
    using assms(1) by (rule pool_ready_sized)
  have b: "\<not> b < 8"
    using assms(4) by (simp add: not_less)
  obtain m where m: "aetherfs_pool_map_parity img b = Inr m"
    using assms(2,3) b
    by (auto simp: log_valid_def log_loc_def aetherfs_pool_map_data_block_def split: sum.splits)
  note P = write_parity [OF assms(1,3) b assms(5,2) m]
  note S = map_parity_spec [OF sized assms(4) m]
  define j where "j = data_bits img ! skip_ordinal
    ((unat b - 8) div ((length (data_bits img) - 1) * stripe_len img) mod length (data_bits img))
    ((unat b - 8) mod ((length (data_bits img) - 1) * stripe_len img) div stripe_len img)"
  define k where "k = data_bits img ! ((unat b - 8) div ((length (data_bits img) - 1) * stripe_len img) mod length (data_bits img))"
  have jm: "mp_member_index m = of_nat j" "j \<in> set (data_bits img)"
    unfolding j_def using S(3,4) by (simp_all only: nth_mem)
  have "(unat b - 8) div ((length (data_bits img) - 1) * stripe_len img) mod length (data_bits img) < length (data_bits img)"
    using S(2) by (intro mod_less_divisor) linarith
  then have km: "mp_parity_member_index m = of_nat k" "k \<in> set (data_bits img)"
    unfolding k_def using S(5) by (simp_all only: nth_mem)
  have inj: "i \<in> set (data_bits img) \<Longrightarrow> i' \<in> set (data_bits img) \<Longrightarrow> (of_nat i :: u32) = of_nat i' \<longleftrightarrow> i = i'" for i i'
    using data_bits_member [OF sized] unat_member_index [OF sized] by metis
  have jk: "j \<noteq> k"
    using P(3) jm km by auto
  obtain w' where w': "aetherfs_image_write_block img b d w = (Inr (), w')" "pool_ready img w'"
    "\<forall>c. phys_valid img c \<longrightarrow> phys_peek img w' c = (if c = (of_nat j, mp_member_block m) then d
       else if c = (of_nat k, mp_member_block m)
         then xor_bytes (xor_bytes (phys_peek img w (of_nat k, mp_member_block m)) (phys_peek img w (of_nat j, mp_member_block m))) d
       else phys_peek img w c)"
    using P(4) unfolding jm km by blast
  have "parity_row img w' c = parity_row img w c" if c: "mirror_block img c" for c
  proof -
    have valid: "i \<in> set (data_bits img) \<Longrightarrow> phys_valid img (of_nat i, c)" for i
      using c data_bits_member [OF sized, of i] by (auto simp: mirror_block_def intro!: phys_validI [OF sized])
    note peek = w'(3) [rule_format, OF valid]
    show ?thesis
    proof (cases "c = mp_member_block m")
      case False
      then show ?thesis
        unfolding parity_row_def using peek by (intro foldl_cong) auto
    next
      case True
      have "parity_row img w' c = foldl (\<lambda>a i. xor_bytes a (if i = j then d
          else if i = k then xor_bytes (xor_bytes (phys_peek img w (of_nat k, c)) (phys_peek img w (of_nat j, c))) d
          else phys_peek img w (of_nat i, c))) zero_block (data_bits img)"
        unfolding parity_row_def
      proof (intro foldl_cong refl)
        fix a i assume i: "i \<in> set (data_bits img)"
        show "xor_bytes a (phys_peek img w' (of_nat i, c)) = xor_bytes a (if i = j then d
          else if i = k then xor_bytes (xor_bytes (phys_peek img w (of_nat k, c)) (phys_peek img w (of_nat j, c))) d
          else phys_peek img w (of_nat i, c))"
          unfolding peek [OF i] using True inj [OF i jm(2)] inj [OF i km(2)] by simp
      qed
      also have "\<dots> = parity_row img w c"
        unfolding parity_row_def
        using jm(2) km(2) jk phys_peek_length [OF pool_ready_live [OF assms(1)] valid] assms(5)
        by (intro parity_update [where n = 4096]) auto
      finally show ?thesis .
    qed
  qed
  then show ?thesis
    using w'(1,2) by blast
qed

end
