(* ===== verification/Image_Open.thy ===== *)
theory Image_Open
  imports Image_Store
begin

text \<open>
  Opening an image: the members' pool labels are read and validated, the label of a
  single device without one is synthesised, and the members of a pool are put at the
  positions their labels name (\<open>aetherfsprogs/image.c\<close>, lines 227 to 269, 289 to 431
  and 667 to 812).
\<close>

section \<open>Cleared structures\<close>

definition zero_member :: image_member where
  "zero_member = \<lparr>im_fd = 0, im_is_block_device = False, im_size_bytes = 0, im_blocks = 0,
     im_class_mask = 0, im_role_mask = 0, im_member_index = 0\<rparr>"

definition zero_pool_member :: pool_member where
  "zero_pool_member = \<lparr>pm_uuid = replicate 16 0, pm_total_blocks = 0, pm_data_blocks = 0, pm_class_mask = 0,
     pm_role_mask = 0, pm_index = 0, pm_reserved = 0\<rparr>"

definition zero_label :: pool_label where
  "zero_label = \<lparr>pl_magic = 0, pl_version = 0, pl_checksum = 0, pl_profile = 0, pl_member_count = 0,
     pl_member_index = 0, pl_stripe_blocks = 0, pl_flags = 0, pl_metadata_mask = 0, pl_data_mask = 0,
     pl_log_mask = 0, pl_cache_mask = 0, pl_logical_blocks = 0, pl_logical_data_blocks = 0,
     pl_pool_uuid = replicate 16 0, pl_members = replicate 8 zero_pool_member, pl_reserved = replicate 45 0\<rparr>"

definition zero_super :: super where
  "zero_super = fst (dec_super (replicate 256 0))"

definition zero_inode :: inode where
  "zero_inode = fst (dec_inode (replicate 512 0))"

definition zero_journal :: intent_log where
  "zero_journal = fst (dec_intent_log (replicate 48 0))"

definition zero_bitmap :: bitmap_block where
  "zero_bitmap = fst (dec_bitmap_block (replicate 4096 0))"

definition zero_extent_node :: extent_node where
  "zero_extent_node = fst (dec_extent_node (replicate 4096 0))"

definition zero_checkpoint_root :: checkpoint_root where
  "zero_checkpoint_root = fst (dec_checkpoint_root (replicate 4096 0))"

definition zero_inode_table :: "inode list" where
  "zero_inode_table = replicate AETHERFS_MAX_INODES zero_inode"

definition zero_image :: image where
  "zero_image = \<lparr>img_fd = 0, img_writable = False, img_is_block_device = False, img_size_bytes = 0,
     img_blocks = 0, img_member_count = 0, img_pool_label = zero_label,
     img_checkpoint_root = zero_checkpoint_root, img_members = replicate AETHERFS_MAX_DEVICES zero_member,
     img_super = zero_super, img_journal = zero_journal, img_inode_bitmap = zero_bitmap,
     img_free_extents = zero_extent_node, img_inode_table = zero_inode_table, img_root_dir = zero_block\<rparr>"

section \<open>Members\<close>

definition aetherfs_member_open_path :: "path \<Rightarrow> bool \<Rightarrow> (world, image_member) action" where
  "aetherfs_member_open_path p writable =
    bindE (open_file p writable) (\<lambda>fd.
    cleanupE
      (bindE (fstat fd) (\<lambda>(kind, st_size).
       bindE (guardE (kind = S_IFREG \<or> kind = S_IFBLK) EINVAL) (\<lambda>_.
       bindE (if kind = S_IFBLK then blkgetsize64 fd else okE (of_nat st_size)) (\<lambda>size_bytes.
       okE (zero_member\<lparr>im_fd := fd, im_is_block_device := (kind = S_IFBLK), im_size_bytes := size_bytes,
              im_blocks := size_bytes div 4096\<rparr>)))))
      (close_fd fd))"

section \<open>Pool labels\<close>

definition label_member_ok :: "pool_label \<Rightarrow> nat \<Rightarrow> bool" where
  "label_member_ok label index =
    (let m = pl_members label ! index in
     pm_index m = of_nat index \<and> \<not> pm_total_blocks m < AETHERFS_DATA_START_BLOCK \<and>
     \<not> pm_data_blocks m > pm_total_blocks m - AETHERFS_DATA_START_BLOCK)"

definition aetherfs_pool_label_validate :: "pool_label \<Rightarrow> unit result" where
  "aetherfs_pool_label_validate label =
    (let count = pl_member_count label; limit_mask = push_bit (unat count) 1 - 1 :: u32 in
     if pl_magic label \<noteq> AETHERFS_POOL_MAGIC then Inl EINVAL
     else if pl_version label \<noteq> AETHERFS_POOL_VERSION then Inl EINVAL
     else if pl_checksum label \<noteq> aetherfs_pool_label_checksum label then Inl EILSEQ
     else if count = 0 \<or> count > 8 then Inl EINVAL
     else if pl_member_index label \<ge> count then Inl EINVAL
     else if pl_profile label > AETHERFS_POOL_PROFILE_TIERED then Inl EINVAL
     else if pl_stripe_blocks label = 0 then Inl EINVAL
     else if pl_logical_blocks label < AETHERFS_DATA_START_BLOCK then Inl EINVAL
     else if pl_logical_blocks label \<noteq> pl_logical_data_blocks label + AETHERFS_DATA_START_BLOCK then Inl EINVAL
     else if pl_metadata_mask label AND NOT limit_mask \<noteq> 0 \<or> pl_data_mask label AND NOT limit_mask \<noteq> 0 \<or>
       pl_log_mask label AND NOT limit_mask \<noteq> 0 \<or> pl_cache_mask label AND NOT limit_mask \<noteq> 0 then Inl EINVAL
     else if list_all (label_member_ok label) [0..<unat count] then Inr () else Inl EINVAL)"

text \<open>The label of a member, None when the block holds no pool magic.\<close>

definition aetherfs_member_read_pool_label :: "image_member \<Rightarrow> (world, pool_label option) action" where
  "aetherfs_member_read_pool_label m =
    bindE (aetherfs_member_read_block m AETHERFS_POOL_LABEL_BLOCK) (\<lambda>block.
    let label = fst (dec_pool_label block) in
    if pl_magic label \<noteq> AETHERFS_POOL_MAGIC then okE None
    else bindE (liftE (aetherfs_pool_label_validate label)) (\<lambda>_. okE (Some label)))"

definition aetherfs_pool_label_normalize :: "pool_label \<Rightarrow> pool_label" where
  "aetherfs_pool_label_normalize label = label\<lparr>pl_checksum := 0, pl_member_index := 0\<rparr>"

definition aetherfs_pool_labels_equivalent :: "pool_label \<Rightarrow> pool_label \<Rightarrow> bool" where
  "aetherfs_pool_labels_equivalent left right =
    (enc_pool_label (aetherfs_pool_label_normalize left) = enc_pool_label (aetherfs_pool_label_normalize right))"

definition aetherfs_image_assign_primary_aliases :: "image \<Rightarrow> image" where
  "aetherfs_image_assign_primary_aliases img =
    (let primary = (case aetherfs_mask_first (aetherfs_pool_metadata_mask img) of None \<Rightarrow> 0 | Some i \<Rightarrow> i);
         m = img_members img ! primary in
     img\<lparr>img_fd := im_fd m,
         img_is_block_device := (if img_member_count img = 1 then im_is_block_device m else False),
         img_size_bytes := (if img_member_count img = 1 then im_size_bytes m
           else pl_logical_blocks (img_pool_label img) * 4096)\<rparr>)"

definition synthesized_label :: "u64 \<Rightarrow> pool_label" where
  "synthesized_label blocks =
    (let member = zero_pool_member\<lparr>pm_total_blocks := blocks, pm_data_blocks := blocks - AETHERFS_DATA_START_BLOCK,
           pm_role_mask := AETHERFS_POOL_MEMBER_DATA OR AETHERFS_POOL_MEMBER_METADATA OR AETHERFS_POOL_MEMBER_LOG\<rparr>;
         label = zero_label\<lparr>pl_magic := AETHERFS_POOL_MAGIC, pl_version := AETHERFS_POOL_VERSION,
           pl_profile := AETHERFS_POOL_PROFILE_SINGLE, pl_member_count := 1, pl_member_index := 0,
           pl_stripe_blocks := 1, pl_metadata_mask := 1, pl_data_mask := 1, pl_log_mask := 1,
           pl_logical_blocks := blocks, pl_logical_data_blocks := blocks - AETHERFS_DATA_START_BLOCK,
           pl_members := (pl_members zero_label)[0 := member]\<rparr>
     in label\<lparr>pl_checksum := aetherfs_pool_label_checksum label\<rparr>)"

definition aetherfs_image_synthesize_single_label :: "image \<Rightarrow> image" where
  "aetherfs_image_synthesize_single_label img =
    (let m = img_members img ! 0; blocks = im_blocks m in
     aetherfs_image_assign_primary_aliases
       (img\<lparr>img_pool_label := synthesized_label blocks, img_member_count := 1,
            img_members := (img_members img)[0 := m\<lparr>im_role_mask :=
              AETHERFS_POOL_MEMBER_DATA OR AETHERFS_POOL_MEMBER_METADATA OR AETHERFS_POOL_MEMBER_LOG\<rparr>],
            img_blocks := blocks\<rparr>))"

section \<open>Opening and closing\<close>

definition close_members :: "image_member list \<Rightarrow> world \<Rightarrow> world" where
  "close_members ms w = foldl (\<lambda>w m. if im_fd m \<ge> 0 then close_fd (im_fd m) w else w) w ms"

definition aetherfs_image_close :: "image \<Rightarrow> world \<Rightarrow> world" where
  "aetherfs_image_close img = close_members (take (unat (img_member_count img)) (img_members img))"

definition aetherfs_image_open :: "path \<Rightarrow> bool \<Rightarrow> (world, image) action" where
  "aetherfs_image_open p writable =
    bindE (aetherfs_member_open_path p writable) (\<lambda>m.
    let img = zero_image\<lparr>img_fd := - 1, img_member_count := 1, img_writable := writable,
                img_members := (img_members zero_image)[0 := m]\<rparr> in
    cleanupE
      (bindE (aetherfs_member_read_pool_label m) (\<lambda>present.
       case present of
         None \<Rightarrow> okE (aetherfs_image_synthesize_single_label img)
       | Some label \<Rightarrow>
           if pl_member_count label \<noteq> 1 then failE EXDEV
           else okE (aetherfs_image_assign_primary_aliases
             (img\<lparr>img_pool_label := label,
                  img_members := (img_members img)[0 := m\<lparr>im_class_mask := pm_class_mask (pl_members label ! 0),
                    im_role_mask := pm_role_mask (pl_members label ! 0)\<rparr>],
                  img_blocks := pl_logical_blocks label, img_member_count := 1\<rparr>))))
      (aetherfs_image_close img))"

text \<open>
  The descriptors of the local array \<open>opened\<close> before the loop assigns them are
  indeterminate; they are what the stack holds, \<open>w_junk\<close>.
\<close>

definition junk_members :: "(nat \<Rightarrow> int) \<Rightarrow> nat \<Rightarrow> image_member list" where
  "junk_members junk n = map (\<lambda>i. zero_member\<lparr>im_fd := junk i\<rparr>) [0..<n]"

record pool_open =
  po_image :: image
  po_opened :: "image_member list"
  po_labels :: "pool_label list"
  po_seen :: "bool list"

definition open_one_member :: "device_spec list \<Rightarrow> bool \<Rightarrow> nat \<Rightarrow> pool_open \<Rightarrow> world \<Rightarrow> (errno option \<times> pool_open) \<times> world" where
  "open_one_member specs writable index st w =
    (let st = st\<lparr>po_opened := (po_opened st)[index := (po_opened st ! index)\<lparr>im_fd := - 1\<rparr>]\<rparr> in
     case aetherfs_member_open_path (ds_path (specs ! index)) writable w of
       (Inl e, w) \<Rightarrow> ((Some e, st), w)
     | (Inr m, w) \<Rightarrow>
        let st = st\<lparr>po_opened := (po_opened st)[index := m]\<rparr> in
        (case aetherfs_member_read_pool_label m w of
           (Inl e, w) \<Rightarrow> ((Some e, st), w)
         | (Inr None, w) \<Rightarrow> ((Some EINVAL, st), w)
         | (Inr (Some label), w) \<Rightarrow> ((None, st\<lparr>po_labels := po_labels st @ [label]\<rparr>), w)))"

primrec open_members :: "device_spec list \<Rightarrow> bool \<Rightarrow> nat list \<Rightarrow> pool_open \<Rightarrow> world \<Rightarrow> (errno option \<times> pool_open) \<times> world" where
  "open_members specs writable [] st w = ((None, st), w)"
| "open_members specs writable (index # rest) st w =
    (case open_one_member specs writable index st w of
       ((Some e, st), w) \<Rightarrow> ((Some e, st), w)
     | ((None, st), w) \<Rightarrow> open_members specs writable rest st w)"

definition place_one_member :: "pool_label \<Rightarrow> nat \<Rightarrow> pool_open \<Rightarrow> errno option \<times> pool_open" where
  "place_one_member base index st =
    (let label = po_labels st ! index; member_index = pl_member_index label; i = unat member_index;
         pm = pl_members label ! i in
     if \<not> aetherfs_pool_labels_equivalent base label then (Some EINVAL, st)
     else if i \<ge> length (po_opened st) \<or> po_seen st ! i then (Some EINVAL, st)
     else (None, st\<lparr>po_seen := (po_seen st)[i := True],
       po_image := (po_image st)\<lparr>img_members := (img_members (po_image st))[i :=
         (po_opened st ! index)\<lparr>im_class_mask := pm_class_mask pm, im_role_mask := pm_role_mask pm,
           im_member_index := member_index, im_blocks := pm_total_blocks pm,
           im_size_bytes := pm_total_blocks pm * 4096\<rparr>]\<rparr>,
       po_opened := (po_opened st)[index := (po_opened st ! index)\<lparr>im_fd := - 1\<rparr>]\<rparr>))"

primrec place_members :: "pool_label \<Rightarrow> nat list \<Rightarrow> pool_open \<Rightarrow> errno option \<times> pool_open" where
  "place_members base [] st = (None, st)"
| "place_members base (index # rest) st =
    (case place_one_member base index st of
       (Some e, st) \<Rightarrow> (Some e, st)
     | (None, st) \<Rightarrow> place_members base rest st)"

definition finish_pool :: "pool_label \<Rightarrow> nat \<Rightarrow> image \<Rightarrow> image" where
  "finish_pool base count img =
    (let base = base\<lparr>pl_member_index := 0\<rparr>; base = base\<lparr>pl_checksum := aetherfs_pool_label_checksum base\<rparr> in
     aetherfs_image_assign_primary_aliases
       (img\<lparr>img_pool_label := base, img_member_count := of_nat count, img_blocks := pl_logical_blocks base\<rparr>))"

definition open_pool_fail :: "pool_open \<Rightarrow> world \<Rightarrow> world" where
  "open_pool_fail st w = aetherfs_image_close (po_image st) (close_members (po_opened st) w)"

definition aetherfs_image_open_pool :: "device_spec list \<Rightarrow> bool \<Rightarrow> (world, image) action" where
  "aetherfs_image_open_pool specs writable =
    (let count = length specs in
     if count = 0 \<or> count > AETHERFS_MAX_DEVICES then failE EINVAL
     else if count = 1 then aetherfs_image_open (ds_path (specs ! 0)) writable
     else (\<lambda>w.
       let st = \<lparr>po_image = zero_image\<lparr>img_fd := - 1, img_writable := writable\<rparr>,
                 po_opened = junk_members (w_junk w) count, po_labels = [], po_seen = replicate 8 False\<rparr> in
       case open_members specs writable [0..<count] st w of
         ((Some e, st), w) \<Rightarrow> (Inl e, open_pool_fail st w)
       | ((None, st), w) \<Rightarrow>
          let base = po_labels st ! 0 in
          if unat (pl_member_count base) \<noteq> count then (Inl EINVAL, open_pool_fail st w)
          else (case place_members base [0..<count] st of
             (Some e, st) \<Rightarrow> (Inl e, open_pool_fail st w)
           | (None, st) \<Rightarrow>
               if list_all (\<lambda>i. po_seen st ! i) [0..<count]
               then (Inr (finish_pool base count (po_image st)), w)
               else (Inl EINVAL, open_pool_fail st w))))"

end
