(* ===== verification/Image_Load.thy ===== *)
theory Image_Load
  imports Image_Open
begin

text \<open>
  Loading the metadata of an opened image and writing it back
  (\<open>aetherfsprogs/image.c\<close>, lines 598 to 665, 925 to 1103 and 1571 to 1597): every
  structure is read from its block, its checksum compared, and its pointers compared with
  the superblock.
\<close>

section \<open>Blocks that hold one structure\<close>

definition aetherfs_read_extent_node :: "image \<Rightarrow> u64 \<Rightarrow> (world, extent_node) action" where
  "aetherfs_read_extent_node img blocknr =
    bindE (aetherfs_image_read_block img blocknr) (\<lambda>buf.
    let node = fst (dec_extent_node buf) in
    bindE (guardE (en_checksum node = aetherfs_extent_node_checksum node) EILSEQ) (\<lambda>_.
    bindE (guardE (\<not> unat (en_count node) > AETHERFS_EXTENT_LOG_MAX) EINVAL) (\<lambda>_.
    okE node)))"

definition seal_extent_node :: "extent_node \<Rightarrow> extent_node" where
  "seal_extent_node node = node\<lparr>en_checksum := aetherfs_extent_node_checksum node\<rparr>"

definition aetherfs_write_extent_node :: "image \<Rightarrow> u64 \<Rightarrow> extent_node \<Rightarrow> (world, unit) action" where
  "aetherfs_write_extent_node img blocknr node =
    aetherfs_image_write_block img blocknr (enc_extent_node (seal_extent_node node))"

definition aetherfs_read_checksum_block :: "image \<Rightarrow> u64 \<Rightarrow> (world, checksum_block) action" where
  "aetherfs_read_checksum_block img blocknr =
    bindE (aetherfs_image_read_block img blocknr) (\<lambda>buf.
    let block = fst (dec_checksum_block buf) in
    bindE (guardE (cb_checksum block = aetherfs_checksum_block_checksum block) EILSEQ) (\<lambda>_.
    bindE (guardE (\<not> unat (cb_entries block) > AETHERFS_CHECKSUMS_PER_BLOCK) EINVAL) (\<lambda>_.
    okE block)))"

definition seal_checksum_block :: "checksum_block \<Rightarrow> checksum_block" where
  "seal_checksum_block block = block\<lparr>cb_checksum := aetherfs_checksum_block_checksum block\<rparr>"

definition aetherfs_write_checksum_block :: "image \<Rightarrow> u64 \<Rightarrow> checksum_block \<Rightarrow> (world, unit) action" where
  "aetherfs_write_checksum_block img blocknr block =
    aetherfs_image_write_block img blocknr (enc_checksum_block (seal_checksum_block block))"

section \<open>The inode bitmap\<close>

definition popcount8 :: "byte \<Rightarrow> nat" where
  "popcount8 b = length (filter (bit b) [0..<8])"

definition aetherfs_image_bitmap_count_set :: "bitmap_block \<Rightarrow> u32" where
  "aetherfs_image_bitmap_count_set bm = foldl (\<lambda>count b. count + of_nat (popcount8 b)) 0 (bb_bits bm)"

definition aetherfs_image_bitmap_test :: "bitmap_block \<Rightarrow> nat \<Rightarrow> bool" where
  "aetherfs_image_bitmap_test bm i = ((bb_bits bm ! (i div 8)) AND push_bit (i mod 8) 1 \<noteq> 0)"

definition aetherfs_image_bitmap_set :: "bitmap_block \<Rightarrow> nat \<Rightarrow> bitmap_block" where
  "aetherfs_image_bitmap_set bm i =
    bm\<lparr>bb_bits := (bb_bits bm)[i div 8 := (bb_bits bm ! (i div 8)) OR push_bit (i mod 8) 1]\<rparr>"

definition aetherfs_image_bitmap_clear :: "bitmap_block \<Rightarrow> nat \<Rightarrow> bitmap_block" where
  "aetherfs_image_bitmap_clear bm i =
    bm\<lparr>bb_bits := (bb_bits bm)[i div 8 := (bb_bits bm ! (i div 8)) AND NOT (push_bit (i mod 8) 1)]\<rparr>"

section \<open>Validation of the loaded structures\<close>

definition aetherfs_image_validate_super :: "image \<Rightarrow> unit result" where
  "aetherfs_image_validate_super img =
    (let s = img_super img in
     if s_magic s \<noteq> AETHERFS_MAGIC then Inl EINVAL
     else if s_version s \<noteq> AETHERFS_VERSION then Inl EINVAL
     else if s_blocksize s \<noteq> 4096 then Inl EINVAL
     else if s_checksum s \<noteq> aetherfs_super_checksum s then Inl EILSEQ
     else if s_blocks_count s < AETHERFS_DATA_START_BLOCK then Inl EINVAL
     else if s_blocks_count s \<noteq> pl_logical_blocks (img_pool_label img) then Inl EINVAL
     else if s_device_count s \<noteq> img_member_count img then Inl EINVAL
     else if s_checkpoint s ! 0 \<noteq> AETHERFS_CHECKPOINT_ROOT_BLOCK then Inl EINVAL
     else if s_inodes_count s \<noteq> 32640 then Inl EINVAL
     else if s_meta_tree s \<noteq> AETHERFS_INODE_BITMAP_BLOCK then Inl EINVAL
     else if s_extent_tree s \<noteq> 0 then Inl EINVAL
     else if s_free_tree s \<noteq> AETHERFS_FREE_EXTENT_BLOCK then Inl EINVAL
     else if s_snap_tree s \<noteq> 0 then Inl EINVAL
     else Inr ())"

definition aetherfs_image_validate_checkpoint_root :: "image \<Rightarrow> unit result" where
  "aetherfs_image_validate_checkpoint_root img =
    (let r = img_checkpoint_root img; s = img_super img in
     if cr_magic r \<noteq> AETHERFS_CHECKPOINT_ROOT_MAGIC then Inl EINVAL
     else if cr_version r \<noteq> AETHERFS_CHECKPOINT_ROOT_VERSION then Inl EINVAL
     else if cr_checksum r \<noteq> aetherfs_checkpoint_root_checksum r then Inl EILSEQ
     else if cr_generation r \<noteq> s_generation s then Inl EINVAL
     else if cr_ag_count r \<noteq> s_ag_count s then Inl EINVAL
     else if cr_region_count r \<noteq> 2 then Inl EINVAL
     else if cr_super_block r \<noteq> AETHERFS_SUPERBLOCK_BLOCK then Inl EINVAL
     else if cr_root_inode_block r \<noteq> s_root_inode s then Inl EINVAL
     else if cr_root_dir_block r \<noteq> AETHERFS_ROOT_DIR_BLOCK then Inl EINVAL
     else if cr_journal_block r \<noteq> s_journal_addr s then Inl EINVAL
     else if cr_inode_bitmap_block r \<noteq> s_meta_tree s then Inl EINVAL
     else if cr_free_space_root r \<noteq> s_free_tree s then Inl EINVAL
     else if cr_metadata_tree_root r \<noteq> s_meta_tree s then Inl EINVAL
     else if cr_extent_tree_root r \<noteq> s_extent_tree s then Inl EINVAL
     else if cr_snapshot_root r \<noteq> s_snap_tree s then Inl EINVAL
     else if cr_scrub_journal r \<noteq> s_scrub_journal s then Inl EINVAL
     else if cr_health_journal r \<noteq> s_health_journal s then Inl EINVAL
     else if cr_metadata_region_start r \<noteq> AETHERFS_SUPERBLOCK_BLOCK then Inl EINVAL
     else if cr_metadata_region_end r \<noteq> AETHERFS_CHECKPOINT_ROOT_BLOCK then Inl EINVAL
     else if cr_data_region_start r \<noteq> AETHERFS_DATA_START_BLOCK then Inl EINVAL
     else if cr_data_region_end r \<noteq> img_blocks img then Inl EINVAL
     else if cr_special_metadata_root r \<noteq> 0 \<or> cr_cache_root r \<noteq> 0 \<or> cr_parity_root r \<noteq> 0 then Inl EINVAL
     else Inr ())"

definition aetherfs_image_validate_bitmap :: "bitmap_block \<Rightarrow> u32 \<Rightarrow> unit result" where
  "aetherfs_image_validate_bitmap bm expected_bits =
    (if bb_total_bits bm \<noteq> expected_bits then Inl EINVAL
     else if bb_checksum bm \<noteq> aetherfs_bitmap_checksum bm then Inl EILSEQ
     else if bb_set_bits bm \<noteq> aetherfs_image_bitmap_count_set bm then Inl EILSEQ
     else Inr ())"

section \<open>Loading\<close>

text \<open>Reading one block over the start of the inode table replaces the inodes it holds.\<close>

definition load_inodes :: "byte list \<Rightarrow> inode list \<Rightarrow> inode list" where
  "load_inodes block table = fst (dec_array dec_inode 8 block) @ drop 8 table"

definition aetherfs_image_load :: "image \<Rightarrow> (world, image) action" where
  "aetherfs_image_load img =
    bindE (aetherfs_image_read_block img AETHERFS_SUPERBLOCK_BLOCK) (\<lambda>block.
    let img = img\<lparr>img_super := fst (dec_super block)\<rparr> in
    bindE (liftE (aetherfs_image_validate_super img)) (\<lambda>_.
    let img = img\<lparr>img_blocks := s_blocks_count (img_super img)\<rparr> in
    bindE (aetherfs_image_read_block img (s_checkpoint (img_super img) ! 0)) (\<lambda>block.
    let img = img\<lparr>img_checkpoint_root := fst (dec_checkpoint_root block)\<rparr> in
    bindE (liftE (aetherfs_image_validate_checkpoint_root img)) (\<lambda>_.
    bindE (aetherfs_image_read_block img (cr_journal_block (img_checkpoint_root img))) (\<lambda>block.
    let img = img\<lparr>img_journal := fst (dec_intent_log block)\<rparr> in
    bindE (guardE (il_checksum (img_journal img) = aetherfs_journal_checksum (img_journal img)) EILSEQ) (\<lambda>_.
    bindE (aetherfs_image_read_block img (cr_inode_bitmap_block (img_checkpoint_root img))) (\<lambda>block.
    let img = img\<lparr>img_inode_bitmap := fst (dec_bitmap_block block)\<rparr> in
    bindE (liftE (aetherfs_image_validate_bitmap (img_inode_bitmap img) 32640)) (\<lambda>_.
    bindE (aetherfs_read_extent_node img (cr_free_space_root (img_checkpoint_root img))) (\<lambda>node.
    let img = img\<lparr>img_free_extents := node\<rparr> in
    bindE (aetherfs_image_read_block img (cr_root_inode_block (img_checkpoint_root img))) (\<lambda>block.
    let img = img\<lparr>img_inode_table := load_inodes block (img_inode_table img)\<rparr> in
    bindE (aetherfs_image_read_block img (cr_root_dir_block (img_checkpoint_root img))) (\<lambda>block.
    okE (img\<lparr>img_root_dir := block\<rparr>))))))))))))"

section \<open>Writing back\<close>

text \<open>A structure at the start of a cleared block.\<close>

definition pad_block :: "byte list \<Rightarrow> byte list" where
  "pad_block b = b @ replicate (AETHERFS_DEF_BLOCK_SIZE - length b) 0"

definition seal_super :: "super \<Rightarrow> super" where
  "seal_super s = s\<lparr>s_checksum := aetherfs_super_checksum s\<rparr>"

definition seal_journal :: "intent_log \<Rightarrow> intent_log" where
  "seal_journal j = j\<lparr>il_checksum := aetherfs_journal_checksum j\<rparr>"

definition aetherfs_image_write_super :: "image \<Rightarrow> (world, image) action" where
  "aetherfs_image_write_super img =
    (let img = img\<lparr>img_super := seal_super (img_super img)\<rparr> in
     bindE (aetherfs_image_write_block img AETHERFS_SUPERBLOCK_BLOCK (pad_block (enc_super (img_super img)))) (\<lambda>_. okE img))"

definition aetherfs_image_write_journal :: "image \<Rightarrow> (world, image) action" where
  "aetherfs_image_write_journal img =
    (let img = img\<lparr>img_journal := seal_journal (img_journal img)\<rparr> in
     bindE (aetherfs_image_write_block img AETHERFS_JOURNAL_BLOCK (pad_block (enc_intent_log (img_journal img)))) (\<lambda>_. okE img))"

definition aetherfs_image_write_inode_table :: "image \<Rightarrow> (world, unit) action" where
  "aetherfs_image_write_inode_table img =
    aetherfs_image_write_block img AETHERFS_ROOT_INODE_BLOCK (enc_array enc_inode (take 8 (img_inode_table img)))"

definition aetherfs_image_write_free_extents :: "image \<Rightarrow> (world, image) action" where
  "aetherfs_image_write_free_extents img =
    (let img = img\<lparr>img_free_extents := seal_extent_node (img_free_extents img)\<rparr> in
     bindE (aetherfs_image_write_block img AETHERFS_FREE_EXTENT_BLOCK (enc_extent_node (img_free_extents img))) (\<lambda>_. okE img))"

end
