(* ===== verification/Intervals.thy ===== *)
theory Intervals
  imports Image_Load
begin

text \<open>
  The interval lists that the validation collects (\<open>aetherfsprogs/image.c\<close>, lines 93
  to 139) and the final coverage check (lines 1502 to 1533): sorted by start, the used and
  the free intervals must follow one another without gap or overlap.  The check adds
  64-bit numbers without testing for overflow; the lemmas show that it nevertheless
  accepts only exact partitions of the data region.
\<close>

section \<open>Data\<close>

datatype interval = Interval (iv_start: u64) (iv_len: u64)

record interval_list =
  itl_items :: "interval list"
  itl_capacity :: nat

definition empty_list :: interval_list where
  "empty_list = \<lparr>itl_items = [], itl_capacity = 0\<rparr>"

definition aetherfs_interval_list_reset :: "interval_list \<Rightarrow> interval_list" where
  "aetherfs_interval_list_reset l = l\<lparr>itl_items := [], itl_capacity := 0\<rparr>"

text \<open>\<open>realloc\<close> fails when the next outcome is an error.\<close>

definition realloc_items :: "(world, unit) action" where
  "realloc_items w = (case syscall w of (Inl _, w') \<Rightarrow> (Inl ENOMEM, w') | (Inr x, w') \<Rightarrow> (Inr x, w'))"

definition aetherfs_interval_list_append :: "interval_list \<Rightarrow> u64 \<Rightarrow> u64 \<Rightarrow> (world, interval_list) action" where
  "aetherfs_interval_list_append l start len =
    (if len = 0 then okE l
     else if length (itl_items l) = itl_capacity l
     then bindE realloc_items (\<lambda>_.
       okE (l\<lparr>itl_items := itl_items l @ [Interval start len],
              itl_capacity := (if itl_capacity l \<noteq> 0 then itl_capacity l * 2 else 16)\<rparr>))
     else okE (l\<lparr>itl_items := itl_items l @ [Interval start len]\<rparr>))"

definition aetherfs_interval_compare :: "interval \<Rightarrow> interval \<Rightarrow> int" where
  "aetherfs_interval_compare lhs rhs =
    (if iv_start lhs < iv_start rhs then - 1
     else if iv_start lhs > iv_start rhs then 1
     else if iv_len lhs < iv_len rhs then - 1
     else if iv_len lhs > iv_len rhs then 1
     else 0)"

section \<open>The order of \<open>qsort\<close>\<close>

instantiation interval :: linorder
begin

definition less_eq_interval :: "interval \<Rightarrow> interval \<Rightarrow> bool" where
  "a \<le> b \<longleftrightarrow> aetherfs_interval_compare a b \<le> 0"

definition less_interval :: "interval \<Rightarrow> interval \<Rightarrow> bool" where
  "a < b \<longleftrightarrow> aetherfs_interval_compare a b < 0"

instance
  by standard
    (auto simp: less_eq_interval_def less_interval_def aetherfs_interval_compare_def
      intro: interval.expand split: if_splits)

end

text \<open>The comparison is a total order, so \<open>qsort\<close> has one result.\<close>

definition qsort_intervals :: "interval list \<Rightarrow> interval list" where
  "qsort_intervals = sort"

section \<open>The coverage check\<close>

fun coverage_cursor :: "interval list \<Rightarrow> u64 \<Rightarrow> u64 result" where
  "coverage_cursor [] cursor = Inr cursor"
| "coverage_cursor (iv # rest) cursor =
    (if iv_start iv \<noteq> cursor then Inl EINVAL else coverage_cursor rest (iv_start iv + iv_len iv))"

definition coverage_check :: "interval list \<Rightarrow> u64 \<Rightarrow> unit result" where
  "coverage_check coverage blocks =
    (case coverage_cursor (qsort_intervals coverage) AETHERFS_DATA_START_BLOCK of
       Inl e \<Rightarrow> Inl e
     | Inr cursor \<Rightarrow> if cursor \<noteq> blocks then Inl EINVAL else Inr ())"

section \<open>The check accepts exact partitions only\<close>

definition covers :: "nat \<Rightarrow> interval \<Rightarrow> bool" where
  "covers b iv \<longleftrightarrow> unat (iv_start iv) \<le> b \<and> b < unat (iv_start iv) + unat (iv_len iv)"

text \<open>What the validation has checked of every interval before it is collected.\<close>

definition interval_ok :: "u64 \<Rightarrow> interval \<Rightarrow> bool" where
  "interval_ok blocks iv \<longleftrightarrow> iv_len iv \<noteq> 0 \<and> iv_start iv + iv_len iv \<le> blocks"

lemma interval_sorted_start: "a \<le> b \<Longrightarrow> iv_start a \<le> iv_start b"
  by (auto simp: less_eq_interval_def aetherfs_interval_compare_def split: if_splits)

lemma word_add_wrap: "(c :: u64) + l < c \<or> unat (c + l) = unat c + unat l"
proof (cases "unat c + unat l < 2 ^ 64")
  case True
  then show ?thesis
    using unat_add_lem [of c l] by simp
next
  case False
  then have "(unat c + unat l) mod 2 ^ 64 = unat c + unat l - 2 ^ 64"
    using unat_lt_2p64 [of c] unat_lt_2p64 [of l] by (simp add: mod_if)
  then show ?thesis
    using unat_lt_2p64 [of l] False unfolding word_less_nat_alt unat_word_ariths by auto
qed

lemma coverage_cursor_partition:
  assumes "sorted xs" "\<forall>iv \<in> set xs. interval_ok blocks iv" "c \<le> blocks"
    and "coverage_cursor xs c = Inr blocks"
  shows "length (filter (covers b) xs) = (if unat c \<le> b \<and> b < unat blocks then 1 else 0)"
  using assms
proof (induction xs arbitrary: c)
  case (Cons iv xs)
  let ?e = "iv_start iv + iv_len iv"
  have c: "iv_start iv = c" and rest: "coverage_cursor xs ?e = Inr blocks"
    using Cons.prems(4) by (auto split: if_splits)
  have ok: "interval_ok blocks iv"
    using Cons.prems(2) by simp
  have "\<not> ?e < c"
  proof
    assume wrap: "?e < c"
    show False
    proof (cases xs)
      case Nil
      then show False
        using rest wrap Cons.prems(3) by simp
    next
      case (Cons y ys)
      then have "iv_start y = ?e" "iv \<le> y"
        using rest Cons.prems(1) by (auto split: if_splits)
      then show False
        using interval_sorted_start [of iv y] wrap c by simp
    qed
  qed
  then have e: "unat ?e = unat c + unat (iv_len iv)"
    using word_add_wrap [of c "iv_len iv"] c by simp
  have "?e \<le> blocks"
    using ok by (simp add: interval_ok_def)
  then have IH: "length (filter (covers b) xs) = (if unat ?e \<le> b \<and> b < unat blocks then 1 else 0)"
    using Cons.IH rest Cons.prems(1,2) by simp
  have "unat ?e \<le> unat blocks"
    using \<open>?e \<le> blocks\<close> by (simp add: word_le_nat_alt)
  then show ?case
    using IH e c covers_def [of b iv] by auto
qed auto

lemma filter_insort_length:
  "length (filter P (insort x xs)) = length (filter P (x # xs))" for x :: "'a::linorder"
  by (induction xs) auto

lemma filter_sort_length: "length (filter P (sort xs)) = length (filter P xs)" for xs :: "'a::linorder list"
  by (induction xs) (simp_all add: filter_insort_length)

lemma coverage_partition:
  assumes "coverage_check coverage blocks = Inr ()" "\<forall>iv \<in> set coverage. interval_ok blocks iv"
    and "AETHERFS_DATA_START_BLOCK \<le> blocks"
  shows "length (filter (covers b) coverage) = (if 8 \<le> b \<and> b < unat blocks then 1 else 0)"
proof -
  have "coverage_cursor (sort coverage) 8 = Inr blocks"
    using assms(1) by (auto simp: coverage_check_def qsort_intervals_def split: sum.splits if_splits)
  from coverage_cursor_partition [OF _ _ assms(3) this, of b] show ?thesis
    using assms(2) by (simp add: filter_sort_length)
qed

lemma append_items:
  assumes "aetherfs_interval_list_append l start len w = (Inr l', w')"
  shows "itl_items l' = (if len = 0 then itl_items l else itl_items l @ [Interval start len])"
  using assms by (auto simp: aetherfs_interval_list_append_def bindE_eq_Inr split: if_splits)

end
