(* ===== verification/Image_Validate.thy ===== *)
theory Image_Validate
  imports Intervals
begin

text \<open>
  The full validation of a loaded image (\<open>aetherfsprogs/image.c\<close>, lines 77 to 91 and
  1105 to 1569): the root directory, every inode with its extents, checksum chains and
  data blocks, the free extents, the coverage of the data region and the redundancy of
  the pool.
\<close>

section \<open>The root directory\<close>

text \<open>The checksum of the entry that starts at the given memory.\<close>

definition aetherfs_dirent_checksum :: "byte list \<Rightarrow> byte" where
  "aetherfs_dirent_checksum mem =
    (let name_len = unat (de_name_len (fst (dec_dir_entry mem))) in
     if name_len > AETHERFS_MAX_NAMELEN then 0
     else ucast (aetherfs_crc32c_data ((take (AETHERFS_DIR_ENTRY_BASE_SIZE + name_len) mem)[13 := 0]) AND 0xFF))"

definition dirent_name :: "byte list \<Rightarrow> byte list" where
  "dirent_name mem = take (unat (de_name_len (fst (dec_dir_entry mem)))) (drop AETHERFS_DIR_ENTRY_BASE_SIZE mem)"

abbreviation (input) dot_name :: "byte list" where "dot_name \<equiv> [0x2E]"
abbreviation (input) dotdot_name :: "byte list" where "dotdot_name \<equiv> [0x2E, 0x2E]"

lemma rec_len_progress: "offset < n \<Longrightarrow> r \<noteq> (0 :: u16) \<Longrightarrow> n - (offset + unat r) < n - (offset :: nat)"
  using unat_gt_0 [of r] by simp

function root_dir_loop :: "byte list \<Rightarrow> nat \<Rightarrow> bool \<Rightarrow> bool \<Rightarrow> (nat \<Rightarrow> bool) \<Rightarrow> (nat \<Rightarrow> bool) result" where
  "root_dir_loop mem offset saw_dot saw_dotdot dir_refs =
    (if offset < AETHERFS_DEF_BLOCK_SIZE then
       let e = drop offset mem; entry = fst (dec_dir_entry e);
           rec_len = de_rec_len entry; name_len = de_name_len entry; ino = de_ino entry in
       if rec_len = 0 \<or> rec_len AND 3 \<noteq> 0 \<or> offset + unat rec_len > AETHERFS_DEF_BLOCK_SIZE then Inl EINVAL
       else if (ucast name_len :: u32) > ucast rec_len - 14 \<or> unat name_len > AETHERFS_MAX_NAMELEN then Inl EINVAL
       else if ino \<noteq> 0 \<and> de_checksum entry \<noteq> aetherfs_dirent_checksum e then Inl EILSEQ
       else if ino \<noteq> 0 then
         if name_len = 1 \<and> dirent_name e = dot_name then
           if ino \<noteq> AETHERFS_ROOT_INO then Inl EINVAL
           else root_dir_loop mem (offset + unat rec_len) True saw_dotdot dir_refs
         else if name_len = 2 \<and> dirent_name e = dotdot_name then
           if ino \<noteq> AETHERFS_ROOT_INO then Inl EINVAL
           else root_dir_loop mem (offset + unat rec_len) saw_dot True dir_refs
         else if ino < AETHERFS_ROOT_INO \<or> ino \<ge> AETHERFS_ROOT_INO + 32640 then Inl EINVAL
         else if dir_refs (unat (ino - AETHERFS_ROOT_INO)) then Inl EEXIST
         else root_dir_loop mem (offset + unat rec_len) saw_dot saw_dotdot
                (dir_refs(unat (ino - AETHERFS_ROOT_INO) := True))
       else root_dir_loop mem (offset + unat rec_len) saw_dot saw_dotdot dir_refs
     else if saw_dot \<and> saw_dotdot then Inr dir_refs else Inl EINVAL)"
  by pat_completeness auto
termination
  by (relation "measure (\<lambda>(mem, offset, _). 4096 - offset)") (auto intro: rec_len_progress)

declare root_dir_loop.simps [simp del]

text \<open>The entries lie in \<open>root_dir\<close>; a header or name that crosses its end is read from behind it.\<close>

definition aetherfs_image_validate_root_dir :: "byte list \<Rightarrow> image \<Rightarrow> (nat \<Rightarrow> bool) result" where
  "aetherfs_image_validate_root_dir after img =
    root_dir_loop (img_root_dir img @ after) 0 False False (\<lambda>_. False)"

section \<open>Inodes\<close>

record scrub_report =
  rp_files :: u32
  rp_directories :: u32
  rp_inodes_used :: u32
  rp_data_blocks :: u64
  rp_free_blocks :: u64

record vstate =
  vs_used :: interval_list
  vs_files :: u32
  vs_directories :: u32
  vs_data_blocks :: u64

definition S_ISDIR :: "u16 \<Rightarrow> bool" where "S_ISDIR mode = (mode AND 0xF000 = 0x4000)"
definition S_ISREG :: "u16 \<Rightarrow> bool" where "S_ISREG mode = (mode AND 0xF000 = 0x8000)"

definition use_interval :: "u64 \<Rightarrow> u64 \<Rightarrow> vstate \<Rightarrow> (world, vstate) action" where
  "use_interval start len st =
    bindE (aetherfs_interval_list_append (vs_used st) start len) (\<lambda>l. okE (st\<lparr>vs_used := l\<rparr>))"

text \<open>The data blocks that one checksum block covers.\<close>

definition verify_sum :: "image \<Rightarrow> checksum_block \<Rightarrow> u64 \<Rightarrow> nat \<Rightarrow> unit \<Rightarrow> (world, unit) action" where
  "verify_sum img sums first_block sum_index _ =
    bindE (aetherfs_image_read_block img (first_block + of_nat sum_index)) (\<lambda>block.
    guardE (aetherfs_crc32c_data block = cb_sums sums ! sum_index) EILSEQ)"

function csum_chain :: "image \<Rightarrow> u64 \<Rightarrow> u64 \<Rightarrow> u64 \<Rightarrow> u64 \<Rightarrow> vstate \<Rightarrow> (world, vstate) action" where
  "csum_chain img pstart len csum_block validated st w =
    (if validated < len then
       (case use_interval csum_block 1 st w of
          (Inl e, w) \<Rightarrow> (Inl e, w)
        | (Inr st, w) \<Rightarrow>
       (case aetherfs_read_checksum_block img csum_block w of
          (Inl e, w) \<Rightarrow> (Inl e, w)
        | (Inr sums, w) \<Rightarrow>
       let entries = cb_entries sums in
       if entries = 0 \<or> unat entries > AETHERFS_CHECKSUMS_PER_BLOCK \<or> ucast entries > len - validated
       then (Inl EINVAL, w)
       else
       (case forE (verify_sum img sums (pstart + validated)) [0..<unat entries] () w of
          (Inl e, w) \<Rightarrow> (Inl e, w)
        | (Inr _, w) \<Rightarrow>
       let validated = validated + ucast entries; next = cb_next sums in
       if validated < len then
         if next < AETHERFS_DATA_START_BLOCK \<or> next \<ge> img_blocks img then (Inl EINVAL, w)
         else csum_chain img pstart len next validated st w
       else if next \<noteq> 0 then (Inl EINVAL, w)
       else (Inr st, w))))
     else (Inr st, w))"
  by pat_completeness auto

lemma csum_progress:
  assumes "validated < (len :: u64)" "e \<noteq> (0 :: u32)" "\<not> ucast e > len - validated"
  shows "unat (len - (validated + ucast e)) < unat (len - validated)"
proof -
  have e: "0 < unat (ucast e :: u64)"
    using assms(2) by (simp add: unat_gt_0)
  have le: "ucast e \<le> len - validated"
    using assms(3) by (simp add: not_less)
  have "unat (len - validated - ucast e) = unat (len - validated) - unat (ucast e :: u64)"
    using le by (simp only: unat_sub)
  moreover have "len - (validated + ucast e) = len - validated - ucast e"
    by (rule diff_diff_add [symmetric])
  ultimately have eq: "unat (len - (validated + ucast e)) = unat (len - validated) - unat (ucast e :: u64)"
    by (simp only:)
  show ?thesis
    unfolding eq using e le [unfolded word_le_nat_alt] by (intro diff_less) linarith+
qed

termination csum_chain
  by (relation "measure (\<lambda>(img, pstart, len, csum_block, validated, st, w). unat (len - validated))")
    (auto intro: csum_progress)

declare csum_chain.simps [simp del]

record extent_state =
  es_vstate :: vstate
  es_logical_cursor :: u64
  es_file_blocks :: u64

definition validate_extent :: "image \<Rightarrow> extent_node \<Rightarrow> nat \<Rightarrow> extent_state \<Rightarrow> (world, extent_state) action" where
  "validate_extent img extents extent_index es =
    (let x = en_extents extents ! extent_index; len = e_len x; pstart = e_pstart x in
     if len = 0 \<or> e_lstart x \<noteq> es_logical_cursor es \<or> pstart < AETHERFS_DATA_START_BLOCK \<or>
        pstart + len > img_blocks img \<or> e_csum_start x < AETHERFS_DATA_START_BLOCK \<or>
        e_csum_start x \<ge> img_blocks img
     then failE EINVAL
     else bindE (use_interval pstart len (es_vstate es)) (\<lambda>st.
       bindE (csum_chain img pstart len (e_csum_start x) 0 st) (\<lambda>st.
       okE \<lparr>es_vstate = st\<lparr>vs_data_blocks := vs_data_blocks st + len\<rparr>,
            es_logical_cursor = es_logical_cursor es + len,
            es_file_blocks = es_file_blocks es + len\<rparr>)))"

definition validate_file :: "image \<Rightarrow> inode \<Rightarrow> vstate \<Rightarrow> (world, vstate) action" where
  "validate_file img n st =
    (let extent_root = i_extent_root n in
     if extent_root < AETHERFS_DATA_START_BLOCK \<or> extent_root \<ge> img_blocks img then failE EINVAL
     else bindE (use_interval extent_root 1 st) (\<lambda>st.
       bindE (aetherfs_read_extent_node img extent_root) (\<lambda>extents.
       bindE (guardE (en_next extents = 0) EOPNOTSUPP) (\<lambda>_.
       bindE (forE (validate_extent img extents) [0..<unat (en_count extents)]
         \<lparr>es_vstate = st, es_logical_cursor = 0, es_file_blocks = 0\<rparr>) (\<lambda>es.
       let file_blocks = es_file_blocks es; inode_size = i_size n in
       bindE (guardE (file_blocks = i_blocks n) EINVAL) (\<lambda>_.
       bindE (guardE (\<not> ((file_blocks = 0 \<and> inode_size \<noteq> 0) \<or>
         (file_blocks \<noteq> 0 \<and> (inode_size > file_blocks * 4096 \<or> inode_size \<le> (file_blocks - 1) * 4096)))) EINVAL) (\<lambda>_.
       okE (es_vstate es))))))))"

definition validate_inode :: "image \<Rightarrow> (nat \<Rightarrow> bool) \<Rightarrow> nat \<Rightarrow> vstate \<Rightarrow> (world, vstate) action" where
  "validate_inode img dir_refs index st =
    (let n = img_inode_table img ! index; mode = i_mode n in
     if \<not> aetherfs_image_bitmap_test (img_inode_bitmap img) index then
       if mode \<noteq> 0 then failE EINVAL else okE st
     else if mode = 0 then failE EINVAL
     else if i_checksum n \<noteq> aetherfs_inode_checksum n then failE EILSEQ
     else if S_ISDIR mode then
       if index \<noteq> 0 \<or> i_extent_root n \<noteq> cr_root_dir_block (img_checkpoint_root img) then failE EINVAL
       else okE (st\<lparr>vs_directories := vs_directories st + 1\<rparr>)
     else if \<not> S_ISREG mode \<or> \<not> dir_refs index then failE EINVAL
     else validate_file img n (st\<lparr>vs_files := vs_files st + 1\<rparr>))"

section \<open>Free extents\<close>

record free_state =
  fr_coverage :: interval_list
  fr_free_blocks :: u64
  fr_last_end :: u64

definition validate_free_extent :: "image \<Rightarrow> nat \<Rightarrow> free_state \<Rightarrow> (world, free_state) action" where
  "validate_free_extent img index fs =
    (let x = en_extents (img_free_extents img) ! index; start = e_pstart x; len = e_len x in
     if len = 0 \<or> start < fr_last_end fs \<or> start + len > img_blocks img then failE EINVAL
     else bindE (aetherfs_interval_list_append (fr_coverage fs) start len) (\<lambda>l.
       okE \<lparr>fr_coverage = l, fr_free_blocks = fr_free_blocks fs + len, fr_last_end = start + len\<rparr>))"

definition validate_free_list :: "image \<Rightarrow> (world, free_state) action" where
  "validate_free_list img =
    (let node = img_free_extents img in
     if en_next node \<noteq> 0 \<or> unat (en_count node) > AETHERFS_EXTENT_LOG_MAX then failE EINVAL
     else forE (validate_free_extent img) [0..<unat (en_count node)]
       \<lparr>fr_coverage = empty_list, fr_free_blocks = 0, fr_last_end = AETHERFS_DATA_START_BLOCK\<rparr>)"

definition collect_used :: "interval \<Rightarrow> interval_list \<Rightarrow> (world, interval_list) action" where
  "collect_used iv coverage =
    (if iv_start iv < AETHERFS_DATA_START_BLOCK then okE coverage
     else aetherfs_interval_list_append coverage (iv_start iv) (iv_len iv))"

section \<open>Redundancy of the pool\<close>

text \<open>The ordinals from \<open>first\<close> to the number of members; a negative \<open>aetherfs_mask_nth\<close> is an error.\<close>

definition for_ordinals ::
  "u32 \<Rightarrow> nat \<Rightarrow> (nat \<Rightarrow> 's \<Rightarrow> (world, 's) action) \<Rightarrow> 's \<Rightarrow> (world, 's) action" where
  "for_ordinals m first f s =
    forE (\<lambda>ordinal s. case aetherfs_mask_nth m (of_nat ordinal) of
        None \<Rightarrow> failE EINVAL | Some member_index \<Rightarrow> f member_index s)
      [first..<unat (aetherfs_mask_count m)] s"

definition compare_member :: "image \<Rightarrow> u64 \<Rightarrow> byte list \<Rightarrow> nat \<Rightarrow> unit \<Rightarrow> (world, unit) action" where
  "compare_member img block baseline member_index _ =
    bindE (aetherfs_image_read_physical_member img (of_nat member_index) block) (\<lambda>candidate.
    guardE (baseline = candidate) EILSEQ)"

text \<open>All members of a mask hold the same block.\<close>

definition compare_replicas :: "image \<Rightarrow> u32 \<Rightarrow> u64 \<Rightarrow> (world, unit) action" where
  "compare_replicas img m block =
    (case aetherfs_mask_first m of
       None \<Rightarrow> failE EINVAL
     | Some first_member \<Rightarrow>
         bindE (aetherfs_image_read_physical_member img (of_nat first_member) block) (\<lambda>baseline.
         for_ordinals m 1 (compare_member img block baseline) ()))"

definition aetherfs_image_validate_bootstrap_replicas :: "image \<Rightarrow> (world, unit) action" where
  "aetherfs_image_validate_bootstrap_replicas img =
    forE (\<lambda>block _.
      let m = aetherfs_pool_role_mask_for_bootstrap_block img block in
      if aetherfs_mask_count m \<le> 1 then okE () else compare_replicas img m block)
    [1, 2, 3, 4, 5, 6, 7] ()"

text \<open>The data blocks of the used intervals, in order.\<close>

definition for_used_blocks :: "interval_list \<Rightarrow> (u64 \<Rightarrow> (world, unit) action) \<Rightarrow> (world, unit) action" where
  "for_used_blocks used f =
    forE (\<lambda>iv _.
      if iv_start iv < AETHERFS_DATA_START_BLOCK then okE ()
      else forE (\<lambda>offset _. f (iv_start iv + of_nat offset)) [0..<unat (iv_len iv)] ())
    (itl_items used) ()"

definition aetherfs_image_validate_mirror_data :: "image \<Rightarrow> interval_list \<Rightarrow> (world, unit) action" where
  "aetherfs_image_validate_mirror_data img used =
    (let m = aetherfs_pool_data_mask img in
     if aetherfs_mask_count m \<le> 1 then okE ()
     else if aetherfs_mask_first m = None then failE EINVAL
     else for_used_blocks used (compare_replicas img m))"

definition add_to_parity :: "image \<Rightarrow> u64 \<Rightarrow> nat \<Rightarrow> byte list \<Rightarrow> (world, byte list) action" where
  "add_to_parity img member_block member_index parity =
    bindE (aetherfs_image_read_physical_member img (of_nat member_index) member_block) (\<lambda>block.
    okE (xor_bytes parity block))"

definition verify_parity_row :: "image \<Rightarrow> u64 \<Rightarrow> (world, unit) action" where
  "verify_parity_row img logical_block =
    bindE (liftE (aetherfs_pool_map_parity img logical_block)) (\<lambda>mapping.
    bindE (for_ordinals (aetherfs_pool_data_mask img) 0 (add_to_parity img (mp_member_block mapping)) zero_block) (\<lambda>parity.
    guardE (list_all (\<lambda>x. x = 0) parity) EILSEQ))"

definition aetherfs_image_validate_parity :: "image \<Rightarrow> interval_list \<Rightarrow> (world, unit) action" where
  "aetherfs_image_validate_parity img used =
    (if aetherfs_mask_count (aetherfs_pool_data_mask img) < 3 then failE EINVAL
     else for_used_blocks used (verify_parity_row img))"

definition aetherfs_image_validate_pool_redundancy :: "image \<Rightarrow> interval_list \<Rightarrow> (world, unit) action" where
  "aetherfs_image_validate_pool_redundancy img used =
    bindE (aetherfs_image_validate_bootstrap_replicas img) (\<lambda>_.
    if aetherfs_pool_profile img = AETHERFS_POOL_PROFILE_MIRROR then aetherfs_image_validate_mirror_data img used
    else if aetherfs_pool_profile img = AETHERFS_POOL_PROFILE_PARITY then aetherfs_image_validate_parity img used
    else okE ())"

section \<open>The validation\<close>

definition aetherfs_image_validate :: "image \<Rightarrow> (world, scrub_report) action" where
  "aetherfs_image_validate img =
    (if il_outstanding (img_journal img) \<noteq> 0 then failE EUCLEAN
     else if \<not> aetherfs_image_bitmap_test (img_inode_bitmap img) 0 then failE EINVAL
     else bindE (\<lambda>w. liftE (aetherfs_image_validate_root_dir (w_after w) img) w) (\<lambda>dir_refs.
       bindE (use_interval (cr_root_dir_block (img_checkpoint_root img)) 1
         \<lparr>vs_used = empty_list, vs_files = 0, vs_directories = 0, vs_data_blocks = 0\<rparr>) (\<lambda>st.
       bindE (forE (validate_inode img dir_refs) [0..<AETHERFS_MAX_INODES] st) (\<lambda>st.
       bindE (validate_free_list img) (\<lambda>fs.
       let used = (vs_used st)\<lparr>itl_items := qsort_intervals (itl_items (vs_used st))\<rparr> in
       bindE (forE collect_used (itl_items used) (fr_coverage fs)) (\<lambda>coverage.
       bindE (liftE (coverage_check (itl_items coverage) (img_blocks img))) (\<lambda>_.
       bindE (guardE (s_free_blocks (img_super img) = fr_free_blocks fs) EINVAL) (\<lambda>_.
       bindE (aetherfs_image_validate_pool_redundancy img used) (\<lambda>_.
       okE \<lparr>rp_files = vs_files st, rp_directories = vs_directories st,
            rp_inodes_used = bb_set_bits (img_inode_bitmap img), rp_data_blocks = vs_data_blocks st,
            rp_free_blocks = fr_free_blocks fs\<rparr>)))))))))"

end
