(* ===== verification/Admin.thy ===== *)
theory Admin
  imports Image_Validate
begin

text \<open>
  The scrub, health and forensics commands (\<open>aetherfsprogs/scrub.c\<close> and
  \<open>aetherfsprogs/health.c\<close>).  What a command prints is part of its result; the text of
  \<open>strerror\<close> is a parameter.
\<close>

section \<open>Path names\<close>

text \<open>\<open>dirname\<close> and \<open>basename\<close> of the C library.\<close>

definition strip_slashes :: "path \<Rightarrow> path" where
  "strip_slashes p = rev (dropWhile (\<lambda>c. c = CHR ''/'') (rev p))"

definition dirname :: "path \<Rightarrow> path" where
  "dirname p =
    (let q = strip_slashes p in
     if p = [] then ''.''
     else if q = [] then ''/''
     else if CHR ''/'' \<notin> set q then ''.''
     else let d = strip_slashes (rev (dropWhile (\<lambda>c. c \<noteq> CHR ''/'') (rev q))) in
       if d = [] then ''/'' else d)"

definition basename :: "path \<Rightarrow> path" where
  "basename p =
    (let q = strip_slashes p in
     if p = [] then ''.''
     else if q = [] then ''/''
     else rev (takeWhile (\<lambda>c. c \<noteq> CHR ''/'') (rev q)))"

section \<open>Scrub\<close>

record scrub_options =
  sc_path :: path
  sc_members :: "device_spec list"

definition aetherfs_scrub_profile_name :: "u32 \<Rightarrow> string" where
  "aetherfs_scrub_profile_name profile =
    (if profile = AETHERFS_POOL_PROFILE_SINGLE then ''single''
     else if profile = AETHERFS_POOL_PROFILE_MIRROR then ''mirror''
     else if profile = AETHERFS_POOL_PROFILE_STRIPE then ''stripe''
     else if profile = AETHERFS_POOL_PROFILE_PARITY then ''parity''
     else if profile = AETHERFS_POOL_PROFILE_TIERED then ''tiered''
     else ''unknown'')"

record scrub_output =
  so_profile :: string
  so_members :: u32
  so_checkpoint_root :: u64
  so_logical_blocks :: u64
  so_report :: scrub_report

text \<open>\<open>calloc\<close> fails when the next outcome is an error.\<close>

definition calloc :: "(world, unit) action" where
  "calloc w = (case syscall w of (Inl _, w') \<Rightarrow> (Inl ENOMEM, w') | (Inr x, w') \<Rightarrow> (Inr x, w'))"

definition aetherfs_run_scrub :: "scrub_options \<Rightarrow> (world, scrub_output) action" where
  "aetherfs_run_scrub options =
    bindE calloc (\<lambda>_.
    bindE (if sc_members options \<noteq> [] then aetherfs_image_open_pool (sc_members options) False
           else aetherfs_image_open (sc_path options) False) (\<lambda>img.
    finallyE
      (bindE (aetherfs_image_load img) (\<lambda>img.
       bindE (aetherfs_image_validate img) (\<lambda>report.
       okE \<lparr>so_profile = aetherfs_scrub_profile_name (pl_profile (img_pool_label img)),
            so_members = img_member_count img,
            so_checkpoint_root = s_checkpoint (img_super img) ! 0,
            so_logical_blocks = pl_logical_blocks (img_pool_label img),
            so_report = report\<rparr>)))
      (aetherfs_image_close img)))"

section \<open>Health\<close>

record admin_options =
  ad_path :: "path option"
  ad_members :: "device_spec list"
  ad_output_path :: "path option"

definition aetherfs_open_admin_image :: "admin_options \<Rightarrow> (world, image) action" where
  "aetherfs_open_admin_image options =
    (if ad_members options \<noteq> [] then aetherfs_image_open_pool (ad_members options) False
     else case ad_path options of None \<Rightarrow> failE EINVAL | Some p \<Rightarrow> aetherfs_image_open p False)"

definition aetherfs_profile_name :: "u32 \<Rightarrow> string" where
  "aetherfs_profile_name profile =
    (if profile = AETHERFS_POOL_PROFILE_SINGLE then ''single''
     else if profile = AETHERFS_POOL_PROFILE_MIRROR then ''mirror''
     else if profile = AETHERFS_POOL_PROFILE_STRIPE then ''stripe''
     else if profile = AETHERFS_POOL_PROFILE_PARITY then ''parity''
     else if profile = AETHERFS_POOL_PROFILE_TIERED then ''tiered''
     else ''unknown'')"

text \<open>
  What \<open>aetherfs_image_load\<close> and \<open>aetherfs_image_validate\<close> left, with the two return
  codes (None is zero).
\<close>

datatype inspection =
    Unreadable errno
  | Damaged image errno
  | Clean image scrub_report

fun load_rc :: "inspection \<Rightarrow> errno option" where
  "load_rc (Unreadable e) = Some e"
| "load_rc (Damaged img e) = None"
| "load_rc (Clean img r) = None"

fun validate_rc :: "inspection \<Rightarrow> errno option" where
  "validate_rc (Unreadable e) = Some e"
| "validate_rc (Damaged img e) = Some e"
| "validate_rc (Clean img r) = None"

definition aetherfs_mount_recommendation :: "errno option \<Rightarrow> errno option \<Rightarrow> string" where
  "aetherfs_mount_recommendation l v =
    (if l = None \<and> v = None then ''strict''
     else if l = None then ''degraded-read-only''
     else ''rescue'')"

definition recommended :: "inspection \<Rightarrow> string" where
  "recommended i = aetherfs_mount_recommendation (load_rc i) (validate_rc i)"

definition inspect :: "image \<Rightarrow> world \<Rightarrow> inspection \<times> world" where
  "inspect img w =
    (case aetherfs_image_load img w of
       (Inl e, w) \<Rightarrow> (Unreadable e, w)
     | (Inr img, w) \<Rightarrow>
         (case aetherfs_image_validate img w of
            (Inl e, w) \<Rightarrow> (Damaged img e, w)
          | (Inr report, w) \<Rightarrow> (Clean img report, w)))"

text \<open>The values the command prints; the scrub line has the error or the counts.\<close>

record health_summary =
  hs_profile :: string
  hs_members :: u32
  hs_checkpoint_root :: u64
  hs_logical_blocks :: u64
  hs_data_region :: "u64 \<times> u64"
  hs_free_blocks :: u64

datatype health_output =
    Health_unreadable errno string
  | Health_damaged health_summary errno string
  | Health_clean health_summary u32 u32 u64 string

definition health_summary_of :: "image \<Rightarrow> health_summary" where
  "health_summary_of img =
    \<lparr>hs_profile = aetherfs_profile_name (pl_profile (img_pool_label img)),
     hs_members = img_member_count img,
     hs_checkpoint_root = s_checkpoint (img_super img) ! 0,
     hs_logical_blocks = pl_logical_blocks (img_pool_label img),
     hs_data_region = (cr_data_region_start (img_checkpoint_root img), cr_data_region_end (img_checkpoint_root img)),
     hs_free_blocks = s_free_blocks (img_super img)\<rparr>"

fun health_lines :: "inspection \<Rightarrow> health_output" where
  "health_lines (Unreadable e) = Health_unreadable e (recommended (Unreadable e))"
| "health_lines (Damaged img e) = Health_damaged (health_summary_of img) e (recommended (Damaged img e))"
| "health_lines (Clean img r) = Health_clean (health_summary_of img)
     (rp_files r) (rp_directories r) (rp_data_blocks r) (recommended (Clean img r))"

definition aetherfs_run_health :: "admin_options \<Rightarrow> world \<Rightarrow> (errno option \<times> health_output option) \<times> world" where
  "aetherfs_run_health options w =
    (case bindE calloc (\<lambda>_. aetherfs_open_admin_image options) w of
       (Inl e, w) \<Rightarrow> ((Some e, None), w)
     | (Inr img, w) \<Rightarrow>
         let (i, w) = inspect img w in
         ((validate_rc i, Some (health_lines i)), aetherfs_image_close img w))"

section \<open>Forensics\<close>

definition aetherfs_make_dir_if_missing :: "path \<Rightarrow> (world, unit) action" where
  "aetherfs_make_dir_if_missing p w =
    (case stat_kind p w of
       (Inr kind, w) \<Rightarrow> (if kind = S_IFDIR then Inr () else Inl ENOTDIR, w)
     | (Inl _, w) \<Rightarrow> make_dir p w)"

text \<open>Decimal digits, as \<open>%u\<close> and \<open>%llu\<close> print them.\<close>

fun digits :: "nat \<Rightarrow> string" where
  "digits n = (if n < 10 then [char_of (48 + n)] else digits (n div 10) @ [char_of (48 + n mod 10)])"

declare digits.simps [simp del]

definition text_bytes :: "string \<Rightarrow> byte list" where
  "text_bytes = map (\<lambda>c. of_nat (of_char c))"

text \<open>One \<open>pread\<close>, which must return the whole block.\<close>

definition aetherfs_copy_block_to_file :: "path \<Rightarrow> path \<Rightarrow> u64 \<Rightarrow> (world, unit) action" where
  "aetherfs_copy_block_to_file source dest block =
    bindE (open_file source False) (\<lambda>in_fd w.
      let (r, w) = pread in_fd AETHERFS_DEF_BLOCK_SIZE (block * 4096) w; w = close_fd in_fd w in
      case r of
        Inl e \<Rightarrow> (Inl e, w)
      | Inr buffer \<Rightarrow> if length buffer \<noteq> AETHERFS_DEF_BLOCK_SIZE then (Inl EIO, w)
          else bindE (open_trunc dest) (\<lambda>out_fd. finallyE (aetherfs_write_all out_fd 0 buffer) (close_fd out_fd)) w)"

definition u64_text :: "u64 \<Rightarrow> string" where
  "u64_text n = digits (unat n)"

definition line :: "string \<Rightarrow> string \<Rightarrow> string" where
  "line key v = key @ '': '' @ v @ [CHR 0x0A]"

definition report_head :: "image \<Rightarrow> string \<Rightarrow> string \<Rightarrow> string" where
  "report_head img status scrub =
    line ''status'' status @
    line ''profile'' (aetherfs_profile_name (pl_profile (img_pool_label img))) @
    line ''members'' (digits (unat (img_member_count img))) @
    line ''checkpoint_root'' (u64_text (s_checkpoint (img_super img) ! 0)) @
    line ''logical_blocks'' (u64_text (pl_logical_blocks (img_pool_label img))) @
    line ''data_region'' (u64_text (cr_data_region_start (img_checkpoint_root img)) @ ''-'' @
      u64_text (cr_data_region_end (img_checkpoint_root img))) @
    line ''free_blocks'' (u64_text (s_free_blocks (img_super img))) @
    line ''load_result'' ''ok'' @
    line ''scrub_result'' scrub"

fun report_text :: "(errno \<Rightarrow> string) \<Rightarrow> inspection \<Rightarrow> string" where
  "report_text strerror (Unreadable e) =
    line ''status'' ''unreadable'' @ line ''load_result'' (strerror e) @
    line ''recommended_mount'' (recommended (Unreadable e))"
| "report_text strerror (Damaged img e) =
    report_head img ''damaged'' (strerror e) @ line ''recommended_mount'' (recommended (Damaged img e))"
| "report_text strerror (Clean img r) =
    report_head img ''clean'' ''ok'' @ line ''recommended_mount'' (recommended (Clean img r))"

definition aetherfs_write_report :: "(errno \<Rightarrow> string) \<Rightarrow> path \<Rightarrow> inspection \<Rightarrow> (world, unit) action" where
  "aetherfs_write_report strerror p i =
    bindE (open_trunc p) (\<lambda>fd.
    finallyE
      (let report = report_text strerror i in
       if length report \<ge> 4096 then failE EOVERFLOW else aetherfs_write_all fd 0 (text_bytes report))
      (close_fd fd))"

text \<open>\<open>snprintf\<close> into the 512 byte path buffer.\<close>

definition block_dump_path :: "path \<Rightarrow> nat \<Rightarrow> u64 \<Rightarrow> path" where
  "block_dump_path output member block =
    take 511 (output @ ''/member'' @ digits member @ ''-block'' @ digits (unat block) @ ''.bin'')"

definition aetherfs_run_forensics :: "(errno \<Rightarrow> string) \<Rightarrow> admin_options \<Rightarrow> (world, unit) action" where
  "aetherfs_run_forensics strerror options =
    (case ad_output_path options of
       None \<Rightarrow> failE EINVAL
     | Some output \<Rightarrow>
        bindE (aetherfs_make_dir_if_missing output) (\<lambda>_.
        bindE calloc (\<lambda>_.
        bindE (aetherfs_open_admin_image options) (\<lambda>img.
        finallyE
          (\<lambda>w.
           let (i, w) = inspect img w;
               sources = (if ad_members options \<noteq> [] then map ds_path (ad_members options)
                          else [case ad_path options of Some p \<Rightarrow> p | None \<Rightarrow> []]) in
           bindE (forE (\<lambda>(member, source) _.
               forE (\<lambda>block _. aetherfs_copy_block_to_file source (block_dump_path output member block) block)
                 [0, 1, 2, 3, 4, 5, 6, 7] ())
               (enumerate 0 sources) ()) (\<lambda>_.
           bindE (aetherfs_write_report strerror (take 511 (output @ ''/report.txt'')) i) (\<lambda>_.
           case validate_rc i of None \<Rightarrow> okE () | Some e \<Rightarrow> failE e)) w)
          (aetherfs_image_close img)))))"

end
