(* ===== verification/Validate_Sound.thy ===== *)
theory Validate_Sound
  imports Image_Validate "HOL-Library.Multiset"
begin

text \<open>
  What an accepted image guarantees: reading never changes a file, and the free extents,
  the data extents of the files and some metadata blocks partition the data region, so
  that no block is used twice or both used and free.
\<close>

section \<open>Validation only reads\<close>

lemma keeps_advI: "(\<And>w r w'. m w = (r, w') \<Longrightarrow> sched_adv w w') \<Longrightarrow> keeps (sched_adv w0) m"
  by (rule keepsI) (metis prod.collapse sched_adv_trans)

lemma keeps_read_all: "keeps (sched_adv w0) (aetherfs_read_all fd off n)"
  by (rule keeps_advI) (rule read_all_adv)

lemma keeps_read_physical [intro]: "keeps (sched_adv w0) (aetherfs_image_read_physical_member img i b)"
  by (simp add: aetherfs_image_read_physical_member_def aetherfs_member_read_block_def keeps_read_all)

lemma keeps_read_any [intro]: "keeps (sched_adv w0) (read_any_member img b is)"
proof (induction "is")
  case (Cons i "is")
  show ?case
  proof (rule keepsI)
    fix w assume w: "sched_adv w0 w"
    obtain r w1 where 1: "aetherfs_image_read_physical_member img (of_nat i) b w = (r, w1)"
      by fastforce
    then have "sched_adv w0 w1"
      using keepsD [OF keeps_read_physical w] by blast
    then show "sched_adv w0 (snd (read_any_member img b (i # is) w))"
      using 1 Cons by (cases r) (auto simp: keeps_def)
  qed
qed simp

lemma keeps_read_block [intro]: "keeps (sched_adv w0) (aetherfs_image_read_block img b)"
  unfolding aetherfs_image_read_block_def by auto

lemma keeps_syscall [intro]: "keeps (sched_adv w0) syscall"
  by (rule keeps_advI)
    (auto simp: syscall_def next_outcome_adv split: prod.splits outcome.splits)

lemma keeps_realloc [intro]: "keeps (sched_adv w0) realloc_items"
proof (rule keepsI)
  fix w assume "sched_adv w0 w"
  then show "sched_adv w0 (snd (realloc_items w))"
    using keepsD [OF keeps_syscall, of w0 w] by (cases "syscall w") (auto simp: realloc_items_def split: sum.splits)
qed

lemma keeps_append [intro]: "keeps (sched_adv w0) (aetherfs_interval_list_append l s n)"
  unfolding aetherfs_interval_list_append_def by auto

lemma keeps_use_interval [intro]: "keeps (sched_adv w0) (use_interval s n st)"
  unfolding use_interval_def by auto

lemma keeps_read_extent_node [intro]: "keeps (sched_adv w0) (aetherfs_read_extent_node img b)"
  unfolding aetherfs_read_extent_node_def Let_def by auto

lemma keeps_read_checksum_block [intro]: "keeps (sched_adv w0) (aetherfs_read_checksum_block img b)"
  unfolding aetherfs_read_checksum_block_def Let_def by auto

lemma keeps_verify_sum [intro]: "keeps (sched_adv w0) (verify_sum img sums b i u)"
  unfolding verify_sum_def by auto

section \<open>The intervals that validation collects\<close>

abbreviation used_items :: "vstate \<Rightarrow> interval list" where
  "used_items st \<equiv> itl_items (vs_used st)"

lemma use_interval_items:
  "use_interval s n st w = (Inr st', w') \<Longrightarrow> n \<noteq> 0 \<Longrightarrow> used_items st' = used_items st @ [Interval s n]"
  by (auto simp: use_interval_def bindE_eq_Inr dest: append_items)

definition used_ok :: "u64 \<Rightarrow> interval \<Rightarrow> bool" where
  "used_ok blocks iv \<longleftrightarrow> interval_ok blocks iv \<and> AETHERFS_DATA_START_BLOCK \<le> iv_start iv"

lemma block_interval_ok: "8 \<le> b \<Longrightarrow> b < blocks \<Longrightarrow> used_ok blocks (Interval b 1)"
  using unat_lt_2p64 [of blocks] unat_add_lem [of b 1]
  by (auto simp: used_ok_def interval_ok_def word_le_nat_alt word_less_nat_alt)

text \<open>A checksum chain adds one-block intervals and reads only.\<close>

lemma csum_chain_items:
  assumes "csum_chain img pstart len c validated st w = (Inr st', w')"
    and "AETHERFS_DATA_START_BLOCK \<le> c" "c < img_blocks img"
  shows "sched_adv w w' \<and> (\<exists>meta. used_items st' = used_items st @ meta \<and> (\<forall>iv \<in> set meta. used_ok (img_blocks img) iv))"
  using assms
proof (induction img pstart len c validated st w rule: csum_chain.induct)
  case (1 img pstart len c validated st w)
  show ?case
  proof (cases "validated < len")
    case False
    then show ?thesis
      using "1.prems"(1) by (subst (asm) csum_chain.simps) (auto intro!: exI [of _ "[]"])
  next
    case less: True
    obtain r1 w1 where 1: "use_interval c 1 st w = (r1, w1)" by fastforce
    then obtain st1 where st1: "r1 = Inr st1"
      using "1.prems"(1) less by (subst (asm) csum_chain.simps) (cases r1; simp)
    obtain r2 w2 where 2: "aetherfs_read_checksum_block img c w1 = (r2, w2)" by fastforce
    then obtain sums where sums: "r2 = Inr sums"
      using "1.prems"(1) less 1 st1 by (subst (asm) csum_chain.simps) (cases r2; simp)
    let ?n = "cb_entries sums"
    have n: "\<not> (?n = 0 \<or> unat ?n > AETHERFS_CHECKSUMS_PER_BLOCK \<or> ucast ?n > len - validated)"
      using "1.prems"(1) less 1 st1 2 sums by (subst (asm) csum_chain.simps) (auto simp: Let_def split: if_splits)
    obtain r3 w3 where 3: "forE (verify_sum img sums (pstart + validated)) [0..<unat ?n] () w2 = (r3, w3)" by fastforce
    have "\<exists>u. r3 = Inr u"
      using "1.prems"(1) less 1 st1 2 sums 3 n by (subst (asm) csum_chain.simps) (cases r3; simp add: Let_def)
    then have u: "r3 = Inr ()" by simp
    have adv: "sched_adv w w3"
      using keepsD [OF keeps_use_interval [of w] _ 1] keepsD [OF keeps_read_checksum_block [of w] _ 2]
        keepsD [OF keeps_forE [of "sched_adv w" "verify_sum img sums (pstart + validated)"] _ 3]
      by blast
    have items: "used_items st1 = used_items st @ [Interval c 1]"
      using use_interval_items [OF 1 [unfolded st1]] by simp
    let ?v = "validated + ucast ?n"
    have step: "(if ?v < len
        then if cb_next sums < 8 \<or> cb_next sums \<ge> img_blocks img then (Inl EINVAL, w3)
          else csum_chain img pstart len (cb_next sums) ?v st1 w3
        else if cb_next sums \<noteq> 0 then (Inl EINVAL, w3) else (Inr st1, w3)) = (Inr st', w')"
      using "1.prems"(1) less 1 st1 2 sums 3 u n by (subst (asm) csum_chain.simps) (simp add: Let_def)
    show ?thesis
    proof (cases "?v < len")
      case True
      then have nx: "\<not> cb_next sums < 8" "\<not> cb_next sums \<ge> img_blocks img"
        and rec: "csum_chain img pstart len (cb_next sums) ?v st1 w3 = (Inr st', w')"
        using step n by (auto split: if_splits)
      have "sched_adv w3 w' \<and> (\<exists>meta. used_items st' = used_items st1 @ meta \<and>
          (\<forall>iv \<in> set meta. used_ok (img_blocks img) iv))"
        using "1.IH" [OF less 1 [symmetric] st1 2 [symmetric] sums refl n 3 [symmetric] u refl refl True] nx rec
        by (auto simp: not_less not_le)
      then show ?thesis
        using adv items block_interval_ok [OF "1.prems"(2,3)] sched_adv_trans by fastforce
    next
      case False
      then have "st' = st1" "w' = w3"
        using step n by (auto split: if_splits)
      then show ?thesis
        using adv items block_interval_ok [OF "1.prems"(2,3)] by fastforce
    qed
  qed
qed

definition ext_interval :: "extent \<Rightarrow> interval" where
  "ext_interval x = Interval (e_pstart x) (e_len x)"

text \<open>The intervals of \<open>data\<close>, and one-block metadata intervals, have been collected.\<close>

definition grows :: "image \<Rightarrow> interval list \<Rightarrow> vstate \<Rightarrow> vstate \<Rightarrow> bool" where
  "grows img data st st' \<longleftrightarrow> (\<exists>meta. mset (used_items st') = mset (used_items st) + mset data + mset meta \<and>
     (\<forall>iv \<in> set data \<union> set meta. used_ok (img_blocks img) iv))"

lemma grows_refl [intro, simp]: "grows img [] st st"
  by (auto simp: grows_def intro!: exI [of _ "[]"])

lemma grows_trans:
  assumes "grows img d st st'" "grows img d' st' st''"
  shows "grows img (d @ d') st st''"
proof -
  obtain m m' where "mset (used_items st') = mset (used_items st) + mset d + mset m"
    "\<forall>iv \<in> set d \<union> set m. used_ok (img_blocks img) iv"
    "mset (used_items st'') = mset (used_items st') + mset d' + mset m'"
    "\<forall>iv \<in> set d' \<union> set m'. used_ok (img_blocks img) iv"
    using assms by (auto simp: grows_def)
  then show ?thesis
    by (auto simp: grows_def intro!: exI [of _ "m @ m'"])
qed

lemma grows_meta:
  assumes "used_items st' = used_items st @ meta" "\<forall>iv \<in> set meta. used_ok (img_blocks img) iv"
  shows "grows img [] st st'"
  using assms by (auto simp: grows_def intro!: exI [of _ meta])

lemma grows_upd:
  "grows img d st st' \<Longrightarrow> used_items st1 = used_items st \<Longrightarrow> used_items st2 = used_items st' \<Longrightarrow> grows img d st1 st2"
  by (simp add: grows_def)

text \<open>A loop that collects the intervals of every index.\<close>

lemma forE_grows:
  assumes "forE f is s w = (Inr s', w')" "pool_live img w"
    and "\<And>i s w s' w'. i \<in> set is \<Longrightarrow> pool_live img w \<Longrightarrow> sched_adv v w \<Longrightarrow> f i s w = (Inr s', w') \<Longrightarrow>
      sched_adv w w' \<and> grows img (d i) (g s) (g s')"
    and "sched_adv v w"
  shows "sched_adv w w' \<and> grows img (concat (map d is)) (g s) (g s')"
  using assms
proof (induction "is" arbitrary: s w)
  case (Cons i "is")
  obtain s1 w1 where 1: "f i s w = (Inr s1, w1)" "forE f is s1 w1 = (Inr s', w')"
    using Cons.prems(1) by (auto simp: bindE_eq_Inr)
  have a: "sched_adv w w1" "grows img (d i) (g s) (g s1)"
    using Cons.prems(3) [OF _ Cons.prems(2,4) 1(1)] by simp_all
  have "sched_adv w1 w' \<and> grows img (concat (map d is)) (g s1) (g s')"
    by (rule Cons.IH [OF 1(2) pool_live_adv [OF a(1) Cons.prems(2)] _ sched_adv_trans [OF Cons.prems(4) a(1)]])
      (rule Cons.prems(3), simp_all)
  then show ?case
    using a sched_adv_trans grows_trans by fastforce
qed auto

lemma validate_extent_grows:
  assumes "validate_extent img extents i es w = (Inr es', w')"
  shows "sched_adv w w' \<and> grows img [ext_interval (en_extents extents ! i)] (es_vstate es) (es_vstate es')"
proof -
  let ?x = "en_extents extents ! i"
  have ok: "\<not> (e_len ?x = 0 \<or> e_lstart ?x \<noteq> es_logical_cursor es \<or> e_pstart ?x < 8 \<or>
      e_pstart ?x + e_len ?x > img_blocks img \<or> e_csum_start ?x < 8 \<or> e_csum_start ?x \<ge> img_blocks img)"
    using assms by (auto simp: validate_extent_def Let_def split: if_splits)
  obtain st1 w1 st2 w2 where 1: "use_interval (e_pstart ?x) (e_len ?x) (es_vstate es) w = (Inr st1, w1)"
    and 2: "csum_chain img (e_pstart ?x) (e_len ?x) (e_csum_start ?x) 0 st1 w1 = (Inr st2, w2)"
    and es: "used_items (es_vstate es') = used_items st2" "w' = w2"
    using assms ok by (auto simp: validate_extent_def Let_def bindE_eq_Inr)
  have "sched_adv w w1"
    using keepsD [OF keeps_use_interval [of w] _ 1] by simp
  moreover have "grows img [ext_interval ?x] (es_vstate es) st1"
    using use_interval_items [OF 1] ok
    by (auto simp: grows_def used_ok_def interval_ok_def ext_interval_def not_less intro!: exI [of _ "[]"])
  moreover have "sched_adv w1 w2" "grows img [] st1 st2"
    using csum_chain_items [OF 2] ok grows_meta by (auto simp: not_less not_le)
  ultimately show ?thesis
    using grows_trans [of img _ _ st1 "[]" st2] es sched_adv_trans grows_upd [OF _ refl es(1)] by fastforce
qed

text \<open>The logical blocks below \<open>img_blocks\<close> are all stored.\<close>

definition pool_holds :: "image \<Rightarrow> bool" where
  "pool_holds img \<longleftrightarrow> (\<forall>b. b < img_blocks img \<longrightarrow> log_valid img b)"

definition extents_of :: "extent_node \<Rightarrow> extent list" where
  "extents_of node = map (\<lambda>i. en_extents node ! i) [0..<unat (en_count node)]"

text \<open>The extents of a regular file, as the blocks of the image hold them.\<close>

definition file_extents :: "image \<Rightarrow> world \<Rightarrow> inode \<Rightarrow> extent list" where
  "file_extents img w n = extents_of (fst (dec_extent_node (log_peek img w (i_extent_root n))))"

definition regular_file :: "image \<Rightarrow> nat \<Rightarrow> bool" where
  "regular_file img i \<longleftrightarrow> aetherfs_image_bitmap_test (img_inode_bitmap img) i \<and>
     S_ISREG (i_mode (img_inode_table img ! i))"

definition data_intervals :: "image \<Rightarrow> world \<Rightarrow> interval list" where
  "data_intervals img w = concat (map (\<lambda>i. if regular_file img i
     then map ext_interval (file_extents img w (img_inode_table img ! i)) else []) [0..<AETHERFS_MAX_INODES])"

definition free_intervals :: "image \<Rightarrow> interval list" where
  "free_intervals img = map ext_interval (extents_of (img_free_extents img))"

lemma read_extent_node_peek:
  assumes "pool_live img w" "log_valid img b" "aetherfs_read_extent_node img b w = (Inr node, w')"
  shows "node = fst (dec_extent_node (log_peek img w b))"
  using log_read [OF assms(1,2)] assms(3)
  by (auto simp: aetherfs_read_extent_node_def bindE_eq_Inr Let_def)

lemma validate_file_grows:
  assumes "pool_live img w" "pool_holds img" "validate_file img n st w = (Inr st', w')"
  shows "sched_adv w w' \<and> grows img (map ext_interval (file_extents img w n)) st st'"
proof -
  let ?r = "i_extent_root n"
  have in_range: "\<not> (?r < 8 \<or> ?r \<ge> img_blocks img)"
    using assms(3) by (auto simp: validate_file_def Let_def split: if_splits)
  then have ok: "8 \<le> ?r" "?r < img_blocks img"
    by (simp_all add: not_less not_le)
  obtain st1 w1 node w2 es w3 where 1: "use_interval ?r 1 st w = (Inr st1, w1)"
    and 2: "aetherfs_read_extent_node img ?r w1 = (Inr node, w2)"
    and 3: "forE (validate_extent img node) [0..<unat (en_count node)]
      \<lparr>es_vstate = st1, es_logical_cursor = 0, es_file_blocks = 0\<rparr> w2 = (Inr es, w3)"
    and st': "st' = es_vstate es" "w' = w3"
    using assms(3) in_range by (auto simp: validate_file_def Let_def bindE_eq_Inr)
  have a1: "sched_adv w w1" and a2: "sched_adv w1 w2"
    using keepsD [OF keeps_use_interval [of w] _ 1] keepsD [OF keeps_read_extent_node [of w1] _ 2] by simp_all
  have r1: "pool_live img w1" and r2: "pool_live img w2"
    using pool_live_adv a1 a2 assms(1) by blast+
  have "node = fst (dec_extent_node (log_peek img w1 ?r))"
    using read_extent_node_peek [OF r1 _ 2] assms(2) ok by (simp add: pool_holds_def)
  then have node: "node = fst (dec_extent_node (log_peek img w ?r))"
    using log_peek_adv [OF a1] by simp
  have g1: "grows img [] st st1"
    using grows_meta [OF use_interval_items [OF 1]] block_interval_ok [OF ok] by simp
  have g3: "sched_adv w2 w3 \<and> grows img (concat (map (\<lambda>i. [ext_interval (en_extents node ! i)]) [0..<unat (en_count node)]))
      (es_vstate \<lparr>es_vstate = st1, es_logical_cursor = 0, es_file_blocks = 0\<rparr>) (es_vstate es)"
    by (rule forE_grows [OF 3 r2, where v = w2]) (auto dest: validate_extent_grows)
  have "concat (map (\<lambda>i. [ext_interval (en_extents node ! i)]) [0..<unat (en_count node)])
      = map ext_interval (file_extents img w n)"
    by (simp add: file_extents_def extents_of_def node comp_def)
  with g3 have "grows img (map ext_interval (file_extents img w n)) st1 (es_vstate es)"
    by (metis extent_state.select_convs(1))
  from grows_trans [OF g1 this] show ?thesis
    using sched_adv_trans [OF sched_adv_trans [OF a1 a2]] g3 st' by simp
qed

lemma validate_inode_grows:
  assumes "pool_live img w" "pool_holds img" "validate_inode img refs i st w = (Inr st', w')"
  shows "sched_adv w w' \<and> grows img (if regular_file img i
    then map ext_interval (file_extents img w (img_inode_table img ! i)) else []) st st'"
proof -
  let ?n = "img_inode_table img ! i" and ?t = "aetherfs_image_bitmap_test (img_inode_bitmap img) i"
  have dir: "S_ISDIR (i_mode ?n) \<Longrightarrow> \<not> S_ISREG (i_mode ?n)"
    by (simp add: S_ISDIR_def S_ISREG_def)
  consider "\<not> ?t" "w' = w" "st' = st"
    | "?t" "S_ISDIR (i_mode ?n)" "w' = w" "used_items st' = used_items st"
    | "?t" "S_ISREG (i_mode ?n)" "validate_file img ?n (st\<lparr>vs_files := vs_files st + 1\<rparr>) w = (Inr st', w')"
    using assms(3) by (auto simp: validate_inode_def Let_def split: if_splits)
  then show ?thesis
  proof cases
    case 2
    then show ?thesis
      using dir grows_meta [of st' st "[]" img] by (auto simp: regular_file_def)
  next
    case 3
    then show ?thesis
      using validate_file_grows [OF assms(1,2) 3(3)] grows_upd [OF _ _ refl, of img _ _ st' st]
      by (auto simp: regular_file_def)
  qed (auto simp: regular_file_def)
qed

lemma file_extents_adv: "sched_adv w w' \<Longrightarrow> file_extents img w' n = file_extents img w n"
  by (simp add: file_extents_def log_peek_adv)

lemma validate_inodes_grow:
  assumes "pool_live img w" "pool_holds img"
    and "forE (validate_inode img refs) [0..<AETHERFS_MAX_INODES] st w = (Inr st', w')"
  shows "sched_adv w w' \<and> grows img (data_intervals img w) st st'"
  unfolding data_intervals_def
proof (rule forE_grows [OF assms(3,1), where g = "\<lambda>st. st" and v = w])
  fix i s v s' v'
  assume v: "pool_live img v" "sched_adv w v" "validate_inode img refs i s v = (Inr s', v')"
  show "sched_adv v v' \<and> grows img (if regular_file img i
      then map ext_interval (file_extents img w (img_inode_table img ! i)) else []) s s'"
    using validate_inode_grows [OF v(1) assms(2) v(3)] unfolding file_extents_adv [OF v(2)] .
qed simp

section \<open>Free extents\<close>

lemma free_loop_items:
  assumes "forE (validate_free_extent img) is fs w = (Inr fs', w')"
  shows "sched_adv w w' \<and>
    itl_items (fr_coverage fs') = itl_items (fr_coverage fs) @ map (\<lambda>i. ext_interval (en_extents (img_free_extents img) ! i)) is \<and>
    (\<forall>i \<in> set is. interval_ok (img_blocks img) (ext_interval (en_extents (img_free_extents img) ! i))) \<and>
    fr_free_blocks fs' = fr_free_blocks fs + (\<Sum>i \<leftarrow> is. e_len (en_extents (img_free_extents img) ! i))"
  using assms
proof (induction "is" arbitrary: fs w)
  case (Cons i "is")
  let ?x = "en_extents (img_free_extents img) ! i"
  obtain fs1 w1 where 1: "validate_free_extent img i fs w = (Inr fs1, w1)"
    "forE (validate_free_extent img) is fs1 w1 = (Inr fs', w')"
    using Cons.prems by (auto simp: bindE_eq_Inr)
  have ok: "\<not> (e_len ?x = 0 \<or> e_pstart ?x < fr_last_end fs \<or> e_pstart ?x + e_len ?x > img_blocks img)"
    using 1(1) by (auto simp: validate_free_extent_def Let_def split: if_splits)
  then obtain l where l: "aetherfs_interval_list_append (fr_coverage fs) (e_pstart ?x) (e_len ?x) w = (Inr l, w1)"
    "fs1 = \<lparr>fr_coverage = l, fr_free_blocks = fr_free_blocks fs + e_len ?x, fr_last_end = e_pstart ?x + e_len ?x\<rparr>"
    using 1(1) by (auto simp: validate_free_extent_def Let_def bindE_eq_Inr)
  have "sched_adv w w1"
    using keepsD [OF keeps_append [of w] _ l(1)] by simp
  moreover have "itl_items l = itl_items (fr_coverage fs) @ [ext_interval ?x]"
    using append_items [OF l(1)] ok by (simp add: ext_interval_def)
  moreover have "interval_ok (img_blocks img) (ext_interval ?x)"
    using ok by (simp add: interval_ok_def ext_interval_def not_less)
  ultimately show ?case
    using Cons.IH [OF 1(2)] l(2) sched_adv_trans by fastforce
qed simp

lemma validate_free_list_items:
  assumes "validate_free_list img w = (Inr fs, w')"
  shows "sched_adv w w'" "itl_items (fr_coverage fs) = free_intervals img"
    "\<forall>iv \<in> set (free_intervals img). interval_ok (img_blocks img) iv"
    "fr_free_blocks fs = (\<Sum>x \<leftarrow> extents_of (img_free_extents img). e_len x)"
proof -
  have loop: "forE (validate_free_extent img) [0..<unat (en_count (img_free_extents img))]
      \<lparr>fr_coverage = empty_list, fr_free_blocks = 0, fr_last_end = 8\<rparr> w = (Inr fs, w')"
    using assms by (auto simp: validate_free_list_def Let_def split: if_splits)
  note F = free_loop_items [OF loop]
  show "sched_adv w w'" "itl_items (fr_coverage fs) = free_intervals img"
    "\<forall>iv \<in> set (free_intervals img). interval_ok (img_blocks img) iv"
    "fr_free_blocks fs = (\<Sum>x \<leftarrow> extents_of (img_free_extents img). e_len x)"
    using F by (auto simp: free_intervals_def extents_of_def empty_list_def comp_def)
qed

lemma collect_used_items:
  assumes "forE collect_used ivs cov w = (Inr cov', w')" "\<forall>iv \<in> set ivs. iv_len iv \<noteq> 0"
  shows "sched_adv w w' \<and> itl_items cov' = itl_items cov @ filter (\<lambda>iv. \<not> iv_start iv < 8) ivs"
  using assms
proof (induction ivs arbitrary: cov w)
  case (Cons iv ivs)
  obtain cov1 w1 where 1: "collect_used iv cov w = (Inr cov1, w1)" "forE collect_used ivs cov1 w1 = (Inr cov', w')"
    using Cons.prems(1) by (auto simp: bindE_eq_Inr)
  have "sched_adv w w1"
    using 1(1) keepsD [OF keeps_append sched_adv_refl] by (auto simp: collect_used_def split: if_splits)
  moreover have "itl_items cov1 = itl_items cov @ filter (\<lambda>iv. \<not> iv_start iv < 8) [iv]"
    using 1(1) Cons.prems(2) append_items by (cases iv) (auto simp: collect_used_def split: if_splits)
  ultimately show ?case
    using Cons.IH [OF 1(2)] Cons.prems(2) sched_adv_trans by fastforce
qed simp

section \<open>The accepted images\<close>

text \<open>
  The free extents, the data extents of the regular files and a list of metadata intervals
  hold every block of the data region exactly once and no other block.
\<close>

definition cover_count :: "nat \<Rightarrow> interval list \<Rightarrow> nat" where
  "cover_count b ivs = length (filter (covers b) ivs)"

lemma cover_count_mset: "mset xs = mset ys \<Longrightarrow> cover_count b xs = cover_count b ys"
  unfolding cover_count_def by (metis mset_filter size_mset)

lemma cover_count_append [simp]: "cover_count b (xs @ ys) = cover_count b xs + cover_count b ys"
  by (simp add: cover_count_def)

lemma validate_partition:
  assumes "pool_live img w" "pool_holds img" "AETHERFS_DATA_START_BLOCK \<le> img_blocks img"
    and "cr_root_dir_block (img_checkpoint_root img) = AETHERFS_ROOT_DIR_BLOCK"
    and "aetherfs_image_validate img w = (Inr rep, w')"
  shows "\<exists>meta. \<forall>b. cover_count b (free_intervals img @ data_intervals img w @ meta)
      = (if 8 \<le> b \<and> b < unat (img_blocks img) then 1 else 0)"
    and "rp_free_blocks rep = (\<Sum>x \<leftarrow> extents_of (img_free_extents img). e_len x)"
    and "s_free_blocks (img_super img) = rp_free_blocks rep"
proof -
  let ?st0 = "\<lparr>vs_used = empty_list, vs_files = 0, vs_directories = 0, vs_data_blocks = 0\<rparr>"
  let ?sort = "\<lambda>st. qsort_intervals (used_items st)"
  obtain refs st1 w1 st2 w2 fs w3 cov w4
    where 1: "use_interval 3 1 ?st0 w = (Inr st1, w1)"
      and 2: "forE (validate_inode img refs) [0..<AETHERFS_MAX_INODES] st1 w1 = (Inr st2, w2)"
      and 3: "validate_free_list img w2 = (Inr fs, w3)"
      and 4: "forE collect_used (?sort st2) (fr_coverage fs) w3 = (Inr cov, w4)"
      and 5: "coverage_check (itl_items cov) (img_blocks img) = Inr ()"
      and rep: "rp_free_blocks rep = fr_free_blocks fs" "s_free_blocks (img_super img) = fr_free_blocks fs"
    using assms(4,5)
    unfolding aetherfs_image_validate_def Let_def by (auto split: if_splits elim!: bindE_InrE)
  show "rp_free_blocks rep = (\<Sum>x \<leftarrow> extents_of (img_free_extents img). e_len x)"
    "s_free_blocks (img_super img) = rp_free_blocks rep"
    using rep validate_free_list_items(4) [OF 3] by simp_all
  have a1: "sched_adv w w1"
    using keepsD [OF keeps_use_interval [of w] _ 1] by simp
  have i1: "used_items st1 = [Interval 3 1]"
    using use_interval_items [OF 1] by (simp add: empty_list_def)
  have "grows img (data_intervals img w1) st1 st2"
    using validate_inodes_grow [OF pool_live_adv [OF a1 assms(1)] assms(2) 2] by simp
  then obtain meta where m: "mset (used_items st2) = mset (Interval 3 1 # data_intervals img w1 @ meta)"
    "\<forall>iv \<in> set (data_intervals img w1) \<union> set meta. used_ok (img_blocks img) iv"
    by (auto simp: grows_def i1)
  have same: "data_intervals img w1 = data_intervals img w"
    by (simp add: data_intervals_def file_extents_adv [OF a1] cong: if_cong)
  let ?big = "\<lambda>iv. \<not> iv_start iv < 8"
  have set_used: "set (used_items st2) = insert (Interval 3 1) (set (data_intervals img w) \<union> set meta)"
    using mset_eq_setD [OF m(1)] same by simp
  then have "\<forall>iv \<in> set (?sort st2). iv_len iv \<noteq> 0"
    using m(2) same by (auto simp: qsort_intervals_def used_ok_def interval_ok_def)
  from collect_used_items [OF 4 this]
  have cov: "itl_items cov = free_intervals img @ filter ?big (?sort st2)"
    using validate_free_list_items(2) [OF 3] by simp
  have ok: "\<forall>iv \<in> set (itl_items cov). interval_ok (img_blocks img) iv"
    using cov validate_free_list_items(3) [OF 3] m(2) same set_used by (auto simp: qsort_intervals_def used_ok_def)
  have part: "cover_count b (itl_items cov) = (if 8 \<le> b \<and> b < unat (img_blocks img) then 1 else 0)" for b
    unfolding cover_count_def by (rule coverage_partition [OF 5 ok assms(3)])
  have big: "filter ?big (data_intervals img w @ meta) = data_intervals img w @ meta"
    using m(2) same by (auto simp: filter_id_conv used_ok_def not_less)
  have "mset (filter ?big (?sort st2)) = mset (data_intervals img w @ meta)"
  proof -
    have "mset (filter ?big (?sort st2)) = filter_mset ?big (mset (Interval 3 1 # (data_intervals img w @ meta)))"
      using m(1) same by (simp add: qsort_intervals_def)
    also have "\<dots> = mset (filter ?big (data_intervals img w @ meta))"
      by simp
    finally show ?thesis
      unfolding big .
  qed
  then have "mset (itl_items cov) = mset (free_intervals img @ data_intervals img w @ meta)"
    by (simp add: cov)
  then have "cover_count b (itl_items cov) = cover_count b (free_intervals img @ data_intervals img w @ meta)" for b
    by (rule cover_count_mset)
  then show "\<exists>meta. \<forall>b. cover_count b (free_intervals img @ data_intervals img w @ meta)
      = (if 8 \<le> b \<and> b < unat (img_blocks img) then 1 else 0)"
    using part by metis
qed

section \<open>Validation only reads\<close>

lemma keeps_csum_chain_run:
  "sched_adv w (snd (csum_chain img pstart len c validated st w))"
proof (induction img pstart len c validated st w rule: csum_chain.induct)
  case (1 img pstart len c validated st w)
  show ?case
  proof (cases "validated < len")
    case less: True
    obtain r1 w1 where 1: "use_interval c 1 st w = (r1, w1)" by fastforce
    have a1: "sched_adv w w1"
      using keepsD [OF keeps_use_interval [of w] _ 1] by simp
    show ?thesis
    proof (cases r1)
      case (Inl e)
      then show ?thesis
        using less 1 a1 by (subst csum_chain.simps) simp
    next
      case st1: (Inr st1)
      obtain r2 w2 where 2: "aetherfs_read_checksum_block img c w1 = (r2, w2)" by fastforce
      have a2: "sched_adv w w2"
        using keepsD [OF keeps_read_checksum_block [of w] a1 2] .
      show ?thesis
      proof (cases r2)
        case (Inl e)
        then show ?thesis
          using less 1 2 st1 a2 by (subst csum_chain.simps) simp
      next
        case sums: (Inr sums)
        let ?n = "cb_entries sums"
        obtain r3 w3 where 3: "forE (verify_sum img sums (pstart + validated)) [0..<unat ?n] () w2 = (r3, w3)" by fastforce
        have a3: "sched_adv w w3"
          using keepsD [OF keeps_forE [of "sched_adv w" "verify_sum img sums (pstart + validated)"] a2 3] by blast
        note IH = "1.IH" [OF less 1 [symmetric] st1 2 [symmetric] sums refl _ 3 [symmetric] _ refl refl]
        show ?thesis
          using less 1 2 3 st1 sums a2 a3 sched_adv_trans [OF a3 IH]
          by (subst csum_chain.simps) (cases r3; simp add: Let_def)
      qed
    qed
  qed (subst csum_chain.simps, simp)
qed

lemma keeps_csum_chain [intro]: "keeps (sched_adv w0) (csum_chain img pstart len c validated st)"
  by (rule keeps_advI) (metis keeps_csum_chain_run snd_conv)

lemma keeps_validate_extent [intro]: "keeps (sched_adv w0) (validate_extent img extents i es)"
  unfolding validate_extent_def Let_def by auto

lemma keeps_validate_file [intro]: "keeps (sched_adv w0) (validate_file img n st)"
  unfolding validate_file_def Let_def
  by (intro keeps_if keeps_failE keeps_bindE keeps_use_interval keeps_read_extent_node keeps_guardE keeps_forE
      keeps_validate_extent keeps_okE)

lemma keeps_validate_inode [intro]: "keeps (sched_adv w0) (validate_inode img refs i st)"
  unfolding validate_inode_def Let_def by auto

lemma keeps_validate_free_list [intro]: "keeps (sched_adv w0) (validate_free_list img)"
  unfolding validate_free_list_def validate_free_extent_def Let_def by auto

lemma keeps_collect_used [intro]: "keeps (sched_adv w0) (collect_used iv coverage)"
  unfolding collect_used_def by auto

lemma keeps_for_ordinals [intro]:
  "(\<And>i s. keeps (sched_adv w0) (f i s)) \<Longrightarrow> keeps (sched_adv w0) (for_ordinals m first f s)"
  unfolding for_ordinals_def by (auto split: option.split)

lemma keeps_compare_replicas [intro]: "keeps (sched_adv w0) (compare_replicas img m b)"
  unfolding compare_replicas_def compare_member_def by (auto split: option.split)

lemma keeps_for_used_blocks [intro]:
  "(\<And>b. keeps (sched_adv w0) (f b)) \<Longrightarrow> keeps (sched_adv w0) (for_used_blocks used f)"
  unfolding for_used_blocks_def by auto

lemma keeps_redundancy [intro]: "keeps (sched_adv w0) (aetherfs_image_validate_pool_redundancy img used)"
  unfolding aetherfs_image_validate_pool_redundancy_def aetherfs_image_validate_bootstrap_replicas_def
    aetherfs_image_validate_mirror_data_def aetherfs_image_validate_parity_def verify_parity_row_def add_to_parity_def Let_def
  by (intro keeps_if keeps_failE keeps_bindE keeps_forE keeps_compare_replicas keeps_for_used_blocks keeps_liftE
      keeps_for_ordinals keeps_read_physical keeps_guardE keeps_okE)

lemma keeps_validate_root_dir [intro]:
  "keeps (sched_adv w0) (\<lambda>w. liftE (aetherfs_image_validate_root_dir (w_after w) img) w)"
  by (rule keepsI) (auto simp: liftE_def okE_def failE_def split: sum.split)

lemma keeps_validate: "keeps (sched_adv w0) (aetherfs_image_validate img)"
  unfolding aetherfs_image_validate_def Let_def
  by (intro keeps_if keeps_failE keeps_bindE keeps_validate_root_dir keeps_use_interval keeps_forE keeps_validate_inode
      keeps_validate_free_list keeps_collect_used keeps_liftE keeps_guardE keeps_redundancy keeps_okE)

end
