(* ===== verification/Rebalance.thy ===== *)
theory Rebalance
  imports Admin Validate_Sound
begin

text \<open>
  The rebalance command (\<open>aetherfsprogs/rebalance.c\<close>): every regular file of a validated
  image is copied into one run of blocks of a temporary image, which is loaded, validated
  and put in the place of the original.  The writers of extent nodes and checksum blocks
  are those of \<open>image.c\<close>, statement for statement.
\<close>

section \<open>The temporary path\<close>

text \<open>The free space that \<open>statvfs\<close> reports and the suffix that \<open>mkstemp\<close> picks are parameters.\<close>

record temp_os =
  to_statvfs :: "path \<Rightarrow> (world, u64 \<times> u64) action"
  to_pick :: "path \<Rightarrow> world \<Rightarrow> string"

definition aetherfs_dir_has_space :: "temp_os \<Rightarrow> path \<Rightarrow> u64 \<Rightarrow> world \<Rightarrow> bool \<times> world" where
  "aetherfs_dir_has_space os p required_bytes w =
    (case to_statvfs os p w of
       (Inl _, w) \<Rightarrow> (False, w)
     | (Inr (f_bavail, f_frsize), w) \<Rightarrow> (f_bavail * f_frsize \<ge> required_bytes, w))"

definition aetherfs_make_temp_path_in_dir :: "temp_os \<Rightarrow> path \<Rightarrow> string \<Rightarrow> (world, path) action" where
  "aetherfs_make_temp_path_in_dir os dir name =
    bindE calloc (\<lambda>_.
    bindE (mkstemp (to_pick os) (dir @ ''/'' @ name @ ''.rebalance.XXXXXX'')) (\<lambda>(p, fd) w.
    (Inr p, close_fd fd w)))"

primrec try_candidates :: "temp_os \<Rightarrow> u64 \<Rightarrow> string \<Rightarrow> path list \<Rightarrow> (world, path) action" where
  "try_candidates os required_bytes name [] w = (Inl ENOSPC, w)"
| "try_candidates os required_bytes name (dir # dirs) w =
    (let (space, w) = aetherfs_dir_has_space os dir required_bytes w in
     if \<not> space then try_candidates os required_bytes name dirs w
     else aetherfs_make_temp_path_in_dir os dir name w)"

definition aetherfs_image_make_temp_path :: "temp_os \<Rightarrow> path \<Rightarrow> u64 \<Rightarrow> (world, path) action" where
  "aetherfs_image_make_temp_path os source_path required_bytes =
    bindE (stat_kind source_path) (\<lambda>kind.
    bindE calloc (\<lambda>_.
    bindE (if kind \<noteq> S_IFBLK then calloc else okE ()) (\<lambda>_.
    try_candidates os required_bytes (basename source_path)
      ((if kind \<noteq> S_IFBLK then [dirname source_path] else []) @ [''/var/tmp'', ''/home'', ''/'', ''/tmp'']))))"

section \<open>Copying\<close>

definition aetherfs_read_extent_node_rb :: "image \<Rightarrow> u64 \<Rightarrow> (world, extent_node) action" where
  "aetherfs_read_extent_node_rb img blocknr =
    bindE (aetherfs_image_read_block img blocknr) (\<lambda>buf.
    let node = fst (dec_extent_node buf) in
    bindE (guardE (en_checksum node = aetherfs_extent_node_checksum node) EILSEQ) (\<lambda>_.
    bindE (guardE (\<not> (en_next node \<noteq> 0 \<or> unat (en_count node) > AETHERFS_EXTENT_LOG_MAX)) EINVAL) (\<lambda>_.
    okE node)))"

text \<open>
  A transfer that is not complete is answered by \<open>errno\<close>, also when \<open>pwrite\<close> returned a
  smaller count and did not set it: \<open>stale\<close> is what \<open>errno\<close> held then (None is zero, which
  ends the copy as a success).  With \<open>EINTR\<close> the block is copied again, perhaps forever.
\<close>

definition write_answer :: "errno option \<Rightarrow> nat result \<Rightarrow> errno option option" where
  "write_answer stale r =
    (case r of
       Inl e \<Rightarrow> Some (Some e)
     | Inr n \<Rightarrow> if n = AETHERFS_DEF_BLOCK_SIZE then None else Some stale)"

partial_function (option) copy_reserved_from ::
  "errno option \<Rightarrow> image \<Rightarrow> int \<Rightarrow> nat \<Rightarrow> world \<Rightarrow> (unit result \<times> world) option" where
  "copy_reserved_from stale source dst_fd blocknr w =
    (if \<not> blocknr < 8 then Some (Inr (), w)
     else case aetherfs_image_read_block source (of_nat blocknr) w of
       (Inl e, w) \<Rightarrow> Some (Inl e, w)
     | (Inr block, w) \<Rightarrow>
         (case pwrite dst_fd block (of_nat blocknr * 4096) w of
            (r, w) \<Rightarrow>
              (case write_answer stale r of
                 None \<Rightarrow> copy_reserved_from stale source dst_fd (Suc blocknr) w
               | Some None \<Rightarrow> Some (Inr (), w)
               | Some (Some e) \<Rightarrow>
                   if e = EINTR then copy_reserved_from stale source dst_fd blocknr w else Some (Inl e, w))))"

definition aetherfs_copy_reserved_blocks :: "errno option \<Rightarrow> image \<Rightarrow> int \<Rightarrow> world \<Rightarrow> (unit result \<times> world) option" where
  "aetherfs_copy_reserved_blocks stale source dst_fd = copy_reserved_from stale source dst_fd 0"

lemma read_block_sched:
  assumes "aetherfs_image_read_block source b w = (r, w')"
  shows "length (w_sched w') \<le> length (w_sched w)"
  using keepsD [OF keeps_read_block sched_adv_refl assms] by (auto simp: sched_adv_def)

function copy_prefix_from :: "image \<Rightarrow> int \<Rightarrow> nat \<Rightarrow> nat \<Rightarrow> (world, unit) action" where
  "copy_prefix_from source dst_fd blocks blocknr w =
    (if blocknr < blocks then
       (case aetherfs_image_read_block source (of_nat blocknr) w of
          (Inl e, w) \<Rightarrow> (Inl e, w)
        | (Inr block, w) \<Rightarrow>
            (case pwrite dst_fd block (of_nat blocknr * 4096) w of
               (Inl e, w) \<Rightarrow> if e = EINTR then copy_prefix_from source dst_fd blocks blocknr w else (Inl e, w)
             | (Inr n, w) \<Rightarrow> if n \<noteq> AETHERFS_DEF_BLOCK_SIZE then (Inl EIO, w)
                 else copy_prefix_from source dst_fd blocks (Suc blocknr) w))
     else (Inr (), w))"
  by pat_completeness auto
termination
proof (relation "measure (\<lambda>(source, dst_fd, blocks, blocknr, w). length (w_sched w) + (blocks - blocknr))", goal_cases)
  case (2 source dst_fd blocks blocknr w r w1 block r' w2 e)
  then show ?case
    using read_block_sched [of source "of_nat blocknr" w r w1] pwrite_intr [of dst_fd block "of_nat blocknr * 4096" w1 w2]
    by auto
next
  case (3 source dst_fd blocks blocknr w r w1 block r' w2 n)
  then show ?case
    using read_block_sched [of source "of_nat blocknr" w r w1] pwrite_sched [of dst_fd block "of_nat blocknr * 4096" w1 r' w2]
    by auto
qed simp

declare copy_prefix_from.simps [simp del]

definition aetherfs_copy_prefix_to_device :: "image \<Rightarrow> int \<Rightarrow> u64 \<Rightarrow> (world, unit) action" where
  "aetherfs_copy_prefix_to_device source dst_fd blocks =
    bindE (copy_prefix_from source dst_fd (unat blocks) 0) (\<lambda>_. fsync dst_fd)"

definition aetherfs_copy_file_data :: "image \<Rightarrow> extent_node \<Rightarrow> image \<Rightarrow> u64 \<Rightarrow> (world, u64) action" where
  "aetherfs_copy_file_data source node target dst_start =
    forE (\<lambda>extent_index dst_block.
      let extent = en_extents node ! extent_index; pstart = e_pstart extent; len = e_len extent in
      forE (\<lambda>block_index dst_block.
        bindE (aetherfs_image_read_block source (pstart + of_nat block_index)) (\<lambda>block.
        bindE (aetherfs_image_write_block target dst_block block) (\<lambda>_. okE (dst_block + 1))))
        [0..<unat len] dst_block)
      [0..<unat (en_count node)] dst_start"

definition zero_checksum_block :: checksum_block where
  "zero_checksum_block = fst (dec_checksum_block (replicate 4096 0))"

function aetherfs_write_checksum_chain :: "image \<Rightarrow> u64 \<Rightarrow> u64 \<Rightarrow> u64 \<Rightarrow> (world, unit) action" where
  "aetherfs_write_checksum_chain target data_block remaining csum_block =
    (if remaining = 0 then okE ()
     else let entries = (if remaining > 1020 then 1020 else remaining) in
       bindE (forE (\<lambda>index sums.
           bindE (aetherfs_image_read_block target (data_block + of_nat index)) (\<lambda>block.
           okE (sums\<lparr>cb_sums := (cb_sums sums)[index := aetherfs_crc32c_data block]\<rparr>)))
         [0..<unat entries] zero_checksum_block) (\<lambda>sums.
       bindE (aetherfs_write_checksum_block target csum_block
         (sums\<lparr>cb_entries := ucast entries, cb_next := if remaining > entries then csum_block + 1 else 0\<rparr>)) (\<lambda>_.
       aetherfs_write_checksum_chain target (data_block + entries) (remaining - entries) (csum_block + 1))))"
  by pat_completeness auto
termination
  by (relation "measure (\<lambda>(target, data_block, remaining, csum_block). unat remaining)")
    (auto simp: unat_sub word_le_nat_alt word_less_nat_alt unat_gt_0 split: if_splits)

declare aetherfs_write_checksum_chain.simps [simp del]

section \<open>Rewriting the files\<close>

definition new_extents :: "u64 \<Rightarrow> u64 \<Rightarrow> u64 \<Rightarrow> extent_node" where
  "new_extents data_start csum_start file_blocks =
    zero_extent_node\<lparr>en_count := 1,
      en_extents := (en_extents zero_extent_node)[0 := (en_extents zero_extent_node ! 0)
        \<lparr>e_lstart := 0, e_pstart := data_start, e_csum_start := csum_start, e_len := file_blocks\<rparr>]\<rparr>"

definition set_extent_root :: "nat \<Rightarrow> u64 \<Rightarrow> image \<Rightarrow> image" where
  "set_extent_root index extent_root target =
    (let n = (img_inode_table target ! index)\<lparr>i_extent_root := extent_root\<rparr> in
     target\<lparr>img_inode_table := (img_inode_table target)[index := n\<lparr>i_checksum := aetherfs_inode_checksum n\<rparr>]\<rparr>)"

text \<open>One round of the loop over the inodes; the state is the target and the next unused block.\<close>

definition rebalance_inode :: "image \<Rightarrow> nat \<Rightarrow> image \<times> u64 \<Rightarrow> (world, image \<times> u64) action" where
  "rebalance_inode source index = (\<lambda>(target, next_block).
    if \<not> aetherfs_image_bitmap_test (img_inode_bitmap target) index then okE (target, next_block)
    else if \<not> S_ISREG (i_mode (img_inode_table target ! index)) then okE (target, next_block)
    else let source_inode = img_inode_table source ! index; file_blocks = i_blocks source_inode in
      if file_blocks = 0 then okE (set_extent_root index 0 target, next_block)
      else
        bindE (aetherfs_read_extent_node_rb source (i_extent_root source_inode)) (\<lambda>source_extents.
        let extent_root = next_block; data_start = next_block + 1;
            checksum_blocks = (file_blocks + 1020 - 1) div 1020;
            csum_start = data_start + file_blocks; next_block = csum_start + checksum_blocks in
        bindE (guardE (\<not> next_block > img_blocks target) ENOSPC) (\<lambda>_.
        bindE (aetherfs_copy_file_data source source_extents target data_start) (\<lambda>_.
        bindE (aetherfs_write_checksum_chain target data_start file_blocks csum_start) (\<lambda>_.
        bindE (aetherfs_write_extent_node target extent_root (new_extents data_start csum_start file_blocks)) (\<lambda>_.
        okE (set_extent_root index extent_root target, next_block)))))))"

definition set_free_space :: "u64 \<Rightarrow> image \<Rightarrow> image" where
  "set_free_space next_block target =
    (let blocks = img_blocks target; node = img_free_extents target;
         node = (if next_block < blocks
                 then node\<lparr>en_count := 1, en_extents := (en_extents node)[0 := (en_extents node ! 0)
                        \<lparr>e_pstart := next_block, e_len := blocks - next_block\<rparr>]\<rparr>
                 else node\<lparr>en_count := 0\<rparr>) in
     target\<lparr>img_free_extents := node,
            img_super := seal_super ((img_super target)\<lparr>s_free_blocks := blocks - next_block\<rparr>),
            img_journal := seal_journal ((img_journal target)\<lparr>il_outstanding := 0\<rparr>)\<rparr>)"

text \<open>From the first load of the target to the new counts of free blocks.\<close>

definition rebalance_files :: "image \<Rightarrow> image \<Rightarrow> (world, image \<times> u64) action" where
  "rebalance_files source target =
    bindE (aetherfs_image_load target) (\<lambda>target.
    bindE (forE (rebalance_inode source) [1..<AETHERFS_MAX_INODES]
        (target\<lparr>img_free_extents := zero_extent_node\<rparr>, AETHERFS_DATA_START_BLOCK)) (\<lambda>(target, next_block).
    okE (set_free_space next_block target, next_block)))"

text \<open>The metadata are written, loaded again and validated.\<close>

definition rebalance_write_back :: "image \<Rightarrow> (world, image \<times> scrub_report) action" where
  "rebalance_write_back target =
    bindE (aetherfs_image_write_inode_table target) (\<lambda>_.
    bindE (aetherfs_image_write_free_extents target) (\<lambda>target.
    bindE (aetherfs_image_write_super target) (\<lambda>target.
    bindE (aetherfs_image_write_journal target) (\<lambda>target.
    bindE (aetherfs_image_load target) (\<lambda>target.
    bindE (aetherfs_image_validate target) (\<lambda>report.
    okE (target, report)))))))"

definition rebalance_target :: "image \<Rightarrow> image \<Rightarrow> (world, u64 \<times> image \<times> scrub_report) action" where
  "rebalance_target source target =
    bindE (rebalance_files source target) (\<lambda>(target, next_block).
    bindE (rebalance_write_back target) (\<lambda>(target, report).
    okE (next_block, target, report)))"

section \<open>The command\<close>

text \<open>The labels \<open>out_source\<close> and \<open>out_cleanup\<close> on an error.\<close>

definition out_cleanup :: "path option \<Rightarrow> world \<Rightarrow> world" where
  "out_cleanup temp_path w = (case temp_path of Some p \<Rightarrow> unlink_file p w | None \<Rightarrow> w)"

definition out_source :: "image \<Rightarrow> int option \<Rightarrow> path option \<Rightarrow> world \<Rightarrow> world" where
  "out_source source temp_fd temp_path w =
    (let w = aetherfs_image_close source w;
         w = (case temp_fd of Some fd \<Rightarrow> close_fd fd w | None \<Rightarrow> w) in
     out_cleanup temp_path w)"

definition rebalance_open :: "temp_os \<Rightarrow> path \<Rightarrow> (world, image \<times> path \<times> int) action" where
  "rebalance_open os p =
    bindE (bindE calloc (\<lambda>_. bindE calloc (\<lambda>_. calloc))) (\<lambda>_.
    bindE (aetherfs_image_open p False) (\<lambda>source.
    bindE (cleanupE
      (bindE (guardE (img_size_bytes source \<noteq> 0) EOPNOTSUPP) (\<lambda>_.
       bindE (aetherfs_image_load source) (\<lambda>source.
       bindE (aetherfs_image_validate source) (\<lambda>report.
       bindE (aetherfs_image_make_temp_path os p (img_size_bytes source)) (\<lambda>temp_path.
       okE (source, temp_path))))))
      (out_source source None None)) (\<lambda>(source, temp_path).
    bindE (cleanupE (open_rdwr_trunc temp_path) (out_source source None (Some temp_path))) (\<lambda>temp_fd.
    bindE (cleanupE (ftruncate temp_fd (img_size_bytes source)) (out_source source (Some temp_fd) (Some temp_path))) (\<lambda>_.
    okE (source, temp_path, temp_fd))))))"

text \<open>The rewritten image takes the place of the original, on a device block by block, else by name.\<close>

definition rebalance_replace :: "path \<Rightarrow> image \<Rightarrow> path \<Rightarrow> u64 \<times> image \<times> scrub_report \<Rightarrow> (world, scrub_report) action" where
  "rebalance_replace p source temp_path = (\<lambda>(next_block, target, report).
    if img_is_block_device source then
      bindE (cleanupE
        (bindE (open_file p True) (\<lambda>dst_fd.
         finallyE (aetherfs_copy_prefix_to_device target dst_fd next_block) (close_fd dst_fd)))
        (\<lambda>w. out_source source None (Some temp_path) (aetherfs_image_close target w))) (\<lambda>_ w.
      cleanupE
        (bindE (aetherfs_image_open p False) (\<lambda>rewritten.
         finallyE
           (bindE (aetherfs_image_load rewritten) (\<lambda>rewritten.
            aetherfs_image_validate rewritten))
           (aetherfs_image_close rewritten)))
        (out_source source None (Some temp_path)) (aetherfs_image_close target w))
    else (\<lambda>w.
      bindE (cleanupE (rename_file temp_path p) (out_cleanup (Some temp_path))) (\<lambda>_. okE report)
        (aetherfs_image_close source (aetherfs_image_close target w))))"

definition rebalance_rest :: "path \<Rightarrow> image \<Rightarrow> path \<Rightarrow> (world, scrub_report) action" where
  "rebalance_rest p source temp_path =
    bindE (cleanupE (aetherfs_image_open temp_path True) (out_source source None (Some temp_path))) (\<lambda>target.
    bindE (cleanupE (rebalance_target source target)
      (\<lambda>w. out_source source None (Some temp_path) (aetherfs_image_close target w))) (\<lambda>done.
    bindE (rebalance_replace p source temp_path done) (\<lambda>report w.
    (Inr report, unlink_file temp_path (aetherfs_image_close source w)))))"

definition aetherfs_run_rebalance ::
  "temp_os \<Rightarrow> errno option \<Rightarrow> path \<Rightarrow> world \<Rightarrow> (scrub_report result \<times> world) option" where
  "aetherfs_run_rebalance os stale p w =
    (case rebalance_open os p w of
       (Inl e, w) \<Rightarrow> Some (Inl e, w)
     | (Inr (source, temp_path, temp_fd), w) \<Rightarrow>
         (case aetherfs_copy_reserved_blocks stale source temp_fd w of
            None \<Rightarrow> None
          | Some (Inl e, w) \<Rightarrow> Some (Inl e, out_source source (Some temp_fd) (Some temp_path) w)
          | Some (Inr _, w) \<Rightarrow> Some (rebalance_rest p source temp_path (close_fd temp_fd w))))"

end
