(* ===== verification/Mount.thy ===== *)
theory Mount
  imports Admin
begin

text \<open>
  The mount command (\<open>aetherfsprogs/mount.c\<close>): the checks made before the kernel is asked
  to mount, the choice of a read-only mount, and the commands that are run.  Running a
  command (fork, \<open>execvp\<close>, \<open>waitpid\<close>) is the field \<open>os_spawn\<close> of a parameter; it takes the
  argument vector and returns how the child ended.
\<close>

datatype aetherfs_mount_behavior = AETHERFS_MOUNT_STRICT | AETHERFS_MOUNT_DEGRADED_RO | AETHERFS_MOUNT_RESCUE

record mount_options =
  mo_image_path :: path
  mo_mount_path :: path
  mo_module_path :: "path option"
  mo_create_mountpoint :: bool
  mo_behavior :: aetherfs_mount_behavior

datatype wait_status = Exited nat | Signaled | Stopped

record os =
  os_euid :: u32
  os_spawn :: "string list \<Rightarrow> (world, wait_status) action"

section \<open>Checking the image\<close>

definition aetherfs_validate_image :: "path \<Rightarrow> (world, unit) action" where
  "aetherfs_validate_image p =
    bindE (open_file p False) (\<lambda>fd.
    bindE (finallyE
      (bindE (fstat fd) (\<lambda>(kind, _).
       bindE (guardE (kind = S_IFREG \<or> kind = S_IFBLK) EINVAL) (\<lambda>_.
       bindE (aetherfs_read_all fd (AETHERFS_POOL_LABEL_BLOCK * 4096) AETHERFS_DEF_BLOCK_SIZE) (\<lambda>block.
       let label = fst (dec_pool_label block) in
       bindE (if pl_magic label = AETHERFS_POOL_MAGIC
              then bindE (guardE (aetherfs_pool_label_checksum label = pl_checksum label) EILSEQ) (\<lambda>_.
                   guardE (pl_member_count label = 1) EOPNOTSUPP)
              else okE ()) (\<lambda>_.
       aetherfs_read_all fd (AETHERFS_SUPERBLOCK_BLOCK * 4096) AETHERFS_DEF_BLOCK_SIZE)))))
      (close_fd fd)) (\<lambda>block.
    let super = fst (dec_super block) in
    bindE (guardE (s_magic super = AETHERFS_MAGIC) EINVAL) (\<lambda>_.
    bindE (guardE (s_version super = AETHERFS_VERSION) EINVAL) (\<lambda>_.
    bindE (guardE (s_blocksize super = 4096) EINVAL) (\<lambda>_.
    bindE (guardE (s_device_count super = 1) EOPNOTSUPP) (\<lambda>_.
    bindE (guardE (s_checkpoint super ! 0 = AETHERFS_CHECKPOINT_ROOT_BLOCK) EINVAL) (\<lambda>_.
    bindE (guardE (s_checksum super = aetherfs_super_checksum super) EILSEQ) (\<lambda>_.
    bindE (open_file p False) (\<lambda>fd.
    bindE (finallyE (aetherfs_read_all fd (s_checkpoint super ! 0 * 4096) AETHERFS_DEF_BLOCK_SIZE) (close_fd fd)) (\<lambda>block.
    let checkpoint_root = fst (dec_checkpoint_root block) in
    bindE (guardE (cr_magic checkpoint_root = AETHERFS_CHECKPOINT_ROOT_MAGIC) EINVAL) (\<lambda>_.
    bindE (guardE (cr_version checkpoint_root = AETHERFS_CHECKPOINT_ROOT_VERSION) EINVAL) (\<lambda>_.
    guardE (cr_checksum checkpoint_root = aetherfs_checkpoint_root_checksum checkpoint_root) EILSEQ))))))))))))"

definition aetherfs_validate_strict_image :: "path \<Rightarrow> (world, unit) action" where
  "aetherfs_validate_strict_image p =
    bindE calloc (\<lambda>_.
    bindE (aetherfs_image_open p False) (\<lambda>img.
    finallyE
      (bindE (aetherfs_image_load img) (\<lambda>img.
       bindE (aetherfs_image_validate img) (\<lambda>_. okE ())))
      (aetherfs_image_close img)))"

section \<open>The mount point and the kernel module\<close>

definition aetherfs_source_is_block_device :: "path \<Rightarrow> (world, bool) action" where
  "aetherfs_source_is_block_device p = bindE (stat_kind p) (\<lambda>kind. okE (kind = S_IFBLK))"

definition aetherfs_ensure_mountpoint :: "mount_options \<Rightarrow> (world, unit) action" where
  "aetherfs_ensure_mountpoint options w =
    (case stat_kind (mo_mount_path options) w of
       (Inr kind, w) \<Rightarrow> (if kind = S_IFDIR then Inr () else Inl ENOTDIR, w)
     | (Inl _, w) \<Rightarrow> if \<not> mo_create_mountpoint options then (Inl ENOENT, w)
         else make_dir (mo_mount_path options) w)"

definition aetherfs_exec_wait :: "os \<Rightarrow> string list \<Rightarrow> bool \<Rightarrow> (world, unit) action" where
  "aetherfs_exec_wait os argv require_root =
    bindE (os_spawn os (if require_root \<and> os_euid os \<noteq> 0 then ''doas'' # argv else argv)) (\<lambda>status.
    case status of
      Exited code \<Rightarrow> if code = 0 then okE () else failE EPERM
    | Signaled \<Rightarrow> failE EINTR
    | Stopped \<Rightarrow> failE EIO)"

text \<open>The pieces that \<open>fgets\<close> returns: up to 127 bytes, or up to and with a newline.\<close>

fun fgets_pieces :: "nat \<Rightarrow> byte list \<Rightarrow> byte list \<Rightarrow> byte list list" where
  "fgets_pieces room acc [] = (if acc = [] then [] else [rev acc])"
| "fgets_pieces room acc (c # cs) =
    (if c = 10 \<or> room = 1 then rev (c # acc) # fgets_pieces 127 [] cs
     else fgets_pieces (room - 1) (c # acc) cs)"

text \<open>\<open>strstr\<close> in a buffer that ends at its first zero byte.\<close>

primrec strstr :: "byte list \<Rightarrow> byte list \<Rightarrow> bool" where
  "strstr [] needle \<longleftrightarrow> needle = []"
| "strstr (c # cs) needle \<longleftrightarrow> take (length needle) (c # cs) = needle \<or> strstr cs needle"

definition aetherfs_filesystem_registered :: "world \<Rightarrow> bool \<times> world" where
  "aetherfs_filesystem_registered w =
    (case open_file ''/proc/filesystems'' False w of
       (Inl _, w) \<Rightarrow> (False, w)
     | (Inr fd, w) \<Rightarrow>
         (case fd_file w fd of
            None \<Rightarrow> (False, w)
          | Some f \<Rightarrow> (list_ex (\<lambda>l. strstr (takeWhile (\<lambda>c. c \<noteq> 0) l) (text_bytes ''aetherfs''))
                (fgets_pieces 127 [] (vf_data f)), close_fd fd w)))"

definition aetherfs_try_load_module :: "os \<Rightarrow> path option \<Rightarrow> (world, unit) action" where
  "aetherfs_try_load_module os module_path w =
    (case aetherfs_exec_wait os [''modprobe'', ''-q'', ''aetherfs''] True w of
       (Inr _, w) \<Rightarrow> (Inr (), w)
     | (Inl e, w) \<Rightarrow>
         (case module_path of
            None \<Rightarrow> (Inl e, w)
          | Some m \<Rightarrow> let (readable, w) = access_ok m w in
              if \<not> readable then (Inl e, w) else aetherfs_exec_wait os [''insmod'', m] True w))"

text \<open>\<open>realpath\<close> is a parameter; \<open>strdup\<close> and \<open>malloc\<close> may fail.\<close>

definition aetherfs_default_module_path :: "(path \<Rightarrow> path option) \<Rightarrow> path \<Rightarrow> world \<Rightarrow> path option \<times> world" where
  "aetherfs_default_module_path realpath argv0 w =
    (case realpath argv0 of
       None \<Rightarrow> (None, w)
     | Some resolved \<Rightarrow>
         (case bindE calloc (\<lambda>_. calloc) w of
            (Inl _, w) \<Rightarrow> (None, w)
          | (Inr _, w) \<Rightarrow> (Some (dirname resolved @ ''/../kernel/aetherfs.ko''), w)))"

section \<open>Mounting\<close>

text \<open>The switch over the behaviour: whether the mount is forced to be read-only.\<close>

definition mount_check :: "mount_options \<Rightarrow> (world, bool) action" where
  "mount_check options w =
    (case mo_behavior options of
       AETHERFS_MOUNT_STRICT \<Rightarrow>
         bindE (aetherfs_validate_strict_image (mo_image_path options)) (\<lambda>_. okE False) w
     | AETHERFS_MOUNT_DEGRADED_RO \<Rightarrow>
         (case aetherfs_validate_strict_image (mo_image_path options) w of
            (Inl _, w) \<Rightarrow> bindE (aetherfs_validate_image (mo_image_path options)) (\<lambda>_. okE True) w
          | (Inr _, w) \<Rightarrow> (Inr False, w))
     | AETHERFS_MOUNT_RESCUE \<Rightarrow>
         bindE (aetherfs_validate_image (mo_image_path options)) (\<lambda>_. okE True) w)"

definition mount_argv :: "mount_options \<Rightarrow> bool \<Rightarrow> bool \<Rightarrow> string list" where
  "mount_argv options is_block force_read_only =
    [''mount'', ''-t'', ''aetherfs''] @
    (if is_block then (if force_read_only then [''-o'', ''ro''] else [])
     else [''-o'', if force_read_only then ''loop,ro'' else ''loop'']) @
    [mo_image_path options, mo_mount_path options]"

definition aetherfs_run_mount :: "os \<Rightarrow> mount_options \<Rightarrow> (world, unit) action" where
  "aetherfs_run_mount os options =
    bindE (aetherfs_source_is_block_device (mo_image_path options)) (\<lambda>is_block.
    bindE (mount_check options) (\<lambda>force_read_only.
    bindE (aetherfs_ensure_mountpoint options) (\<lambda>_.
    bindE (\<lambda>w. let (registered, w) = aetherfs_filesystem_registered w in
              if registered then (Inr (), w) else aetherfs_try_load_module os (mo_module_path options) w) (\<lambda>_.
    aetherfs_exec_wait os (mount_argv options is_block force_read_only) True))))"

end
