(* ===== verification/Mkfs.thy ===== *)
theory Mkfs
  imports Image_Load
begin

text \<open>
  Formatting a device (\<open>aetherfsprogs/mkfs.c\<close>): the target is opened and sized, the eight
  bootstrap blocks are written, and every structure is read back and checked.  The two
  transfer loops of the file are the ones of \<open>image.c\<close>, statement for statement.
\<close>

section \<open>Options and helpers\<close>

record mkfs_options =
  mk_path :: path
  mk_blocks :: u64
  mk_block_size :: u32
  mk_mode :: u16
  mk_pool_profile :: u32
  mk_stripe_blocks :: u32
  mk_member_count :: u32
  mk_members :: "device_spec list"
  mk_force :: bool

record format_state =
  fs_fd :: int
  fs_blocks :: u64

definition aetherfs_bitmap_count_set :: "bitmap_block \<Rightarrow> u32" where
  "aetherfs_bitmap_count_set bitmap = foldl (\<lambda>count b. count + of_nat (popcount8 b)) 0 (bb_bits bitmap)"

definition aetherfs_bitmap_set :: "bitmap_block \<Rightarrow> nat \<Rightarrow> bitmap_block" where
  "aetherfs_bitmap_set bitmap i =
    bitmap\<lparr>bb_bits := (bb_bits bitmap)[i div 8 := (bb_bits bitmap ! (i div 8)) OR push_bit (i mod 8) 1]\<rparr>"

definition aetherfs_min_u32 :: "u32 \<Rightarrow> u32 \<Rightarrow> u32" where
  "aetherfs_min_u32 left right = (if left < right then left else right)"

definition aetherfs_mode_features :: "u16 \<Rightarrow> u32" where
  "aetherfs_mode_features mode =
    (if mode = AETHERFS_APPEND_MODE then AETHERFS_F_APPEND
     else if mode = AETHERFS_OVERWRITE_MODE then 0
     else AETHERFS_F_COW)"

text \<open>The random device is a file whose data are the bytes the read finds.\<close>

definition aetherfs_fill_uuid :: "(world, byte list) action" where
  "aetherfs_fill_uuid =
    bindE (open_file ''/dev/urandom'' False) (\<lambda>fd w.
      let (r, w) = pread fd 16 0 w; w = close_fd fd w in
      case r of
        Inl _ \<Rightarrow> (Inl EIO, w)
      | Inr uuid \<Rightarrow> if length uuid \<noteq> 16 then (Inl EIO, w)
          else (Inr (uuid[6 := (uuid ! 6 AND 0x0F) OR 0x40, 8 := (uuid ! 8 AND 0x3F) OR 0x80]), w))"

definition aetherfs_zero_block :: "int \<Rightarrow> u32 \<Rightarrow> (world, unit) action" where
  "aetherfs_zero_block fd block = aetherfs_write_all fd (ucast block * 4096) zero_block"

text \<open>A read error \<open>EIO\<close>, be it a short file or a failing device, counts as no magic.\<close>

definition aetherfs_probe_magic :: "int \<Rightarrow> (world, bool) action" where
  "aetherfs_probe_magic fd w =
    (case aetherfs_read_all fd (AETHERFS_SUPERBLOCK_BLOCK * 4096) AETHERFS_DEF_BLOCK_SIZE w of
       (Inl e, w) \<Rightarrow> (if e = EIO then Inr False else Inl e, w)
     | (Inr block, w) \<Rightarrow> (Inr (s_magic (fst (dec_super block)) = AETHERFS_MAGIC), w))"

section \<open>The target\<close>

definition aetherfs_prepare_target :: "mkfs_options \<Rightarrow> (world, format_state) action" where
  "aetherfs_prepare_target options w0 =
    (let (exists, w1) = access_ok (mk_path options) w0 in
     bindE (open_creat (mk_path options)) (\<lambda>fd.
     cleanupE
       (bindE (fstat fd) (\<lambda>(kind, st_size).
        bindE (guardE (kind = S_IFREG \<or> kind = S_IFBLK) EINVAL) (\<lambda>_.
        bindE (if exists
               then bindE (aetherfs_probe_magic fd) (\<lambda>has_magic. guardE (\<not> (has_magic \<and> \<not> mk_force options)) EEXIST)
               else okE ()) (\<lambda>_.
        bindE (if mk_blocks options > 0 then
                 bindE (if kind = S_IFREG then ftruncate fd (mk_blocks options * ucast (mk_block_size options)) else okE ()) (\<lambda>_.
                 okE (mk_blocks options))
               else if kind = S_IFBLK then
                 bindE (blkgetsize64 fd) (\<lambda>device_bytes. okE (device_bytes div ucast (mk_block_size options)))
               else if st_size > 0 then
                 if of_nat st_size mod ucast (mk_block_size options) \<noteq> (0 :: u64) then failE EINVAL
                 else okE (of_nat st_size div ucast (mk_block_size options))
               else failE EINVAL) (\<lambda>blocks.
        bindE (guardE (\<not> blocks < AETHERFS_DATA_START_BLOCK) ENOSPC) (\<lambda>_.
        okE \<lparr>fs_fd = fd, fs_blocks = blocks\<rparr>))))))
       (close_fd fd)) w1)"

section \<open>The structures of an empty file system\<close>

definition aetherfs_dirent_checksum_mkfs :: "byte list \<Rightarrow> byte" where
  "aetherfs_dirent_checksum_mkfs mem =
    (let entry_len = AETHERFS_DIR_ENTRY_BASE_SIZE + unat (de_name_len (fst (dec_dir_entry mem))) in
     ucast (aetherfs_crc32c_data ((take entry_len mem)[13 := 0]) AND 0xFF))"

definition dirent_bytes :: "dir_entry \<Rightarrow> byte list \<Rightarrow> byte list" where
  "dirent_bytes entry name =
    enc_dir_entry (entry\<lparr>de_checksum := aetherfs_dirent_checksum_mkfs (enc_dir_entry (entry\<lparr>de_checksum := 0\<rparr>) @ name)\<rparr>) @ name"

definition aetherfs_init_root_dir :: "byte list" where
  "aetherfs_init_root_dir =
    (let dot_len = AETHERFS_DIR_REC_LEN 1;
         dot = \<lparr>de_ino = AETHERFS_ROOT_INO, de_rec_len = dot_len, de_name_len = 1, de_file_type = AETHERFS_FT_DIR,
                de_checksum = 0\<rparr>;
         dotdot = \<lparr>de_ino = AETHERFS_ROOT_INO, de_rec_len = 4096 - dot_len, de_name_len = 2, de_file_type = AETHERFS_FT_DIR,
                de_checksum = 0\<rparr> in
     put_bytes (unat dot_len) (dirent_bytes dotdot [0x2E, 0x2E]) (put_bytes 0 (dirent_bytes dot [0x2E]) zero_block))"

definition aetherfs_init_super :: "mkfs_options \<Rightarrow> u64 \<Rightarrow> super" where
  "aetherfs_init_super options blocks =
    (let s = zero_super\<lparr>s_magic := AETHERFS_MAGIC, s_version := AETHERFS_VERSION, s_blocksize := mk_block_size options,
       s_blocks_count := blocks, s_free_blocks := blocks - AETHERFS_DATA_START_BLOCK,
       s_blocks_per_ag := aetherfs_min_u32 (ucast blocks) AETHERFS_BLOCKS_PER_AG,
       s_ag_count := ucast ((blocks + 2097152 - 1) div 2097152),
       s_device_count := 1, s_mode := mk_mode options, s_features := ucast (aetherfs_mode_features (mk_mode options)),
       s_checkpoint_num := 1, s_checkpoint_mask := 1,
       s_checkpoint := (s_checkpoint zero_super)[0 := AETHERFS_CHECKPOINT_ROOT_BLOCK],
       s_journal_addr := AETHERFS_JOURNAL_BLOCK, s_root_inode := AETHERFS_ROOT_INODE_BLOCK, s_generation := 1,
       s_inodes_count := 32640, s_meta_tree := AETHERFS_INODE_BITMAP_BLOCK, s_extent_tree := 0,
       s_free_tree := AETHERFS_FREE_EXTENT_BLOCK, s_snap_tree := 0\<rparr>
     in s\<lparr>s_checksum := aetherfs_super_checksum s\<rparr>)"

definition aetherfs_init_checkpoint_root :: "super \<Rightarrow> u64 \<Rightarrow> checkpoint_root" where
  "aetherfs_init_checkpoint_root s blocks =
    (let r = zero_checkpoint_root\<lparr>cr_magic := AETHERFS_CHECKPOINT_ROOT_MAGIC, cr_version := AETHERFS_CHECKPOINT_ROOT_VERSION,
       cr_generation := s_generation s, cr_ag_count := s_ag_count s, cr_region_count := 2,
       cr_super_block := AETHERFS_SUPERBLOCK_BLOCK, cr_root_inode_block := s_root_inode s,
       cr_root_dir_block := AETHERFS_ROOT_DIR_BLOCK, cr_journal_block := s_journal_addr s,
       cr_inode_bitmap_block := s_meta_tree s, cr_free_space_root := s_free_tree s,
       cr_metadata_tree_root := s_meta_tree s, cr_extent_tree_root := s_extent_tree s,
       cr_snapshot_root := s_snap_tree s, cr_scrub_journal := s_scrub_journal s,
       cr_health_journal := s_health_journal s, cr_metadata_region_start := AETHERFS_SUPERBLOCK_BLOCK,
       cr_metadata_region_end := AETHERFS_CHECKPOINT_ROOT_BLOCK, cr_data_region_start := AETHERFS_DATA_START_BLOCK,
       cr_data_region_end := blocks\<rparr>
     in r\<lparr>cr_checksum := aetherfs_checkpoint_root_checksum r\<rparr>)"

definition aetherfs_init_root_inode :: "world \<Rightarrow> inode" where
  "aetherfs_init_root_inode w =
    (let ts = (case w_clock w of Some tv_sec \<Rightarrow> tv_sec | None \<Rightarrow> 0);
         n = zero_inode\<lparr>i_mode := 0x41ED, i_links_count := 2, i_uid := w_uid w, i_gid := w_gid w,
           i_size := 4096, i_blocks := 1, i_atime := ts, i_ctime := ts, i_mtime := ts,
           i_extent_root := AETHERFS_ROOT_DIR_BLOCK, i_nlink := 2, i_flags := AETHERFS_F_COW,
           i_parent := AETHERFS_ROOT_INO\<rparr>
     in n\<lparr>i_checksum := aetherfs_inode_checksum n\<rparr>)"

definition aetherfs_init_journal :: intent_log where
  "aetherfs_init_journal =
    (let j = zero_journal\<lparr>il_start := AETHERFS_JOURNAL_BLOCK, il_end := AETHERFS_JOURNAL_BLOCK,
           il_head := AETHERFS_JOURNAL_BLOCK, il_commit := AETHERFS_JOURNAL_BLOCK\<rparr>
     in j\<lparr>il_checksum := aetherfs_journal_checksum j\<rparr>)"

definition aetherfs_init_inode_bitmap :: bitmap_block where
  "aetherfs_init_inode_bitmap =
    (let b = aetherfs_bitmap_set (zero_bitmap\<lparr>bb_total_bits := 32640\<rparr>) 0; b = b\<lparr>bb_set_bits := 1\<rparr>
     in b\<lparr>bb_checksum := aetherfs_bitmap_checksum b\<rparr>)"

definition aetherfs_init_free_extents :: "u64 \<Rightarrow> extent_node" where
  "aetherfs_init_free_extents blocks =
    (let n = zero_extent_node\<lparr>en_count := 1,
           en_extents := (en_extents zero_extent_node)[0 := (en_extents zero_extent_node ! 0)
             \<lparr>e_pstart := AETHERFS_DATA_START_BLOCK, e_len := blocks - AETHERFS_DATA_START_BLOCK\<rparr>]\<rparr>
     in n\<lparr>en_checksum := aetherfs_extent_node_checksum n\<rparr>)"

section \<open>Writing the bootstrap blocks\<close>

definition aetherfs_write_bootstrap :: "mkfs_options \<Rightarrow> format_state \<Rightarrow> (world, unit) action" where
  "aetherfs_write_bootstrap options state =
    (let fd = fs_fd state; put = (\<lambda>block data. aetherfs_write_all fd (block * 4096) data) in
     bindE (forE (\<lambda>reserved _. aetherfs_zero_block fd reserved) [0, 1, 2, 3, 4, 5, 6, 7] ()) (\<lambda>_.
     bindE aetherfs_fill_uuid (\<lambda>uuid.
     let super = (aetherfs_init_super options (fs_blocks state))\<lparr>s_uuid := uuid\<rparr>;
         super = super\<lparr>s_checksum := aetherfs_super_checksum super\<rparr> in
     bindE (put AETHERFS_SUPERBLOCK_BLOCK (pad_block (enc_super super))) (\<lambda>_.
     bindE (\<lambda>w. put AETHERFS_ROOT_INODE_BLOCK (pad_block (enc_inode (aetherfs_init_root_inode w))) w) (\<lambda>_.
     bindE (put AETHERFS_ROOT_DIR_BLOCK aetherfs_init_root_dir) (\<lambda>_.
     bindE (put AETHERFS_JOURNAL_BLOCK (pad_block (enc_intent_log aetherfs_init_journal))) (\<lambda>_.
     bindE (put AETHERFS_INODE_BITMAP_BLOCK (pad_block (enc_bitmap_block aetherfs_init_inode_bitmap))) (\<lambda>_.
     bindE (put AETHERFS_FREE_EXTENT_BLOCK (pad_block (enc_extent_node (aetherfs_init_free_extents (fs_blocks state))))) (\<lambda>_.
     bindE (put AETHERFS_CHECKPOINT_ROOT_BLOCK
       (pad_block (enc_checkpoint_root (aetherfs_init_checkpoint_root super (fs_blocks state))))) (\<lambda>_.
     fsync fd))))))))))"

section \<open>Reading the structures back\<close>

definition aetherfs_validate_super :: "int \<Rightarrow> u64 \<Rightarrow> (world, unit) action" where
  "aetherfs_validate_super fd blocks =
    bindE (aetherfs_read_all fd (AETHERFS_SUPERBLOCK_BLOCK * 4096) AETHERFS_DEF_BLOCK_SIZE) (\<lambda>block.
    let s = fst (dec_super block) in
    if s_magic s \<noteq> AETHERFS_MAGIC then failE EINVAL
    else if s_version s \<noteq> AETHERFS_VERSION then failE EINVAL
    else if s_blocksize s \<noteq> 4096 then failE EINVAL
    else if s_blocks_count s \<noteq> blocks then failE EINVAL
    else if s_free_blocks s \<noteq> blocks - AETHERFS_DATA_START_BLOCK then failE EINVAL
    else if s_checkpoint s ! 0 \<noteq> AETHERFS_CHECKPOINT_ROOT_BLOCK then failE EINVAL
    else if s_inodes_count s \<noteq> 32640 then failE EINVAL
    else if s_meta_tree s \<noteq> AETHERFS_INODE_BITMAP_BLOCK then failE EINVAL
    else if s_extent_tree s \<noteq> 0 then failE EINVAL
    else if s_free_tree s \<noteq> AETHERFS_FREE_EXTENT_BLOCK then failE EINVAL
    else if s_snap_tree s \<noteq> 0 then failE EINVAL
    else if s_checksum s \<noteq> aetherfs_super_checksum s then failE EBADE
    else okE ())"

definition aetherfs_validate_checkpoint_root :: "int \<Rightarrow> u64 \<Rightarrow> (world, unit) action" where
  "aetherfs_validate_checkpoint_root fd blocks =
    bindE (aetherfs_read_all fd (AETHERFS_CHECKPOINT_ROOT_BLOCK * 4096) AETHERFS_DEF_BLOCK_SIZE) (\<lambda>block.
    let r = fst (dec_checkpoint_root block) in
    if cr_magic r \<noteq> AETHERFS_CHECKPOINT_ROOT_MAGIC then failE EINVAL
    else if cr_version r \<noteq> AETHERFS_CHECKPOINT_ROOT_VERSION then failE EINVAL
    else if cr_generation r \<noteq> 1 then failE EINVAL
    else if cr_ag_count r \<noteq> ucast ((blocks + 2097152 - 1) div 2097152) then failE EINVAL
    else if cr_region_count r \<noteq> 2 then failE EINVAL
    else if cr_super_block r \<noteq> AETHERFS_SUPERBLOCK_BLOCK then failE EINVAL
    else if cr_root_inode_block r \<noteq> AETHERFS_ROOT_INODE_BLOCK then failE EINVAL
    else if cr_root_dir_block r \<noteq> AETHERFS_ROOT_DIR_BLOCK then failE EINVAL
    else if cr_journal_block r \<noteq> AETHERFS_JOURNAL_BLOCK then failE EINVAL
    else if cr_inode_bitmap_block r \<noteq> AETHERFS_INODE_BITMAP_BLOCK then failE EINVAL
    else if cr_free_space_root r \<noteq> AETHERFS_FREE_EXTENT_BLOCK then failE EINVAL
    else if cr_metadata_tree_root r \<noteq> AETHERFS_INODE_BITMAP_BLOCK then failE EINVAL
    else if cr_extent_tree_root r \<noteq> 0 then failE EINVAL
    else if cr_snapshot_root r \<noteq> 0 then failE EINVAL
    else if cr_metadata_region_start r \<noteq> AETHERFS_SUPERBLOCK_BLOCK then failE EINVAL
    else if cr_metadata_region_end r \<noteq> AETHERFS_CHECKPOINT_ROOT_BLOCK then failE EINVAL
    else if cr_data_region_start r \<noteq> AETHERFS_DATA_START_BLOCK then failE EINVAL
    else if cr_data_region_end r \<noteq> blocks then failE EINVAL
    else if cr_special_metadata_root r \<noteq> 0 \<or> cr_cache_root r \<noteq> 0 \<or> cr_parity_root r \<noteq> 0 then failE EINVAL
    else if cr_checksum r \<noteq> aetherfs_checkpoint_root_checksum r then failE EBADE
    else okE ())"

definition aetherfs_validate_root_inode :: "int \<Rightarrow> (world, unit) action" where
  "aetherfs_validate_root_inode fd =
    bindE (aetherfs_read_all fd (AETHERFS_ROOT_INODE_BLOCK * 4096) AETHERFS_DEF_BLOCK_SIZE) (\<lambda>block.
    let n = fst (dec_inode block) in
    if i_checksum n \<noteq> aetherfs_inode_checksum n then failE EBADE
    else if i_mode n \<noteq> 0x41ED then failE EINVAL
    else if i_extent_root n \<noteq> AETHERFS_ROOT_DIR_BLOCK then failE EINVAL
    else okE ())"

text \<open>The second entry lies where the length of the first one puts it, possibly behind the block.\<close>

definition aetherfs_validate_root_dir :: "int \<Rightarrow> (world, unit) action" where
  "aetherfs_validate_root_dir fd =
    bindE (aetherfs_read_all fd (AETHERFS_ROOT_DIR_BLOCK * 4096) AETHERFS_DEF_BLOCK_SIZE) (\<lambda>block w.
    let mem = block @ w_after w; dot = fst (dec_dir_entry mem);
        mem2 = drop (unat (de_rec_len dot)) mem; dotdot = fst (dec_dir_entry mem2) in
    if de_ino dot \<noteq> AETHERFS_ROOT_INO then (Inl EINVAL, w)
    else if de_name_len dot \<noteq> 1 \<or> take 1 (drop 14 mem) \<noteq> [0x2E] then (Inl EINVAL, w)
    else if de_checksum dot \<noteq> aetherfs_dirent_checksum_mkfs mem then (Inl EBADE, w)
    else if de_ino dotdot \<noteq> AETHERFS_ROOT_INO then (Inl EINVAL, w)
    else if de_name_len dotdot \<noteq> 2 \<or> take 2 (drop 14 mem2) \<noteq> [0x2E, 0x2E] then (Inl EINVAL, w)
    else if de_checksum dotdot \<noteq> aetherfs_dirent_checksum_mkfs mem2 then (Inl EBADE, w)
    else (Inr (), w))"

definition aetherfs_validate_journal :: "int \<Rightarrow> (world, unit) action" where
  "aetherfs_validate_journal fd =
    bindE (aetherfs_read_all fd (AETHERFS_JOURNAL_BLOCK * 4096) AETHERFS_DEF_BLOCK_SIZE) (\<lambda>block.
    let j = fst (dec_intent_log block) in
    if il_checksum j \<noteq> aetherfs_journal_checksum j then failE EBADE
    else if il_outstanding j \<noteq> 0 then failE EUCLEAN
    else okE ())"

definition aetherfs_validate_bitmap :: "int \<Rightarrow> u64 \<Rightarrow> u32 \<Rightarrow> u32 \<Rightarrow> (world, unit) action" where
  "aetherfs_validate_bitmap fd offset expected_bits expected_set_bits =
    bindE (aetherfs_read_all fd offset AETHERFS_DEF_BLOCK_SIZE) (\<lambda>block.
    let b = fst (dec_bitmap_block block); actual_set_bits = aetherfs_bitmap_count_set b in
    if bb_total_bits b \<noteq> expected_bits then failE EINVAL
    else if bb_set_bits b \<noteq> actual_set_bits then failE EBADE
    else if actual_set_bits \<noteq> expected_set_bits then failE EINVAL
    else if bb_checksum b \<noteq> aetherfs_bitmap_checksum b then failE EBADE
    else okE ())"

definition free_extent_step :: "extent_node \<Rightarrow> u64 \<Rightarrow> nat \<Rightarrow> u64 \<times> u64 \<Rightarrow> (world, u64 \<times> u64) action" where
  "free_extent_step node blocks index = (\<lambda>(last_end, free_blocks).
    let start = e_pstart (en_extents node ! index); len = e_len (en_extents node ! index) in
    if len = 0 then failE EINVAL
    else if start < AETHERFS_DATA_START_BLOCK \<or> start < last_end then failE EINVAL
    else if start + len > blocks then failE EINVAL
    else okE (start + len, free_blocks + len))"

definition aetherfs_validate_free_extents :: "int \<Rightarrow> u64 \<Rightarrow> (world, unit) action" where
  "aetherfs_validate_free_extents fd blocks =
    bindE (aetherfs_read_all fd (AETHERFS_FREE_EXTENT_BLOCK * 4096) AETHERFS_DEF_BLOCK_SIZE) (\<lambda>block.
    let node = fst (dec_extent_node block); count = en_count node in
    if en_checksum node \<noteq> aetherfs_extent_node_checksum node then failE EBADE
    else if en_next node \<noteq> 0 then failE EINVAL
    else if count = 0 \<or> unat count > AETHERFS_EXTENT_LOG_MAX then failE EINVAL
    else bindE (forE (free_extent_step node blocks) [0..<unat count] (AETHERFS_DATA_START_BLOCK, 0)) (\<lambda>(last_end, free_blocks).
      if free_blocks \<noteq> blocks - AETHERFS_DATA_START_BLOCK then failE EINVAL else okE ()))"

section \<open>The command\<close>

definition aetherfs_run_mkfs :: "mkfs_options \<Rightarrow> (world, unit) action" where
  "aetherfs_run_mkfs options =
    (if mk_block_size options \<noteq> 4096 then failE EOPNOTSUPP
     else bindE (aetherfs_prepare_target options) (\<lambda>state.
       let fd = fs_fd state; blocks = fs_blocks state in
       finallyE
         (bindE (aetherfs_write_bootstrap options state) (\<lambda>_.
          bindE (aetherfs_validate_super fd blocks) (\<lambda>_.
          bindE (aetherfs_validate_root_inode fd) (\<lambda>_.
          bindE (aetherfs_validate_root_dir fd) (\<lambda>_.
          bindE (aetherfs_validate_journal fd) (\<lambda>_.
          bindE (aetherfs_validate_bitmap fd (AETHERFS_INODE_BITMAP_BLOCK * 4096) 32640 1) (\<lambda>_.
          bindE (aetherfs_validate_free_extents fd blocks) (\<lambda>_.
          aetherfs_validate_checkpoint_root fd blocks))))))))
         (close_fd fd)))"

end
