(* ===== verification/Mkfs_Sound.thy ===== *)
theory Mkfs_Sound
  imports Mkfs Validate_Sound
begin

text \<open>
  What \<open>aetherfs_run_mkfs\<close> leaves behind: every bootstrap block holds the structure that
  the code built for it, and the image opens, loads and validates.
\<close>

section \<open>Cleared structures, field by field\<close>

lemma le_bytes_0 [simp]: "le_bytes n (0 :: 'a::len word) = replicate n 0"
  by (induction n) simp_all

lemma replicate_join: "replicate m x @ replicate n x = replicate (m + n) x"
  by (simp add: replicate_add)

lemma enc_array_replicate: "enc x = replicate k 0 \<Longrightarrow> enc_array enc (replicate n x) = replicate (n * k) (0 :: byte)"
  by (induction n) (simp_all add: enc_array_def replicate_join)

lemma enc_array_words: "enc_array (le_bytes k) (replicate n (0 :: 'a::len word)) = replicate (n * k) 0"
  by (rule enc_array_replicate) simp

lemmas zero_simps = replicate_join enc_array_words

lemma zero_super_eq: "zero_super = \<lparr>s_magic = 0, s_version = 0, s_blocksize = 0, s_blocks_count = 0, s_free_blocks = 0,
  s_blocks_per_ag = 0, s_ag_count = 0, s_device_count = 0, s_mode = 0, s_features = 0, s_checksum = 0,
  s_uuid = replicate 16 0, s_checkpoint_num = 0, s_checkpoint_mask = 0, s_checkpoint = replicate 8 0, s_journal_addr = 0,
  s_root_inode = 0, s_generation = 0, s_inodes_count = 0, s_meta_tree = 0, s_extent_tree = 0, s_free_tree = 0,
  s_snap_tree = 0, s_scrub_journal = 0, s_health_journal = 0, s_reserved2 = replicate 6 0\<rparr>" (is "_ = ?z")
proof -
  have "enc_super ?z = replicate 256 0"
    by (simp add: enc_super_def zero_simps)
  then show ?thesis
    using super.dec_enc_exact [of ?z] by (simp add: zero_super_def wf_super_def)
qed

lemma zero_inode_eq: "zero_inode = \<lparr>i_mode = 0, i_links_count = 0, i_uid = 0, i_gid = 0, i_size = 0, i_blocks = 0,
  i_atime = 0, i_ctime = 0, i_mtime = 0, i_extent_root = 0, i_nlink = 0, i_flags = 0, i_xattr = 0, i_reflink = 0,
  i_parent = 0, i_snapshot_id = 0, i_checksum = 0, i_inline_len = 0, i_data_gen = 0, i_data = replicate 24 0,
  i_inline = replicate 372 0\<rparr>" (is "_ = ?z")
  and enc_zero_inode: "enc_inode zero_inode = replicate 512 0"
proof -
  have "enc_inode ?z = replicate 512 0"
    by (simp add: enc_inode_def zero_simps)
  moreover have "zero_inode = ?z"
    using calculation inode.dec_enc_exact [of ?z] by (simp add: zero_inode_def wf_inode_def)
  ultimately show "zero_inode = ?z" "enc_inode zero_inode = replicate 512 0"
    by simp_all
qed

lemma zero_journal_eq: "zero_journal = \<lparr>il_start = 0, il_end = 0, il_head = 0, il_commit = 0, il_total = 0,
  il_outstanding = 0, il_checksum = 0, il_reserved = 0\<rparr>" (is "_ = ?z")
proof -
  have "enc_intent_log ?z = replicate 48 0"
    by (simp add: enc_intent_log_def zero_simps)
  then show ?thesis
    using intent_log.dec_enc_exact [of ?z] by (simp add: zero_journal_def)
qed

lemma zero_bitmap_eq: "zero_bitmap = \<lparr>bb_checksum = 0, bb_total_bits = 0, bb_set_bits = 0, bb_reserved = 0,
  bb_bits = replicate 4080 0\<rparr>" (is "_ = ?z")
proof -
  have "enc_bitmap_block ?z = replicate 4096 0"
    by (simp add: enc_bitmap_block_def zero_simps)
  then show ?thesis
    using bitmap_block.dec_enc_exact [of ?z] by (simp add: zero_bitmap_def wf_bitmap_block_def)
qed

definition zero_extent :: extent where
  "zero_extent = \<lparr>e_lstart = 0, e_pstart = 0, e_csum_start = 0, e_len = 0, e_flags = 0, e_reserved = 0\<rparr>"

lemma zero_extent_node_eq: "zero_extent_node = \<lparr>en_next = 0, en_count = 0, en_checksum = 0,
  en_extents = replicate 102 zero_extent\<rparr>" (is "_ = ?z")
proof -
  have "enc_extent zero_extent = replicate 40 0"
    by (simp add: enc_extent_def zero_extent_def zero_simps)
  then have "enc_extent_node ?z = replicate 4096 0"
    by (simp add: enc_extent_node_def zero_simps enc_array_replicate)
  then show ?thesis
    using extent_node.dec_enc_exact [of ?z] by (simp add: zero_extent_node_def wf_extent_node_def)
qed

lemma zero_checkpoint_root_eq: "zero_checkpoint_root = \<lparr>cr_magic = 0, cr_version = 0, cr_checksum = 0, cr_generation = 0,
  cr_ag_count = 0, cr_region_count = 0, cr_super_block = 0, cr_root_inode_block = 0, cr_root_dir_block = 0,
  cr_journal_block = 0, cr_inode_bitmap_block = 0, cr_free_space_root = 0, cr_metadata_tree_root = 0,
  cr_extent_tree_root = 0, cr_snapshot_root = 0, cr_scrub_journal = 0, cr_health_journal = 0,
  cr_metadata_region_start = 0, cr_metadata_region_end = 0, cr_data_region_start = 0, cr_data_region_end = 0,
  cr_special_metadata_root = 0, cr_cache_root = 0, cr_parity_root = 0, cr_reserved = replicate 491 0\<rparr>" (is "_ = ?z")
proof -
  have "enc_checkpoint_root ?z = replicate 4096 0"
    by (simp add: enc_checkpoint_root_def zero_simps)
  then show ?thesis
    using checkpoint_root.dec_enc_exact [of ?z] by (simp add: zero_checkpoint_root_def wf_checkpoint_root_def)
qed

section \<open>Sealed structures pass their own checks\<close>

lemma checksum_update [simp]:
  "aetherfs_super_checksum (s\<lparr>s_checksum := x\<rparr>) = aetherfs_super_checksum s"
  "aetherfs_inode_checksum (n\<lparr>i_checksum := x\<rparr>) = aetherfs_inode_checksum n"
  "aetherfs_bitmap_checksum (b\<lparr>bb_checksum := x\<rparr>) = aetherfs_bitmap_checksum b"
  "aetherfs_extent_node_checksum (e\<lparr>en_checksum := x\<rparr>) = aetherfs_extent_node_checksum e"
  "aetherfs_checksum_block_checksum (c\<lparr>cb_checksum := x\<rparr>) = aetherfs_checksum_block_checksum c"
  "aetherfs_pool_label_checksum (l\<lparr>pl_checksum := x\<rparr>) = aetherfs_pool_label_checksum l"
  "aetherfs_checkpoint_root_checksum (r\<lparr>cr_checksum := x\<rparr>) = aetherfs_checkpoint_root_checksum r"
  "aetherfs_journal_checksum (j\<lparr>il_checksum := x\<rparr>) = aetherfs_journal_checksum j"
  by (simp_all add: aetherfs_super_checksum_def aetherfs_inode_checksum_def aetherfs_bitmap_checksum_def
      aetherfs_extent_node_checksum_def aetherfs_checksum_block_checksum_def aetherfs_pool_label_checksum_def
      aetherfs_checkpoint_root_checksum_def aetherfs_journal_checksum_def enc_intent_log_def)

lemma pad_block_length [simp]: "length b \<le> 4096 \<Longrightarrow> length (pad_block b) = 4096"
  by (simp add: pad_block_def)

lemma pad_block_dec:
  "wf_super s \<Longrightarrow> fst (dec_super (pad_block (enc_super s))) = s"
  "wf_inode n \<Longrightarrow> fst (dec_inode (pad_block (enc_inode n))) = n"
  "wf_extent_node e \<Longrightarrow> fst (dec_extent_node (pad_block (enc_extent_node e))) = e"
  "fst (dec_intent_log (pad_block (enc_intent_log j))) = j"
  "wf_bitmap_block b \<Longrightarrow> fst (dec_bitmap_block (pad_block (enc_bitmap_block b))) = b"
  "wf_checkpoint_root r \<Longrightarrow> fst (dec_checkpoint_root (pad_block (enc_checkpoint_root r))) = r"
  by (simp_all add: pad_block_def super.dec_enc inode.dec_enc extent_node.dec_enc intent_log.dec_enc
      bitmap_block.dec_enc checkpoint_root.dec_enc)

section \<open>Calls that only succeed or fail\<close>

lemma syscall_adv: "syscall w = (r, w') \<Longrightarrow> sched_adv w w'"
  by (auto simp: syscall_def next_outcome_adv split: prod.splits outcome.splits)

lemma syscall_benign:
  assumes "benign w"
  obtains w' where "syscall w = (Inr (), w')" "sched_adv w w'"
proof -
  obtain x w' where "next_outcome w = (x, w')"
    by fastforce
  then show ?thesis
    using that [of w'] next_outcome_adv [of w x w'] next_outcome_benign [of w x w'] assms
    by (cases x) (auto simp: syscall_def)
qed

section \<open>The target file, block by block\<close>

definition file_block :: "byte list \<Rightarrow> nat \<Rightarrow> byte list" where
  "file_block d b = take 4096 (drop (b * 4096) d)"

text \<open>The target is open on a file of \<open>n\<close> blocks that hold what \<open>B\<close> says.\<close>

definition target :: "world \<Rightarrow> int \<Rightarrow> path \<Rightarrow> nat \<Rightarrow> (nat \<Rightarrow> byte list option) \<Rightarrow> bool" where
  "target w fd p n B \<longleftrightarrow> benign w \<and> w_fds w fd = Some (p, True) \<and> 0 \<le> fd \<and> fd < w_nextfd w \<and> n * 4096 < 2 ^ 63 \<and>
    (\<exists>f. w_files w p = Some f \<and> vf_kind f = S_IFREG \<and> length (vf_data f) = n * 4096 \<and>
      (\<forall>b c. B b = Some c \<longrightarrow> file_block (vf_data f) b = c))"

lemma target_adv: "target w fd p n B \<Longrightarrow> sched_adv w w' \<Longrightarrow> target w' fd p n B"
  by (auto simp: target_def sched_adv_def benign_def list_all_iff)

lemma file_block_put:
  assumes "length c = 4096" "(b + 1) * 4096 \<le> length d"
  shows "file_block (put_bytes (b * 4096) c d) a = (if a = b then c else file_block d a)"
proof (cases "a = b")
  case True
  have "c \<noteq> []"
    using assms(1) by auto
  then show ?thesis
    using put_bytes_read_same [of c "b * 4096" d] assms(1) True by (simp add: file_block_def)
next
  case False
  then have "a * 4096 + 4096 \<le> b * 4096 \<or> b * 4096 + 4096 \<le> a * 4096"
    by linarith
  then show ?thesis
    using put_bytes_read_other [where d = d and bs = c and off = "b * 4096"] assms False by (auto simp: file_block_def)
qed

lemma target_write:
  assumes "target w fd p n B" "unat b < n" "length c = 4096"
    and "aetherfs_write_all fd (b * 4096) c w = (Inr (), w')"
  shows "target w' fd p n (B(unat b \<mapsto> c))"
proof -
  obtain f where f: "w_fds w fd = Some (p, True)" "0 \<le> fd \<and> fd < w_nextfd w" "benign w" "n * 4096 < 2 ^ 63"
    "w_files w p = Some f" "vf_kind f = S_IFREG" "length (vf_data f) = n * 4096"
    "\<forall>b c. B b = Some c \<longrightarrow> file_block (vf_data f) b = c"
    using assms(1) by (auto simp: target_def)
  have le: "unat b * 4096 + 4096 \<le> n * 4096"
    using assms(2) by linarith
  have off: "unat (b * 4096) = unat b * 4096"
    using le f(4) by (subst unat_mult_lem [THEN iffD1]) simp_all
  have adv: "sched_adv (set_data p (put_bytes (unat b * 4096) c (vf_data f)) w) w'"
    using write_all_sound [OF f(1,5) _ assms(4)] off le f(4) assms(3) by auto
  have "length (put_bytes (unat b * 4096) c (vf_data f)) = n * 4096"
    using le f(7) assms(3) by simp
  moreover have "file_block (put_bytes (unat b * 4096) c (vf_data f)) a = (if a = unat b then c else file_block (vf_data f) a)" for a
    using le f(7) assms(3) by (intro file_block_put) simp_all
  ultimately have "target (set_data p (put_bytes (unat b * 4096) c (vf_data f)) w) fd p n (B(unat b \<mapsto> c))"
    using f by (auto simp: target_def set_data_def benign_def)
  then show ?thesis
    using adv by (rule target_adv)
qed

section \<open>Writing the bootstrap blocks\<close>

lemma open_file_Inr:
  assumes "open_file p wr w = (Inr fd, w1)"
  shows "\<exists>w0 f. syscall w = (Inr (), w0) \<and> w_files w0 p = Some f \<and> fd = w_nextfd w0 \<and>
    w1 = w0\<lparr>w_fds := (w_fds w0)(w_nextfd w0 := Some (p, wr)), w_nextfd := w_nextfd w0 + 1\<rparr>"
proof -
  obtain x w0 where 0: "syscall w = (Inr x, w0)"
    and 1: "(case w_files w0 p of None \<Rightarrow> (Inl ENOENT, w0)
     | Some f \<Rightarrow> if wr \<and> vf_readonly f then (Inl EACCES, w0)
         else (Inr (w_nextfd w0), w0\<lparr>w_fds := (w_fds w0)(w_nextfd w0 := Some (p, wr)), w_nextfd := w_nextfd w0 + 1\<rparr>)) = (Inr fd, w1)"
    using assms unfolding open_file_def by (rule bindE_InrE)
  show ?thesis
    using 0 1 by (cases "w_files w0 p") (auto split: if_splits)
qed

lemma target_uuid:
  assumes "target w fd p n B" "aetherfs_fill_uuid w = (Inr uuid, w')"
  shows "target w' fd p n B \<and> length uuid = 16"
proof -
  obtain ufd w1 where 1: "open_file ''/dev/urandom'' False w = (Inr ufd, w1)"
    and 2: "(let (r, w) = pread ufd 16 0 w1; w = close_fd ufd w in
      case r of Inl _ \<Rightarrow> (Inl EIO, w) | Inr uuid \<Rightarrow> if length uuid \<noteq> 16 then (Inl EIO, w)
          else (Inr (uuid[6 := (uuid ! 6 AND 0x0F) OR 0x40, 8 := (uuid ! 8 AND 0x3F) OR 0x80]), w)) = (Inr uuid, w')"
    using assms(2) unfolding aetherfs_fill_uuid_def by (rule bindE_InrE)
  obtain w0 where 0: "syscall w = (Inr (), w0)"
    and w1: "w1 = w0\<lparr>w_fds := (w_fds w0)(w_nextfd w0 := Some (''/dev/urandom'', False)), w_nextfd := w_nextfd w0 + 1\<rparr>"
    and ufd: "ufd = w_nextfd w0"
    using open_file_Inr [OF 1] by blast
  have t0: "target w0 fd p n B"
    using assms(1) syscall_adv [OF 0] by (rule target_adv)
  obtain r w2 where 3: "pread ufd 16 0 w1 = (r, w2)"
    by fastforce
  obtain u where u: "r = Inr u" "length u = 16"
    using 2 3 by (cases r) (simp_all add: Let_def split: if_splits)
  then have "w' = close_fd ufd w2" "length uuid = 16"
    using 2 3 by (auto simp: Let_def)
  moreover have "target w1 fd p n B"
    using t0 unfolding w1 target_def by (simp add: benign_def)
  then have "target w2 fd p n B"
    using pread_adv [OF 3] by (rule target_adv)
  then have "target (close_fd ufd w2) fd p n B"
    using t0 ufd unfolding target_def close_fd_def by (simp add: benign_def)
  ultimately show ?thesis
    by simp
qed

definition mkfs_super :: "mkfs_options \<Rightarrow> u64 \<Rightarrow> byte list \<Rightarrow> super" where
  "mkfs_super options blocks uuid =
    (let super = (aetherfs_init_super options blocks)\<lparr>s_uuid := uuid\<rparr> in super\<lparr>s_checksum := aetherfs_super_checksum super\<rparr>)"

definition bootstrap :: "mkfs_options \<Rightarrow> u64 \<Rightarrow> byte list \<Rightarrow> inode \<Rightarrow> nat \<Rightarrow> byte list option" where
  "bootstrap options blocks uuid n =
    [0 \<mapsto> zero_block, 1 \<mapsto> pad_block (enc_super (mkfs_super options blocks uuid)), 2 \<mapsto> pad_block (enc_inode n),
     3 \<mapsto> aetherfs_init_root_dir, 4 \<mapsto> pad_block (enc_intent_log aetherfs_init_journal),
     5 \<mapsto> pad_block (enc_bitmap_block aetherfs_init_inode_bitmap),
     6 \<mapsto> pad_block (enc_extent_node (aetherfs_init_free_extents blocks)),
     7 \<mapsto> pad_block (enc_checkpoint_root (aetherfs_init_checkpoint_root (mkfs_super options blocks uuid) blocks))]"

lemma mkfs_wf:
  "length uuid = 16 \<Longrightarrow> wf_super (mkfs_super options blocks uuid)"
  "wf_inode (aetherfs_init_root_inode wi)"
  "wf_bitmap_block aetherfs_init_inode_bitmap"
  "wf_extent_node (aetherfs_init_free_extents blocks)"
  "wf_checkpoint_root (aetherfs_init_checkpoint_root s blocks)"
  by (simp_all add: mkfs_super_def aetherfs_init_super_def wf_super_def zero_super_eq Let_def
      aetherfs_init_root_inode_def wf_inode_def zero_inode_eq
      aetherfs_init_inode_bitmap_def wf_bitmap_block_def zero_bitmap_eq aetherfs_bitmap_set_def
      aetherfs_init_free_extents_def wf_extent_node_def zero_extent_node_eq
      aetherfs_init_checkpoint_root_def wf_checkpoint_root_def zero_checkpoint_root_eq)

lemma dirent_bytes_length [simp]: "length (dirent_bytes e name) = 14 + length name"
  by (simp add: dirent_bytes_def enc_dir_entry_def)

lemma root_dir_length [simp]: "length aetherfs_init_root_dir = 4096"
  by (simp add: aetherfs_init_root_dir_def AETHERFS_DIR_REC_LEN_def)

lemma target_mono: "target w fd p n B \<Longrightarrow> (\<And>b c. B' b = Some c \<Longrightarrow> B b = Some c) \<Longrightarrow> target w fd p n B'"
  unfolding target_def by blast

lemma target_zero:
  assumes "target w fd p n B" "8 \<le> n" "forE (\<lambda>reserved _. aetherfs_zero_block fd reserved) bs () w = (Inr (), w')"
    and "\<forall>b \<in> set bs. b < 8"
  shows "\<exists>B'. target w' fd p n B' \<and> (\<forall>b \<in> set bs. B' (unat b) = Some zero_block) \<and> (\<forall>b. B b = Some zero_block \<longrightarrow> B' b = Some zero_block)"
  using assms
proof (induction bs arbitrary: w B)
  case (Cons b bs)
  obtain w1 where 1: "aetherfs_write_all fd (ucast b * 4096) zero_block w = (Inr (), w1)"
    and rest: "forE (\<lambda>reserved _. aetherfs_zero_block fd reserved) bs () w1 = (Inr (), w')"
    using Cons.prems(3) by (auto simp: aetherfs_zero_block_def elim!: bindE_InrE)
  have b: "unat b < 8"
    using Cons.prems(4) by (simp add: word_less_nat_alt)
  have "target w1 fd p n (B(unat b \<mapsto> zero_block))"
    using target_write [OF Cons.prems(1) _ _ 1] b Cons.prems(2) by simp
  from Cons.IH [OF this Cons.prems(2) rest] Cons.prems(4)
  obtain B' where B': "target w' fd p n B'" "\<forall>b \<in> set bs. B' (unat b) = Some zero_block"
    "\<forall>a. (B(unat b \<mapsto> zero_block)) a = Some zero_block \<longrightarrow> B' a = Some zero_block"
    by auto
  then show ?case
    by (intro exI [of _ B']) auto
qed auto

lemma ensures_write:
  assumes "unat b < n" "length c = 4096"
  shows "ensures (\<lambda>w. target w fd p n B) (aetherfs_write_all fd (b * 4096) c) (\<lambda>_ w. target w fd p n (B(unat b \<mapsto> c)))"
  using target_write [OF _ assms] by (simp add: ensures_def)

lemma ensures_zero:
  assumes "8 \<le> n"
  shows "ensures (\<lambda>w. target w fd p n B) (forE (\<lambda>reserved _. aetherfs_zero_block fd reserved) [0, 1, 2, 3, 4, 5, 6, 7] ())
    (\<lambda>_ w. target w fd p n [0 \<mapsto> zero_block])"
proof (rule ensuresI)
  fix w x w' assume "target w fd p n B"
    "forE (\<lambda>reserved _. aetherfs_zero_block fd reserved) [0, 1, 2, 3, 4, 5, 6, 7] () w = (Inr x, w')"
  then obtain B' where "target w' fd p n B'" "B' (unat (0 :: u32)) = Some zero_block"
    using target_zero [OF _ assms, of w fd p B "[0, 1, 2, 3, 4, 5, 6, 7]" w'] by auto
  then show "target w' fd p n [0 \<mapsto> zero_block]"
    by (auto intro: target_mono split: if_splits)
qed

lemma ensures_fsync: "ensures (\<lambda>w. target w fd p n B) (fsync fd) (\<lambda>_ w. target w fd p n B)"
  unfolding fsync_def
  by (rule ensuresI) (auto elim!: bindE_InrE intro: target_adv [OF _ syscall_adv] split: option.splits)

lemma ensures_write_inode:
  assumes "2 < n"
  shows "ensures (\<lambda>w. target w fd p n B) (\<lambda>w. aetherfs_write_all fd (2 * 4096) (pad_block (enc_inode (aetherfs_init_root_inode w))) w)
    (\<lambda>_ w. \<exists>wi. target w fd p n (B(2 \<mapsto> pad_block (enc_inode (aetherfs_init_root_inode wi)))))"
proof (rule ensuresI)
  fix w x w' assume "target w fd p n B"
    "aetherfs_write_all fd (2 * 4096) (pad_block (enc_inode (aetherfs_init_root_inode w))) w = (Inr x, w')"
  then show "\<exists>wi. target w' fd p n (B(2 \<mapsto> pad_block (enc_inode (aetherfs_init_root_inode wi))))"
    using target_write [of w fd p n B 2 "pad_block (enc_inode (aetherfs_init_root_inode w))" w'] assms
    by (auto simp: inode.enc_len [OF mkfs_wf(2)])
qed

lemma target_bootstrap:
  assumes "8 \<le> n" "fs_fd state = fd"
  shows "ensures (\<lambda>w. target w fd p n B) (aetherfs_write_bootstrap options state)
    (\<lambda>_ w. \<exists>uuid wi. length uuid = 16 \<and> target w fd p n (bootstrap options (fs_blocks state) uuid (aetherfs_init_root_inode wi)))"
  unfolding aetherfs_write_bootstrap_def Let_def assms(2)
proof (rule ensures_bindE [OF ensures_zero [OF assms(1)]], rule ensures_bindE)
  show "ensures (\<lambda>w. target w fd p n [0 \<mapsto> zero_block]) aetherfs_fill_uuid
    (\<lambda>uuid w. length uuid = 16 \<and> target w fd p n [0 \<mapsto> zero_block])"
    using target_uuid by (auto simp: ensures_def)
  fix uuid :: "byte list"
  have n: "8 \<le> n" "wf_super (mkfs_super options (fs_blocks state) uuid) \<Longrightarrow>
      length (enc_super (mkfs_super options (fs_blocks state) uuid)) = 256"
    using assms(1) super.enc_len by auto
  let ?rest = "\<lambda>super. bindE (aetherfs_write_all fd (1 * 4096) (pad_block (enc_super super))) (\<lambda>_.
     bindE (\<lambda>w. aetherfs_write_all fd (2 * 4096) (pad_block (enc_inode (aetherfs_init_root_inode w))) w) (\<lambda>_.
     bindE (aetherfs_write_all fd (3 * 4096) aetherfs_init_root_dir) (\<lambda>_.
     bindE (aetherfs_write_all fd (4 * 4096) (pad_block (enc_intent_log aetherfs_init_journal))) (\<lambda>_.
     bindE (aetherfs_write_all fd (5 * 4096) (pad_block (enc_bitmap_block aetherfs_init_inode_bitmap))) (\<lambda>_.
     bindE (aetherfs_write_all fd (6 * 4096) (pad_block (enc_extent_node (aetherfs_init_free_extents (fs_blocks state))))) (\<lambda>_.
     bindE (aetherfs_write_all fd (7 * 4096)
       (pad_block (enc_checkpoint_root (aetherfs_init_checkpoint_root super (fs_blocks state))))) (\<lambda>_.
     fsync fd)))))))"
  let ?post = "\<lambda>_ w. \<exists>uuid wi. length uuid = 16 \<and> target w fd p n (bootstrap options (fs_blocks state) uuid (aetherfs_init_root_inode wi))"
  have "ensures (\<lambda>w. target w fd p n [0 \<mapsto> zero_block]) (?rest (mkfs_super options (fs_blocks state) uuid)) ?post"
    if u: "length uuid = 16"
    apply (rule ensures_bindE [OF ensures_write])
      apply (use n in simp)
     apply (simp add: super.enc_len mkfs_wf(1) [OF u])
    apply (rule ensures_bindE [OF ensures_write_inode])
     apply (use n in simp)
    apply (rule ensures_ex)
    apply (rule ensures_bindE [OF ensures_write])
      apply (use n in simp)
     apply simp
    apply (rule ensures_bindE [OF ensures_write])
      apply (use n in simp)
     apply (simp add: intent_log.enc_len)
    apply (rule ensures_bindE [OF ensures_write])
      apply (use n in simp)
     apply (simp add: bitmap_block.enc_len mkfs_wf)
    apply (rule ensures_bindE [OF ensures_write])
      apply (use n in simp)
     apply (simp add: extent_node.enc_len mkfs_wf)
    apply (rule ensures_bindE [OF ensures_write])
      apply (use n in simp)
     apply (simp add: checkpoint_root.enc_len mkfs_wf)
    apply (rule ensures_conseq [OF ensures_fsync], assumption)
    apply (use u in \<open>auto simp: bootstrap_def\<close>)
    done
  then show "ensures (\<lambda>w. length uuid = 16 \<and> target w fd p n [0 \<mapsto> zero_block])
    (?rest ((aetherfs_init_super options (fs_blocks state))\<lparr>s_uuid := uuid, s_checksum :=
       aetherfs_super_checksum ((aetherfs_init_super options (fs_blocks state))\<lparr>s_uuid := uuid\<rparr>)\<rparr>)) ?post"
    unfolding mkfs_super_def Let_def ensures_def by blast
qed

section \<open>Preparing the target\<close>

definition opened :: "world \<Rightarrow> int \<Rightarrow> path \<Rightarrow> bool" where
  "opened w fd p \<longleftrightarrow> benign w \<and> w_fds w fd = Some (p, True) \<and> 0 \<le> fd \<and> fd < w_nextfd w \<and>
    (\<exists>f. w_files w p = Some f \<and> vf_kind f = S_IFREG)"

text \<open>The path names a regular file or nothing yet.\<close>

definition formattable :: "world \<Rightarrow> path \<Rightarrow> bool" where
  "formattable w p \<longleftrightarrow> benign w \<and> 0 \<le> w_nextfd w \<and> (\<forall>f. w_files w p = Some f \<longrightarrow> vf_kind f = S_IFREG)"

lemma benign_adv: "sched_adv w w' \<Longrightarrow> benign w \<Longrightarrow> benign w'"
  by (auto simp: sched_adv_def benign_def list_all_iff)

lemma opened_adv: "sched_adv w w' \<Longrightarrow> opened w fd p \<Longrightarrow> opened w' fd p"
  using benign_adv by (simp add: opened_def sched_adv_fields)

lemma formattable_adv: "sched_adv w w' \<Longrightarrow> formattable w p \<Longrightarrow> formattable w' p"
  using benign_adv by (simp add: formattable_def sched_adv_fields)

lemma access_ok_adv: "access_ok p w = (b, w') \<Longrightarrow> sched_adv w w'"
  using syscall_adv by (fastforce simp: access_ok_def split: prod.splits sum.splits)

lemma keeps_adv_mono:
  assumes "\<And>w0. keeps (sched_adv w0) m" "\<And>w w'. sched_adv w w' \<Longrightarrow> P w \<Longrightarrow> P w'"
  shows "keeps P m"
proof (rule keepsI)
  fix w assume "P w"
  moreover have "sched_adv w (snd (m w))"
    using assms(1) [of w] by (simp add: keeps_def)
  ultimately show "P (snd (m w))"
    using assms(2) by blast
qed

lemma ensures_cleanupE: "ensures P m Q \<Longrightarrow> ensures P (cleanupE m c) Q"
  by (simp add: ensures_def)

lemma ensures_pre: "(C \<Longrightarrow> ensures P m Q) \<Longrightarrow> ensures (\<lambda>w. P w \<and> C) m Q"
  unfolding ensures_def by blast

lemma ensures_open_creat:
  "ensures (\<lambda>w. formattable w p) (open_creat p) (\<lambda>fd w. opened w fd p)"
  unfolding open_creat_def
proof (rule ensures_bindE)
  show "ensures (\<lambda>w. formattable w p) syscall (\<lambda>_ w. formattable w p)"
    using syscall_adv formattable_adv unfolding ensures_def by blast
qed (auto simp: ensures_def formattable_def opened_def benign_def split: option.splits if_splits)

lemma ensures_fstat:
  "ensures (\<lambda>w. opened w fd p) (fstat fd) (\<lambda>r w. opened w fd p \<and> fst r = S_IFREG)"
  unfolding fstat_def
proof (rule ensures_bindE)
  show "ensures (\<lambda>w. opened w fd p) syscall (\<lambda>_ w. opened w fd p)"
    using syscall_adv opened_adv unfolding ensures_def by blast
qed (auto simp: ensures_def opened_def fd_file_def split: option.splits)

lemma keeps_probe: "keeps (sched_adv w0) (aetherfs_probe_magic fd)"
  by (rule keeps_advI) (auto simp: aetherfs_probe_magic_def dest: read_all_adv split: prod.splits sum.splits)

lemma ensures_ftruncate:
  assumes "unat len = n * 4096" "n * 4096 < 2 ^ 63"
  shows "ensures (\<lambda>w. opened w fd p) (ftruncate fd len) (\<lambda>_ w. target w fd p n Map.empty)"
  unfolding ftruncate_def
proof (rule ensures_bindE)
  show "ensures (\<lambda>w. opened w fd p) syscall (\<lambda>_ w. opened w fd p)"
    using syscall_adv opened_adv unfolding ensures_def by blast
qed (use assms in \<open>auto simp: ensures_def opened_def target_def set_data_def benign_def split: option.splits if_splits\<close>)

lemma ensures_prepare:
  assumes "mk_blocks options \<noteq> 0" "mk_block_size options = 4096" "unat (mk_blocks options) * 4096 < 2 ^ 63"
  shows "ensures (\<lambda>w. formattable w (mk_path options)) (aetherfs_prepare_target options)
    (\<lambda>st w. fs_blocks st = mk_blocks options \<and> 8 \<le> unat (mk_blocks options) \<and>
       target w (fs_fd st) (mk_path options) (unat (mk_blocks options)) Map.empty)" (is "ensures ?P _ ?Q")
proof (rule ensuresI)
  fix w st w' assume w: "?P w" and run: "aetherfs_prepare_target options w = (Inr st, w')"
  let ?n = "unat (mk_blocks options)" and ?p = "mk_path options"
  obtain ex w1 where 1: "access_ok ?p w = (ex, w1)"
    by fastforce
  have "unat (mk_blocks options * 4096) = ?n * 4096"
    using assms(3) by (subst unat_mult_lem [THEN iffD1]) simp_all
  note trunc = ensures_ftruncate [OF this assms(3)]
  let ?body = "\<lambda>fd. cleanupE
       (bindE (fstat fd) (\<lambda>(kind, st_size).
        bindE (guardE (kind = S_IFREG \<or> kind = S_IFBLK) EINVAL) (\<lambda>_.
        bindE (if ex
               then bindE (aetherfs_probe_magic fd) (\<lambda>has_magic. guardE (\<not> (has_magic \<and> \<not> mk_force options)) EEXIST)
               else okE ()) (\<lambda>_.
        bindE (bindE (if kind = S_IFREG then ftruncate fd (mk_blocks options * 4096) else okE ()) (\<lambda>_. okE (mk_blocks options))) (\<lambda>blocks.
        bindE (guardE (\<not> blocks < AETHERFS_DATA_START_BLOCK) ENOSPC) (\<lambda>_.
        okE \<lparr>fs_fd = fd, fs_blocks = blocks\<rparr>))))))
       (close_fd fd)"
  have body: "ensures (\<lambda>w. opened w fd ?p) (?body fd) ?Q" for fd
  proof -
    have probe: "keeps (\<lambda>w. opened w fd ?p) (aetherfs_probe_magic fd)"
      using keeps_probe opened_adv by (rule keeps_adv_mono)
    have "keeps (\<lambda>w. opened w fd ?p) (if ex then bindE (aetherfs_probe_magic fd)
        (\<lambda>has_magic. guardE (\<not> (has_magic \<and> \<not> mk_force options)) EEXIST) else okE ())"
      by (intro keeps_if keeps_bindE probe keeps_guardE keeps_okE)
    note pr = ensures_keeps [OF this]
    show ?thesis
      apply (rule ensures_cleanupE, rule ensures_bindE [OF ensures_fstat], rule ensures_pre)
      apply (clarsimp split del: if_split)
      apply (rule ensures_bindE [OF pr])
      apply (simp add: bindE_assoc)
      apply (rule ensures_bindE [OF trunc])
      apply (auto simp: ensures_def guardE_def word_less_nat_alt split: if_splits)
      done
  qed
  have "bindE (open_creat ?p) ?body w1 = (Inr st, w')"
    using run assms(1) 1 unfolding aetherfs_prepare_target_def assms(2) by (simp add: word_neq_0_conv cong: if_cong)
  then show "?Q st w'"
    using ensuresD [OF ensures_bindE [OF ensures_open_creat body]] formattable_adv [OF access_ok_adv [OF 1] w] by blast
qed

section \<open>Reading back\<close>

lemma keeps_mkfs_validate:
  "keeps (sched_adv w0) (aetherfs_validate_super fd blocks)"
  "keeps (sched_adv w0) (aetherfs_validate_root_inode fd)"
  "keeps (sched_adv w0) (aetherfs_validate_journal fd)"
  "keeps (sched_adv w0) (aetherfs_validate_bitmap fd off tot expected)"
  "keeps (sched_adv w0) (aetherfs_validate_checkpoint_root fd blocks)"
  unfolding aetherfs_validate_super_def aetherfs_validate_root_inode_def aetherfs_validate_journal_def
    aetherfs_validate_bitmap_def aetherfs_validate_checkpoint_root_def Let_def
  by (intro keeps_bindE keeps_read_all keeps_if keeps_failE keeps_okE)+

lemma keeps_mkfs_validate_root_dir: "keeps (sched_adv w0) (aetherfs_validate_root_dir fd)"
  unfolding aetherfs_validate_root_dir_def Let_def
  by (intro keeps_bindE keeps_read_all keepsI) (simp split: if_split)

lemma target_read:
  assumes "unat b < n" "B (unat b) = Some c"
  shows "ensures (\<lambda>w. target w fd p n B) (aetherfs_read_all fd (b * 4096) 4096) (\<lambda>block w. target w fd p n B \<and> block = c)"
proof (rule ensuresI)
  fix w block w' assume t: "target w fd p n B" and run: "aetherfs_read_all fd (b * 4096) 4096 w = (Inr block, w')"
  obtain f where f: "fd_file w fd = Some f" "n * 4096 < 2 ^ 63" "length (vf_data f) = n * 4096"
    "file_block (vf_data f) (unat b) = c"
    using t assms(2) by (auto simp: target_def fd_file_def)
  have "unat b * 4096 + 4096 \<le> n * 4096"
    using assms(1) by linarith
  moreover have "unat (b * 4096) = unat b * 4096"
    using calculation f(2) by (subst unat_mult_lem [THEN iffD1]) simp_all
  ultimately have "block = c"
    using read_all_sound [OF f(1) _ run] f(2,4) by (simp add: file_block_def)
  then show "target w' fd p n B \<and> block = c"
    using target_adv [OF t read_all_adv [OF run]] by simp
qed

lemma ensures_free_extents:
  assumes "6 < n" "B 6 = Some (pad_block (enc_extent_node (aetherfs_init_free_extents blocks)))"
  shows "ensures (\<lambda>w. target w fd p n B) (aetherfs_validate_free_extents fd blocks) (\<lambda>_ w. target w fd p n B \<and> blocks \<noteq> 8)"
  unfolding aetherfs_validate_free_extents_def
proof (rule ensures_bindE)
  show "ensures (\<lambda>w. target w fd p n B) (aetherfs_read_all fd (6 * 4096) 4096)
    (\<lambda>block w. target w fd p n B \<and> block = pad_block (enc_extent_node (aetherfs_init_free_extents blocks)))"
    using assms by (intro target_read) simp_all
  have node: "fst (dec_extent_node (pad_block (enc_extent_node (aetherfs_init_free_extents blocks)))) =
      aetherfs_init_free_extents blocks"
    by (rule pad_block_dec) (rule mkfs_wf)
  have cnt: "en_count (aetherfs_init_free_extents blocks) = 1"
    "e_len (en_extents (aetherfs_init_free_extents blocks) ! 0) = blocks - 8"
    by (simp_all add: aetherfs_init_free_extents_def zero_extent_node_eq Let_def)
  show "ensures (\<lambda>w. target w fd p n B \<and> x = pad_block (enc_extent_node (aetherfs_init_free_extents blocks)))
     (let node = fst (dec_extent_node x); count = en_count node in
      if en_checksum node \<noteq> aetherfs_extent_node_checksum node then failE EBADE
      else if en_next node \<noteq> 0 then failE EINVAL
      else if count = 0 \<or> unat count > AETHERFS_EXTENT_LOG_MAX then failE EINVAL
      else bindE (forE (free_extent_step node blocks) [0..<unat count] (AETHERFS_DATA_START_BLOCK, 0)) (\<lambda>(last_end, free_blocks).
        if free_blocks \<noteq> blocks - AETHERFS_DATA_START_BLOCK then failE EINVAL else okE ()))
     (\<lambda>_ w. target w fd p n B \<and> blocks \<noteq> 8)" for x
    by (rule ensures_pre)
      (simp add: node cnt Let_def ensures_def free_extent_step_def bindE_eq_Inr split: if_split)
qed

text \<open>A successful run has laid out the bootstrap blocks.\<close>

lemma mkfs_layout:
  assumes "formattable w (mk_path options)" "mk_blocks options \<noteq> 0" "unat (mk_blocks options) * 4096 < 2 ^ 63"
    and "aetherfs_run_mkfs options w = (Inr (), w')"
  shows "\<exists>f uuid wi. w_files w' (mk_path options) = Some f \<and> vf_kind f = S_IFREG \<and> benign w' \<and> 0 \<le> w_nextfd w' \<and>
    length (vf_data f) = unat (mk_blocks options) * 4096 \<and> 9 \<le> unat (mk_blocks options) \<and> length uuid = 16 \<and>
    mk_block_size options = 4096 \<and>
    (\<forall>b c. bootstrap options (mk_blocks options) uuid (aetherfs_init_root_inode wi) b = Some c \<longrightarrow> file_block (vf_data f) b = c)"
proof -
  let ?n = "unat (mk_blocks options)" and ?p = "mk_path options"
  have size: "mk_block_size options = 4096"
    using assms(4) by (auto simp: aetherfs_run_mkfs_def split: if_splits)
  let ?B = "\<lambda>uuid wi. bootstrap options (mk_blocks options) uuid (aetherfs_init_root_inode wi)"
  let ?P = "\<lambda>fd w. \<exists>uuid wi. length uuid = 16 \<and> target w fd ?p ?n (?B uuid wi)"
  let ?body = "\<lambda>state. bindE (aetherfs_write_bootstrap options state) (\<lambda>_.
          bindE (aetherfs_validate_super (fs_fd state) (fs_blocks state)) (\<lambda>_.
          bindE (aetherfs_validate_root_inode (fs_fd state)) (\<lambda>_.
          bindE (aetherfs_validate_root_dir (fs_fd state)) (\<lambda>_.
          bindE (aetherfs_validate_journal (fs_fd state)) (\<lambda>_.
          bindE (aetherfs_validate_bitmap (fs_fd state) (5 * 4096) 32640 1) (\<lambda>_.
          bindE (aetherfs_validate_free_extents (fs_fd state) (fs_blocks state)) (\<lambda>_.
          aetherfs_validate_checkpoint_root (fs_fd state) (fs_blocks state))))))))"
  obtain st w1 w2 where 1: "aetherfs_prepare_target options w = (Inr st, w1)"
    and 2: "?body st w1 = (Inr (), w2)" and w': "w' = close_fd (fs_fd st) w2"
    using assms(4) size by (auto simp: aetherfs_run_mkfs_def Let_def finallyE_eq_Inr elim!: bindE_InrE [of "aetherfs_prepare_target options"])
  have st: "fs_blocks st = mk_blocks options" "8 \<le> ?n" "target w1 (fs_fd st) ?p ?n Map.empty"
    using ensuresD [OF ensures_prepare [OF assms(2) size assms(3)] assms(1) 1] by simp_all
  have keep: "ensures (?P (fs_fd st)) m (\<lambda>_. ?P (fs_fd st))" if "\<And>w0. keeps (sched_adv w0) m" for m :: "(world, unit) action"
    by (rule ensures_keeps, rule keeps_adv_mono [OF that]) (use target_adv in blast)
  have "ensures (\<lambda>w. target w (fs_fd st) ?p ?n Map.empty) (?body st) (\<lambda>_ w. ?P (fs_fd st) w \<and> mk_blocks options \<noteq> 8)"
    unfolding st(1)
    apply (rule ensures_bindE [OF target_bootstrap [OF st(2) refl]], unfold st(1))
    apply (rule ensures_bindE [OF keep [OF keeps_mkfs_validate(1)]])
    apply (rule ensures_bindE [OF keep [OF keeps_mkfs_validate(2)]])
    apply (rule ensures_bindE [OF keep [OF keeps_mkfs_validate_root_dir]])
    apply (rule ensures_bindE [OF keep [OF keeps_mkfs_validate(3)]])
    apply (rule ensures_bindE [OF keep [OF keeps_mkfs_validate(4)]])
    apply (rule ensures_bindE [where R = "\<lambda>_ w. ?P (fs_fd st) w \<and> mk_blocks options \<noteq> 8"])
    subgoal
      apply (intro ensures_ex)
      subgoal for uuid wi
        using ensures_free_extents [of ?n "?B uuid wi" "mk_blocks options" "fs_fd st" ?p] st(2)
        by (auto simp: bootstrap_def ensures_def)
      done
    subgoal
      using keep [OF keeps_mkfs_validate(5) [of _ "fs_fd st" "mk_blocks options"]] by (simp only: ensures_def) blast
    done
  from ensuresD [OF this st(3) 2]
  obtain uuid wi where t: "length uuid = 16" "target w2 (fs_fd st) ?p ?n (?B uuid wi)" "mk_blocks options \<noteq> 8"
    by blast
  have "?n \<noteq> 8"
    using t(3) by (simp add: word_unat_eq_iff)
  then show ?thesis
    using t(1,2) st(2) size unfolding w' target_def close_fd_def
    by (auto simp: benign_def intro!: exI [of _ uuid] exI [of _ wi])
qed

end
