(* ===== verification/Mkfs_Roundtrip.thy ===== *)
theory Mkfs_Roundtrip
  imports Mkfs_Sound
begin

text \<open>
  A freshly formatted file opens as a single-member image, loads and validates, and the
  report counts one directory and all blocks behind the bootstrap area as free.
\<close>

section \<open>Images of one unlabelled file\<close>

text \<open>The image has the label that opening synthesises for a file of \<open>n\<close> blocks with data \<open>d\<close>.\<close>

definition single_image :: "image \<Rightarrow> nat \<Rightarrow> byte list \<Rightarrow> world \<Rightarrow> bool" where
  "single_image img n d w \<longleftrightarrow> benign w \<and> img_member_count img = 1 \<and> img_pool_label img = synthesized_label (of_nat n) \<and>
    8 \<le> n \<and> n * 4096 < 2 ^ 63 \<and> length d = n * 4096 \<and> 0 \<le> im_fd (img_members img ! 0) \<and>
    (\<exists>p wr f. w_fds w (im_fd (img_members img ! 0)) = Some (p, wr) \<and> w_files w p = Some f \<and> vf_data f = d)"

lemma single_adv: "sched_adv w w' \<Longrightarrow> single_image img n d w \<Longrightarrow> single_image img n d w'"
  using benign_adv by (auto simp: single_image_def sched_adv_def)

lemma unat_of_nat_blocks: "n * 4096 < 2 ^ 63 \<Longrightarrow> unat (of_nat n :: u64) = n"
  by (simp add: unat_of_nat)

lemma single_masks:
  assumes "img_member_count img = 1" "img_pool_label img = synthesized_label b"
  shows "aetherfs_pool_metadata_mask img = 1" "aetherfs_pool_data_mask img = 1" "aetherfs_pool_log_mask img = 1"
    "aetherfs_pool_profile img = AETHERFS_POOL_PROFILE_SINGLE"
    "aetherfs_pool_role_mask_for_bootstrap_block img k = 1"
  using assms
  by (simp_all add: aetherfs_pool_metadata_mask_def aetherfs_pool_data_mask_def aetherfs_pool_log_mask_def
      aetherfs_pool_profile_def synthesized_label_def Let_def aetherfs_pool_member_limit_mask_def
      aetherfs_pool_role_mask_for_bootstrap_block_def)

lemma single_bits: "mask_bits 1 = [0]"
  by (simp add: upt_rec)

lemma single_data_blocks:
  assumes "img_pool_label img = synthesized_label (of_nat n)" "8 \<le> n" "n * 4096 < 2 ^ 63"
  shows "unat (aetherfs_pool_member_data_blocks img 0) = n - 8"
proof -
  have "8 \<le> (of_nat n :: u64)"
    using assms(2,3) by (simp add: word_le_nat_alt unat_of_nat_blocks)
  then have "unat (of_nat n - 8 :: u64) = n - 8"
    using assms(3) by (simp add: unat_relative unat_of_nat_blocks)
  moreover have "of_nat n \<noteq> (0 :: u64)"
    using \<open>8 \<le> (of_nat n :: u64)\<close> by auto
  then have "aetherfs_pool_member_data_blocks img 0 = of_nat n - 8"
    using assms(1)
    by (auto simp: aetherfs_pool_member_data_blocks_def aetherfs_pool_member_total_blocks_def synthesized_label_def
        Let_def zero_label_def)
  ultimately show ?thesis
    by simp
qed

lemma single_live:
  assumes "single_image img n d w"
  shows "pool_live img w"
proof -
  obtain p wr f where f: "w_fds w (im_fd (img_members img ! 0)) = Some (p, wr)" "w_files w p = Some f" "vf_data f = d"
    using assms by (auto simp: single_image_def)
  then have "member_file w img 0 = Some (p, f)"
    by (simp add: member_file_def)
  then have "member_ready w img 0"
    using assms f single_data_blocks [of img n] by (auto simp: member_ready_def single_image_def)
  then show ?thesis
    using assms by (simp add: pool_live_def single_image_def)
qed

lemma single_valid:
  assumes "single_image img n d w" "unat b < n"
  shows "log_valid img b" "log_peek img w b = file_block d (unat b)"
proof -
  obtain p wr f where f: "w_fds w (im_fd (img_members img ! 0)) = Some (p, wr)" "w_files w p = Some f" "vf_data f = d"
    using assms by (auto simp: single_image_def)
  note m = single_masks [of img "of_nat n"]
  have c: "img_member_count img = 1" "img_pool_label img = synthesized_label (of_nat n)" "8 \<le> n" "n * 4096 < 2 ^ 63"
    using assms(1) by (simp_all add: single_image_def)
  have "log_loc img b = Some (0, b)"
  proof (cases "b < 8")
    case True
    then show ?thesis
      using m [OF c(1,2)] by (simp add: log_loc_def mask_first_bits single_bits)
  next
    case False
    then have "unat (b - 8) < n - 8"
      using assms(2) by (simp add: unat_relative not_less word_le_nat_alt)
    then have "b - 8 < aetherfs_pool_member_data_blocks img 0"
      using single_data_blocks [OF c(2-4)] by (simp add: word_less_nat_alt)
    then show ?thesis
      using False m [OF c(1,2)]
      by (simp add: log_loc_def aetherfs_pool_map_data_block_def aetherfs_pool_map_linear_def mask_members_bits single_bits)
  qed
  then show "log_valid img b" "log_peek img w b = file_block d (unat b)"
    using f m [OF c(1,2)]
    by (simp_all add: log_valid_def log_peek_def phys_peek_def member_file_def file_block_def)
qed

lemma single_read:
  assumes "unat b < n"
  shows "succeeds (single_image img n d) (aetherfs_image_read_block img b)
    (\<lambda>r w. single_image img n d w \<and> r = file_block d (unat b))"
proof (rule succeedsI)
  fix w assume w: "single_image img n d w"
  obtain w' where "aetherfs_image_read_block img b w = (Inr (log_peek img w b), w')" "sched_adv w w'"
    using log_read [OF single_live [OF w] single_valid(1) [OF w assms]] by blast
  then show "\<exists>x w'. aetherfs_image_read_block img b w = (Inr x, w') \<and> single_image img n d w' \<and> x = file_block d (unat b)"
    using single_adv w single_valid(2) [OF w assms] by blast
qed

section \<open>Opening\<close>

lemma open_file_benign:
  assumes "benign w" "w_files w p = Some f" "\<not> (wr \<and> vf_readonly f)"
  shows "\<exists>w'. open_file p wr w = (Inr (w_nextfd w), w') \<and> benign w' \<and> w_files w' = w_files w \<and>
    w_fds w' = (w_fds w)(w_nextfd w \<mapsto> (p, wr)) \<and> w_nextfd w' = w_nextfd w + 1"
proof -
  obtain w0 where 0: "syscall w = (Inr (), w0)" "sched_adv w w0"
    using assms(1) by (rule syscall_benign)
  then have "w_files w0 = w_files w" "w_fds w0 = w_fds w" "w_nextfd w0 = w_nextfd w" "benign w0"
    using benign_adv [OF 0(2)] assms(1) by (simp_all add: sched_adv_fields)
  then show ?thesis
    using assms 0(1) by (auto simp: open_file_def bindE_run_Inr benign_def)
qed

lemma fd_file_adv: "sched_adv w w' \<Longrightarrow> fd_file w' fd = fd_file w fd"
  by (auto simp: fd_file_def sched_adv_def split: option.split)

lemma fstat_benign:
  assumes "benign w" "fd_file w fd = Some f"
  shows "\<exists>w'. fstat fd w = (Inr (vf_kind f, length (vf_data f)), w') \<and> sched_adv w w'"
proof -
  obtain w0 where 0: "syscall w = (Inr (), w0)" "sched_adv w w0"
    using assms(1) by (rule syscall_benign)
  moreover have "fd_file w0 fd = Some f"
    using assms(2) fd_file_adv [OF 0(2)] by simp
  ultimately show ?thesis
    by (auto simp: fstat_def bindE_run_Inr)
qed

lemma of_le_zeroes: "of_le (replicate n 0) = (0 :: 'a::len word)"
  by (induction n) simp_all

lemma no_label: "pl_magic (fst (dec_pool_label zero_block)) = 0"
proof -
  have "le32 (pl_magic (fst (dec_pool_label zero_block))) = take 4 (enc_pool_label (fst (dec_pool_label zero_block)))"
    by (simp add: enc_pool_label_def)
  also have "\<dots> = replicate 4 0"
    by (simp add: pool_label.enc_dec) (simp add: zero_block_def)
  finally have "of_le (le32 (pl_magic (fst (dec_pool_label zero_block)))) = (of_le (replicate 4 0) :: u32)"
    by simp
  then show ?thesis
    by (simp add: of_le_le_bytes_full of_le_zeroes)
qed

lemma open_formatted:
  assumes "benign w" "0 \<le> w_nextfd w" "w_files w p = Some f" "vf_kind f = S_IFREG" "length (vf_data f) = n * 4096"
    and "8 \<le> n" "n * 4096 < 2 ^ 63" "file_block (vf_data f) 0 = zero_block"
  shows "\<exists>img w'. aetherfs_image_open p False w = (Inr img, w') \<and> single_image img n (vf_data f) w' \<and>
    img_blocks img = of_nat n \<and> img_inode_table img = zero_inode_table"
proof -
  let ?fd = "w_nextfd w"
  obtain w1 where 1: "open_file p False w = (Inr ?fd, w1)" "benign w1" "w_files w1 = w_files w" "w_fds w1 = (w_fds w)(?fd \<mapsto> (p, False))"
    using open_file_benign [OF assms(1,3)] by blast
  have f1: "fd_file w1 ?fd = Some f"
    using 1(3,4) assms(3) by (simp add: fd_file_def)
  obtain w2 where 2: "fstat ?fd w1 = (Inr (S_IFREG, n * 4096), w2)" "sched_adv w1 w2"
    using fstat_benign [OF 1(2) f1] assms(4,5) by auto
  have f2: "fd_file w2 ?fd = Some f" "benign w2"
    using f1 fd_file_adv [OF 2(2)] benign_adv [OF 2(2) 1(2)] by simp_all
  have blocks: "of_nat (n * 4096) div 4096 = (of_nat n :: u64)"
  proof -
    have "unat (of_nat (n * 4096) :: u64) = n * 4096"
      using assms(7) by (subst unat_of_nat) simp
    then have "unat (of_nat (n * 4096) div 4096 :: u64) = n"
      by (simp only: unat_div) simp
    then show ?thesis
      using unat_of_nat_blocks [OF assms(7)] by (simp only: word_unat_eq_iff)
  qed
  define m where "m = zero_member\<lparr>im_fd := ?fd, im_is_block_device := False, im_size_bytes := of_nat (n * 4096), im_blocks := of_nat n\<rparr>"
  have member: "aetherfs_member_open_path p False w = (Inr m, w2)"
    using 1(1) 2(1) blocks by (simp add: aetherfs_member_open_path_def bindE_run_Inr cleanupE_run_Inr m_def)
  obtain w3 where 3: "aetherfs_read_all ?fd 0 4096 w2 = (Inr (take 4096 (drop 0 (vf_data f))), w3)" "sched_adv w2 w3"
    using read_all_benign [OF f2(2,1), of 0 4096] assms(5-7) by auto
  have "aetherfs_member_read_pool_label m w2 = (Inr None, w3)"
    using 3(1) assms(2,8) no_label
    by (simp add: aetherfs_member_read_pool_label_def aetherfs_member_read_block_def m_def bindE_run_Inr file_block_def)
  moreover define img where "img = zero_image\<lparr>img_fd := - 1, img_member_count := 1, img_writable := False,
                img_members := (img_members zero_image)[0 := m]\<rparr>"
  ultimately have run: "aetherfs_image_open p False w = (Inr (aetherfs_image_synthesize_single_label img), w3)"
    using member by (simp add: aetherfs_image_open_def bindE_run_Inr cleanupE_run_Inr Let_def)
  have m0: "img_members img ! 0 = m" "length (img_members img) = 8" "img_member_count img = 1"
    "img_inode_table img = zero_inode_table"
    by (simp_all add: img_def zero_image_def)
  have adv: "sched_adv w1 w3"
    using 2(2) 3(2) by (rule sched_adv_trans)
  then have "benign w3" "w_fds w3 ?fd = Some (p, False)" "w_files w3 p = Some f"
    using 1 assms(3) benign_adv by (auto simp: sched_adv_fields)
  then have "single_image (aetherfs_image_synthesize_single_label img) n (vf_data f) w3"
    using assms m0
    by (auto simp: single_image_def aetherfs_image_synthesize_single_label_def aetherfs_image_assign_primary_aliases_def
        Let_def m_def)
  moreover have "img_blocks (aetherfs_image_synthesize_single_label img) = of_nat n"
    "img_inode_table (aetherfs_image_synthesize_single_label img) = zero_inode_table"
    using m0 by (simp_all add: aetherfs_image_synthesize_single_label_def aetherfs_image_assign_primary_aliases_def Let_def m_def)
  ultimately show ?thesis
    using run by blast
qed

section \<open>Loading\<close>

definition formatted :: "mkfs_options \<Rightarrow> byte list \<Rightarrow> inode \<Rightarrow> image \<Rightarrow> image" where
  "formatted options uuid n img = (let blocks = mk_blocks options; s = mkfs_super options blocks uuid in
    img\<lparr>img_super := s, img_blocks := blocks, img_checkpoint_root := aetherfs_init_checkpoint_root s blocks,
      img_journal := aetherfs_init_journal, img_inode_bitmap := aetherfs_init_inode_bitmap,
      img_free_extents := aetherfs_init_free_extents blocks,
      img_inode_table := load_inodes (pad_block (enc_inode n)) (img_inode_table img),
      img_root_dir := aetherfs_init_root_dir\<rparr>)"

lemma single_image_upd [simp]:
  "single_image (img\<lparr>img_super := s\<rparr>) n d = single_image img n d"
  "single_image (img\<lparr>img_blocks := k\<rparr>) n d = single_image img n d"
  "single_image (img\<lparr>img_checkpoint_root := r\<rparr>) n d = single_image img n d"
  "single_image (img\<lparr>img_journal := j\<rparr>) n d = single_image img n d"
  "single_image (img\<lparr>img_inode_bitmap := m\<rparr>) n d = single_image img n d"
  "single_image (img\<lparr>img_free_extents := e\<rparr>) n d = single_image img n d"
  "single_image (img\<lparr>img_inode_table := t\<rparr>) n d = single_image img n d"
  "single_image (img\<lparr>img_root_dir := q\<rparr>) n d = single_image img n d"
  by (auto simp: single_image_def fun_eq_iff)

lemmas mkfs_structures = mkfs_super_def aetherfs_init_super_def aetherfs_init_checkpoint_root_def aetherfs_init_journal_def
  aetherfs_init_inode_bitmap_def aetherfs_init_free_extents_def aetherfs_init_root_inode_def aetherfs_bitmap_set_def

lemmas zero_structures = zero_super_eq zero_checkpoint_root_eq zero_journal_eq zero_bitmap_eq zero_extent_node_eq zero_inode_eq
  zero_extent_def

lemma foldl_count_zero: "foldl (\<lambda>count b. count + of_nat (popcount8 b)) c (replicate n 0) = (c :: u32)"
  by (induction n arbitrary: c) (simp_all add: popcount8_def)

lemma replicate_4080: "replicate 4080 (0 :: byte) = 0 # replicate 4079 0"
  using replicate_Suc [of 4079 "0 :: byte"] by (simp del: replicate_Suc)

lemma init_bitmap_bits: "bb_bits aetherfs_init_inode_bitmap = 1 # replicate 4079 0"
  by (simp add: aetherfs_init_inode_bitmap_def aetherfs_bitmap_set_def zero_bitmap_eq replicate_4080 Let_def)

lemma popcount8_1: "popcount8 1 = 1"
  by (simp add: popcount8_def upt_rec)

lemma init_bitmap_count: "aetherfs_image_bitmap_count_set aetherfs_init_inode_bitmap = 1"
  by (simp add: aetherfs_image_bitmap_count_set_def init_bitmap_bits foldl_count_zero popcount8_1)

lemma init_bitmap_valid: "aetherfs_image_validate_bitmap aetherfs_init_inode_bitmap 32640 = Inr ()"
proof -
  have "bb_total_bits aetherfs_init_inode_bitmap = 32640" "bb_set_bits aetherfs_init_inode_bitmap = 1"
    by (simp_all add: aetherfs_init_inode_bitmap_def aetherfs_bitmap_set_def Let_def)
  moreover have "bb_checksum aetherfs_init_inode_bitmap = aetherfs_bitmap_checksum aetherfs_init_inode_bitmap"
    by (simp add: aetherfs_init_inode_bitmap_def Let_def)
  ultimately show ?thesis
    by (simp add: aetherfs_image_validate_bitmap_def init_bitmap_count)
qed

lemma mkfs_super_fields:
  "s_magic (mkfs_super o' b u) = AETHERFS_MAGIC" "s_version (mkfs_super o' b u) = AETHERFS_VERSION"
  "s_blocksize (mkfs_super o' b u) = mk_block_size o'" "s_blocks_count (mkfs_super o' b u) = b"
  "s_free_blocks (mkfs_super o' b u) = b - 8" "s_device_count (mkfs_super o' b u) = 1"
  "s_checkpoint (mkfs_super o' b u) ! 0 = 7" "s_journal_addr (mkfs_super o' b u) = 4"
  "s_root_inode (mkfs_super o' b u) = 2" "s_generation (mkfs_super o' b u) = 1"
  "s_inodes_count (mkfs_super o' b u) = 32640" "s_meta_tree (mkfs_super o' b u) = 5" "s_extent_tree (mkfs_super o' b u) = 0"
  "s_free_tree (mkfs_super o' b u) = 6" "s_snap_tree (mkfs_super o' b u) = 0"
  by (simp_all add: mkfs_super_def aetherfs_init_super_def zero_super_eq Let_def)

lemma mkfs_super_sealed: "s_checksum (mkfs_super o' b u) = aetherfs_super_checksum (mkfs_super o' b u)"
  by (simp add: mkfs_super_def Let_def)

lemma mkfs_checkpoint_fields:
  "cr_journal_block (aetherfs_init_checkpoint_root s b) = s_journal_addr s"
  "cr_inode_bitmap_block (aetherfs_init_checkpoint_root s b) = s_meta_tree s"
  "cr_free_space_root (aetherfs_init_checkpoint_root s b) = s_free_tree s"
  "cr_root_inode_block (aetherfs_init_checkpoint_root s b) = s_root_inode s"
  "cr_root_dir_block (aetherfs_init_checkpoint_root s b) = 3"
  by (simp_all add: aetherfs_init_checkpoint_root_def Let_def)

lemma mkfs_checkpoint_valid:
  "img_checkpoint_root img = aetherfs_init_checkpoint_root (img_super img) (img_blocks img) \<Longrightarrow>
    aetherfs_image_validate_checkpoint_root img = Inr ()"
proof -
  define z where "z = zero_checkpoint_root"
  have z: "cr_special_metadata_root z = 0" "cr_cache_root z = 0" "cr_parity_root z = 0"
    by (simp_all add: z_def zero_checkpoint_root_eq)
  assume "img_checkpoint_root img = aetherfs_init_checkpoint_root (img_super img) (img_blocks img)"
  then show ?thesis
    by (simp add: aetherfs_image_validate_checkpoint_root_def aetherfs_init_checkpoint_root_def z_def [symmetric] z Let_def)
qed

lemma mkfs_super_valid:
  assumes "img_super img = mkfs_super options (mk_blocks options) uuid" "mk_block_size options = 4096" "8 \<le> mk_blocks options"
    and "pl_logical_blocks (img_pool_label img) = mk_blocks options" "img_member_count img = 1"
  shows "aetherfs_image_validate_super img = Inr ()"
  using assms by (simp add: aetherfs_image_validate_super_def mkfs_super_fields mkfs_super_sealed Let_def not_less)

lemma succeeds_read:
  assumes "single_image img' n d = P" "unat b < n" "file_block d (unat b) = c" "succeeds P (f c) Q"
  shows "succeeds P (bindE (aetherfs_image_read_block img' b) f) Q"
  unfolding assms(1) [symmetric]
proof (rule succeeds_bindE [OF single_read [OF assms(2)]])
  show "succeeds (\<lambda>w. single_image img' n d w \<and> x = file_block d (unat b)) (f x) Q" for x
    using assms(1,3,4) by (auto simp: succeeds_def)
qed

lemma load_formatted:
  assumes "\<And>b c. bootstrap options (mk_blocks options) uuid nd b = Some c \<Longrightarrow> file_block d b = c"
    and "length uuid = 16" "wf_inode nd" "mk_block_size options = 4096" "n = unat (mk_blocks options)" "8 \<le> n"
    and "img_pool_label img = synthesized_label (of_nat n)" "img_member_count img = 1"
  shows "succeeds (single_image img n d) (aetherfs_image_load img)
    (\<lambda>img' w. img' = formatted options uuid nd img \<and> single_image img' n d w)"
proof -
  let ?s = "mkfs_super options (mk_blocks options) uuid"
  have blk: "file_block d 1 = pad_block (enc_super ?s)" "file_block d 2 = pad_block (enc_inode nd)"
    "file_block d 3 = aetherfs_init_root_dir" "file_block d 4 = pad_block (enc_intent_log aetherfs_init_journal)"
    "file_block d 5 = pad_block (enc_bitmap_block aetherfs_init_inode_bitmap)"
    "file_block d 6 = pad_block (enc_extent_node (aetherfs_init_free_extents (mk_blocks options)))"
    "file_block d 7 = pad_block (enc_checkpoint_root (aetherfs_init_checkpoint_root ?s (mk_blocks options)))"
    using assms(1) by (simp_all add: bootstrap_def)
  have dec: "fst (dec_super (pad_block (enc_super ?s))) = ?s"
    by (rule pad_block_dec) (rule mkfs_wf(1) [OF assms(2)])
  have sv: "aetherfs_image_validate_super (img\<lparr>img_super := ?s\<rparr>) = Inr ()"
    using assms(4-8) by (intro mkfs_super_valid) (simp_all add: word_le_nat_alt synthesized_label_def Let_def)
  have node: "en_checksum (aetherfs_init_free_extents (mk_blocks options)) = aetherfs_extent_node_checksum (aetherfs_init_free_extents (mk_blocks options))"
    "en_count (aetherfs_init_free_extents (mk_blocks options)) = 1"
    by (simp_all add: aetherfs_init_free_extents_def Let_def)
  have jr: "il_checksum aetherfs_init_journal = aetherfs_journal_checksum aetherfs_init_journal"
    by (simp add: aetherfs_init_journal_def Let_def)
  show ?thesis
    unfolding aetherfs_image_load_def Let_def
    apply (rule succeeds_read [where c = "pad_block (enc_super ?s)"])
       apply simp
      apply (use assms(6) blk in simp_all)
    apply (simp add: dec sv mkfs_super_fields)
    apply (rule succeeds_read [where c = "pad_block (enc_checkpoint_root (aetherfs_init_checkpoint_root ?s (mk_blocks options)))"])
       apply simp
      apply (use assms(6) blk in simp_all)
    apply (simp add: pad_block_dec mkfs_wf mkfs_checkpoint_valid mkfs_checkpoint_fields mkfs_super_fields)
    apply (rule succeeds_read [where c = "pad_block (enc_intent_log aetherfs_init_journal)"])
       apply simp
      apply (use assms(6) blk in simp_all)
    apply (simp add: pad_block_dec jr)
    apply (rule succeeds_read [where c = "pad_block (enc_bitmap_block aetherfs_init_inode_bitmap)"])
       apply simp
      apply (use assms(6) blk in simp_all)
    apply (simp add: pad_block_dec mkfs_wf init_bitmap_valid aetherfs_read_extent_node_def Let_def bindE_assoc)
    apply (rule succeeds_read [where c = "pad_block (enc_extent_node (aetherfs_init_free_extents (mk_blocks options)))"])
       apply simp
      apply (use assms(6) blk in simp_all)
    apply (simp add: pad_block_dec mkfs_wf node)
    apply (rule succeeds_read [where c = "pad_block (enc_inode nd)"])
       apply simp
      apply (use assms(6) blk in simp_all)
    apply (rule succeeds_read [where c = "aetherfs_init_root_dir"])
       apply simp
      apply (use assms(6) blk in simp_all)
    apply (rule succeeds_okE)
    apply (simp add: formatted_def Let_def)
    done
qed

section \<open>Validating\<close>

lemma load_inodes_pad:
  assumes "wf_inode nd"
  shows "load_inodes (pad_block (enc_inode nd)) table = nd # replicate 7 zero_inode @ drop 8 table"
proof -
  have "pad_block (enc_inode nd) = enc_array enc_inode (nd # replicate 7 zero_inode)"
    using enc_array_replicate [of enc_inode zero_inode 512 7, OF enc_zero_inode] inode.enc_len [OF assms]
    by (simp add: pad_block_def enc_array_def)
  moreover have "wf_inode zero_inode"
    by (simp add: zero_inode_eq wf_inode_def)
  ultimately show ?thesis
    using inode.array_dec_enc [of "nd # replicate 7 zero_inode" 8 "[]"] assms
    by (simp add: load_inodes_def list_all_iff)
qed

lemma init_bitmap_test:
  assumes "i < 32640"
  shows "aetherfs_image_bitmap_test aetherfs_init_inode_bitmap i \<longleftrightarrow> i = 0"
proof (cases "i < 8")
  case True
  then have "i div 8 = 0" "i mod 8 = i"
    by simp_all
  then show ?thesis
    by (simp add: aetherfs_image_bitmap_test_def init_bitmap_bits bit_1_iff)
next
  case False
  have "i div 8 < 4080"
    using assms by linarith
  moreover obtain k where "i div 8 = Suc k"
    using False by (cases "i div 8") simp_all
  ultimately have "(1 # replicate 4079 (0 :: byte)) ! (i div 8) = 0"
    by simp
  then show ?thesis
    using False by (simp add: aetherfs_image_bitmap_test_def init_bitmap_bits)
qed

lemma dirent_decode:
  assumes "length name = unat (de_name_len e)" "length name \<le> 255"
  shows "fst (dec_dir_entry (dirent_bytes e name @ rest)) =
      e\<lparr>de_checksum := aetherfs_dirent_checksum_mkfs (enc_dir_entry (e\<lparr>de_checksum := 0\<rparr>) @ name)\<rparr>"
    "aetherfs_dirent_checksum (dirent_bytes e name @ rest) = de_checksum (fst (dec_dir_entry (dirent_bytes e name @ rest)))"
    "dirent_name (dirent_bytes e name @ rest) = name"
proof -
  let ?c = "aetherfs_dirent_checksum_mkfs (enc_dir_entry (e\<lparr>de_checksum := 0\<rparr>) @ name)"
  have len: "length (enc_dir_entry x) = 14" for x
    by (simp add: enc_dir_entry_def)
  have upd: "(enc_dir_entry (e\<lparr>de_checksum := c\<rparr>) @ name)[13 := 0] = enc_dir_entry (e\<lparr>de_checksum := 0\<rparr>) @ name" for c
    by (simp add: enc_dir_entry_def list_update_append)
  show 1: "fst (dec_dir_entry (dirent_bytes e name @ rest)) = e\<lparr>de_checksum := ?c\<rparr>"
    by (simp add: dirent_bytes_def dir_entry.dec_enc)
  have tk: "take (14 + length name) (dirent_bytes e name @ rest) = enc_dir_entry (e\<lparr>de_checksum := ?c\<rparr>) @ name"
    by (simp add: dirent_bytes_def len)
  have c: "?c = ucast (aetherfs_crc32c_data (enc_dir_entry (e\<lparr>de_checksum := 0\<rparr>) @ name) AND 0xFF)"
    using assms(1) upd [of 0] by (simp add: aetherfs_dirent_checksum_mkfs_def dir_entry.dec_enc len Let_def)
  have nl: "unat (de_name_len (e\<lparr>de_checksum := ?c\<rparr>)) = length name"
    using assms(1) by simp
  show "aetherfs_dirent_checksum (dirent_bytes e name @ rest) = de_checksum (fst (dec_dir_entry (dirent_bytes e name @ rest)))"
    unfolding aetherfs_dirent_checksum_def Let_def 1 nl tk upd using assms(2) c by simp
  show "dirent_name (dirent_bytes e name @ rest) = name"
    using assms(1) by (simp add: dirent_name_def 1) (simp add: dirent_bytes_def len)
qed

abbreviation dot_entry :: dir_entry where
  "dot_entry \<equiv> \<lparr>de_ino = 16, de_rec_len = 16, de_name_len = 1, de_file_type = 2, de_checksum = 0\<rparr>"

abbreviation dotdot_entry :: dir_entry where
  "dotdot_entry \<equiv> \<lparr>de_ino = 16, de_rec_len = 4080, de_name_len = 2, de_file_type = 2, de_checksum = 0\<rparr>"

lemma init_root_dir_bytes:
  "aetherfs_init_root_dir = dirent_bytes dot_entry dot_name @ [0] @ dirent_bytes dotdot_entry dotdot_name @ replicate 4064 0"
proof -
  have "drop 15 zero_block = 0 # replicate 4080 0" "drop 32 zero_block = replicate 4064 0"
    using replicate_Suc [of 4080 "0 :: byte"] by (simp_all add: zero_block_def del: replicate_Suc)
  moreover have "dirent_bytes e name \<noteq> []" for e name
    using dirent_bytes_length [of e name] by fastforce
  ultimately show ?thesis
    by (simp add: aetherfs_init_root_dir_def AETHERFS_DIR_REC_LEN_def put_bytes_def Let_def)
qed

lemma init_root_dir_valid:
  assumes "img_root_dir img = aetherfs_init_root_dir"
  shows "\<exists>refs. aetherfs_image_validate_root_dir after img = Inr refs"
proof -
  define mem where "mem = aetherfs_init_root_dir @ after"
  have first: "mem = dirent_bytes dot_entry dot_name @ ([0] @ dirent_bytes dotdot_entry dotdot_name @ replicate 4064 0 @ after)"
    and second: "drop 16 mem = dirent_bytes dotdot_entry dotdot_name @ (replicate 4064 0 @ after)"
    by (simp_all add: mem_def init_root_dir_bytes)
  obtain c1 where d1: "fst (dec_dir_entry mem) = dot_entry\<lparr>de_checksum := c1\<rparr>"
    "aetherfs_dirent_checksum mem = c1" "dirent_name mem = dot_name"
    unfolding first by (simp add: dirent_decode del: append.simps)
  obtain c2 where d2: "fst (dec_dir_entry (drop 16 mem)) = dotdot_entry\<lparr>de_checksum := c2\<rparr>"
    "aetherfs_dirent_checksum (drop 16 mem) = c2" "dirent_name (drop 16 mem) = dotdot_name"
    unfolding second by (simp add: dirent_decode del: append.simps)
  have "root_dir_loop mem 4096 True True refs = Inr refs" for refs
    by (subst root_dir_loop.simps) simp
  then have "root_dir_loop mem 16 True False refs = Inr refs" for refs
    by (subst root_dir_loop.simps) (simp add: Let_def d2)
  then have "root_dir_loop mem 0 False False refs = Inr refs" for refs
    by (subst root_dir_loop.simps) (simp add: Let_def d1)
  then show ?thesis
    by (simp add: aetherfs_image_validate_root_dir_def assms mem_def)
qed

lemma append_benign:
  assumes "single_image img n d w"
  shows "\<exists>l' w'. aetherfs_interval_list_append l start len w = (Inr l', w') \<and> single_image img n d w' \<and>
    itl_items l' = (if len = 0 then itl_items l else itl_items l @ [Interval start len])"
proof -
  have b: "benign w"
    using assms by (simp add: single_image_def)
  obtain w0 where 0: "syscall w = (Inr (), w0)" "sched_adv w w0"
    using b by (rule syscall_benign)
  obtain l' w' where run: "aetherfs_interval_list_append l start len w = (Inr l', w')"
    using 0(1) by (fastforce simp: aetherfs_interval_list_append_def realloc_items_def bindE_def split: prod.splits sum.splits)
  then show ?thesis
    using append_items [OF run] keepsD [OF keeps_append [of w] _ run] single_adv assms by blast
qed

lemma formatted_fields [simp]:
  "img_super (formatted o' u nd img) = mkfs_super o' (mk_blocks o') u"
  "img_blocks (formatted o' u nd img) = mk_blocks o'"
  "img_checkpoint_root (formatted o' u nd img) = aetherfs_init_checkpoint_root (mkfs_super o' (mk_blocks o') u) (mk_blocks o')"
  "img_journal (formatted o' u nd img) = aetherfs_init_journal"
  "img_inode_bitmap (formatted o' u nd img) = aetherfs_init_inode_bitmap"
  "img_free_extents (formatted o' u nd img) = aetherfs_init_free_extents (mk_blocks o')"
  "img_inode_table (formatted o' u nd img) = load_inodes (pad_block (enc_inode nd)) (img_inode_table img)"
  "img_root_dir (formatted o' u nd img) = aetherfs_init_root_dir"
  by (simp_all add: formatted_def Let_def)

lemma formatted_inodes:
  assumes "wf_inode nd" "img_inode_table img = zero_inode_table" "0 < i" "i < AETHERFS_MAX_INODES"
  shows "i_mode (img_inode_table (formatted o' u nd img) ! i) = 0"
proof -
  have "load_inodes (pad_block (enc_inode nd)) zero_inode_table = nd # replicate 32639 zero_inode"
    unfolding load_inodes_pad [OF assms(1)] zero_inode_table_def by (simp add: replicate_join)
  then show ?thesis
    using assms(2-4) by (cases i) (simp_all add: zero_inode_eq)
qed

lemma validate_formatted_inodes:
  assumes "nd = aetherfs_init_root_inode wi" "img_inode_table img = zero_inode_table"
  shows "forE (validate_inode (formatted o' u nd img) refs) [0..<AETHERFS_MAX_INODES] st = okE (st\<lparr>vs_directories := vs_directories st + 1\<rparr>)"
proof -
  let ?img = "formatted o' u nd img"
  have wf: "wf_inode nd"
    unfolding assms(1) by (rule mkfs_wf)
  have "img_inode_table ?img ! 0 = nd"
    by (simp add: load_inodes_pad [OF wf])
  moreover have "i_mode nd = 0x41ED" "i_checksum nd = aetherfs_inode_checksum nd" "i_extent_root nd = 3"
    by (simp_all add: assms(1) aetherfs_init_root_inode_def Let_def)
  ultimately have first: "validate_inode ?img refs 0 st = okE (st\<lparr>vs_directories := vs_directories st + 1\<rparr>)"
    by (simp add: validate_inode_def init_bitmap_test S_ISDIR_def Let_def mkfs_checkpoint_fields)
  have rest: "forE (validate_inode ?img refs) is st = okE st" if "\<forall>i \<in> set is. 0 < i \<and> i < AETHERFS_MAX_INODES" for "is" st
    using that
  proof (induction "is")
    case (Cons i "is")
    then show ?case
      using formatted_inodes [OF wf assms(2), of i o' u] by (simp add: validate_inode_def init_bitmap_test Let_def)
  qed simp
  have split: "[0..<AETHERFS_MAX_INODES] = 0 # [Suc 0..<AETHERFS_MAX_INODES]"
    by (rule upt_conv_Cons) simp
  have "\<forall>i \<in> set [Suc 0..<AETHERFS_MAX_INODES]. 0 < i \<and> i < AETHERFS_MAX_INODES"
    unfolding set_upt by simp
  then show ?thesis
    unfolding split forE.simps first bindE_okE by (rule rest)
qed

lemma validate_formatted:
  assumes "nd = aetherfs_init_root_inode wi" "img_inode_table img = zero_inode_table" "n = unat (mk_blocks options)" "9 \<le> n"
  shows "succeeds (single_image (formatted options uuid nd img) n d) (aetherfs_image_validate (formatted options uuid nd img))
    (\<lambda>rep w. rep = \<lparr>rp_files = 0, rp_directories = 1, rp_inodes_used = 1, rp_data_blocks = 0,
       rp_free_blocks = mk_blocks options - AETHERFS_DATA_START_BLOCK\<rparr>)"
proof (rule succeedsI)
  let ?img = "formatted options uuid nd img" and ?N = "mk_blocks options"
  fix w assume w: "single_image ?img n d w"
  have N: "?N - 8 \<noteq> 0" "\<not> ?N < 8"
    using assms(3,4) by (auto simp: word_less_nat_alt)
  have j: "il_outstanding aetherfs_init_journal = 0"
    by (simp add: aetherfs_init_journal_def zero_journal_eq Let_def)
  obtain refs where refs: "aetherfs_image_validate_root_dir (w_after w) ?img = Inr refs"
    using init_root_dir_valid [of ?img] by auto
  let ?st0 = "\<lparr>vs_used = empty_list, vs_files = 0, vs_directories = 0, vs_data_blocks = 0\<rparr>"
  obtain l1 w1 where 1: "aetherfs_interval_list_append empty_list 3 1 w = (Inr l1, w1)" "single_image ?img n d w1"
    "itl_items l1 = [Interval 3 1]"
    using append_benign [OF w, of empty_list 3 1] by (auto simp: empty_list_def)
  let ?x = "en_extents (aetherfs_init_free_extents ?N) ! 0"
  have node: "en_count (aetherfs_init_free_extents ?N) = 1" "en_next (aetherfs_init_free_extents ?N) = 0"
    "e_pstart ?x = 8" "e_len ?x = ?N - 8"
    by (simp_all add: aetherfs_init_free_extents_def zero_extent_node_eq Let_def)
  obtain l2 w2 where 2: "aetherfs_interval_list_append empty_list 8 (?N - 8) w1 = (Inr l2, w2)" "single_image ?img n d w2"
    "itl_items l2 = [Interval 8 (?N - 8)]"
    using append_benign [OF 1(2), of empty_list 8 "?N - 8"] N(1) by (auto simp: empty_list_def)
  have free: "validate_free_list ?img w1 = (Inr \<lparr>fr_coverage = l2, fr_free_blocks = ?N - 8, fr_last_end = ?N\<rparr>, w2)"
    using 2(1) N by (simp add: validate_free_list_def validate_free_extent_def node Let_def bindE_run_Inr)
  have pool: "img_member_count ?img = 1" "img_pool_label ?img = synthesized_label (of_nat n)"
    using w by (simp_all add: single_image_def)
  have red: "aetherfs_image_validate_pool_redundancy ?img used v = (Inr (), v)" for used v
    by (simp add: aetherfs_image_validate_pool_redundancy_def aetherfs_image_validate_bootstrap_replicas_def
        single_masks [OF pool] Let_def aetherfs_mask_count_def upt_rec)
  have "coverage_check [Interval 8 (?N - 8)] ?N = Inr ()"
    by (simp add: coverage_check_def qsort_intervals_def)
  moreover have "bb_set_bits aetherfs_init_inode_bitmap = 1"
    by (simp add: aetherfs_init_inode_bitmap_def Let_def)
  moreover have "aetherfs_image_bitmap_test aetherfs_init_inode_bitmap 0"
    by (simp add: init_bitmap_test)
  ultimately show "\<exists>rep w'. aetherfs_image_validate ?img w = (Inr rep, w') \<and>
    rep = \<lparr>rp_files = 0, rp_directories = 1, rp_inodes_used = 1, rp_data_blocks = 0, rp_free_blocks = ?N - 8\<rparr>"
    using refs 1 2 free red j validate_formatted_inodes [OF assms(1,2)]
    by (simp add: aetherfs_image_validate_def use_interval_def bindE_run_Inr Let_def mkfs_checkpoint_fields
        mkfs_super_fields qsort_intervals_def collect_used_def empty_list_def)
qed

end
