(* ===== verification/Mkfs_Total.thy ===== *)
theory Mkfs_Total
  imports Mkfs_Roundtrip
begin

text \<open>
  Formatting does not fail when nothing disturbs it: in a world with an empty schedule and a
  random device, every step of \<open>aetherfs_run_mkfs\<close> succeeds and every check of what was
  written passes.  It refuses a file that holds a file system unless it is forced.
\<close>

section \<open>An undisturbed world\<close>

definition quiet :: "world \<Rightarrow> bool" where
  "quiet w \<longleftrightarrow> w_sched w = [] \<and> (\<exists>u. w_files w ''/dev/urandom'' = Some u \<and> 16 \<le> length (vf_data u))"

lemma quiet_benign: "quiet w \<Longrightarrow> benign w"
  by (simp add: quiet_def benign_def)

lemma quiet_adv: "sched_adv w w' \<Longrightarrow> quiet w \<Longrightarrow> quiet w'"
  by (auto simp: quiet_def sched_adv_def)

lemma quiet_set_data: "p \<noteq> ''/dev/urandom'' \<Longrightarrow> quiet (set_data p d w) = quiet w"
  by (simp add: quiet_def set_data_def)

lemma quiet_fds [simp]: "quiet (w\<lparr>w_fds := x\<rparr>) = quiet w" "quiet (w\<lparr>w_nextfd := y\<rparr>) = quiet w"
  by (simp_all add: quiet_def)

lemma quiet_syscall: "quiet w \<Longrightarrow> syscall w = (Inr (), w)"
  by (simp add: quiet_def syscall_def next_outcome_def)

lemma succeeds_pre: "(C \<Longrightarrow> succeeds P m Q) \<Longrightarrow> succeeds (\<lambda>w. P w \<and> C) m Q"
  by (auto simp: succeeds_def)

lemma succeeds_ex: "(\<And>y. succeeds (P y) m Q) \<Longrightarrow> succeeds (\<lambda>w. \<exists>y. P y w) m Q"
  by (auto simp: succeeds_def)

lemma succeeds_ensures:
  assumes "ensures P m Q" "\<And>w. R w \<Longrightarrow> P w" "succeeds R m S"
  shows "succeeds R m (\<lambda>x w. Q x w \<and> S x w)"
  using assms unfolding succeeds_def ensures_def by meson

section \<open>Writing\<close>

definition qtarget :: "int \<Rightarrow> path \<Rightarrow> nat \<Rightarrow> (nat \<Rightarrow> byte list option) \<Rightarrow> world \<Rightarrow> bool" where
  "qtarget fd p n B w \<longleftrightarrow> quiet w \<and> target w fd p n B"

lemma succeeds_write:
  assumes "p \<noteq> ''/dev/urandom''" "unat b < n" "length c = 4096"
  shows "succeeds (qtarget fd p n B) (aetherfs_write_all fd (b * 4096) c) (\<lambda>_. qtarget fd p n (B(unat b \<mapsto> c)))"
proof (rule succeedsI)
  fix w assume w: "qtarget fd p n B w"
  then obtain f where f: "quiet w" "w_fds w fd = Some (p, True)" "w_files w p = Some f" "n * 4096 < 2 ^ 63"
    "length (vf_data f) = n * 4096" "target w fd p n B"
    by (auto simp: qtarget_def target_def)
  have le: "unat b * 4096 + 4096 \<le> n * 4096"
    using assms(2) by linarith
  have off: "unat (b * 4096) = unat b * 4096"
    using le f(4) by (subst unat_mult_lem [THEN iffD1]) simp_all
  obtain w' where run: "aetherfs_write_all fd (b * 4096) c w = (Inr (), w')"
    and adv: "sched_adv (set_data p (put_bytes (unat (b * 4096)) c (vf_data f)) w) w'"
    using write_all_benign [OF quiet_benign [OF f(1)] f(2,3), of "b * 4096" c] off le f(4,5) assms(3) by auto
  have "quiet w'"
    using quiet_adv [OF adv] quiet_set_data [OF assms(1)] f(1) by simp
  then show "\<exists>x w'. aetherfs_write_all fd (b * 4096) c w = (Inr x, w') \<and> qtarget fd p n (B(unat b \<mapsto> c)) w'"
    using run target_write [OF f(6) assms(2,3) run] by (simp add: qtarget_def)
qed

lemma succeeds_zero:
  assumes "p \<noteq> ''/dev/urandom''" "8 \<le> n" "\<forall>b \<in> set bs. unat b < 8"
  shows "succeeds (\<lambda>w. \<exists>B. qtarget fd p n B w) (forE (\<lambda>reserved _. aetherfs_zero_block fd reserved) bs ())
    (\<lambda>_ w. \<exists>B. qtarget fd p n B w)"
  using assms(3)
proof (induction bs)
  case (Cons b bs)
  have "succeeds (\<lambda>w. \<exists>B. qtarget fd p n B w) (aetherfs_zero_block fd b) (\<lambda>_ w. \<exists>B. qtarget fd p n B w)"
  proof (rule succeeds_ex)
    fix B
    have "unat (ucast b :: u64) < n"
      using Cons.prems assms(2) by simp
    from succeeds_write [OF assms(1) this, of zero_block fd B]
    show "succeeds (qtarget fd p n B) (aetherfs_zero_block fd b) (\<lambda>_ w. \<exists>B. qtarget fd p n B w)"
      unfolding aetherfs_zero_block_def by (rule succeeds_conseq) (auto simp: zero_block_def)
  qed
  then show ?case
    using Cons by (auto intro: succeeds_bindE)
qed (simp add: succeeds_def)

lemma succeeds_zero_all:
  assumes "p \<noteq> ''/dev/urandom''" "8 \<le> n"
  shows "succeeds (qtarget fd p n Map.empty) (forE (\<lambda>reserved _. aetherfs_zero_block fd reserved) [0, 1, 2, 3, 4, 5, 6, 7] ())
    (\<lambda>_. qtarget fd p n [0 \<mapsto> zero_block])"
proof -
  have "succeeds (qtarget fd p n Map.empty) (forE (\<lambda>reserved _. aetherfs_zero_block fd reserved) [0, 1, 2, 3, 4, 5, 6, 7] ())
    (\<lambda>_ w. target w fd p n [0 \<mapsto> zero_block] \<and> (\<exists>B. qtarget fd p n B w))"
    by (rule succeeds_ensures [OF ensures_zero [OF assms(2), of fd p Map.empty]], simp add: qtarget_def,
        rule succeeds_conseq [OF succeeds_zero [OF assms, of "[0, 1, 2, 3, 4, 5, 6, 7]"]]) auto
  then show ?thesis
    by (rule succeeds_conseq) (auto simp: qtarget_def)
qed

lemma succeeds_uuid:
  assumes "p \<noteq> ''/dev/urandom''"
  shows "succeeds (qtarget fd p n B) aetherfs_fill_uuid (\<lambda>uuid w. qtarget fd p n B w \<and> length uuid = 16)"
proof (rule succeedsI)
  fix w assume w: "qtarget fd p n B w"
  then obtain u where u: "quiet w" "w_files w ''/dev/urandom'' = Some u" "16 \<le> length (vf_data u)" "w_sched w = []"
    by (auto simp: qtarget_def quiet_def)
  let ?w1 = "w\<lparr>w_fds := (w_fds w)(w_nextfd w \<mapsto> (''/dev/urandom'', False)), w_nextfd := w_nextfd w + 1\<rparr>"
  have 1: "open_file ''/dev/urandom'' False w = (Inr (w_nextfd w), ?w1)"
    using u quiet_syscall [OF u(1)] by (simp add: open_file_def bindE_run_Inr)
  have 2: "pread (w_nextfd w) 16 0 ?w1 = (Inr (take 16 (vf_data u)), ?w1)"
    using u by (simp add: pread_def fd_file_def next_outcome_def xfer_len_def)
  have "\<exists>uuid. aetherfs_fill_uuid w = (Inr uuid, close_fd (w_nextfd w) ?w1)"
    unfolding aetherfs_fill_uuid_def bindE_def 1 by (simp add: 2 Let_def u(3))
  then obtain uuid w' where run: "aetherfs_fill_uuid w = (Inr uuid, w')" and w': "w' = close_fd (w_nextfd w) ?w1"
    by blast
  have "quiet w'"
    using u(1) by (simp add: w' close_fd_def)
  then show "\<exists>x w'. aetherfs_fill_uuid w = (Inr x, w') \<and> qtarget fd p n B w' \<and> length x = 16"
    using target_uuid [OF _ run] w run by (auto simp: qtarget_def)
qed

lemma succeeds_fsync: "succeeds (qtarget fd p n B) (fsync fd) (\<lambda>_. qtarget fd p n B)"
  by (rule succeedsI) (auto simp: fsync_def qtarget_def target_def bindE_run_Inr [OF quiet_syscall])

lemma succeeds_write_inode:
  assumes "p \<noteq> ''/dev/urandom''" "2 < n"
  shows "succeeds (qtarget fd p n B) (\<lambda>w. aetherfs_write_all fd (2 * 4096) (pad_block (enc_inode (aetherfs_init_root_inode w))) w)
    (\<lambda>_ w. \<exists>wi. qtarget fd p n (B(2 \<mapsto> pad_block (enc_inode (aetherfs_init_root_inode wi)))) w)"
proof (rule succeedsI)
  fix w assume w: "qtarget fd p n B w"
  have "length (pad_block (enc_inode (aetherfs_init_root_inode w))) = 4096"
    by (simp add: inode.enc_len [OF mkfs_wf(2)])
  from succeedsD [OF succeeds_write [OF assms(1), of 2 n _ fd B, OF _ this] w] assms(2)
  show "\<exists>x w'. aetherfs_write_all fd (2 * 4096) (pad_block (enc_inode (aetherfs_init_root_inode w))) w = (Inr x, w') \<and>
      (\<exists>wi. qtarget fd p n (B(2 \<mapsto> pad_block (enc_inode (aetherfs_init_root_inode wi)))) w')"
    by auto
qed

lemma succeeds_bootstrap:
  assumes "p \<noteq> ''/dev/urandom''" "8 \<le> n" "fs_fd state = fd"
  shows "succeeds (qtarget fd p n Map.empty) (aetherfs_write_bootstrap options state)
    (\<lambda>_ w. \<exists>uuid wi. length uuid = 16 \<and> qtarget fd p n (bootstrap options (fs_blocks state) uuid (aetherfs_init_root_inode wi)) w)"
  unfolding aetherfs_write_bootstrap_def Let_def assms(3)
proof (rule succeeds_bindE [OF succeeds_zero_all [OF assms(1,2)]], rule succeeds_bindE [OF succeeds_uuid [OF assms(1)]], rule succeeds_pre)
  fix uuid :: "byte list" assume u: "length uuid = 16"
  note put = succeeds_write [OF assms(1)] and n = assms(2)
  let ?s = "mkfs_super options (fs_blocks state) uuid"
  let ?post = "\<lambda>_ w. \<exists>uuid wi. length uuid = 16 \<and> qtarget fd p n (bootstrap options (fs_blocks state) uuid (aetherfs_init_root_inode wi)) w"
  have "succeeds (qtarget fd p n [0 \<mapsto> zero_block])
    (bindE (aetherfs_write_all fd (1 * 4096) (pad_block (enc_super ?s))) (\<lambda>_.
     bindE (\<lambda>w. aetherfs_write_all fd (2 * 4096) (pad_block (enc_inode (aetherfs_init_root_inode w))) w) (\<lambda>_.
     bindE (aetherfs_write_all fd (3 * 4096) aetherfs_init_root_dir) (\<lambda>_.
     bindE (aetherfs_write_all fd (4 * 4096) (pad_block (enc_intent_log aetherfs_init_journal))) (\<lambda>_.
     bindE (aetherfs_write_all fd (5 * 4096) (pad_block (enc_bitmap_block aetherfs_init_inode_bitmap))) (\<lambda>_.
     bindE (aetherfs_write_all fd (6 * 4096) (pad_block (enc_extent_node (aetherfs_init_free_extents (fs_blocks state))))) (\<lambda>_.
     bindE (aetherfs_write_all fd (7 * 4096)
       (pad_block (enc_checkpoint_root (aetherfs_init_checkpoint_root ?s (fs_blocks state))))) (\<lambda>_.
     fsync fd)))))))) ?post"
    apply (rule succeeds_bindE [OF put])
      apply (use n in simp)
     apply (simp add: super.enc_len mkfs_wf(1) [OF u])
    apply (rule succeeds_bindE [OF succeeds_write_inode [OF assms(1)]])
     apply (use n in simp)
    apply (rule succeeds_ex)
    apply (rule succeeds_bindE [OF put])
      apply (use n in simp)
     apply simp
    apply (rule succeeds_bindE [OF put])
      apply (use n in simp)
     apply (simp add: intent_log.enc_len)
    apply (rule succeeds_bindE [OF put])
      apply (use n in simp)
     apply (simp add: bitmap_block.enc_len mkfs_wf)
    apply (rule succeeds_bindE [OF put])
      apply (use n in simp)
     apply (simp add: extent_node.enc_len mkfs_wf)
    apply (rule succeeds_bindE [OF put])
      apply (use n in simp)
     apply (simp add: checkpoint_root.enc_len mkfs_wf)
    apply (rule succeeds_conseq [OF succeeds_fsync], assumption)
    apply (use u in \<open>auto simp: bootstrap_def\<close>)
    done
  then show "succeeds (qtarget fd p n [0 \<mapsto> zero_block])
    (bindE (aetherfs_write_all fd (1 * 4096) (pad_block (enc_super ((aetherfs_init_super options (fs_blocks state))\<lparr>s_uuid := uuid, s_checksum :=
       aetherfs_super_checksum ((aetherfs_init_super options (fs_blocks state))\<lparr>s_uuid := uuid\<rparr>)\<rparr>)))) (\<lambda>_.
     bindE (\<lambda>w. aetherfs_write_all fd (2 * 4096) (pad_block (enc_inode (aetherfs_init_root_inode w))) w) (\<lambda>_.
     bindE (aetherfs_write_all fd (3 * 4096) aetherfs_init_root_dir) (\<lambda>_.
     bindE (aetherfs_write_all fd (4 * 4096) (pad_block (enc_intent_log aetherfs_init_journal))) (\<lambda>_.
     bindE (aetherfs_write_all fd (5 * 4096) (pad_block (enc_bitmap_block aetherfs_init_inode_bitmap))) (\<lambda>_.
     bindE (aetherfs_write_all fd (6 * 4096) (pad_block (enc_extent_node (aetherfs_init_free_extents (fs_blocks state))))) (\<lambda>_.
     bindE (aetherfs_write_all fd (7 * 4096)
       (pad_block (enc_checkpoint_root (aetherfs_init_checkpoint_root ((aetherfs_init_super options (fs_blocks state))\<lparr>s_uuid := uuid, s_checksum :=
       aetherfs_super_checksum ((aetherfs_init_super options (fs_blocks state))\<lparr>s_uuid := uuid\<rparr>)\<rparr>) (fs_blocks state))))) (\<lambda>_.
     fsync fd)))))))) ?post"
    unfolding mkfs_super_def Let_def .
qed

section \<open>Reading back\<close>

lemma succeeds_read_target:
  assumes "unat b < n" "B (unat b) = Some c"
  shows "succeeds (qtarget fd p n B) (aetherfs_read_all fd (b * 4096) 4096) (\<lambda>block w. qtarget fd p n B w \<and> block = c)"
proof (rule succeedsI)
  fix w assume w: "qtarget fd p n B w"
  then obtain f where f: "fd_file w fd = Some f" "n * 4096 < 2 ^ 63" "length (vf_data f) = n * 4096" "quiet w"
    by (auto simp: qtarget_def target_def fd_file_def)
  have "unat b * 4096 + 4096 \<le> n * 4096"
    using assms(1) by linarith
  moreover have "unat (b * 4096) = unat b * 4096"
    using calculation f(2) by (subst unat_mult_lem [THEN iffD1]) simp_all
  ultimately obtain bs w' where run: "aetherfs_read_all fd (b * 4096) 4096 w = (Inr bs, w')"
    using read_all_benign [OF quiet_benign [OF f(4)] f(1), of "b * 4096" 4096] f(2,3) by auto
  have "quiet w'"
    using quiet_adv [OF read_all_adv [OF run] f(4)] .
  then show "\<exists>x w'. aetherfs_read_all fd (b * 4096) 4096 w = (Inr x, w') \<and> qtarget fd p n B w' \<and> x = c"
    using run ensuresD [OF target_read [of b n B c, OF assms] _ run, of p] w by (auto simp: qtarget_def)
qed

lemma succeeds_check:
  assumes "unat b < n" "B (unat b) = Some c" "succeeds (qtarget fd p n B) (f c) Q"
  shows "succeeds (qtarget fd p n B) (bindE (aetherfs_read_all fd (b * 4096) 4096) f) Q"
  using assms(3) by (intro succeeds_bindE [OF succeeds_read_target [of b n B c, OF assms(1,2)]] succeeds_pre) simp

lemma mkfs_checkpoint_all:
  "cr_magic (aetherfs_init_checkpoint_root s b) = AETHERFS_CHECKPOINT_ROOT_MAGIC"
  "cr_version (aetherfs_init_checkpoint_root s b) = AETHERFS_CHECKPOINT_ROOT_VERSION"
  "cr_generation (aetherfs_init_checkpoint_root s b) = s_generation s"
  "cr_ag_count (aetherfs_init_checkpoint_root s b) = s_ag_count s" "cr_region_count (aetherfs_init_checkpoint_root s b) = 2"
  "cr_super_block (aetherfs_init_checkpoint_root s b) = 1"
  "cr_metadata_tree_root (aetherfs_init_checkpoint_root s b) = s_meta_tree s"
  "cr_extent_tree_root (aetherfs_init_checkpoint_root s b) = s_extent_tree s"
  "cr_snapshot_root (aetherfs_init_checkpoint_root s b) = s_snap_tree s"
  "cr_metadata_region_start (aetherfs_init_checkpoint_root s b) = 1"
  "cr_metadata_region_end (aetherfs_init_checkpoint_root s b) = 7"
  "cr_data_region_start (aetherfs_init_checkpoint_root s b) = 8" "cr_data_region_end (aetherfs_init_checkpoint_root s b) = b"
  by (simp_all add: aetherfs_init_checkpoint_root_def Let_def)

lemma mkfs_checkpoint_rest:
  "cr_special_metadata_root (aetherfs_init_checkpoint_root s b) = 0" "cr_cache_root (aetherfs_init_checkpoint_root s b) = 0"
  "cr_parity_root (aetherfs_init_checkpoint_root s b) = 0"
  by (simp_all add: aetherfs_init_checkpoint_root_def zero_checkpoint_root_eq Let_def)

lemma mkfs_checkpoint_sealed:
  "cr_checksum (aetherfs_init_checkpoint_root s b) = aetherfs_checkpoint_root_checksum (aetherfs_init_checkpoint_root s b)"
  by (simp add: aetherfs_init_checkpoint_root_def Let_def)

lemma mkfs_super_ags: "s_ag_count (mkfs_super o' b u) = ucast ((b + 2097152 - 1) div 2097152)"
  by (simp add: mkfs_super_def aetherfs_init_super_def Let_def)

lemma check_super:
  assumes "8 \<le> n" "length uuid = 16" "mk_block_size options = 4096" "B = bootstrap options blocks uuid nd"
  shows "succeeds (qtarget fd p n B) (aetherfs_validate_super fd blocks) (\<lambda>_. qtarget fd p n B)"
  unfolding aetherfs_validate_super_def
  by (rule succeeds_check [where c = "pad_block (enc_super (mkfs_super options blocks uuid))"])
    (use assms in \<open>simp_all add: bootstrap_def pad_block_dec mkfs_wf mkfs_super_fields mkfs_super_sealed [symmetric]
      Let_def succeeds_okE\<close>)

lemma check_checkpoint:
  assumes "8 \<le> n" "B = bootstrap options blocks uuid nd"
  shows "succeeds (qtarget fd p n B) (aetherfs_validate_checkpoint_root fd blocks) (\<lambda>_. qtarget fd p n B)"
  unfolding aetherfs_validate_checkpoint_root_def
  by (rule succeeds_check [where c = "pad_block (enc_checkpoint_root (aetherfs_init_checkpoint_root (mkfs_super options blocks uuid) blocks))"])
    (use assms in \<open>simp_all add: bootstrap_def pad_block_dec mkfs_wf mkfs_checkpoint_all mkfs_checkpoint_rest mkfs_checkpoint_fields
      mkfs_checkpoint_sealed [symmetric] mkfs_super_fields mkfs_super_ags Let_def succeeds_okE\<close>)

lemma check_root_inode:
  assumes "8 \<le> n" "B = bootstrap options blocks uuid (aetherfs_init_root_inode wi)"
  shows "succeeds (qtarget fd p n B) (aetherfs_validate_root_inode fd) (\<lambda>_. qtarget fd p n B)"
proof -
  have "i_checksum (aetherfs_init_root_inode wi) = aetherfs_inode_checksum (aetherfs_init_root_inode wi)"
    "i_mode (aetherfs_init_root_inode wi) = 0x41ED" "i_extent_root (aetherfs_init_root_inode wi) = 3"
    by (simp_all add: aetherfs_init_root_inode_def Let_def)
  then show ?thesis
    unfolding aetherfs_validate_root_inode_def
    by (intro succeeds_check [where c = "pad_block (enc_inode (aetherfs_init_root_inode wi))"])
      (use assms in \<open>simp_all add: bootstrap_def pad_block_dec mkfs_wf Let_def succeeds_okE\<close>)
qed

lemma dirent_mkfs_decode:
  assumes "length name = unat (de_name_len e)" "length name \<le> 255"
  shows "aetherfs_dirent_checksum_mkfs (dirent_bytes e name @ rest) = de_checksum (fst (dec_dir_entry (dirent_bytes e name @ rest)))"
    "take (length name) (drop 14 (dirent_bytes e name @ rest)) = name"
proof -
  let ?c = "aetherfs_dirent_checksum_mkfs (enc_dir_entry (e\<lparr>de_checksum := 0\<rparr>) @ name)"
  have len: "length (enc_dir_entry x) = 14" for x
    by (simp add: enc_dir_entry_def)
  have upd: "(enc_dir_entry (e\<lparr>de_checksum := c\<rparr>) @ name)[13 := 0] = enc_dir_entry (e\<lparr>de_checksum := 0\<rparr>) @ name" for c
    by (simp add: enc_dir_entry_def list_update_append)
  have tk: "take (14 + length name) (dirent_bytes e name @ rest) = enc_dir_entry (e\<lparr>de_checksum := ?c\<rparr>) @ name"
    by (simp add: dirent_bytes_def len)
  have c: "?c = ucast (aetherfs_crc32c_data (enc_dir_entry (e\<lparr>de_checksum := 0\<rparr>) @ name) AND 0xFF)"
    using assms(1) upd [of 0] by (simp add: aetherfs_dirent_checksum_mkfs_def dir_entry.dec_enc len Let_def)
  have nl: "unat (de_name_len (e\<lparr>de_checksum := ?c\<rparr>)) = length name"
    using assms(1) by simp
  show "aetherfs_dirent_checksum_mkfs (dirent_bytes e name @ rest) = de_checksum (fst (dec_dir_entry (dirent_bytes e name @ rest)))"
    unfolding aetherfs_dirent_checksum_mkfs_def [of "dirent_bytes e name @ rest"] Let_def dirent_decode(1) [OF assms] nl tk upd
    using c by simp
  show "take (length name) (drop 14 (dirent_bytes e name @ rest)) = name"
    by (simp add: dirent_bytes_def len)
qed

lemma check_root_dir:
  assumes "8 \<le> n" "B = bootstrap options blocks uuid nd"
  shows "succeeds (qtarget fd p n B) (aetherfs_validate_root_dir fd) (\<lambda>_. qtarget fd p n B)"
  unfolding aetherfs_validate_root_dir_def
proof (rule succeeds_check [where c = aetherfs_init_root_dir])
  show "succeeds (qtarget fd p n B) (\<lambda>w.
    let mem = aetherfs_init_root_dir @ w_after w; dot = fst (dec_dir_entry mem);
        mem2 = drop (unat (de_rec_len dot)) mem; dotdot = fst (dec_dir_entry mem2) in
    if de_ino dot \<noteq> AETHERFS_ROOT_INO then (Inl EINVAL, w)
    else if de_name_len dot \<noteq> 1 \<or> take 1 (drop 14 mem) \<noteq> [0x2E] then (Inl EINVAL, w)
    else if de_checksum dot \<noteq> aetherfs_dirent_checksum_mkfs mem then (Inl EBADE, w)
    else if de_ino dotdot \<noteq> AETHERFS_ROOT_INO then (Inl EINVAL, w)
    else if de_name_len dotdot \<noteq> 2 \<or> take 2 (drop 14 mem2) \<noteq> [0x2E, 0x2E] then (Inl EINVAL, w)
    else if de_checksum dotdot \<noteq> aetherfs_dirent_checksum_mkfs mem2 then (Inl EBADE, w)
    else (Inr (), w)) (\<lambda>_. qtarget fd p n B)"
  proof (rule succeedsI)
    fix w assume w: "qtarget fd p n B w"
    define mem where "mem = aetherfs_init_root_dir @ w_after w"
    have first: "mem = dirent_bytes dot_entry dot_name @ ([0] @ dirent_bytes dotdot_entry dotdot_name @ replicate 4064 0 @ w_after w)"
      and second: "drop 16 mem = dirent_bytes dotdot_entry dotdot_name @ (replicate 4064 0 @ w_after w)"
      by (simp_all add: mem_def init_root_dir_bytes)
    have d1: "de_ino (fst (dec_dir_entry mem)) = 16" "de_rec_len (fst (dec_dir_entry mem)) = 16"
      "de_name_len (fst (dec_dir_entry mem)) = 1"
      "aetherfs_dirent_checksum_mkfs mem = de_checksum (fst (dec_dir_entry mem))" "take 1 (drop 14 mem) = [0x2E]"
      unfolding first using dirent_mkfs_decode [of "[0x2E]" dot_entry] by (simp_all add: dirent_decode del: append.simps)
    have d2: "de_ino (fst (dec_dir_entry (drop 16 mem))) = 16" "de_name_len (fst (dec_dir_entry (drop 16 mem))) = 2"
      "aetherfs_dirent_checksum_mkfs (drop 16 mem) = de_checksum (fst (dec_dir_entry (drop 16 mem)))"
      "take 2 (drop 14 (drop 16 mem)) = [0x2E, 0x2E]"
      unfolding second using dirent_mkfs_decode [of "[0x2E, 0x2E]" dotdot_entry] by (simp_all add: dirent_decode del: append.simps drop_drop)
    show "\<exists>x w'. (let mem = aetherfs_init_root_dir @ w_after w; dot = fst (dec_dir_entry mem);
        mem2 = drop (unat (de_rec_len dot)) mem; dotdot = fst (dec_dir_entry mem2) in
    if de_ino dot \<noteq> AETHERFS_ROOT_INO then (Inl EINVAL, w)
    else if de_name_len dot \<noteq> 1 \<or> take 1 (drop 14 mem) \<noteq> [0x2E] then (Inl EINVAL, w)
    else if de_checksum dot \<noteq> aetherfs_dirent_checksum_mkfs mem then (Inl EBADE, w)
    else if de_ino dotdot \<noteq> AETHERFS_ROOT_INO then (Inl EINVAL, w)
    else if de_name_len dotdot \<noteq> 2 \<or> take 2 (drop 14 mem2) \<noteq> [0x2E, 0x2E] then (Inl EINVAL, w)
    else if de_checksum dotdot \<noteq> aetherfs_dirent_checksum_mkfs mem2 then (Inl EBADE, w)
    else (Inr (), w)) = (Inr x, w') \<and> qtarget fd p n B w'"
      unfolding mem_def [symmetric] Let_def d1(2) using w d1 d2 by (simp del: drop_drop)
  qed
qed (use assms in \<open>simp_all add: bootstrap_def\<close>)

lemma check_journal:
  assumes "8 \<le> n" "B = bootstrap options blocks uuid nd"
  shows "succeeds (qtarget fd p n B) (aetherfs_validate_journal fd) (\<lambda>_. qtarget fd p n B)"
proof -
  have "il_checksum aetherfs_init_journal = aetherfs_journal_checksum aetherfs_init_journal"
    by (simp add: aetherfs_init_journal_def Let_def)
  moreover have "il_outstanding aetherfs_init_journal = 0"
    by (simp add: aetherfs_init_journal_def zero_journal_eq Let_def)
  ultimately show ?thesis
    unfolding aetherfs_validate_journal_def
    by (intro succeeds_check [where c = "pad_block (enc_intent_log aetherfs_init_journal)"])
      (use assms in \<open>simp_all add: bootstrap_def pad_block_dec Let_def succeeds_okE\<close>)
qed

lemma check_bitmap:
  assumes "8 \<le> n" "B = bootstrap options blocks uuid nd"
  shows "succeeds (qtarget fd p n B) (aetherfs_validate_bitmap fd (5 * 4096) 32640 1) (\<lambda>_. qtarget fd p n B)"
proof -
  have "bb_total_bits aetherfs_init_inode_bitmap = 32640" "bb_set_bits aetherfs_init_inode_bitmap = 1"
    by (simp_all add: aetherfs_init_inode_bitmap_def aetherfs_bitmap_set_def Let_def)
  moreover have "bb_checksum aetherfs_init_inode_bitmap = aetherfs_bitmap_checksum aetherfs_init_inode_bitmap"
    by (simp add: aetherfs_init_inode_bitmap_def Let_def)
  moreover have "aetherfs_bitmap_count_set aetherfs_init_inode_bitmap = 1"
    using init_bitmap_count by (simp add: aetherfs_bitmap_count_set_def aetherfs_image_bitmap_count_set_def)
  ultimately show ?thesis
    unfolding aetherfs_validate_bitmap_def
    by (intro succeeds_check [where c = "pad_block (enc_bitmap_block aetherfs_init_inode_bitmap)"])
      (use assms in \<open>simp_all add: bootstrap_def pad_block_dec mkfs_wf Let_def succeeds_okE\<close>)
qed

lemma check_free_extents:
  assumes "8 \<le> n" "B = bootstrap options blocks uuid nd" "8 < blocks"
  shows "succeeds (qtarget fd p n B) (aetherfs_validate_free_extents fd blocks) (\<lambda>_. qtarget fd p n B)"
proof -
  have "en_checksum (aetherfs_init_free_extents blocks) = aetherfs_extent_node_checksum (aetherfs_init_free_extents blocks)"
    by (simp add: aetherfs_init_free_extents_def Let_def)
  moreover have "en_count (aetherfs_init_free_extents blocks) = 1" "en_next (aetherfs_init_free_extents blocks) = 0"
    "e_len (en_extents (aetherfs_init_free_extents blocks) ! 0) = blocks - 8"
    "e_pstart (en_extents (aetherfs_init_free_extents blocks) ! 0) = 8"
    by (simp_all add: aetherfs_init_free_extents_def zero_extent_node_eq Let_def)
  moreover have "blocks \<noteq> 8"
    using assms(3) by auto
  ultimately show ?thesis
    unfolding aetherfs_validate_free_extents_def
    by (intro succeeds_check [where c = "pad_block (enc_extent_node (aetherfs_init_free_extents blocks))"])
      (use assms in \<open>simp_all add: bootstrap_def pad_block_dec mkfs_wf Let_def succeeds_def free_extent_step_def\<close>)
qed

section \<open>Preparing\<close>

text \<open>A file holds a file system when its superblock is there and has the magic number.\<close>

definition holds_fs :: "byte list \<Rightarrow> bool" where
  "holds_fs d \<longleftrightarrow> 8192 \<le> length d \<and> s_magic (fst (dec_super (file_block d 1))) = AETHERFS_MAGIC"

lemma read_loop_eof:
  assumes "benign w" "fd_file w fd = Some f" "unat offset + len < 2 ^ 63" "length acc \<le> len"
    and "read_loop fd offset len acc w = (Inl e, w')"
  shows "e = EIO"
  using assms
proof (induction fd offset len acc w rule: read_loop.induct)
  case (1 fd offset len acc w)
  have lt: "length acc < len"
    using "1.prems"(5) by (subst (asm) read_loop.simps) (simp split: if_splits)
  have off: "unat (offset + of_nat (length acc)) = unat offset + length acc"
    using "1.prems"(3) lt by (subst unat_add_lem [THEN iffD1]) (simp_all add: unat_of_nat)
  obtain r w1 where p: "pread fd (len - length acc) (offset + of_nat (length acc)) w = (r, w1)"
    by fastforce
  have adv: "sched_adv w w1"
    using pread_adv [OF p] .
  have w1: "benign w1" "fd_file w1 fd = Some f"
    using "1.prems"(1,2) sched_adv_fields [OF adv] by simp_all
  show ?case
  proof (cases r)
    case (Inl e')
    then have e': "e' = EINTR"
      using p "1.prems"(1,2) sint_nonneg [of "offset + of_nat (length acc)"] off lt "1.prems"(3) next_outcome_benign
      by (fastforce simp: pread_def Let_def split: prod.splits outcome.splits)
    then have "read_loop fd offset len acc w1 = (Inl e, w')"
      using "1.prems"(5) lt p Inl by (subst (asm) read_loop.simps) simp
    then show ?thesis
      using "1.IH"(1) [OF lt] p [symmetric] Inl e' w1 "1.prems"(3,4) by simp
  next
    case (Inr bs)
    show ?thesis
    proof (cases "bs = []")
      case False
      then have "read_loop fd offset len (acc @ bs) w1 = (Inl e, w')"
        using "1.prems"(5) lt p Inr by (subst (asm) read_loop.simps) simp
      moreover have "length (acc @ bs) \<le> len"
        using pread_data [OF p [unfolded Inr]] lt by simp
      ultimately show ?thesis
        using "1.IH"(2) [OF lt] p [symmetric] Inr False w1 "1.prems"(3,4) by simp
    next
      case True
      then show ?thesis
        using "1.prems"(5) lt p Inr by (subst (asm) read_loop.simps) simp
    qed
  qed
qed

lemma probe_benign:
  assumes "benign w" "fd_file w fd = Some f"
  shows "\<exists>w'. aetherfs_probe_magic fd w = (Inr (holds_fs (vf_data f)), w') \<and> sched_adv w w'"
proof -
  obtain r w' where run: "aetherfs_read_all fd (1 * 4096) 4096 w = (r, w')"
    by fastforce
  have adv: "sched_adv w w'"
    using read_all_adv [OF run] .
  show ?thesis
  proof (cases r)
    case (Inl e)
    then have "e = EIO"
      using read_loop_eof [OF assms, where offset = "1 * 4096" and len = 4096 and acc = "[]" and e = e and w' = w'] run by (simp add: aetherfs_read_all_def)
    moreover have "\<not> 8192 \<le> length (vf_data f)"
      using read_all_benign [OF assms, of "1 * 4096" 4096] run Inl by auto
    ultimately show ?thesis
      using run Inl adv by (simp add: aetherfs_probe_magic_def holds_fs_def)
  next
    case (Inr bs)
    then have "bs = file_block (vf_data f) 1" "length bs = 4096"
      using read_all_sound [OF assms(2), where offset = "1 * 4096" and len = 4096] run by (auto simp: file_block_def)
    then show ?thesis
      using run Inr adv by (auto simp: aetherfs_probe_magic_def holds_fs_def file_block_def)
  qed
qed

lemma open_creat_benign:
  assumes "benign w" "\<And>f. w_files w p = Some f \<Longrightarrow> \<not> vf_readonly f"
  shows "\<exists>w'. open_creat p w = (Inr (w_nextfd w), w') \<and> (quiet w \<longrightarrow> quiet w') \<and> benign w' \<and>
    w_fds w' = (w_fds w)(w_nextfd w \<mapsto> (p, True)) \<and> w_nextfd w' = w_nextfd w + 1 \<and>
    w_files w' = (w_files w)(p \<mapsto> (case w_files w p of Some f \<Rightarrow> f | None \<Rightarrow> \<lparr>vf_kind = S_IFREG, vf_readonly = False, vf_data = []\<rparr>))"
proof -
  obtain w0 where 0: "syscall w = (Inr (), w0)" "sched_adv w w0"
    using assms(1) by (rule syscall_benign)
  then have w0: "w_files w0 = w_files w" "w_fds w0 = w_fds w" "w_nextfd w0 = w_nextfd w" "benign w0" "quiet w \<longrightarrow> w_sched w0 = []"
    using benign_adv [OF 0(2)] quiet_adv [OF 0(2)] assms(1) by (simp_all add: sched_adv_fields quiet_def)
  show ?thesis
    using assms(2) w0 by (cases "w_files w p")
      (auto simp: open_creat_def bindE_run_Inr [of syscall w "()" w0, OF 0(1)] benign_def quiet_def fun_upd_idem)
qed

text \<open>A file that holds a file system is refused and left alone.\<close>

lemma mkfs_refuses:
  assumes "benign w" "w_files w (mk_path options) = Some f" "vf_kind f = S_IFREG \<or> vf_kind f = S_IFBLK" "\<not> vf_readonly f"
    and "holds_fs (vf_data f)" "\<not> mk_force options" "mk_block_size options = 4096"
  shows "\<exists>w'. aetherfs_run_mkfs options w = (Inl EEXIST, w') \<and> w_files w' = w_files w"
proof -
  let ?p = "mk_path options" and ?fd = "w_nextfd w"
  obtain w0 where 0: "syscall w = (Inr (), w0)" "sched_adv w w0"
    using assms(1) by (rule syscall_benign)
  have acc: "access_ok ?p w = (True, w0)"
    using 0 assms(2) by (simp add: access_ok_def sched_adv_fields)
  have w0: "benign w0" "w_files w0 ?p = Some f" "w_nextfd w0 = ?fd"
    using benign_adv [OF 0(2) assms(1)] assms(2) 0(2) by (simp_all add: sched_adv_fields)
  obtain w1 where 1: "open_creat ?p w0 = (Inr ?fd, w1)" "benign w1" "w_fds w1 ?fd = Some (?p, True)" "w_files w1 = w_files w"
    using open_creat_benign [OF w0(1), of ?p] w0 assms(4) 0(2) by (auto simp: sched_adv_fields fun_upd_idem)
  have f1: "fd_file w1 ?fd = Some f"
    using 1(3,4) assms(2) by (simp add: fd_file_def)
  obtain w2 where 2: "fstat ?fd w1 = (Inr (vf_kind f, length (vf_data f)), w2)" "sched_adv w1 w2"
    using fstat_benign [OF 1(2) f1] by blast
  obtain w3 where 3: "aetherfs_probe_magic ?fd w2 = (Inr True, w3)" "sched_adv w2 w3"
    using probe_benign [of w2 ?fd f] benign_adv [OF 2(2) 1(2)] fd_file_adv [OF 2(2)] f1 assms(5) by auto
  have "aetherfs_prepare_target options w = (Inl EEXIST, close_fd ?fd w3)"
    using assms(3,6) acc 1(1) 2(1) 3(1)
    by (simp add: aetherfs_prepare_target_def bindE_def cleanupE_def)
  moreover have "w_files (close_fd ?fd w3) = w_files w"
    using 1(4) 2(2) 3(2) by (simp add: close_fd_def sched_adv_fields)
  ultimately show ?thesis
    using assms(7) by (simp add: aetherfs_run_mkfs_def bindE_def)
qed

section \<open>The whole command\<close>

definition mkfs_ready :: "mkfs_options \<Rightarrow> world \<Rightarrow> bool" where
  "mkfs_ready options w \<longleftrightarrow> quiet w \<and> 0 \<le> w_nextfd w \<and> mk_path options \<noteq> ''/dev/urandom'' \<and>
    mk_block_size options = 4096 \<and> 9 \<le> unat (mk_blocks options) \<and> unat (mk_blocks options) * 4096 < 2 ^ 63 \<and>
    (\<forall>f. w_files w (mk_path options) = Some f \<longrightarrow>
      vf_kind f = S_IFREG \<and> \<not> vf_readonly f \<and> (mk_force options \<or> \<not> holds_fs (vf_data f)))"

lemma succeeds_prepare:
  assumes "mkfs_ready options w"
  shows "\<exists>st w'. aetherfs_prepare_target options w = (Inr st, w') \<and> fs_blocks st = mk_blocks options \<and>
    qtarget (fs_fd st) (mk_path options) (unat (mk_blocks options)) Map.empty w'"
proof -
  let ?p = "mk_path options" and ?fd = "w_nextfd w" and ?n = "unat (mk_blocks options)"
  have w: "quiet w" "0 \<le> ?fd" "?p \<noteq> ''/dev/urandom''" "mk_block_size options = 4096" "9 \<le> ?n" "?n * 4096 < 2 ^ 63"
    using assms by (simp_all add: mkfs_ready_def)
  define ex f where "ex \<longleftrightarrow> w_files w ?p \<noteq> None"
    and "f = (case w_files w ?p of Some f \<Rightarrow> f | None \<Rightarrow> \<lparr>vf_kind = S_IFREG, vf_readonly = False, vf_data = []\<rparr>)"
  have f: "vf_kind f = S_IFREG" "ex \<Longrightarrow> mk_force options \<or> \<not> holds_fs (vf_data f)" "\<And>g. w_files w ?p = Some g \<Longrightarrow> \<not> vf_readonly g"
    using assms by (auto simp: mkfs_ready_def f_def ex_def split: option.split)
  have acc: "access_ok ?p w = (ex, w)"
    using quiet_syscall [OF w(1)] by (simp add: access_ok_def ex_def)
  obtain w1 where 1: "open_creat ?p w = (Inr ?fd, w1)" "benign w1" "w_fds w1 ?fd = Some (?p, True)" "w_files w1 ?p = Some f"
    "quiet w1" "w_nextfd w1 = ?fd + 1"
    using open_creat_benign [OF quiet_benign [OF w(1)], of ?p] f(3) w(1) by (auto simp: f_def)
  have f1: "fd_file w1 ?fd = Some f"
    using 1(3,4) by (simp add: fd_file_def)
  obtain w2 where 2: "fstat ?fd w1 = (Inr (S_IFREG, length (vf_data f)), w2)" "sched_adv w1 w2"
    using fstat_benign [OF 1(2) f1] f(1) by auto
  obtain w3 where 3: "aetherfs_probe_magic ?fd w2 = (Inr (holds_fs (vf_data f)), w3)" "sched_adv w2 w3"
    using probe_benign [of w2 ?fd f] benign_adv [OF 2(2) 1(2)] fd_file_adv [OF 2(2)] f1 by auto
  let ?pr = "if ex then bindE (aetherfs_probe_magic ?fd) (\<lambda>has_magic. guardE (\<not> (has_magic \<and> \<not> mk_force options)) EEXIST) else okE ()"
  obtain w4 where 4: "?pr w2 = (Inr (), w4)" "sched_adv w2 w4"
    using 3 f(2) by (cases ex) (auto simp: bindE_run_Inr [of "aetherfs_probe_magic ?fd" w2, OF 3(1)])
  have w4: "quiet w4" "w_fds w4 ?fd = Some (?p, True)" "w_files w4 ?p = Some f" "w_nextfd w4 = ?fd + 1"
    using quiet_adv [OF 4(2) quiet_adv [OF 2(2) 1(5)]] 1(3,4,6) 2(2) 4(2) by (simp_all add: sched_adv_fields)
  have len: "unat (mk_blocks options * 4096) = ?n * 4096"
    using w(6) by (subst unat_mult_lem [THEN iffD1]) simp_all
  have s: "\<not> sint (mk_blocks options * 4096) < 0"
    using sint_nonneg len w(6) by metis
  obtain w5 where 5: "ftruncate ?fd (mk_blocks options * 4096) w4 = (Inr (), w5)" "quiet w5"
    using w4 s quiet_set_data [OF w(3)] quiet_syscall [OF w4(1)] by (auto simp: ftruncate_def bindE_def)
  have "opened w4 ?fd ?p"
    using w4 f(1) w(2) quiet_benign by (auto simp: opened_def)
  then have t: "target w5 ?fd ?p ?n Map.empty"
    using ensuresD [OF ensures_ftruncate [OF len w(6)] _ 5(1)] by blast
  have n8: "\<not> mk_blocks options < 8"
    using w(5) by (simp add: word_less_nat_alt)
  have n0: "0 < mk_blocks options"
    using w(5) by (simp add: word_less_nat_alt)
  have "aetherfs_prepare_target options w = (Inr \<lparr>fs_fd = ?fd, fs_blocks = mk_blocks options\<rparr>, w5)"
    unfolding aetherfs_prepare_target_def acc
    using w(4) n0 n8 1(1) 2(1) 4(1) 5(1) by (simp add: bindE_def cleanupE_def)
  then show ?thesis
    using t 5(2) by (simp add: qtarget_def)
qed

lemma mkfs_succeeds:
  assumes "mkfs_ready options w"
  shows "\<exists>w'. aetherfs_run_mkfs options w = (Inr (), w')"
proof -
  let ?n = "unat (mk_blocks options)" and ?p = "mk_path options"
  have w: "?p \<noteq> ''/dev/urandom''" "mk_block_size options = 4096" "9 \<le> ?n"
    using assms by (simp_all add: mkfs_ready_def)
  have n: "8 \<le> ?n" "8 < mk_blocks options"
    using w(3) by (simp_all add: word_less_nat_alt)
  obtain st w1 where 1: "aetherfs_prepare_target options w = (Inr st, w1)" "fs_blocks st = mk_blocks options"
    "qtarget (fs_fd st) ?p ?n Map.empty w1"
    using succeeds_prepare [OF assms] by blast
  let ?B = "\<lambda>uuid wi. bootstrap options (mk_blocks options) uuid (aetherfs_init_root_inode wi)"
  have checks: "succeeds (qtarget (fs_fd st) ?p ?n (?B uuid wi))
    (bindE (aetherfs_validate_super (fs_fd st) (mk_blocks options)) (\<lambda>_.
     bindE (aetherfs_validate_root_inode (fs_fd st)) (\<lambda>_.
     bindE (aetherfs_validate_root_dir (fs_fd st)) (\<lambda>_.
     bindE (aetherfs_validate_journal (fs_fd st)) (\<lambda>_.
     bindE (aetherfs_validate_bitmap (fs_fd st) (5 * 4096) 32640 1) (\<lambda>_.
     bindE (aetherfs_validate_free_extents (fs_fd st) (mk_blocks options)) (\<lambda>_.
     aetherfs_validate_checkpoint_root (fs_fd st) (mk_blocks options))))))))
    (\<lambda>_. qtarget (fs_fd st) ?p ?n (?B uuid wi))" if u: "length uuid = 16" for uuid wi
    by (intro succeeds_bindE [OF check_super [OF n(1) u w(2) refl]] succeeds_bindE [OF check_root_inode [OF n(1) refl]]
        succeeds_bindE [OF check_root_dir [OF n(1) refl]] succeeds_bindE [OF check_journal [OF n(1) refl]]
        succeeds_bindE [OF check_bitmap [OF n(1) refl]] succeeds_bindE [OF check_free_extents [OF n(1) refl n(2)]]
        check_checkpoint [OF n(1) refl])
  obtain uuid wi w2 where 2: "aetherfs_write_bootstrap options st w1 = (Inr (), w2)" "length uuid = 16"
    "qtarget (fs_fd st) ?p ?n (?B uuid wi) w2"
    using succeedsD [OF succeeds_bootstrap [OF w(1) n(1) refl, of st options] 1(3)] 1(2) by auto
  show ?thesis
    using succeedsD [OF checks [OF 2(2)] 2(3)] 1 2(1) w(2)
    by (auto simp: aetherfs_run_mkfs_def bindE_def finallyE_def Let_def)
qed

end
