(* ===== verification/Admin_Sound.thy ===== *)
theory Admin_Sound
  imports Admin Mkfs_Total
begin

text \<open>
  The commands that inspect an image: a freshly formatted file scrubs clean, and scrub and
  health agree.
\<close>

section \<open>Scrubbing a fresh file system\<close>

lemma calloc_benign:
  assumes "benign w"
  obtains w' where "calloc w = (Inr (), w')" "sched_adv w w'"
proof -
  obtain w' where "syscall w = (Inr (), w')" "sched_adv w w'"
    using assms by (rule syscall_benign)
  then show ?thesis
    using that by (simp add: calloc_def)
qed

fun scrub_result :: "inspection \<Rightarrow> scrub_output result" where
  "scrub_result (Unreadable e) = Inl e"
| "scrub_result (Damaged img e) = Inl e"
| "scrub_result (Clean img report) = Inr \<lparr>so_profile = aetherfs_scrub_profile_name (pl_profile (img_pool_label img)),
     so_members = img_member_count img, so_checkpoint_root = s_checkpoint (img_super img) ! 0,
     so_logical_blocks = pl_logical_blocks (img_pool_label img), so_report = report\<rparr>"

definition scrub_opened :: "image \<Rightarrow> (world, scrub_output) action" where
  "scrub_opened img w = (let (j, w') = inspect img w in (scrub_result j, aetherfs_image_close img w'))"

lemma scrub_opened_eq:
  "finallyE (bindE (aetherfs_image_load img) (\<lambda>img.
     bindE (aetherfs_image_validate img) (\<lambda>report.
     okE \<lparr>so_profile = aetherfs_scrub_profile_name (pl_profile (img_pool_label img)),
       so_members = img_member_count img, so_checkpoint_root = s_checkpoint (img_super img) ! 0,
       so_logical_blocks = pl_logical_blocks (img_pool_label img), so_report = report\<rparr>)))
     (aetherfs_image_close img) = scrub_opened img"
  unfolding scrub_opened_def inspect_def bindE_def finallyE_def fun_eq_iff
  by (auto split: prod.splits sum.splits)

lemma run_scrub_eq:
  "aetherfs_run_scrub options =
    bindE (bindE calloc (\<lambda>_. if sc_members options \<noteq> [] then aetherfs_image_open_pool (sc_members options) False
      else aetherfs_image_open (sc_path options) False)) scrub_opened"
  unfolding aetherfs_run_scrub_def scrub_opened_eq bindE_assoc ..

text \<open>The file at the path holds what the formatter leaves there.\<close>

definition laid_out :: "mkfs_options \<Rightarrow> world \<Rightarrow> bool" where
  "laid_out options w \<longleftrightarrow> (\<exists>f uuid wi. w_files w (mk_path options) = Some f \<and> vf_kind f = S_IFREG \<and> benign w \<and> 0 \<le> w_nextfd w \<and>
    length (vf_data f) = unat (mk_blocks options) * 4096 \<and> 9 \<le> unat (mk_blocks options) \<and> unat (mk_blocks options) * 4096 < 2 ^ 63 \<and>
    length uuid = 16 \<and> mk_block_size options = 4096 \<and>
    (\<forall>b c. bootstrap options (mk_blocks options) uuid (aetherfs_init_root_inode wi) b = Some c \<longrightarrow> file_block (vf_data f) b = c))"

lemma laid_out_adv: "sched_adv w w' \<Longrightarrow> laid_out options w \<Longrightarrow> laid_out options w'"
  using benign_adv by (fastforce simp: laid_out_def sched_adv_fields)

lemma mkfs_laid_out:
  assumes "formattable w (mk_path options)" "mk_blocks options \<noteq> 0" "unat (mk_blocks options) * 4096 < 2 ^ 63"
    and "aetherfs_run_mkfs options w = (Inr (), w')"
  shows "laid_out options w'"
  using mkfs_layout [OF assms] assms(3) unfolding laid_out_def by blast

lemma scrub_laid_out:
  assumes "laid_out options w'"
  shows "\<exists>out w''. aetherfs_run_scrub \<lparr>sc_path = mk_path options, sc_members = []\<rparr> w' = (Inr out, w'') \<and>
    so_profile out = ''single'' \<and> so_members out = 1 \<and> so_checkpoint_root out = AETHERFS_CHECKPOINT_ROOT_BLOCK \<and>
    so_logical_blocks out = mk_blocks options \<and>
    so_report out = \<lparr>rp_files = 0, rp_directories = 1, rp_inodes_used = 1, rp_data_blocks = 0,
      rp_free_blocks = mk_blocks options - AETHERFS_DATA_START_BLOCK\<rparr>"
proof -
  let ?n = "unat (mk_blocks options)" and ?p = "mk_path options"
  obtain f uuid wi where f: "w_files w' ?p = Some f" "vf_kind f = S_IFREG" "benign w'" "0 \<le> w_nextfd w'"
    "length (vf_data f) = ?n * 4096" "9 \<le> ?n" "length uuid = 16" "mk_block_size options = 4096"
    "\<And>b c. bootstrap options (mk_blocks options) uuid (aetherfs_init_root_inode wi) b = Some c \<Longrightarrow> file_block (vf_data f) b = c"
    and small: "?n * 4096 < 2 ^ 63"
    using assms unfolding laid_out_def by blast
  let ?nd = "aetherfs_init_root_inode wi" and ?d = "vf_data f"
  obtain w1 where 1: "calloc w' = (Inr (), w1)" "sched_adv w' w1"
    using f(3) by (rule calloc_benign)
  have w1: "benign w1" "0 \<le> w_nextfd w1" "w_files w1 ?p = Some f"
    using f(1,3,4) benign_adv [OF 1(2)] 1(2) by (simp_all add: sched_adv_fields)
  have n: "8 \<le> ?n"
    using f(6) by simp
  have z: "file_block ?d 0 = zero_block"
    by (rule f(9)) (simp add: bootstrap_def)
  obtain img w2 where 2: "aetherfs_image_open ?p False w1 = (Inr img, w2)" "single_image img ?n ?d w2"
    "img_inode_table img = zero_inode_table"
    using open_formatted [OF w1 f(2,5) n small z] by blast
  have img: "img_pool_label img = synthesized_label (of_nat ?n)" "img_member_count img = 1"
    using 2(2) by (simp_all add: single_image_def)
  obtain w3 where 3: "aetherfs_image_load img w2 = (Inr (formatted options uuid ?nd img), w3)"
    "single_image (formatted options uuid ?nd img) ?n ?d w3"
    using succeedsD [OF load_formatted [OF f(9) f(7) mkfs_wf(2) f(8) refl n img] 2(2)] by auto
  obtain w4 where 4: "aetherfs_image_validate (formatted options uuid ?nd img) w3 =
      (Inr \<lparr>rp_files = 0, rp_directories = 1, rp_inodes_used = 1, rp_data_blocks = 0,
        rp_free_blocks = mk_blocks options - AETHERFS_DATA_START_BLOCK\<rparr>, w4)"
    using succeedsD [OF validate_formatted [OF refl 2(3) refl f(6)] 3(2)] by auto
  have fm: "img_pool_label (formatted options uuid ?nd img) = synthesized_label (mk_blocks options)"
    "img_member_count (formatted options uuid ?nd img) = 1"
    using img by (simp_all add: formatted_def Let_def)
  show ?thesis
    unfolding run_scrub_eq bindE_def scrub_opened_def
    by (simp add: 1(1) 2(1) inspect_def 3(1) 4 fm mkfs_super_fields synthesized_label_def aetherfs_scrub_profile_name_def Let_def)
qed

section \<open>Scrub and health\<close>

lemma profile_names: "aetherfs_scrub_profile_name = aetherfs_profile_name"
  by (simp add: fun_eq_iff aetherfs_scrub_profile_name_def aetherfs_profile_name_def)

definition scrub_of :: "admin_options \<Rightarrow> scrub_options" where
  "scrub_of options = \<lparr>sc_path = (case ad_path options of Some p \<Rightarrow> p | None \<Rightarrow> []), sc_members = ad_members options\<rparr>"

definition scrub_health :: "scrub_output \<Rightarrow> health_output \<Rightarrow> bool" where
  "scrub_health out h \<longleftrightarrow> (\<exists>s. h = Health_clean s (rp_files (so_report out)) (rp_directories (so_report out))
      (rp_data_blocks (so_report out)) ''strict'' \<and>
    hs_profile s = so_profile out \<and> hs_members s = so_members out \<and>
    hs_checkpoint_root s = so_checkpoint_root out \<and> hs_logical_blocks s = so_logical_blocks out)"

lemma health_scrub:
  assumes "ad_members options \<noteq> [] \<or> ad_path options \<noteq> None"
    and "aetherfs_run_scrub (scrub_of options) w = (r, w1)" "aetherfs_run_health options w = ((rc, out), w2)"
  shows "w2 = w1 \<and> (case r of
      Inl e \<Rightarrow> rc = Some e \<and> (\<forall>h. out = Some h \<longrightarrow> (\<exists>s. h = Health_unreadable e ''rescue'' \<or> h = Health_damaged s e ''degraded-read-only''))
    | Inr o' \<Rightarrow> rc = None \<and> (\<exists>h. out = Some h \<and> scrub_health o' h))"
proof -
  define opn where "opn = bindE calloc (\<lambda>_. aetherfs_open_admin_image options)"
  have "aetherfs_open_admin_image options =
    (if sc_members (scrub_of options) \<noteq> [] then aetherfs_image_open_pool (sc_members (scrub_of options)) False
     else aetherfs_image_open (sc_path (scrub_of options)) False)"
    using assms(1) by (auto simp: aetherfs_open_admin_image_def scrub_of_def)
  then have scrub: "bindE opn scrub_opened w = (r, w1)"
    using assms(2) unfolding run_scrub_eq opn_def by (simp only:)
  obtain i w0 where i: "opn w = (i, w0)"
    by fastforce
  have health: "(case opn w of (Inl e, w) \<Rightarrow> ((Some e, None), w)
     | (Inr img, w) \<Rightarrow> let (i, w) = inspect img w in ((validate_rc i, Some (health_lines i)), aetherfs_image_close img w)) = ((rc, out), w2)"
    using assms(3) unfolding aetherfs_run_health_def opn_def .
  show ?thesis
  proof (cases i)
    case (Inl e)
    then show ?thesis
      using scrub health unfolding bindE_def i by auto
  next
    case (Inr img)
    obtain j w' where j: "inspect img w0 = (j, w')"
      by fastforce
    have "r = scrub_result j" "w1 = aetherfs_image_close img w'"
      using scrub unfolding bindE_def i Inr scrub_opened_def by (simp_all add: j)
    moreover have "rc = validate_rc j" "out = Some (health_lines j)" "w2 = aetherfs_image_close img w'"
      using health unfolding i Inr by (simp_all add: j)
    ultimately show ?thesis
      by (cases j) (simp_all add: recommended_def aetherfs_mount_recommendation_def scrub_health_def health_summary_of_def profile_names)
  qed
qed

end
