(* ===== verification/Mount_Sound.thy ===== *)
theory Mount_Sound
  imports Mount Admin_Sound
begin

text \<open>
  What the checks before a mount establish about the bytes of the image, and what the mount
  command runs.  \<open>bootable\<close> says what the quick check looks at; the full check implies it.
\<close>

section \<open>The quick check in terms of the bytes\<close>

definition label_ok :: "byte list \<Rightarrow> bool" where
  "label_ok d \<longleftrightarrow> (let label = fst (dec_pool_label (file_block d 0)) in
     pl_magic label = AETHERFS_POOL_MAGIC \<longrightarrow>
       aetherfs_pool_label_checksum label = pl_checksum label \<and> pl_member_count label = 1)"

definition super_ok :: "super \<Rightarrow> bool" where
  "super_ok s \<longleftrightarrow> s_magic s = AETHERFS_MAGIC \<and> s_version s = AETHERFS_VERSION \<and> s_blocksize s = 4096 \<and>
     s_device_count s = 1 \<and> s_checkpoint s ! 0 = AETHERFS_CHECKPOINT_ROOT_BLOCK \<and> s_checksum s = aetherfs_super_checksum s"

definition checkpoint_ok :: "checkpoint_root \<Rightarrow> bool" where
  "checkpoint_ok r \<longleftrightarrow> cr_magic r = AETHERFS_CHECKPOINT_ROOT_MAGIC \<and> cr_version r = AETHERFS_CHECKPOINT_ROOT_VERSION \<and>
     cr_checksum r = aetherfs_checkpoint_root_checksum r"

definition bootable :: "byte list \<Rightarrow> bool" where
  "bootable d \<longleftrightarrow> 8 * 4096 \<le> length d \<and> label_ok d \<and> super_ok (fst (dec_super (file_block d 1))) \<and>
     checkpoint_ok (fst (dec_checkpoint_root (file_block d 7)))"

lemma read_block_sound:
  assumes "fd_file w fd = Some f" "b < 8" "aetherfs_read_all fd (b * 4096) 4096 w = (Inr bs, w')"
  shows "bs = file_block (vf_data f) (unat b) \<and> (unat b + 1) * 4096 \<le> length (vf_data f)"
proof -
  have b: "unat b < 8"
    using assms(2) by (simp add: word_less_nat_alt)
  then have "unat (b * 4096) = unat b * 4096"
    by (subst unat_mult_lem [THEN iffD1]) simp_all
  then have "bs = file_block (vf_data f) (unat b)" "length bs = 4096"
    using read_all_sound [OF assms(1) _ assms(3)] b by (auto simp: file_block_def)
  then show ?thesis
    by (auto simp: file_block_def)
qed

lemma read_block_benign:
  assumes "benign w" "fd_file w fd = Some f" "b < 8" "8 * 4096 \<le> length (vf_data f)"
  shows "\<exists>w'. aetherfs_read_all fd (b * 4096) 4096 w = (Inr (file_block (vf_data f) (unat b)), w') \<and> sched_adv w w'"
proof -
  have b: "unat b < 8"
    using assms(3) by (simp add: word_less_nat_alt)
  then have "unat (b * 4096) = unat b * 4096"
    by (subst unat_mult_lem [THEN iffD1]) simp_all
  moreover have "unat b * 4096 + 4096 \<le> length (vf_data f)"
    using b assms(4) by linarith
  ultimately show ?thesis
    using read_all_benign [OF assms(1,2), of "b * 4096" 4096] b by (simp add: file_block_def)
qed

lemma open_file_sound:
  assumes "open_file p wr w = (Inr fd, w1)"
  shows "\<exists>f. w_files w p = Some f \<and> w_fds w1 fd = Some (p, wr) \<and> w_files w1 = w_files w"
proof -
  obtain w0 f where w0: "syscall w = (Inr (), w0)" "w_files w0 p = Some f" "fd = w_nextfd w0"
    "w1 = w0\<lparr>w_fds := (w_fds w0)(w_nextfd w0 := Some (p, wr)), w_nextfd := w_nextfd w0 + 1\<rparr>"
    using open_file_Inr [OF assms] by blast
  then show ?thesis
    using syscall_adv [OF w0(1)] by (simp add: sched_adv_def)
qed

lemma close_fd_files [simp]: "w_files (close_fd fd w) = w_files w"
  by (simp add: close_fd_def)

text \<open>The descriptor reads the file at the path.\<close>

definition view :: "path \<Rightarrow> int \<Rightarrow> vfile \<Rightarrow> world \<Rightarrow> bool" where
  "view p fd f w \<longleftrightarrow> w_files w p = Some f \<and> (\<exists>wr. w_fds w fd = Some (p, wr))"

lemma view_fd: "view p fd f w \<Longrightarrow> fd_file w fd = Some f"
  by (auto simp: view_def fd_file_def)

lemma view_adv: "sched_adv w w' \<Longrightarrow> view p fd f w \<Longrightarrow> view p fd f w'"
  by (simp add: view_def sched_adv_fields)

lemma ensures_guardE: "ensures P (guardE b e) (\<lambda>_ w. P w \<and> b)"
  by (simp add: ensures_def)

lemma ensures_view_fstat: "ensures (view p fd f) (fstat fd) (\<lambda>r w. view p fd f w \<and> fst r = vf_kind f)"
  unfolding fstat_def
proof (rule ensures_bindE)
  show "ensures (view p fd f) syscall (\<lambda>_. view p fd f)"
    using syscall_adv view_adv unfolding ensures_def by blast
qed (auto simp: ensures_def view_fd split: option.splits)

lemma ensures_view_read:
  assumes "b < 8"
  shows "ensures (view p fd f) (aetherfs_read_all fd (b * 4096) 4096)
    (\<lambda>block w. view p fd f w \<and> block = file_block (vf_data f) (unat b) \<and> (unat b + 1) * 4096 \<le> length (vf_data f))"
proof (rule ensuresI)
  fix w x w' assume w: "view p fd f w" and run: "aetherfs_read_all fd (b * 4096) 4096 w = (Inr x, w')"
  then show "view p fd f w' \<and> x = file_block (vf_data f) (unat b) \<and> (unat b + 1) * 4096 \<le> length (vf_data f)"
    using read_block_sound [OF view_fd [OF w] assms run] view_adv [OF read_all_adv [OF run] w] by simp
qed

lemma ensures_open: "ensures (\<lambda>w. w_files w p = Some f) (open_file p wr) (\<lambda>fd. view p fd f)"
proof (rule ensuresI)
  fix w fd w' assume "w_files w p = Some f" "open_file p wr w = (Inr fd, w')"
  then show "view p fd f w'"
    using open_file_sound [of p wr w fd w'] by (auto simp: view_def)
qed

lemma ensures_finally_close:
  assumes "ensures (view p fd f) m (\<lambda>x w. view p fd f w \<and> C x)"
  shows "ensures (view p fd f) (finallyE m (close_fd fd)) (\<lambda>x w. w_files w p = Some f \<and> C x)"
proof (rule ensuresI)
  fix w x w' assume w: "view p fd f w" "finallyE m (close_fd fd) w = (Inr x, w')"
  then obtain w1 where "m w = (Inr x, w1)" "w' = close_fd fd w1"
    by (auto simp: finallyE_eq_Inr)
  then show "w_files w' p = Some f \<and> C x"
    using ensuresD [OF assms w(1)] by (simp add: view_def)
qed

lemma ensures_post: "ensures P m Q \<Longrightarrow> (\<And>x w. Q x w \<Longrightarrow> Q' x w) \<Longrightarrow> ensures P m Q'"
  unfolding ensures_def by blast

lemma ensures_label:
  "ensures (view p fd f)
    (bindE (fstat fd) (\<lambda>(kind, _).
       bindE (guardE (kind = S_IFREG \<or> kind = S_IFBLK) EINVAL) (\<lambda>_.
       bindE (aetherfs_read_all fd (AETHERFS_POOL_LABEL_BLOCK * 4096) AETHERFS_DEF_BLOCK_SIZE) (\<lambda>block.
       let label = fst (dec_pool_label block) in
       bindE (if pl_magic label = AETHERFS_POOL_MAGIC
              then bindE (guardE (aetherfs_pool_label_checksum label = pl_checksum label) EILSEQ) (\<lambda>_.
                   guardE (pl_member_count label = 1) EOPNOTSUPP)
              else okE ()) (\<lambda>_.
       aetherfs_read_all fd (AETHERFS_SUPERBLOCK_BLOCK * 4096) AETHERFS_DEF_BLOCK_SIZE)))))
    (\<lambda>block w. view p fd f w \<and> block = file_block (vf_data f) 1 \<and> (vf_kind f = S_IFREG \<or> vf_kind f = S_IFBLK) \<and> label_ok (vf_data f))"
  apply (rule ensures_bindE [OF ensures_view_fstat], rule ensures_pre, clarsimp)
  apply (rule ensures_bindE [OF ensures_guardE], rule ensures_pre)
  apply (rule ensures_bindE [OF ensures_view_read [of 0, simplified]], rule ensures_pre)
  apply (unfold Let_def)
  apply (rule ensures_bindE [where R = "\<lambda>_ w. view p fd f w \<and> label_ok (vf_data f)"])
   apply (auto simp: ensures_def label_ok_def bindE_eq_Inr Let_def split: if_splits)[]
  apply (rule ensures_pre, rule ensures_post [OF ensures_view_read [of 1, simplified]])
  apply simp
  done

lemma validate_image_sound:
  "ensures (\<lambda>w. w_files w p = Some f) (aetherfs_validate_image p)
    (\<lambda>_ w. w_files w p = Some f \<and> (vf_kind f = S_IFREG \<or> vf_kind f = S_IFBLK) \<and> bootable (vf_data f))"
  unfolding aetherfs_validate_image_def
  apply (rule ensures_bindE [OF ensures_open], rule ensures_bindE [OF ensures_finally_close [OF ensures_label]], rule ensures_pre)
  apply (simp add: Let_def)
  apply (rule ensures_bindE [OF ensures_guardE], rule ensures_pre)
  apply (rule ensures_bindE [OF ensures_guardE], rule ensures_pre)
  apply (rule ensures_bindE [OF ensures_guardE], rule ensures_pre)
  apply (rule ensures_bindE [OF ensures_guardE], rule ensures_pre)
  apply (rule ensures_bindE [OF ensures_guardE], rule ensures_pre)
  apply (rule ensures_bindE [OF ensures_guardE], rule ensures_pre)
  apply (rule ensures_bindE [OF ensures_open])
  apply (rule ensures_bindE [OF ensures_finally_close], simp, rule ensures_view_read [where b = 7, simplified], rule ensures_pre)
  apply (auto simp: ensures_def bindE_eq_Inr bootable_def super_ok_def checkpoint_ok_def)
  done

text \<open>In a world without errors the quick check accepts every bootable file.\<close>

lemma validate_image_complete:
  assumes "benign w" "w_files w p = Some f" "vf_kind f = S_IFREG \<or> vf_kind f = S_IFBLK" "bootable (vf_data f)"
  shows "\<exists>w'. aetherfs_validate_image p w = (Inr (), w')"
proof -
  have d: "8 * 4096 \<le> length (vf_data f)" "label_ok (vf_data f)" "super_ok (fst (dec_super (file_block (vf_data f) 1)))"
    "checkpoint_ok (fst (dec_checkpoint_root (file_block (vf_data f) 7)))"
    using assms(4) by (simp_all add: bootable_def)
  obtain w1 where 1: "open_file p False w = (Inr (w_nextfd w), w1)" "benign w1" "fd_file w1 (w_nextfd w) = Some f" "w_files w1 = w_files w"
    using open_file_benign [OF assms(1,2), of False] assms(2) by (auto simp: fd_file_def)
  obtain w2 where 2: "fstat (w_nextfd w) w1 = (Inr (vf_kind f, length (vf_data f)), w2)" "sched_adv w1 w2"
    using fstat_benign [OF 1(2,3)] by blast
  have w2: "benign w2" "fd_file w2 (w_nextfd w) = Some f"
    using benign_adv [OF 2(2) 1(2)] fd_file_adv [OF 2(2)] 1(3) by simp_all
  obtain w3 where 3: "aetherfs_read_all (w_nextfd w) 0 4096 w2 = (Inr (file_block (vf_data f) 0), w3)" "sched_adv w2 w3"
    using read_block_benign [OF w2, of 0] d(1) by auto
  have w3: "benign w3" "fd_file w3 (w_nextfd w) = Some f"
    using benign_adv [OF 3(2) w2(1)] fd_file_adv [OF 3(2)] w2(2) by simp_all
  obtain w4 where 4: "aetherfs_read_all (w_nextfd w) 4096 4096 w3 = (Inr (file_block (vf_data f) 1), w4)" "sched_adv w3 w4"
    using read_block_benign [OF w3, of 1] d(1) by auto
  let ?w5 = "close_fd (w_nextfd w) w4"
  have w5: "benign ?w5" "w_files ?w5 p = Some f"
    using benign_adv [OF 4(2) w3(1)] 1(4) 2(2) 3(2) 4(2) assms(2) by (simp_all add: benign_def close_fd_def sched_adv_fields)
  obtain w6 where 6: "open_file p False ?w5 = (Inr (w_nextfd ?w5), w6)" "benign w6" "fd_file w6 (w_nextfd ?w5) = Some f"
    using open_file_benign [OF w5, of False] w5(2) by (auto simp: fd_file_def)
  obtain w7 where 7: "aetherfs_read_all (w_nextfd ?w5) 28672 4096 w6 = (Inr (file_block (vf_data f) 7), w7)"
    using read_block_benign [OF 6(2,3), of 7] d(1) by auto
  show ?thesis
    unfolding aetherfs_validate_image_def bindE_def finallyE_def Let_def
    using d(2-4) assms(3) by (auto simp: 1(1) 2(1) 3(1) 4(1) 6(1) 7 label_ok_def super_ok_def checkpoint_ok_def guardE_def Let_def)
qed

section \<open>The full check\<close>

definition opened_single :: "path \<Rightarrow> vfile \<Rightarrow> image \<Rightarrow> world \<Rightarrow> bool" where
  "opened_single p f img w \<longleftrightarrow> img_member_count img = 1 \<and> view p (im_fd (img_members img ! 0)) f w"

lemma opened_single_adv: "sched_adv w w' \<Longrightarrow> opened_single p f img w \<Longrightarrow> opened_single p f img w'"
  using view_adv by (simp add: opened_single_def)

lemma opened_single_upd [simp]:
  "opened_single p f (img\<lparr>img_super := a\<rparr>) = opened_single p f img" "opened_single p f (img\<lparr>img_blocks := b\<rparr>) = opened_single p f img"
  "opened_single p f (img\<lparr>img_checkpoint_root := c\<rparr>) = opened_single p f img"
  by (simp_all add: opened_single_def fun_eq_iff)

lemma ensures_single_read:
  assumes "b < 8"
  shows "ensures (opened_single p f img) (aetherfs_image_read_block img b)
    (\<lambda>block w. opened_single p f img w \<and> block = file_block (vf_data f) (unat b) \<and> (unat b + 1) * 4096 \<le> length (vf_data f))"
proof -
  have "ensures (opened_single p f img) (read_any_member img b is)
    (\<lambda>block w. opened_single p f img w \<and> block = file_block (vf_data f) (unat b) \<and> (unat b + 1) * 4096 \<le> length (vf_data f))" for "is"
  proof (induction "is")
    case (Cons i "is")
    show ?case
    proof (rule ensuresI)
      fix w x w' assume w: "opened_single p f img w" and run: "read_any_member img b (i # is) w = (Inr x, w')"
      obtain r w1 where 1: "aetherfs_image_read_physical_member img (of_nat i) b w = (r, w1)"
        by fastforce
      have w1: "opened_single p f img w1"
        using keepsD [OF keeps_read_physical [of w] _ 1] opened_single_adv w by blast
      show "opened_single p f img w' \<and> x = file_block (vf_data f) (unat b) \<and> (unat b + 1) * 4096 \<le> length (vf_data f)"
      proof (cases r)
        case (Inl e)
        then show ?thesis
          using run 1 ensuresD [OF Cons.IH w1] by simp
      next
        case (Inr bs)
        then have "x = bs" "w' = w1" "(of_nat i :: u32) < 1"
          using run 1 w by (auto simp: aetherfs_image_read_physical_member_def opened_single_def not_le split: if_splits)
        moreover from this(3) have "(of_nat i :: u32) = 0"
          by (simp add: word_less_nat_alt unat_eq_zero)
        ultimately have "aetherfs_read_all (im_fd (img_members img ! 0)) (b * 4096) 4096 w = (Inr x, w')"
          using 1 Inr w by (auto simp: aetherfs_image_read_physical_member_def aetherfs_member_read_block_def opened_single_def split: if_splits)
        then show ?thesis
          using ensuresD [OF ensures_view_read [OF assms]] w by (auto simp: opened_single_def)
      qed
    qed
  qed (simp add: ensures_def)
  then show ?thesis
    unfolding aetherfs_image_read_block_def using assms by simp
qed

lemma load_bootable:
  "ensures (opened_single p f img) (aetherfs_image_load img)
    (\<lambda>_ _. super_ok (fst (dec_super (file_block (vf_data f) 1))) \<and>
      checkpoint_ok (fst (dec_checkpoint_root (file_block (vf_data f) 7))) \<and> 8 * 4096 \<le> length (vf_data f))"
proof (rule ensuresI)
  fix w x w' assume w: "opened_single p f img w" and run: "aetherfs_image_load img w = (Inr x, w')"
  obtain block w1 where 1: "aetherfs_image_read_block img 1 w = (Inr block, w1)"
    and run1: "(let img = img\<lparr>img_super := fst (dec_super block)\<rparr> in
    bindE (liftE (aetherfs_image_validate_super img)) (\<lambda>_.
    let img = img\<lparr>img_blocks := s_blocks_count (img_super img)\<rparr> in
    bindE (aetherfs_image_read_block img (s_checkpoint (img_super img) ! 0)) (\<lambda>block.
    let img = img\<lparr>img_checkpoint_root := fst (dec_checkpoint_root block)\<rparr> in
    bindE (liftE (aetherfs_image_validate_checkpoint_root img)) (\<lambda>_.
    bindE (aetherfs_image_read_block img (cr_journal_block (img_checkpoint_root img))) (\<lambda>block.
    let img = img\<lparr>img_journal := fst (dec_intent_log block)\<rparr> in
    bindE (guardE (il_checksum (img_journal img) = aetherfs_journal_checksum (img_journal img)) EILSEQ) (\<lambda>_.
    bindE (aetherfs_image_read_block img (cr_inode_bitmap_block (img_checkpoint_root img))) (\<lambda>block.
    let img = img\<lparr>img_inode_bitmap := fst (dec_bitmap_block block)\<rparr> in
    bindE (liftE (aetherfs_image_validate_bitmap (img_inode_bitmap img) 32640)) (\<lambda>_.
    bindE (aetherfs_read_extent_node img (cr_free_space_root (img_checkpoint_root img))) (\<lambda>node.
    let img = img\<lparr>img_free_extents := node\<rparr> in
    bindE (aetherfs_image_read_block img (cr_root_inode_block (img_checkpoint_root img))) (\<lambda>block.
    let img = img\<lparr>img_inode_table := load_inodes block (img_inode_table img)\<rparr> in
    bindE (aetherfs_image_read_block img (cr_root_dir_block (img_checkpoint_root img))) (\<lambda>block.
    okE (img\<lparr>img_root_dir := block\<rparr>)))))))))))) w1 = (Inr x, w')"
    using run unfolding aetherfs_image_load_def by (rule bindE_InrE)
  let ?img1 = "img\<lparr>img_super := fst (dec_super block)\<rparr>"
  let ?img2 = "?img1\<lparr>img_blocks := s_blocks_count (img_super ?img1)\<rparr>"
  have b1: "opened_single p f img w1" "block = file_block (vf_data f) 1"
    using ensuresD [OF ensures_single_read w 1] by simp_all
  have v1: "aetherfs_image_validate_super ?img1 = Inr ()"
    using run1 unfolding Let_def by (cases "aetherfs_image_validate_super ?img1") simp_all
  then have c0: "s_checkpoint (img_super ?img2) ! 0 = 7" and s: "super_ok (fst (dec_super block))"
    using b1(1) by (auto simp: aetherfs_image_validate_super_def super_ok_def opened_single_def Let_def split: if_splits)
  obtain cb w2 where 2: "aetherfs_image_read_block ?img2 7 w1 = (Inr cb, w2)"
    using run1 unfolding Let_def v1 liftE_Inr bindE_okE c0 by (rule bindE_InrE)
  have b2: "cb = file_block (vf_data f) 7" "8 * 4096 \<le> length (vf_data f)"
    using ensuresD [OF ensures_single_read _ 2] b1(1) by simp_all
  have "aetherfs_image_validate_checkpoint_root (?img2\<lparr>img_checkpoint_root := fst (dec_checkpoint_root cb)\<rparr>) = Inr ()"
    using run1 unfolding Let_def v1 liftE_Inr bindE_okE c0 bindE_run_Inr [of "aetherfs_image_read_block ?img2 7", OF 2]
    by (cases "aetherfs_image_validate_checkpoint_root (?img2\<lparr>img_checkpoint_root := fst (dec_checkpoint_root cb)\<rparr>)") simp_all
  then have "checkpoint_ok (fst (dec_checkpoint_root cb))"
    by (auto simp: aetherfs_image_validate_checkpoint_root_def checkpoint_ok_def Let_def split: if_splits)
  then show "super_ok (fst (dec_super (file_block (vf_data f) 1))) \<and>
      checkpoint_ok (fst (dec_checkpoint_root (file_block (vf_data f) 7))) \<and> 8 * 4096 \<le> length (vf_data f)"
    using s b1(2) b2 by simp
qed

lemma member_open_single:
  "ensures (\<lambda>w. w_files w p = Some f) (aetherfs_member_open_path p wr)
    (\<lambda>m w. view p (im_fd m) f w \<and> (vf_kind f = S_IFREG \<or> vf_kind f = S_IFBLK) \<and>
      im_is_block_device m = (vf_kind f = S_IFBLK))"
proof -
  have sz: "ensures (view p fd f) (if kind = S_IFBLK then blkgetsize64 fd else okE n) (\<lambda>_. view p fd f)" for fd kind n
  proof (rule ensures_keeps, rule keeps_adv_mono [OF _ view_adv], rule keeps_if)
    show "keeps (sched_adv w0) (blkgetsize64 fd)" for w0
      unfolding blkgetsize64_def by (intro keeps_bindE keeps_syscall keepsI) (simp split: option.split)
  qed simp
  show ?thesis
    unfolding aetherfs_member_open_path_def
    apply (rule ensures_bindE [OF ensures_open], rule ensures_cleanupE)
    apply (rule ensures_bindE [OF ensures_view_fstat], rule ensures_pre, simp only: case_prod_beta)
    apply (rule ensures_bindE [OF ensures_guardE], rule ensures_pre)
    apply (rule ensures_bindE [OF sz])
    apply (simp add: ensures_def)
    done
qed

lemma single_primary:
  assumes "img_member_count img = 1"
  shows "aetherfs_mask_first (aetherfs_pool_metadata_mask img) = Some 0"
proof -
  have "aetherfs_pool_metadata_mask img = 1"
    using assms by (simp add: aetherfs_pool_metadata_mask_def aetherfs_pool_member_limit_mask_def Let_def and_one_eq word_le_nat_alt)
  then show ?thesis
    by (simp add: aetherfs_mask_first_def upt_rec)
qed

lemma image_open_single:
  "ensures (\<lambda>w. w_files w p = Some f) (aetherfs_image_open p wr)
    (\<lambda>img w. opened_single p f img w \<and> (vf_kind f = S_IFREG \<or> vf_kind f = S_IFBLK) \<and> label_ok (vf_data f) \<and>
      img_is_block_device img = (vf_kind f = S_IFBLK))"
proof -
  have "ensures (view p (im_fd m) f) (aetherfs_member_read_pool_label m)
    (\<lambda>present w. view p (im_fd m) f w \<and> (case present of
        None \<Rightarrow> pl_magic (fst (dec_pool_label (file_block (vf_data f) 0))) \<noteq> AETHERFS_POOL_MAGIC
      | Some l \<Rightarrow> l = fst (dec_pool_label (file_block (vf_data f) 0)) \<and> aetherfs_pool_label_checksum l = pl_checksum l))" for m
  proof (cases "im_fd m < 0")
    case False
    then show ?thesis
      unfolding aetherfs_member_read_pool_label_def aetherfs_member_read_block_def
      apply (simp del: mult_zero_left add: Let_def)
      apply (rule ensures_bindE [OF ensures_view_read [of 0]], simp, rule ensures_pre)
      apply (auto simp: ensures_def aetherfs_pool_label_validate_def Let_def bindE_eq_Inr split: if_splits)
      done
  qed (simp add: aetherfs_member_read_pool_label_def aetherfs_member_read_block_def ensures_def)
  note rd = this
  have fin: "im_fd (img_members (aetherfs_image_assign_primary_aliases img) ! 0) = im_fd (img_members img ! 0)"
    "img_member_count (aetherfs_image_assign_primary_aliases img) = img_member_count img"
    "img_member_count img = 1 \<Longrightarrow> img_is_block_device (aetherfs_image_assign_primary_aliases img) = im_is_block_device (img_members img ! 0)" for img
    by (simp_all add: aetherfs_image_assign_primary_aliases_def Let_def single_primary)
  show ?thesis
    unfolding aetherfs_image_open_def Let_def
    apply (rule ensures_bindE [OF member_open_single], rule ensures_pre, rule ensures_cleanupE)
    apply (rule ensures_bindE [OF rd], rule ensures_pre)
    apply (auto simp: ensures_def opened_single_def fin aetherfs_image_synthesize_single_label_def zero_image_def label_ok_def Let_def
        split: option.splits if_splits)
    done
qed

lemma strict_bootable:
  assumes "aetherfs_validate_strict_image p w = (Inr (), w')"
  shows "\<exists>f. w_files w p = Some f \<and> (vf_kind f = S_IFREG \<or> vf_kind f = S_IFBLK) \<and> bootable (vf_data f)"
proof -
  obtain w1 where 1: "calloc w = (Inr (), w1)" and run: "bindE (aetherfs_image_open p False) (\<lambda>img.
    finallyE (bindE (aetherfs_image_load img) (\<lambda>img. bindE (aetherfs_image_validate img) (\<lambda>_. okE ()))) (aetherfs_image_close img)) w1 = (Inr (), w')"
    using assms unfolding aetherfs_validate_strict_image_def by (auto elim: bindE_InrE)
  obtain img w2 where 2: "aetherfs_image_open p False w1 = (Inr img, w2)"
    and run2: "finallyE (bindE (aetherfs_image_load img) (\<lambda>img. bindE (aetherfs_image_validate img) (\<lambda>_. okE ()))) (aetherfs_image_close img) w2 = (Inr (), w')"
    using run by (rule bindE_InrE)
  obtain w3 where run3: "bindE (aetherfs_image_load img) (\<lambda>img. bindE (aetherfs_image_validate img) (\<lambda>_. okE ())) w2 = (Inr (), w3)"
    using run2 by (auto simp: finallyE_eq_Inr)
  obtain img' w4 where 3: "aetherfs_image_load img w2 = (Inr img', w4)"
    using run3 by (rule bindE_InrE)
  have adv: "w_files w1 = w_files w"
    using 1 syscall_adv [of w] by (auto simp: calloc_def sched_adv_fields split: prod.splits sum.splits)
  obtain f where f: "w_files w p = Some f"
  proof -
    obtain m w5 where "aetherfs_member_open_path p False w1 = (Inr m, w5)"
      using 2 unfolding aetherfs_image_open_def by (rule bindE_InrE)
    then obtain fd w6 where "open_file p False w1 = (Inr fd, w6)"
      unfolding aetherfs_member_open_path_def by (rule bindE_InrE)
    then show ?thesis
      using that open_file_sound adv by metis
  qed
  have "opened_single p f img w2" "vf_kind f = S_IFREG \<or> vf_kind f = S_IFBLK" "label_ok (vf_data f)"
    using ensuresD [OF image_open_single _ 2, of f] f adv by simp_all
  then show ?thesis
    using ensuresD [OF load_bootable _ 3] f by (auto simp: bootable_def)
qed

section \<open>The checks change no file\<close>

lemma keeps_calloc: "keeps (sched_adv w0) calloc"
  by (rule keeps_advI) (auto simp: calloc_def dest: syscall_adv split: prod.splits sum.splits)

lemma keeps_stat_kind: "keeps (sched_adv w0) (stat_kind p)"
  unfolding stat_kind_def by (intro keeps_bindE keeps_syscall keepsI) (simp split: option.split)

lemma keeps_blkgetsize: "keeps (sched_adv w0) (blkgetsize64 fd)"
  unfolding blkgetsize64_def by (intro keeps_bindE keeps_syscall keepsI) (simp split: option.split)

lemma keeps_fstat: "keeps (sched_adv w0) (fstat fd)"
  unfolding fstat_def by (intro keeps_bindE keeps_syscall keepsI) (simp split: option.split)

lemma keeps_member_label: "keeps (sched_adv w0) (aetherfs_member_read_pool_label m)"
  unfolding aetherfs_member_read_pool_label_def aetherfs_member_read_block_def Let_def
  by (intro keeps_bindE keeps_if keeps_read_all keeps_okE keeps_failE keeps_liftE)

lemma keeps_load: "keeps (sched_adv w0) (aetherfs_image_load img)"
  unfolding aetherfs_image_load_def Let_def
  by (intro keeps_bindE keeps_read_block keeps_liftE keeps_guardE keeps_read_extent_node keeps_okE)

text \<open>
  A property that survives the passing of calls and says nothing of the descriptors survives
  every check.
\<close>

locale fd_blind =
  fixes P :: "world \<Rightarrow> bool"
  assumes adv: "sched_adv w w' \<Longrightarrow> P w \<Longrightarrow> P w'"
    and fds: "P (w\<lparr>w_fds := F, w_nextfd := n\<rparr>) = P w"
begin

lemma reads: "(\<And>w0. keeps (sched_adv w0) m) \<Longrightarrow> keeps P m"
  by (rule keeps_adv_mono) (simp_all add: adv)

lemma close_fd: "P (close_fd fd w) = P w"
  using fds [where w = w and F = "(w_fds w)(fd := None)" and n = "w_nextfd w"] by (simp add: close_fd_def)

lemma open_file: "keeps P (open_file p wr)"
  unfolding open_file_def
  by (intro keeps_bindE reads keeps_syscall keepsI) (auto simp: fds split: option.split)

lemma image_close: "P (aetherfs_image_close img w) = P w"
proof -
  have "P (close_members ms w) = P w" for ms
    by (induction ms arbitrary: w) (simp_all add: close_members_def close_fd)
  then show ?thesis
    by (simp add: aetherfs_image_close_def)
qed

lemma member_open: "keeps P (aetherfs_member_open_path p wr)"
  unfolding aetherfs_member_open_path_def case_prod_beta
  by (intro keeps_bindE keeps_cleanupE open_file keeps_guardE keeps_if keeps_okE reads keeps_fstat keeps_blkgetsize)
    (simp_all add: close_fd)

lemma image_open: "keeps P (aetherfs_image_open p wr)"
  unfolding aetherfs_image_open_def Let_def
  apply (intro keeps_bindE keeps_cleanupE member_open reads keeps_member_label)
   apply (auto simp: image_close split: option.split)
  done

lemma strict: "keeps P (aetherfs_validate_strict_image p)"
  unfolding aetherfs_validate_strict_image_def
  by (intro keeps_bindE keeps_finallyE image_open reads [OF keeps_calloc] reads [OF keeps_load] reads [OF keeps_validate] keeps_okE)
    (simp_all add: image_close)

end

abbreviation same_files :: "(path \<Rightarrow> vfile option) \<Rightarrow> world \<Rightarrow> bool" where
  "same_files F \<equiv> \<lambda>w. w_files w = F"

interpretation files: fd_blind "same_files F" for F
  by unfold_locales (simp_all add: sched_adv_fields)

lemma files_close [simp]: "w_files (aetherfs_image_close img w) = w_files w"
  using files.image_close [where F = "w_files w"] by simp

interpretation errorless: fd_blind benign
  by unfold_locales (erule benign_adv, assumption, simp add: benign_def)

section \<open>Mounting\<close>

lemma mount_checked:
  assumes "mount_check options w = (Inr ro, w')"
  shows "\<exists>f. w_files w (mo_image_path options) = Some f \<and> bootable (vf_data f)"
    "\<not> ro \<Longrightarrow> \<exists>w''. aetherfs_validate_strict_image (mo_image_path options) w = (Inr (), w'')"
    "mo_behavior options = AETHERFS_MOUNT_RESCUE \<Longrightarrow> ro"
proof -
  let ?p = "mo_image_path options"
  have quick: "\<exists>f. w_files v ?p = Some f \<and> bootable (vf_data f)" if run: "aetherfs_validate_image ?p v = (Inr (), v')" for v v'
  proof -
    obtain fd v1 where "open_file ?p False v = (Inr fd, v1)"
      using run unfolding aetherfs_validate_image_def by (rule bindE_InrE)
    then obtain f where "w_files v ?p = Some f"
      using open_file_sound by blast
    then show ?thesis
      using ensuresD [OF validate_image_sound _ run] by blast
  qed
  obtain r v where s: "aetherfs_validate_strict_image ?p w = (r, v)"
    by fastforce
  have v: "w_files v = w_files w"
    using keepsD [OF files.strict _ s] by simp
  show "\<exists>f. w_files w ?p = Some f \<and> bootable (vf_data f)"
    using assms s v quick [of w] quick [of v] strict_bootable [of ?p w]
    by (cases "mo_behavior options"; cases r) (auto simp: mount_check_def bindE_eq_Inr)
  show "\<exists>w''. aetherfs_validate_strict_image ?p w = (Inr (), w'')" if "\<not> ro"
    using assms s that by (cases "mo_behavior options"; cases r) (auto simp: mount_check_def bindE_eq_Inr)
  show "ro" if "mo_behavior options = AETHERFS_MOUNT_RESCUE"
    using assms that by (auto simp: mount_check_def bindE_eq_Inr)
qed

lemma mount_guarded:
  assumes "aetherfs_run_mount os options w = (Inr (), w')"
  shows "\<exists>f ro w1. w_files w (mo_image_path options) = Some f \<and> bootable (vf_data f) \<and>
    aetherfs_exec_wait os (mount_argv options (vf_kind f = S_IFBLK) ro) True w1 = (Inr (), w') \<and>
    (mo_behavior options = AETHERFS_MOUNT_RESCUE \<longrightarrow> ro) \<and>
    (\<not> ro \<longrightarrow> (\<exists>wa wb. sched_adv w wa \<and> aetherfs_validate_strict_image (mo_image_path options) wa = (Inr (), wb)))"
proof -
  let ?p = "mo_image_path options"
  obtain is_block wa where 1: "aetherfs_source_is_block_device ?p w = (Inr is_block, wa)"
    and run1: "bindE (mount_check options) (\<lambda>force_read_only.
    bindE (aetherfs_ensure_mountpoint options) (\<lambda>_.
    bindE (\<lambda>w. let (registered, w) = aetherfs_filesystem_registered w in
              if registered then (Inr (), w) else aetherfs_try_load_module os (mo_module_path options) w) (\<lambda>_.
    aetherfs_exec_wait os (mount_argv options is_block force_read_only) True))) wa = (Inr (), w')"
    using assms unfolding aetherfs_run_mount_def by (rule bindE_InrE)
  have "keeps (sched_adv w) (aetherfs_source_is_block_device ?p)"
    unfolding aetherfs_source_is_block_device_def by (intro keeps_bindE keeps_stat_kind keeps_okE)
  from keepsD [OF this sched_adv_refl 1] have adv: "sched_adv w wa" .
  obtain ro wb where 2: "mount_check options wa = (Inr ro, wb)"
    and run2: "bindE (aetherfs_ensure_mountpoint options) (\<lambda>_.
    bindE (\<lambda>w. let (registered, w) = aetherfs_filesystem_registered w in
              if registered then (Inr (), w) else aetherfs_try_load_module os (mo_module_path options) w) (\<lambda>_.
    aetherfs_exec_wait os (mount_argv options is_block ro) True)) wb = (Inr (), w')"
    using run1 by (rule bindE_InrE)
  obtain w1 where 3: "aetherfs_exec_wait os (mount_argv options is_block ro) True w1 = (Inr (), w')"
    using run2 by (auto elim!: bindE_InrE)
  obtain f where f: "w_files wa ?p = Some f" "bootable (vf_data f)"
    using mount_checked(1) [OF 2] by blast
  have "is_block = (vf_kind f = S_IFBLK)"
    using 1 f(1) adv by (auto simp: aetherfs_source_is_block_device_def stat_kind_def bindE_eq_Inr sched_adv_fields
        dest!: syscall_adv split: option.splits)
  then show ?thesis
    using f adv 3 mount_checked(2,3) [OF 2] by (auto simp: sched_adv_fields)
qed

end
