(* ===== verification/Rebalance_Sound.thy ===== *)
theory Rebalance_Sound
  imports Rebalance Mount_Sound
begin

text \<open>
  Rebalancing an image in a regular file is all or nothing: until the final \<open>rename\<close> no call
  touches the original, and the file that takes its place has been loaded and validated.
\<close>

section \<open>Calls that leave one file alone\<close>

text \<open>The file at the path is the given one and no descriptor can write it.\<close>

definition intact :: "path \<Rightarrow> vfile \<Rightarrow> world \<Rightarrow> bool" where
  "intact p f w \<longleftrightarrow> w_files w p = Some f \<and> (\<forall>fd. w_fds w fd \<noteq> Some (p, True))"

lemma intact_adv: "sched_adv w w' \<Longrightarrow> intact p f w \<Longrightarrow> intact p f w'"
  by (simp add: intact_def sched_adv_fields)

lemma intact_set_data: "q \<noteq> p \<Longrightarrow> intact p f (set_data q d w) = intact p f w"
  by (simp add: intact_def set_data_def)

lemma intact_close_fd: "intact p f w \<Longrightarrow> intact p f (close_fd fd w)"
  by (simp add: intact_def close_fd_def)

lemma intact_image_close: "intact p f w \<Longrightarrow> intact p f (aetherfs_image_close img w)"
proof -
  have "intact p f v \<Longrightarrow> intact p f (close_members ms v)" for ms v
    by (induction ms arbitrary: v) (simp_all add: close_members_def intact_close_fd)
  then show "intact p f w \<Longrightarrow> intact p f (aetherfs_image_close img w)"
    by (simp add: aetherfs_image_close_def)
qed

text \<open>
  A property that survives the passing of calls and every change of the data of a file that
  is open for writing survives all the calls that write.
\<close>

locale write_stable =
  fixes P :: "world \<Rightarrow> bool"
  assumes adv: "sched_adv w w' \<Longrightarrow> P w \<Longrightarrow> P w'"
    and data: "P w \<Longrightarrow> w_fds w fd = Some (q, True) \<Longrightarrow> P (set_data q d w)"
begin

lemma reads: "(\<And>w0. keeps (sched_adv w0) m) \<Longrightarrow> keeps P m"
  by (rule keeps_adv_mono) (simp_all add: adv)

lemma pwrite: "keeps P (pwrite fd buf off)"
proof (rule keepsI)
  fix w assume w: "P w"
  obtain x w1 where x: "next_outcome w = (x, w1)"
    by fastforce
  then have w1: "P w1" "w_fds w1 = w_fds w"
    using adv [OF next_outcome_adv w] next_outcome_files(2) by blast+
  show "P (snd (pwrite fd buf off w))"
    using w w1 by (auto simp: pwrite_def x data Let_def split: option.split outcome.split)
qed

lemma write_all: "keeps P (aetherfs_write_all fd off buf)"
proof -
  have "P w \<Longrightarrow> write_loop fd off buf k w = (r, w') \<Longrightarrow> P w'" for k w r w'
  proof (induction fd off buf k w rule: write_loop.induct)
    case (1 fd off buf k w)
    obtain s w1 where s: "Blockio.pwrite fd (drop k buf) (off + of_nat k) w = (s, w1)"
      by fastforce
    have w1: "P w1"
      using keepsD [OF pwrite "1.prems"(1) s] .
    show ?case
    proof (cases "k < length buf")
      case True
      then show ?thesis
        using "1.prems"(2) "1.IH"(1) [OF True s [symmetric]] "1.IH"(2) [OF True s [symmetric]] w1 s
        by (subst (asm) write_loop.simps) (auto split: sum.splits if_splits)
    next
      case False
      then show ?thesis
        using "1.prems" by (subst (asm) write_loop.simps) simp
    qed
  qed
  then show ?thesis
    by (intro keepsI) (metis aetherfs_write_all_def prod.collapse)
qed

lemma ftruncate: "keeps P (ftruncate fd n)"
  unfolding ftruncate_def
  by (intro keeps_bindE reads [OF keeps_syscall] keepsI) (auto simp: data split: option.split)

lemma write_block: "keeps P (aetherfs_image_write_block img b buf)"
proof -
  have phys: "keeps P (aetherfs_image_write_physical_member img i b' buf')" for i b' buf'
    unfolding aetherfs_image_write_physical_member_def aetherfs_member_write_block_def
    by (intro keeps_if keeps_failE write_all)
  have rd: "keeps P (aetherfs_image_read_physical_member img i b')" for i b'
    using keeps_read_physical by (rule reads)
  show ?thesis
    unfolding aetherfs_image_write_block_def write_members_def Let_def
    by (intro keeps_if keeps_failE keeps_bindE keeps_forE keeps_liftE phys rd keeps_okE)
qed

lemma copy_file_data: "keeps P (aetherfs_copy_file_data source node tgt dst)"
  unfolding aetherfs_copy_file_data_def Let_def
  by (intro keeps_forE keeps_bindE reads [OF keeps_read_block] write_block keeps_okE)

lemma checksum_chain: "keeps P (aetherfs_write_checksum_chain tgt data remaining csum)"
proof (induction tgt data remaining csum rule: aetherfs_write_checksum_chain.induct)
  case (1 tgt data remaining csum)
  show ?case
  proof (cases "remaining = 0")
    case True
    then show ?thesis
      by (subst aetherfs_write_checksum_chain.simps) simp
  next
    case False
    show ?thesis
      apply (subst aetherfs_write_checksum_chain.simps)
      apply (simp only: False if_False Let_def aetherfs_write_checksum_block_def)
      apply (intro keeps_bindE keeps_forE reads [OF keeps_read_block] write_block keeps_okE)
      apply (rule "1.IH" [OF False refl])
      done
  qed
qed

lemma writes:
  "keeps P (aetherfs_image_write_inode_table img)" "keeps P (aetherfs_image_write_free_extents img)"
  "keeps P (aetherfs_image_write_super img)" "keeps P (aetherfs_image_write_journal img)"
  unfolding aetherfs_image_write_inode_table_def aetherfs_image_write_free_extents_def aetherfs_image_write_super_def
    aetherfs_image_write_journal_def Let_def
  by (intro keeps_bindE write_block keeps_okE)+

lemma rebalance_files: "keeps P (rebalance_files source tgt)"
proof -
  have node: "keeps P (aetherfs_read_extent_node_rb source b)" for b
    unfolding aetherfs_read_extent_node_rb_def Let_def
    by (intro keeps_bindE reads [OF keeps_read_block] keeps_guardE keeps_okE)
  have inode: "keeps P (rebalance_inode source i st)" for i st
    unfolding rebalance_inode_def Let_def case_prod_beta aetherfs_write_extent_node_def
    by (intro keeps_if keeps_bindE keeps_okE keeps_guardE node copy_file_data checksum_chain write_block)
  show ?thesis
    unfolding rebalance_files_def Let_def case_prod_beta
    by (intro keeps_bindE keeps_forE inode keeps_okE reads [OF keeps_load])
qed

lemma rebalance_target: "keeps P (rebalance_target source tgt)"
  unfolding rebalance_target_def rebalance_write_back_def case_prod_beta
  by (intro keeps_bindE rebalance_files writes keeps_okE reads [OF keeps_load] reads [OF keeps_validate])

lemma copy_reserved:
  assumes "copy_reserved_from stale source fd b w = Some (r, w')" "P w"
  shows "P w'"
proof -
  have "P w \<longrightarrow> P (snd rw)" if "copy_reserved_from stale source fd b w = Some rw" for stale source fd b w rw
    using that
  proof (rule copy_reserved_from.raw_induct [rotated, consumes 1])
    fix copy stale source fd b w rw
    assume 1: "\<And>stale source fd b w rw. copy stale source fd b w = Some rw \<Longrightarrow> P w \<longrightarrow> P (snd rw)"
      "(if \<not> b < 8 then Some (Inr (), w)
     else case aetherfs_image_read_block source (of_nat b) w of
       (Inl e, w) \<Rightarrow> Some (Inl e, w)
     | (Inr block, w) \<Rightarrow>
         (case Blockio.pwrite fd block (of_nat b * 4096) w of
            (r, w) \<Rightarrow>
              (case write_answer stale r of
                 None \<Rightarrow> copy stale source fd (Suc b) w
               | Some None \<Rightarrow> Some (Inr (), w)
               | Some (Some e) \<Rightarrow>
                   if e = EINTR then copy stale source fd b w else Some (Inl e, w)))) = Some rw"
    show "P w \<longrightarrow> P (snd rw)"
    proof
      assume w: "P w"
      obtain s w1 where s: "aetherfs_image_read_block source (of_nat b) w = (s, w1)"
        by fastforce
      have w1: "P w1"
        using keepsD [OF reads [OF keeps_read_block] w s] .
      show "P (snd rw)"
      proof (cases "b < 8 \<and> \<not> isl s")
        case False
        then show ?thesis
          using "1"(2) w w1 s by (auto split: if_splits sum.splits)
      next
        case True
        then obtain block where block: "s = Inr block"
          by (cases s) auto
        obtain t w2 where t: "Blockio.pwrite fd block (of_nat b * 4096) w1 = (t, w2)"
          by fastforce
        have w2: "P w2"
          using keepsD [OF pwrite w1 t] .
        show ?thesis
          using "1"(2) "1"(1) w2 s t True block
          by (auto split: if_splits option.splits)
      qed
    qed
  qed
  from this [OF assms(1)] show ?thesis
    using assms(2) by simp
qed

end

interpretation intact: write_stable "intact p f" for p f
  by unfold_locales (auto simp: intact_def set_data_def sched_adv_fields)

interpretation fds: write_stable "\<lambda>w. w_fds w = F" for F
  by unfold_locales (simp_all add: sched_adv_fields)

lemma intact_open: "q \<noteq> p \<or> \<not> wr \<Longrightarrow> keeps (intact p f) (open_file q wr)"
  unfolding open_file_def
  by (intro keeps_bindE intact.reads [OF keeps_syscall] keepsI) (auto simp: intact_def split: option.split)

lemma intact_open_trunc: "q \<noteq> p \<Longrightarrow> keeps (intact p f) (open_rdwr_trunc q)"
  unfolding open_rdwr_trunc_def by (intro keeps_bindE intact_open keepsI) (simp_all add: intact_set_data)

lemma intact_unlink: "q \<noteq> p \<Longrightarrow> intact p f w \<Longrightarrow> intact p f (unlink_file q w)"
  using intact_adv [OF syscall_adv, of w] by (auto simp: unlink_file_def intact_def split: prod.split sum.split)

lemma intact_mkstemp:
  "ensures (intact p f) (mkstemp pick t) (\<lambda>r w. intact p f w \<and> fst r \<noteq> p)"
  "keeps (intact p f) (mkstemp pick t)"
proof -
  show "ensures (intact p f) (mkstemp pick t) (\<lambda>r w. intact p f w \<and> fst r \<noteq> p)"
    unfolding mkstemp_def
  proof (rule ensures_bindE [OF ensures_keeps [OF intact.reads [OF keeps_syscall]]], rule ensuresI)
    fix x :: unit and w r w'
    assume "intact p f w" "(let p = take (length t - 6) t @ pick t w in
     if w_files w p \<noteq> None then (Inl EEXIST, w)
     else (Inr (p, w_nextfd w),
       w\<lparr>w_files := (w_files w)(p \<mapsto> \<lparr>vf_kind = S_IFREG, vf_readonly = False, vf_data = []\<rparr>),
         w_fds := (w_fds w)(w_nextfd w := Some (p, True)), w_nextfd := w_nextfd w + 1\<rparr>)) = (Inr r, w')"
    then show "intact p f w' \<and> fst r \<noteq> p"
      by (auto simp: intact_def Let_def split: if_splits)
  qed
  show "keeps (intact p f) (mkstemp pick t)"
    unfolding mkstemp_def
    by (intro keeps_bindE intact.reads [OF keeps_syscall] keepsI) (auto simp: intact_def Let_def)
qed

section \<open>The temporary path\<close>

text \<open>\<open>statvfs\<close> changes nothing.\<close>

definition statvfs_reads :: "temp_os \<Rightarrow> bool" where
  "statvfs_reads os \<longleftrightarrow> (\<forall>q w r w'. to_statvfs os q w = (r, w') \<longrightarrow> sched_adv w w')"

lemma ensures_keeps_both:
  assumes "keeps P m" "ensures P m (\<lambda>x w. Q x)"
  shows "ensures P m (\<lambda>x w. P w \<and> Q x)"
  using assms unfolding ensures_def keeps_def by (metis snd_conv)

lemma temp_path:
  assumes "statvfs_reads os"
  shows "keeps (intact p f) (aetherfs_image_make_temp_path os q n)"
    "ensures (intact p f) (aetherfs_image_make_temp_path os q n) (\<lambda>t w. intact p f w \<and> t \<noteq> p)"
proof -
  have space: "intact p f w'" if "intact p f w" "aetherfs_dir_has_space os d n w = (b, w')" for d w b w'
  proof -
    obtain r v where r: "to_statvfs os d w = (r, v)"
      by fastforce
    then have "w' = v"
      using that(2) by (auto simp: aetherfs_dir_has_space_def split: prod.splits sum.splits)
    then show ?thesis
      using r assms intact_adv [OF _ that(1)] by (simp add: statvfs_reads_def)
  qed
  have in_dir: "keeps (intact p f) (aetherfs_make_temp_path_in_dir os d name)"
    "ensures (intact p f) (aetherfs_make_temp_path_in_dir os d name) (\<lambda>t w. intact p f w \<and> t \<noteq> p)" for d name
  proof -
    show "keeps (intact p f) (aetherfs_make_temp_path_in_dir os d name)"
      unfolding aetherfs_make_temp_path_in_dir_def
      by (intro keeps_bindE intact.reads [OF keeps_calloc] intact_mkstemp keepsI) (auto simp: intact_close_fd)
    show "ensures (intact p f) (aetherfs_make_temp_path_in_dir os d name) (\<lambda>t w. intact p f w \<and> t \<noteq> p)"
      unfolding aetherfs_make_temp_path_in_dir_def
      by (rule ensures_bindE [OF ensures_keeps [OF intact.reads [OF keeps_calloc]]], rule ensures_bindE [OF intact_mkstemp(1)])
        (auto simp: ensures_def intact_close_fd)
  qed
  have tryK: "keeps (intact p f) (try_candidates os n name ds)" for name ds
  proof (rule keepsI)
    show "intact p f (snd (try_candidates os n name ds w))" if "intact p f w" for w
      using that
    proof (induction ds arbitrary: w)
      case (Cons d ds)
      obtain b w1 where 1: "aetherfs_dir_has_space os d n w = (b, w1)"
        by fastforce
      then show ?case
        using Cons.IH [of w1] space [OF Cons.prems 1] in_dir(1) [of d name] by (simp add: keeps_def)
    qed simp
  qed
  have tryE: "ensures (intact p f) (try_candidates os n name ds) (\<lambda>t w. intact p f w \<and> t \<noteq> p)" for name ds
  proof (rule ensuresI)
    show "intact p f w' \<and> t \<noteq> p" if "intact p f w" "try_candidates os n name ds w = (Inr t, w')" for w t w'
      using that
    proof (induction ds arbitrary: w)
      case (Cons d ds)
      obtain b w1 where 1: "aetherfs_dir_has_space os d n w = (b, w1)"
        by fastforce
      then show ?case
        using Cons.IH [of w1] Cons.prems(2) space [OF Cons.prems(1) 1] ensuresD [OF in_dir(2), of w1 d name t w']
        by (simp split: if_splits)
    qed simp
  qed
  show "keeps (intact p f) (aetherfs_image_make_temp_path os q n)"
    unfolding aetherfs_image_make_temp_path_def
    by (intro keeps_bindE keeps_if keeps_okE intact.reads [OF keeps_calloc] intact.reads [OF keeps_stat_kind] tryK)
  show "ensures (intact p f) (aetherfs_image_make_temp_path os q n) (\<lambda>t w. intact p f w \<and> t \<noteq> p)"
    unfolding aetherfs_image_make_temp_path_def
    by (intro ensures_bindE [OF ensures_keeps [OF intact.reads [OF keeps_stat_kind]]]
        ensures_bindE [OF ensures_keeps [OF intact.reads [OF keeps_calloc]]]
        ensures_bindE [OF ensures_keeps [OF keeps_if [OF intact.reads [OF keeps_calloc] keeps_okE]]] tryE)
qed

lemma intact_image_open:
  assumes "q \<noteq> p \<or> \<not> wr"
  shows "keeps (intact p f) (aetherfs_image_open q wr)"
proof -
  have "keeps (intact p f) (aetherfs_member_open_path q wr)"
    unfolding aetherfs_member_open_path_def case_prod_beta
    by (intro keeps_bindE keeps_cleanupE intact_open assms keeps_guardE keeps_if keeps_okE intact.reads [OF keeps_fstat]
        intact.reads [OF keeps_blkgetsize] intact_close_fd)
  then show ?thesis
    unfolding aetherfs_image_open_def Let_def
    apply (intro keeps_bindE keeps_cleanupE intact.reads [OF keeps_member_label])
      apply (auto split: option.split simp: intact_image_close)
    done
qed

section \<open>The image that is rewritten\<close>

lemma ensures_any: "(\<And>x. ensures (\<lambda>_. True) (g x) Q) \<Longrightarrow> ensures (\<lambda>_. True) (bindE m g) Q"
  unfolding ensures_def by (metis bindE_InrE)

definition same_members :: "image \<Rightarrow> image \<Rightarrow> bool" where
  "same_members a b \<longleftrightarrow> img_members b = img_members a \<and> img_member_count b = img_member_count a \<and>
     img_is_block_device b = img_is_block_device a"

lemma same_members_refl [simp]: "same_members a a"
  by (simp add: same_members_def)

lemma same_members_trans: "same_members a b \<Longrightarrow> same_members b c \<Longrightarrow> same_members a c"
  by (simp add: same_members_def)

lemma load_members: "ensures (\<lambda>_. True) (aetherfs_image_load img) (\<lambda>img' _. same_members img img')"
  unfolding aetherfs_image_load_def Let_def
  by (intro ensures_any) (simp add: ensures_def same_members_def)

lemma write_members_same:
  "ensures (\<lambda>_. True) (aetherfs_image_write_free_extents img) (\<lambda>img' _. same_members img img')"
  "ensures (\<lambda>_. True) (aetherfs_image_write_super img) (\<lambda>img' _. same_members img img')"
  "ensures (\<lambda>_. True) (aetherfs_image_write_journal img) (\<lambda>img' _. same_members img img')"
  unfolding aetherfs_image_write_free_extents_def aetherfs_image_write_super_def aetherfs_image_write_journal_def Let_def
  by (intro ensures_any; simp add: ensures_def same_members_def)+

lemma inode_members: "ensures (\<lambda>_. True) (rebalance_inode source i st) (\<lambda>st' _. same_members (fst st) (fst st'))"
proof -
  have "same_members img (set_extent_root i r img)" for r img
    by (simp add: set_extent_root_def same_members_def Let_def)
  then show ?thesis
    unfolding rebalance_inode_def Let_def case_prod_beta
    by (auto simp: ensures_def bindE_eq_Inr)
qed

lemma inodes_members: "ensures (\<lambda>_. True) (forE (rebalance_inode source) is st) (\<lambda>st' _. same_members (fst st) (fst st'))"
proof (induction "is" arbitrary: st)
  case (Cons i "is")
  show ?case
    unfolding forE.simps ensures_def
    using inode_members [of source i st] Cons.IH same_members_trans by (fastforce simp: ensures_def bindE_eq_Inr)
qed (simp add: ensures_def)

lemma files_members: "ensures (\<lambda>_. True) (rebalance_files source tgt) (\<lambda>x _. same_members tgt (fst x))"
proof (rule ensuresI)
  fix w x w' assume "rebalance_files source tgt w = (Inr x, w')"
  then obtain t w1 y where t: "aetherfs_image_load tgt w = (Inr t, w1)"
    "forE (rebalance_inode source) [1..<AETHERFS_MAX_INODES] (t\<lparr>img_free_extents := zero_extent_node\<rparr>, AETHERFS_DATA_START_BLOCK) w1 = (Inr y, w')"
    "fst x = set_free_space (snd y) (fst y)"
    unfolding rebalance_files_def by (auto simp: bindE_eq_Inr)
  have "same_members tgt t"
    using ensuresD [OF load_members _ t(1)] by simp
  moreover have "same_members (t\<lparr>img_free_extents := zero_extent_node\<rparr>) (fst y)"
    using ensuresD [OF inodes_members _ t(2)] by simp
  moreover have "same_members (fst y) (fst x)"
    by (simp add: t(3) set_free_space_def same_members_def Let_def)
  ultimately show "same_members tgt (fst x)"
    by (simp add: same_members_def)
qed

text \<open>The last two steps: the target is loaded from its blocks and validated.\<close>

lemma write_back_validated:
  assumes "rebalance_write_back tgt w = (Inr (tgt', rep), w')"
  shows "\<exists>t wa wb. same_members tgt t \<and> same_members tgt tgt' \<and> w_fds wa = w_fds w \<and>
    aetherfs_image_load t wa = (Inr tgt', wb) \<and> aetherfs_image_validate tgt' wb = (Inr rep, w')"
proof -
  obtain w1 t2 w2 t3 w3 t4 w4 w5 where 1: "aetherfs_image_write_inode_table tgt w = (Inr (), w1)"
    and 2: "aetherfs_image_write_free_extents tgt w1 = (Inr t2, w2)" and 3: "aetherfs_image_write_super t2 w2 = (Inr t3, w3)"
    and 4: "aetherfs_image_write_journal t3 w3 = (Inr t4, w4)" and 5: "aetherfs_image_load t4 w4 = (Inr tgt', w5)"
    and 6: "aetherfs_image_validate tgt' w5 = (Inr rep, w')"
    using assms unfolding rebalance_write_back_def by (auto simp: bindE_eq_Inr)
  have "w_fds w4 = w_fds w"
    using keepsD [OF fds.writes(1) _ 1] keepsD [OF fds.writes(2) _ 2] keepsD [OF fds.writes(3) _ 3] keepsD [OF fds.writes(4) _ 4]
    by simp
  moreover have "same_members tgt t4"
    using ensuresD [OF write_members_same(1) _ 2] ensuresD [OF write_members_same(2) _ 3] ensuresD [OF write_members_same(3) _ 4]
    by (simp add: same_members_def)
  moreover from this have "same_members tgt tgt'"
    using ensuresD [OF load_members _ 5] by (simp add: same_members_def)
  ultimately show ?thesis
    using 5 6 by blast
qed

section \<open>All or nothing\<close>

lemma intact_out_cleanup: "t \<noteq> p \<Longrightarrow> intact p f w \<Longrightarrow> intact p f (out_cleanup (Some t) w)"
  by (simp add: out_cleanup_def intact_unlink)

lemma intact_out_source: "(\<And>t. temp = Some t \<Longrightarrow> t \<noteq> p) \<Longrightarrow> intact p f w \<Longrightarrow> intact p f (out_source source fd temp w)"
  by (cases fd; cases temp) (simp_all add: out_source_def out_cleanup_def intact_image_close intact_close_fd intact_unlink)

lemma yields_guardE: "yields P (guardE b e) (\<lambda>_. True)"
  by (rule yields_keeps) simp

lemma rebalance_open_yields:
  assumes "statvfs_reads os" "vf_kind f = S_IFREG"
  shows "yields (intact p f) (rebalance_open os p) (\<lambda>(source, temp, fd). temp \<noteq> p \<and> \<not> img_is_block_device source)"
proof -
  have op: "yields (intact p f) (aetherfs_image_open p False) (\<lambda>img. \<not> img_is_block_device img)"
    using image_open_single [of p f False] assms(2)
    by (intro yieldsI intact_image_open) (auto simp: ensures_def intact_def)
  have ld: "yields (intact p f) (aetherfs_image_load img) (\<lambda>img'. \<not> img_is_block_device img')" if "\<not> img_is_block_device img" for img
    using load_members [of img] that
    by (intro yieldsI intact.reads [OF keeps_load]) (auto simp: ensures_def same_members_def)
  have tp: "yields (intact p f) (aetherfs_image_make_temp_path os p n) (\<lambda>t. t \<noteq> p)" for n
    using temp_path [OF assms(1)] by (intro yieldsI) (auto simp: ensures_def)
  have callocs: "yields (intact p f) (bindE calloc (\<lambda>_. bindE calloc (\<lambda>_. calloc))) (\<lambda>_. True)"
    by (intro yields_keeps keeps_bindE intact.reads [OF keeps_calloc])
  show ?thesis
    unfolding rebalance_open_def
    apply (rule yields_bindE [OF callocs], rule yields_bindE [OF op])
    apply (rule yields_bindE [where C = "\<lambda>(s, t). t \<noteq> p \<and> \<not> img_is_block_device s"])
     apply (rule yields_cleanupE)
      apply (rule yields_bindE [OF yields_guardE], rule yields_bindE [OF ld], assumption)
      apply (rule yields_bindE [OF yields_keeps [OF intact.reads [OF keeps_validate]]], rule yields_bindE [OF tp], rule yields_okE)
      apply simp
     apply (rule intact_out_source, simp, assumption)
    apply (clarsimp simp del: not_None_eq)
    apply (rule yields_bindE [OF yields_cleanupE [OF yields_keeps [OF intact_open_trunc]]], assumption)
     apply (rule intact_out_source, simp, assumption)
    apply (rule yields_bindE [OF yields_cleanupE [OF yields_keeps [OF intact.ftruncate]]])
     apply (rule intact_out_source, simp, assumption)
    apply (rule yields_okE, simp)
    done
qed

text \<open>A report was obtained from the image in the file \<open>g\<close> by loading and validating it.\<close>

definition validated :: "vfile \<Rightarrow> scrub_report \<Rightarrow> bool" where
  "validated g rep \<longleftrightarrow> (\<exists>t img img' wa wb wc. opened_single t g img wa \<and> aetherfs_image_load img wa = (Inr img', wb) \<and>
     aetherfs_image_validate img' wb = (Inr rep, wc))"

lemma rename_Inr:
  assumes "rename_file t p w = (Inr (), w')" "t \<noteq> p"
  shows "\<exists>g. w_files w t = Some g \<and> w_files w' = (w_files w)(p \<mapsto> g, t := None)"
proof -
  obtain w0 where 0: "syscall w = (Inr (), w0)"
    and run: "(case w_files w0 t of None \<Rightarrow> (Inl ENOENT, w0)
     | Some f \<Rightarrow> (Inr (), if t = p then w0 else w0\<lparr>w_files := (w_files w0)(p \<mapsto> f, t := None)\<rparr>)) = (Inr (), w')"
    using assms(1) unfolding rename_file_def by (auto elim: bindE_InrE)
  then show ?thesis
    using syscall_adv [OF 0] assms(2) by (auto simp: sched_adv_fields split: option.splits)
qed

lemma target_validated:
  assumes "temp \<noteq> p" "aetherfs_image_open temp True w = (Inr tgt, w1)" "rebalance_target source tgt w1 = (Inr (nb, tgt', rep), w2)"
    and "w_files w2 temp = Some g"
  shows "validated g rep"
proof -
  obtain t wa where 1: "rebalance_files source tgt w1 = (Inr (t, nb), wa)" and 2: "rebalance_write_back t wa = (Inr (tgt', rep), w2)"
    using assms(3) unfolding rebalance_target_def by (auto simp: bindE_eq_Inr)
  obtain u wb wc where u: "same_members t u" "same_members t tgt'" "w_fds wb = w_fds wa"
    "aetherfs_image_load u wb = (Inr tgt', wc)" "aetherfs_image_validate tgt' wc = (Inr rep, w2)"
    using write_back_validated [OF 2] by blast
  have files: "w_files wb = w_files w2"
    using keepsD [OF keeps_load sched_adv_refl u(4)] keepsD [OF keeps_validate sched_adv_refl u(5)] by (simp add: sched_adv_fields)
  have m: "same_members tgt u"
    using ensuresD [OF files_members _ 1] u(1) by (simp add: same_members_def)
  obtain f where "w_files w temp = Some f"
  proof -
    obtain m w5 where "aetherfs_member_open_path temp True w = (Inr m, w5)"
      using assms(2) unfolding aetherfs_image_open_def by (rule bindE_InrE)
    then obtain fd w6 where "open_file temp True w = (Inr fd, w6)"
      unfolding aetherfs_member_open_path_def by (rule bindE_InrE)
    then show ?thesis
      using that open_file_sound by metis
  qed
  then have "opened_single temp f tgt w1"
    using ensuresD [OF image_open_single _ assms(2)] by blast
  then have "w_fds wb (im_fd (img_members u ! 0)) = w_fds w1 (im_fd (img_members tgt ! 0))" "img_member_count u = 1"
    using m u(3) keepsD [OF fds.rebalance_files _ 1, of "w_fds w1"] by (simp_all add: same_members_def opened_single_def)
  then have "opened_single temp g u wb"
    using \<open>opened_single temp f tgt w1\<close> assms(4) files by (auto simp: opened_single_def view_def)
  then show ?thesis
    using u(4,5) unfolding validated_def by blast
qed

lemma rebalance_rest_atomic:
  assumes "temp \<noteq> p" "\<not> img_is_block_device source" "intact p f w" "rebalance_rest p source temp w = (r, w')"
  shows "case r of Inl e \<Rightarrow> w_files w' p = Some f | Inr rep \<Rightarrow> \<exists>g. w_files w' p = Some g \<and> validated g rep"
proof -
  have out: "intact p f (out_source source fd (Some temp) v)" "intact p f (out_cleanup (Some temp) v)" if "intact p f v" for fd v
    using that assms(1) by (auto intro: intact_out_source intact_out_cleanup)
  obtain r1 w1 where 1: "aetherfs_image_open temp True w = (r1, w1)"
    by fastforce
  have i1: "intact p f w1"
    using keepsD [OF intact_image_open _ 1] assms(1,3) by blast
  show ?thesis
  proof (cases r1)
    case (Inl e)
    then have "r = Inl e" "w' = out_source source None (Some temp) w1"
      using assms(4) 1 by (simp_all add: rebalance_rest_def bindE_def cleanupE_def)
    then show ?thesis
      using out(1) [OF i1, of None] by (simp add: intact_def)
  next
    case (Inr tgt)
    obtain r2 w2 where 2: "rebalance_target source tgt w1 = (r2, w2)"
      by fastforce
    have i2: "intact p f w2"
      using keepsD [OF intact.rebalance_target i1 2] .
    show ?thesis
    proof (cases r2)
      case (Inl e)
      then have "r = Inl e" "w' = out_source source None (Some temp) (aetherfs_image_close tgt w2)"
        using assms(4) 1 2 \<open>r1 = Inr tgt\<close> by (simp_all add: rebalance_rest_def bindE_def cleanupE_def)
      then show ?thesis
        using out(1) [OF intact_image_close [OF i2], of None] by (simp add: intact_def)
    next
      case (Inr x)
      obtain nb tgt' rep where x: "x = (nb, tgt', rep)"
        by (cases x)
      let ?w3 = "aetherfs_image_close source (aetherfs_image_close tgt' w2)"
      have i3: "intact p f ?w3"
        using i2 by (intro intact_image_close)
      obtain r4 w4 where 4: "rename_file temp p ?w3 = (r4, w4)"
        by fastforce
      have run: "rebalance_rest p source temp w = bindE (\<lambda>w. bindE (cleanupE (rename_file temp p) (out_cleanup (Some temp))) (\<lambda>_. okE rep)
          (aetherfs_image_close source (aetherfs_image_close tgt' w))) (\<lambda>report w.
          (Inr report, unlink_file temp (aetherfs_image_close source w))) w2"
        using 1 2 \<open>r1 = Inr tgt\<close> Inr x assms(2)
        by (simp add: rebalance_rest_def rebalance_replace_def bindE_def cleanupE_def)
      show ?thesis
      proof (cases r4)
        case (Inl e)
        have "w_files w4 p = Some f"
        proof -
          have "w_files w4 = w_files ?w3"
            using 4 Inl syscall_adv by (fastforce simp: rename_file_def bindE_def sched_adv_fields split: prod.splits sum.splits option.splits)
          then show ?thesis
            using i3 by (simp add: intact_def)
        qed
        moreover have "r = Inl e" "w' = out_cleanup (Some temp) w4"
          using assms(4) run 4 Inl by (simp_all add: bindE_def cleanupE_def)
        ultimately show ?thesis
          using assms(1) syscall_adv [of w4]
          by (auto simp: out_cleanup_def unlink_file_def sched_adv_fields split: prod.splits sum.splits)
      next
        case (Inr u)
        obtain g where g: "w_files ?w3 temp = Some g" "w_files w4 = (w_files ?w3)(p \<mapsto> g, temp := None)"
          using rename_Inr [of temp p ?w3 w4] 4 Inr assms(1) by auto
        have "r = Inr rep" "w' = unlink_file temp (aetherfs_image_close source w4)"
          using assms(4) run 4 Inr by (simp_all add: bindE_def cleanupE_def)
        moreover have "w_files (unlink_file temp v) p = w_files v p" for v
          using assms(1) syscall_adv [of v] by (auto simp: unlink_file_def sched_adv_fields split: prod.splits sum.splits)
        moreover have "validated g rep"
          using target_validated [OF assms(1)] 1 2 \<open>r1 = Inr tgt\<close> \<open>r2 = Inr x\<close> x g(1) by simp
        ultimately show ?thesis
          using g(2) assms(1) by simp
      qed
    qed
  qed
qed

text \<open>
  Whatever happens, the path names either the original file or one that has been loaded and
  validated, and it names the original when the command fails.
\<close>

lemma rebalance_all_or_nothing:
  assumes "statvfs_reads os" "vf_kind f = S_IFREG" "intact p f w" "aetherfs_run_rebalance os stale p w = Some (r, w')"
  shows "case r of Inl e \<Rightarrow> w_files w' p = Some f | Inr rep \<Rightarrow> \<exists>g. w_files w' p = Some g \<and> validated g rep"
proof -
  obtain s w1 where 1: "rebalance_open os p w = (s, w1)"
    by fastforce
  note y = yieldsD [OF rebalance_open_yields [OF assms(1,2)] assms(3) 1]
  show ?thesis
  proof (cases s)
    case (Inl e)
    then show ?thesis
      using assms(4) 1 y by (auto simp: aetherfs_run_rebalance_def intact_def)
  next
    case (Inr x)
    obtain source temp fd where x: "x = (source, temp, fd)"
      by (cases x)
    have t: "intact p f w1" "temp \<noteq> p" "\<not> img_is_block_device source"
      using y Inr x by auto
    obtain r2 w2 where 2: "copy_reserved_from stale source fd 0 w1 = Some (r2, w2)"
      using assms(4) 1 Inr x by (auto simp: aetherfs_run_rebalance_def aetherfs_copy_reserved_blocks_def split: option.splits)
    have i2: "intact p f w2"
      using intact.copy_reserved [OF 2 t(1)] .
    show ?thesis
    proof (cases r2)
      case (Inl e)
      then have "r = Inl e" "w' = out_source source (Some fd) (Some temp) w2"
        using assms(4) 1 2 \<open>s = Inr x\<close> x by (simp_all add: aetherfs_run_rebalance_def aetherfs_copy_reserved_blocks_def)
      then show ?thesis
        using intact_out_source [of "Some temp" p f w2 source "Some fd"] t(2) i2 by (simp add: intact_def)
    next
      case (Inr u)
      then have "rebalance_rest p source temp (close_fd fd w2) = (r, w')"
        using assms(4) 1 2 \<open>s = Inr x\<close> x by (simp add: aetherfs_run_rebalance_def aetherfs_copy_reserved_blocks_def)
      from rebalance_rest_atomic [OF t(2,3) intact_close_fd [OF i2] this] show ?thesis .
    qed
  qed
qed

section \<open>The copy of the reserved blocks ends\<close>

lemma read_all_length: "aetherfs_read_all fd off n w = (Inr bs, w') \<Longrightarrow> length bs = n"
proof -
  have "length acc \<le> len \<Longrightarrow> read_loop fd off len acc w = (Inr bs, w') \<Longrightarrow> length bs = len" for len acc w
  proof (induction fd off len acc w rule: read_loop.induct)
    case (1 fd off len acc w)
    obtain r w1 where p: "pread fd (len - length acc) (off + of_nat (length acc)) w = (r, w1)"
      by fastforce
    show ?case
    proof (cases "length acc < len")
      case True
      have run: "(case (r, w1) of (Inl e, w') \<Rightarrow> if e = EINTR then read_loop fd off len acc w' else (Inl e, w')
        | (Inr bs, w') \<Rightarrow> if bs = [] then (Inl EIO, w') else read_loop fd off len (acc @ bs) w') = (Inr bs, w')"
        using "1.prems"(2) True p by (subst (asm) read_loop.simps) simp
      show ?thesis
      proof (cases r)
        case (Inl e)
        then show ?thesis
          using run "1.IH"(1) [OF True p [symmetric] Inl] "1.prems"(1) by (simp split: if_splits)
      next
        case (Inr b)
        then show ?thesis
          using run "1.IH"(2) [OF True p [symmetric] Inr] pread_data [OF p [unfolded Inr]] "1.prems"(1) by (simp split: if_splits)
      qed
    next
      case False
      then show ?thesis
        using "1.prems" by (subst (asm) read_loop.simps) simp
    qed
  qed
  from this [of "[]" n w] show "aetherfs_read_all fd off n w = (Inr bs, w') \<Longrightarrow> length bs = n"
    by (simp add: aetherfs_read_all_def)
qed

lemma read_block_length: "aetherfs_image_read_block img b w = (Inr bs, w') \<Longrightarrow> length bs = 4096"
proof -
  have phys: "aetherfs_image_read_physical_member img i c v = (Inr bs, v') \<Longrightarrow> length bs = 4096" for i c v v'
    by (auto simp: aetherfs_image_read_physical_member_def aetherfs_member_read_block_def dest: read_all_length split: if_splits)
  have "read_any_member img b is v = (Inr bs, v') \<Longrightarrow> length bs = 4096" for "is" v v'
    by (induction "is" arbitrary: v) (auto dest: phys split: prod.splits sum.splits)
  then show "aetherfs_image_read_block img b w = (Inr bs, w') \<Longrightarrow> length bs = 4096"
    using phys by (auto simp: aetherfs_image_read_block_def bindE_eq_Inr split: if_splits)
qed

definition writes_regular :: "int \<Rightarrow> world \<Rightarrow> bool" where
  "writes_regular fd w \<longleftrightarrow> (\<exists>q f. w_fds w fd = Some (q, True) \<and> w_files w q = Some f \<and> vf_kind f = S_IFREG)"

interpretation regular: write_stable "writes_regular fd" for fd
proof
  show "writes_regular fd w'" if "sched_adv w w'" "writes_regular fd w" for w w'
    using that unfolding writes_regular_def by (simp only: sched_adv_fields)
  show "writes_regular fd (set_data q d w)" if w: "writes_regular fd w" for w q d
  proof -
    obtain r f where "w_fds w fd = Some (r, True)" "w_files w r = Some f" "vf_kind f = S_IFREG"
      using w unfolding writes_regular_def by blast
    then show ?thesis
      by (cases "r = q") (simp_all add: writes_regular_def set_data_def)
  qed
qed

lemma pwrite_short_sched:
  assumes "writes_regular fd w" "pwrite fd buf off w = (Inr n, w')" "n \<noteq> length buf"
  shows "length (w_sched w') < length (w_sched w)"
proof -
  obtain x w1 where x: "next_outcome w = (x, w1)"
    by fastforce
  have "x \<noteq> Io_full"
    using assms x by (auto simp: writes_regular_def pwrite_def pwrite_room_def xfer_len_def Let_def split: if_splits)
  then have "length (w_sched w1) < length (w_sched w)"
    using next_outcome_sched(2) [OF x] by simp
  then show ?thesis
    using assms(1,2) x by (auto simp: writes_regular_def pwrite_def Let_def split: outcome.splits if_splits)
qed

lemma copy_reserved_returns:
  assumes "writes_regular fd w"
  shows "\<exists>r. copy_reserved_from stale source fd b w = Some r"
  using assms
proof (induction "length (w_sched w) + (8 - b)" arbitrary: b w rule: less_induct)
  case less
  obtain s w1 where s: "aetherfs_image_read_block source (of_nat b) w = (s, w1)"
    by fastforce
  show ?case
  proof (cases "b < 8 \<and> \<not> isl s")
    case False
    then show ?thesis
      using s by (subst copy_reserved_from.simps) (auto split: sum.splits)
  next
    case True
    then obtain block where block: "s = Inr block" "length block = 4096"
      using s read_block_length by (cases s) auto
    obtain t w2 where t: "pwrite fd block (of_nat b * 4096) w1 = (t, w2)"
      by fastforce
    have w1: "writes_regular fd w1" "length (w_sched w1) \<le> length (w_sched w)"
      using keepsD [OF regular.reads [OF keeps_read_block] less.prems s] read_block_sched [OF s] by simp_all
    have w2: "writes_regular fd w2"
      using keepsD [OF regular.pwrite w1(1) t] .
    have step: "\<exists>r. copy_reserved_from stale source fd (Suc b) w2 = Some r"
    proof (rule less.hyps [OF _ w2])
      show "length (w_sched w2) + (8 - Suc b) < length (w_sched w) + (8 - b)"
        using w1(2) pwrite_sched [OF t] True by linarith
    qed
    have retry: "\<exists>r. copy_reserved_from stale source fd b w2 = Some r" if "length (w_sched w2) < length (w_sched w1)"
      using less.hyps [OF _ w2, of b] w1(2) that by simp
    show ?thesis
    proof (cases "write_answer stale t")
      case None
      then show ?thesis
        using True s t block step by (subst copy_reserved_from.simps) simp
    next
      case (Some a)
      have "\<exists>r. copy_reserved_from stale source fd b w2 = Some r" if "a = Some EINTR"
      proof (rule retry, cases t)
        case (Inl e)
        then show "length (w_sched w2) < length (w_sched w1)"
          using Some that pwrite_intr [of fd block _ w1 w2] t by (simp add: write_answer_def)
      next
        case (Inr n)
        then show "length (w_sched w2) < length (w_sched w1)"
          using Some pwrite_short_sched [OF w1(1), of block _ n w2] t block(2) by (auto simp: write_answer_def split: if_splits)
      qed
      then show ?thesis
        using True s t block Some by (subst copy_reserved_from.simps) (auto split: option.split)
    qed
  qed
qed

section \<open>Empty files\<close>

lemma rebalance_empty_file:
  assumes "aetherfs_image_bitmap_test (img_inode_bitmap tgt) i" "S_ISREG (i_mode (img_inode_table tgt ! i))"
    and "0 < i" "i < length (img_inode_table tgt)" "i_blocks (img_inode_table source ! i) = 0"
  shows "\<exists>tgt'. rebalance_inode source i (tgt, nb) = okE (tgt', nb) \<and> (\<forall>refs st w. \<exists>e. validate_inode tgt' refs i st w = (Inl e, w))"
proof -
  let ?n = "(img_inode_table tgt ! i)\<lparr>i_extent_root := 0\<rparr>"
  have "rebalance_inode source i (tgt, nb) = okE (set_extent_root i 0 tgt, nb)"
    using assms by (simp add: rebalance_inode_def Let_def)
  moreover have "img_inode_table (set_extent_root i 0 tgt) ! i = ?n\<lparr>i_checksum := aetherfs_inode_checksum ?n\<rparr>"
    "img_inode_bitmap (set_extent_root i 0 tgt) = img_inode_bitmap tgt"
    using assms(4) by (simp_all add: set_extent_root_def Let_def)
  then have "\<exists>e. validate_inode (set_extent_root i 0 tgt) refs i st w = (Inl e, w)" for refs st w
    using assms(1,3) by (simp add: validate_inode_def validate_file_def Let_def)
  ultimately show ?thesis
    by blast
qed

end
