(* ===== verification/Tools_Sound.thy ===== *)
theory Tools_Sound
  imports Rebalance_Sound
begin

text \<open>
  The tools side by side: what the formatter leaves alone, and what the other commands say of
  the image it wrote.
\<close>

section \<open>The strict mount check is a scrub\<close>

lemma finallyE_drop: "finallyE (bindE m (\<lambda>_. okE ())) c = bindE (finallyE m c) (\<lambda>_. okE ())"
  by (auto simp: fun_eq_iff finallyE_def bindE_def okE_def split: prod.split sum.split)

lemma strict_scrub:
  "aetherfs_validate_strict_image p = bindE (aetherfs_run_scrub \<lparr>sc_path = p, sc_members = []\<rparr>) (\<lambda>_. okE ())"
proof -
  have drop: "bindE (aetherfs_image_load img) (\<lambda>img. bindE (aetherfs_image_validate img) (\<lambda>_. okE ())) =
    bindE (bindE (aetherfs_image_load img) (\<lambda>img. bindE (aetherfs_image_validate img) (\<lambda>rep. okE (f img rep)))) (\<lambda>_. okE ())"
    for img and f :: "image \<Rightarrow> scrub_report \<Rightarrow> scrub_output"
    by (auto simp: fun_eq_iff bindE_def okE_def split: prod.split sum.split)
  show ?thesis
    unfolding aetherfs_validate_strict_image_def aetherfs_run_scrub_def drop [of _ "\<lambda>img report. \<lparr>so_profile = aetherfs_scrub_profile_name (pl_profile (img_pool_label img)),
            so_members = img_member_count img,
            so_checkpoint_root = s_checkpoint (img_super img) ! 0,
            so_logical_blocks = pl_logical_blocks (img_pool_label img),
            so_report = report\<rparr>"] finallyE_drop by (simp add: bindE_assoc)
qed

section \<open>What the formatter leaves alone\<close>

lemma intact_open_creat: "q \<noteq> p \<Longrightarrow> keeps (intact p f) (open_creat q)"
  unfolding open_creat_def
  by (intro keeps_bindE intact.reads [OF keeps_syscall] keepsI) (auto simp: intact_def split: option.split)

lemma intact_fill_uuid: "keeps (intact p f) aetherfs_fill_uuid"
proof -
  have 1: "keeps (intact p f) (\<lambda>w. let (r, w) = pread fd 16 0 w; w = close_fd fd w in
      case r of
        Inl _ \<Rightarrow> (Inl EIO, w)
      | Inr uuid \<Rightarrow> if length uuid \<noteq> 16 then (Inl EIO, w)
          else (Inr (uuid[6 := (uuid ! 6 AND 0x0F) OR 0x40, 8 := (uuid ! 8 AND 0x3F) OR 0x80]), w))" for fd
  proof (rule keepsI)
    fix w assume w: "intact p f w"
    obtain r w1 where 1: "pread fd 16 0 w = (r, w1)"
      by fastforce
    then have "intact p f (close_fd fd w1)"
      using intact_close_fd intact_adv [OF pread_adv w] by blast
    then show "intact p f (snd (let (r, w) = pread fd 16 0 w; w = close_fd fd w in
      case r of
        Inl _ \<Rightarrow> (Inl EIO, w)
      | Inr uuid \<Rightarrow> if length uuid \<noteq> 16 then (Inl EIO, w)
          else (Inr (uuid[6 := (uuid ! 6 AND 0x0F) OR 0x40, 8 := (uuid ! 8 AND 0x3F) OR 0x80]), w)))"
      by (simp add: 1 Let_def split: sum.split)
  qed
  show ?thesis
    unfolding aetherfs_fill_uuid_def by (intro keeps_bindE intact_open 1) simp
qed

lemma intact_prepare:
  assumes "mk_path options \<noteq> p"
  shows "keeps (intact p f) (aetherfs_prepare_target options)"
proof (rule keepsI)
  fix w assume w: "intact p f w"
  obtain ex w1 where 1: "access_ok (mk_path options) w = (ex, w1)"
    by fastforce
  then have "sched_adv w w1"
    by (auto simp: access_ok_def dest: syscall_adv split: prod.splits sum.splits)
  then have w1: "intact p f w1"
    using w intact_adv by blast
  have "keeps (intact p f) (bindE (open_creat (mk_path options)) (\<lambda>fd.
     cleanupE
       (bindE (fstat fd) (\<lambda>(kind, st_size).
        bindE (guardE (kind = S_IFREG \<or> kind = S_IFBLK) EINVAL) (\<lambda>_.
        bindE (if ex
               then bindE (aetherfs_probe_magic fd) (\<lambda>has_magic. guardE (\<not> (has_magic \<and> \<not> mk_force options)) EEXIST)
               else okE ()) (\<lambda>_.
        bindE (if mk_blocks options > 0 then
                 bindE (if kind = S_IFREG then ftruncate fd (mk_blocks options * ucast (mk_block_size options)) else okE ()) (\<lambda>_.
                 okE (mk_blocks options))
               else if kind = S_IFBLK then
                 bindE (blkgetsize64 fd) (\<lambda>device_bytes. okE (device_bytes div ucast (mk_block_size options)))
               else if st_size > 0 then
                 if of_nat st_size mod ucast (mk_block_size options) \<noteq> (0 :: u64) then failE EINVAL
                 else okE (of_nat st_size div ucast (mk_block_size options))
               else failE EINVAL) (\<lambda>blocks.
        bindE (guardE (\<not> blocks < AETHERFS_DATA_START_BLOCK) ENOSPC) (\<lambda>_.
        okE \<lparr>fs_fd = fd, fs_blocks = blocks\<rparr>))))))
       (close_fd fd)))"
    unfolding case_prod_beta
    by (intro keeps_bindE keeps_cleanupE intact_open_creat assms intact.reads [OF keeps_fstat] keeps_guardE keeps_if
        intact.reads [OF keeps_probe] keeps_okE keeps_failE intact.ftruncate intact.reads [OF keeps_blkgetsize] intact_close_fd)
  from keepsD [OF this w1] show "intact p f (snd (aetherfs_prepare_target options w))"
    by (auto simp: aetherfs_prepare_target_def 1 split: prod.split intro: prod.collapse [symmetric])
qed

lemma mkfs_leaves_others:
  assumes "mk_path options \<noteq> p"
  shows "keeps (intact p f) (aetherfs_run_mkfs options)"
proof -
  have fsync: "keeps (intact p f) (fsync fd)" for fd
    unfolding fsync_def by (intro keeps_bindE intact.reads [OF keeps_syscall] keepsI) (auto split: option.split)
  have inode: "keeps (intact p f) (\<lambda>w. aetherfs_write_all fd off (g w) w)" for fd off g
    using intact.write_all [of p f fd off] by (auto simp: keeps_def)
  have boot: "keeps (intact p f) (aetherfs_write_bootstrap options st)" for st
    unfolding aetherfs_write_bootstrap_def aetherfs_zero_block_def Let_def
    by (intro keeps_bindE keeps_forE intact.write_all intact_fill_uuid inode fsync)
  have free: "keeps (sched_adv w0) (aetherfs_validate_free_extents fd blocks)" for w0 fd blocks
    unfolding aetherfs_validate_free_extents_def free_extent_step_def Let_def case_prod_beta
    by (intro keeps_bindE keeps_read_all keeps_if keeps_failE keeps_okE keeps_forE)
  show ?thesis
    unfolding aetherfs_run_mkfs_def Let_def
    by (intro keeps_if keeps_failE keeps_bindE intact_prepare [OF assms] keeps_finallyE boot intact_close_fd
        intact.reads [OF keeps_mkfs_validate(1)] intact.reads [OF keeps_mkfs_validate(2)] intact.reads [OF keeps_mkfs_validate(3)]
        intact.reads [OF keeps_mkfs_validate(4)] intact.reads [OF keeps_mkfs_validate(5)] intact.reads [OF free]
        intact.reads [OF keeps_mkfs_validate_root_dir])
qed

section \<open>Rebalancing returns\<close>

lemma temp_path_regular:
  "ensures (\<lambda>_. True) (aetherfs_image_make_temp_path os p n) (\<lambda>t w. \<exists>g. w_files w t = Some g \<and> vf_kind g = S_IFREG)"
proof -
  have in_dir: "\<exists>g. w_files w' t = Some g \<and> vf_kind g = S_IFREG"
    if "aetherfs_make_temp_path_in_dir os d name w = (Inr t, w')" for d name w t w'
    using that unfolding aetherfs_make_temp_path_in_dir_def mkstemp_def Let_def
    by (auto elim!: bindE_InrE split: if_splits simp: close_fd_def)
  have tr: "ensures (\<lambda>_. True) (try_candidates os n name ds) (\<lambda>t w. \<exists>g. w_files w t = Some g \<and> vf_kind g = S_IFREG)" for name ds
  proof (rule ensuresI)
    show "\<exists>g. w_files w' t = Some g \<and> vf_kind g = S_IFREG" if "try_candidates os n name ds w = (Inr t, w')" for w t w'
      using that
      by (induction ds arbitrary: w) (auto split: if_splits prod.splits dest: in_dir)
  qed
  show ?thesis
    unfolding aetherfs_image_make_temp_path_def by (intro ensures_any tr)
qed

lemma open_rdwr_trunc_regular:
  assumes "open_rdwr_trunc t w = (Inr fd, w')" "w_files w t = Some g" "vf_kind g = S_IFREG"
  shows "writes_regular fd w'"
  using assms unfolding open_rdwr_trunc_def open_file_def
  by (auto elim!: bindE_InrE dest!: syscall_adv simp: writes_regular_def sched_adv_fields set_data_def split: if_splits option.splits)

lemma rebalance_open_regular:
  "ensures (\<lambda>_. True) (rebalance_open os p) (\<lambda>r w. writes_regular (snd (snd r)) w)"
proof -
  let ?R = "\<lambda>t w. \<exists>g. w_files w t = Some g \<and> vf_kind g = S_IFREG"
  have inner: "ensures (\<lambda>_. True) (cleanupE
      (bindE (guardE b EOPNOTSUPP) (\<lambda>_.
       bindE (aetherfs_image_load source) (\<lambda>source.
       bindE (aetherfs_image_validate source) (\<lambda>report.
       bindE (aetherfs_image_make_temp_path os p (img_size_bytes source)) (\<lambda>temp_path.
       okE (source, temp_path)))))) c) (\<lambda>r. ?R (snd r))" for b source c
    by (rule ensures_cleanupE, rule ensures_any, rule ensures_any, rule ensures_any, rule ensures_bindE [OF temp_path_regular])
      (simp add: ensures_def)
  have trunc: "ensures (?R t) (cleanupE (open_rdwr_trunc t) c) (\<lambda>fd w. writes_regular fd w)" for t c
    by (rule ensures_cleanupE) (auto simp: ensures_def dest: open_rdwr_trunc_regular)
  have rest: "ensures (writes_regular fd) (bindE (cleanupE (ftruncate fd n) c) (\<lambda>_. okE (source, t, fd)))
      (\<lambda>r w. writes_regular (snd (snd r)) w)" for fd n c and source :: image and t :: path
    by (rule ensures_bindE [OF ensures_cleanupE [OF ensures_keeps [OF regular.ftruncate]]]) (simp add: ensures_def)
  show ?thesis
    unfolding rebalance_open_def
    by (rule ensures_any, rule ensures_any, rule ensures_bindE [OF inner], simp only: case_prod_beta, rule ensures_bindE [OF trunc], rule rest)
qed

lemma rebalance_returns: "\<exists>r. aetherfs_run_rebalance os stale p w = Some r"
proof -
  obtain r w1 where 1: "rebalance_open os p w = (r, w1)"
    by fastforce
  show ?thesis
  proof (cases r)
    case (Inl e)
    then show ?thesis
      by (simp add: aetherfs_run_rebalance_def 1)
  next
    case (Inr x)
    obtain source t fd where x: "x = (source, t, fd)"
      by (cases x)
    have "writes_regular fd w1"
      using ensuresD [OF rebalance_open_regular _ 1 [unfolded Inr x]] by simp
    then obtain y where "aetherfs_copy_reserved_blocks stale source fd w1 = Some y"
      using copy_reserved_returns unfolding aetherfs_copy_reserved_blocks_def by blast
    then show ?thesis
      by (cases y; cases "fst y") (simp_all add: aetherfs_run_rebalance_def 1 Inr x)
  qed
qed

section \<open>Mounting what was formatted\<close>

lemma stat_kind_benign:
  assumes "benign w" "w_files w p = Some f"
  obtains w' where "stat_kind p w = (Inr (vf_kind f), w')" "sched_adv w w'"
proof -
  obtain w1 where "syscall w = (Inr (), w1)" "sched_adv w w1"
    using assms(1) by (rule syscall_benign)
  then show ?thesis
    using that assms(2) by (simp add: stat_kind_def bindE_def sched_adv_fields)
qed

text \<open>
  With a strict mount of a formatted image on a directory, on a machine without errors whose
  commands all succeed, the mount command gets to its last step and succeeds.
\<close>

lemma mount_laid_out:
  assumes "laid_out fo w" "mo_image_path options = mk_path fo" "mo_behavior options = AETHERFS_MOUNT_STRICT"
    and "w_files w (mo_mount_path options) = Some d" "vf_kind d = S_IFDIR"
    and spawn: "\<And>argv w. os_spawn os argv w = (Inr (Exited 0), w)"
  shows "\<exists>w'. aetherfs_run_mount os options w = (Inr (), w')"
proof -
  have ex: "aetherfs_exec_wait os argv b v = (Inr (), v)" for argv b v
    by (simp add: aetherfs_exec_wait_def bindE_def spawn)
  obtain f where f: "w_files w (mk_path fo) = Some f" "vf_kind f = S_IFREG" "benign w"
    using assms(1) by (auto simp: laid_out_def)
  obtain w1 where 1: "stat_kind (mk_path fo) w = (Inr S_IFREG, w1)" "sched_adv w w1"
    using stat_kind_benign [OF f(3,1)] f(2) by auto
  obtain w2 where 2: "aetherfs_validate_strict_image (mk_path fo) w1 = (Inr (), w2)"
    using scrub_laid_out [OF laid_out_adv [OF 1(2) assms(1)]] by (auto simp: strict_scrub bindE_def)
  have w2: "w_files w2 = w_files w" "benign w2"
    using keepsD [OF files.strict _ 2, of "w_files w"] keepsD [OF errorless.strict _ 2] benign_adv [OF 1(2) f(3)] 1(2)
    by (simp_all add: sched_adv_fields)
  obtain w3 where 3: "stat_kind (mo_mount_path options) w2 = (Inr S_IFDIR, w3)"
    using stat_kind_benign [OF w2(2) assms(4) [folded w2(1)]] assms(5) by auto
  obtain reg w4 where 4: "aetherfs_filesystem_registered w3 = (reg, w4)"
    by fastforce
  show ?thesis
    by (simp add: aetherfs_run_mount_def aetherfs_source_is_block_device_def mount_check_def aetherfs_ensure_mountpoint_def
        aetherfs_try_load_module_def bindE_def assms(2,3) 1(1) 2 3 4 ex)
qed

lemma mkfs_ready_formattable: "mkfs_ready options w \<Longrightarrow> formattable w (mk_path options)"
  by (auto simp: mkfs_ready_def formattable_def quiet_def benign_def)

lemma mkfs_mount:
  assumes "mkfs_ready fo w" "mo_image_path options = mk_path fo" "mo_behavior options = AETHERFS_MOUNT_STRICT"
    and "mk_path fo \<noteq> mo_mount_path options" "intact (mo_mount_path options) d w" "vf_kind d = S_IFDIR"
    and "\<And>argv w. os_spawn os argv w = (Inr (Exited 0), w)"
  shows "\<exists>w' w''. aetherfs_run_mkfs fo w = (Inr (), w') \<and> aetherfs_run_mount os options w' = (Inr (), w'')"
proof -
  obtain w' where w': "aetherfs_run_mkfs fo w = (Inr (), w')"
    using mkfs_succeeds [OF assms(1)] by blast
  moreover have "mk_blocks fo \<noteq> 0" "unat (mk_blocks fo) * 4096 < 2 ^ 63"
    using assms(1) by (auto simp: mkfs_ready_def)
  then have "laid_out fo w'"
    using mkfs_laid_out [OF mkfs_ready_formattable [OF assms(1)] _ _ w'] by blast
  moreover have "w_files w' (mo_mount_path options) = Some d"
    using keepsD [OF mkfs_leaves_others [OF assms(4)] assms(5) w'] by (simp add: intact_def)
  ultimately show ?thesis
    using mount_laid_out [OF _ assms(2,3) _ assms(6,7)] by blast
qed

section \<open>A world to format in\<close>

definition fresh_options :: mkfs_options where
  "fresh_options = \<lparr>mk_path = ''a'', mk_blocks = 16, mk_block_size = 4096, mk_mode = AETHERFS_COW_MODE, mk_pool_profile = 0,
     mk_stripe_blocks = 0, mk_member_count = 0, mk_members = [], mk_force = False\<rparr>"

text \<open>A directory to mount on, and a block device that holds a superblock and nothing else.\<close>

definition old_device :: vfile where
  "old_device = \<lparr>vf_kind = S_IFBLK, vf_readonly = False,
     vf_data = replicate 4096 0 @ pad_block (enc_super (zero_super\<lparr>s_magic := AETHERFS_MAGIC\<rparr>))\<rparr>"

definition fresh_dir :: vfile where
  "fresh_dir = \<lparr>vf_kind = S_IFDIR, vf_readonly = False, vf_data = []\<rparr>"

definition fresh_world :: world where
  "fresh_world = \<lparr>w_files = [''/dev/urandom'' \<mapsto> \<lparr>vf_kind = S_IFOTHER, vf_readonly = False, vf_data = replicate 16 7\<rparr>,
       ''m'' \<mapsto> fresh_dir, ''d'' \<mapsto> old_device,
       ''f'' \<mapsto> \<lparr>vf_kind = S_IFREG, vf_readonly = False, vf_data = []\<rparr>],
     w_fds = Map.empty, w_nextfd = 3, w_sched = [], w_junk = (\<lambda>_. 0), w_after = [], w_uid = 0, w_gid = 0, w_clock = Some 1\<rparr>"

lemma fresh_ready: "mkfs_ready fresh_options fresh_world"
  by (simp add: mkfs_ready_def quiet_def fresh_options_def fresh_world_def)

lemma fresh_intact: "intact ''m'' fresh_dir fresh_world"
  by (simp add: intact_def fresh_world_def)

lemma fresh_benign: "benign fresh_world"
  by (simp add: benign_def fresh_world_def)

lemma old_device_holds_fs: "holds_fs (vf_data old_device)"
proof -
  let ?s = "zero_super\<lparr>s_magic := AETHERFS_MAGIC\<rparr>"
  have wf: "wf_super ?s"
    using super.dec_wf [of "replicate 256 0"] by (simp add: wf_super_def zero_super_def)
  have len: "length (pad_block (enc_super ?s)) = 4096"
    using super.enc_len [OF wf] by (simp add: pad_block_def)
  have "fst (dec_super (pad_block (enc_super ?s))) = ?s"
    using super.dec_enc [OF wf] by (simp add: pad_block_def)
  then show ?thesis
    using len by (simp add: holds_fs_def file_block_def old_device_def)
qed

end
