(* ===== verification/Cli.thy ===== *)
theory Cli
  imports Mkfs Mount Rebalance
begin

text \<open>
  The command line (\<open>aetherfsprogs/main.c\<close>): parsing of numbers, modes and device
  specifications, the option loops of the commands and the dispatch of \<open>main\<close>.  A command
  returns its exit status.  \<open>getopt_long\<close> is a parameter: for the short options and the
  argument vector it gives the options in the order in which the loop sees them, each with
  its argument (\<open>?\<close> stands for an option it does not accept), and the operands that remain.
\<close>

section \<open>Numbers\<close>

definition isspace :: "char \<Rightarrow> bool" where
  "isspace c \<longleftrightarrow> c \<in> set [CHR '' '', CHR 0x09, CHR 0x0A, CHR 0x0B, CHR 0x0C, CHR 0x0D]"

definition isdigit :: "char \<Rightarrow> bool" where
  "isdigit c \<longleftrightarrow> 48 \<le> (of_char c :: nat) \<and> (of_char c :: nat) \<le> 57"

definition digits_value :: "string \<Rightarrow> nat" where
  "digits_value = foldl (\<lambda>v c. v * 10 + (of_char c - 48)) 0"

text \<open>
  \<open>strtoull\<close> in base ten: the number or \<open>ERANGE\<close>, and the text from \<open>end\<close> on.  Without
  digits the result is zero and \<open>end\<close> the start of the text; a minus sign negates
  the number in the unsigned type.
\<close>

definition strtoull :: "string \<Rightarrow> u64 result \<times> string" where
  "strtoull s =
    (let t = dropWhile isspace s;
         neg = (t \<noteq> [] \<and> hd t = CHR ''-'');
         u = (if t \<noteq> [] \<and> hd t \<in> {CHR ''-'', CHR ''+''} then tl t else t);
         ds = takeWhile isdigit u; v = digits_value ds in
     if ds = [] then (Inr 0, s)
     else (if v \<ge> 2 ^ 64 then Inl ERANGE else Inr (if neg then - of_nat v else of_nat v), dropWhile isdigit u))"

definition aetherfs_parse_u64 :: "string \<Rightarrow> u64 result" where
  "aetherfs_parse_u64 s =
    (case strtoull s of
       (Inl e, _) \<Rightarrow> Inl EINVAL
     | (Inr parsed, end) \<Rightarrow> if end \<noteq> [] then Inl EINVAL else Inr parsed)"

definition aetherfs_parse_u32 :: "string \<Rightarrow> u32 result" where
  "aetherfs_parse_u32 s =
    (case aetherfs_parse_u64 s of
       Inl e \<Rightarrow> Inl EINVAL
     | Inr parsed \<Rightarrow> if parsed > 0xFFFFFFFF then Inl EINVAL else Inr (ucast parsed))"

definition aetherfs_parse_mode :: "string \<Rightarrow> u16 result" where
  "aetherfs_parse_mode s =
    (if s = ''cow'' then Inr AETHERFS_COW_MODE
     else if s = ''overwrite'' then Inr AETHERFS_OVERWRITE_MODE
     else if s = ''append'' then Inr AETHERFS_APPEND_MODE
     else Inl EINVAL)"

section \<open>Devices\<close>

text \<open>The tokens of \<open>strtok_r\<close>: the non-empty pieces between the separators.\<close>

fun split_on :: "char \<Rightarrow> string \<Rightarrow> string list" where
  "split_on sep [] = [[]]"
| "split_on sep (c # cs) = (if c = sep then [] # split_on sep cs
     else (case split_on sep cs of [] \<Rightarrow> [[c]] | t # ts \<Rightarrow> (c # t) # ts))"

definition strtok :: "char \<Rightarrow> string \<Rightarrow> string list" where
  "strtok sep s = filter (\<lambda>t. t \<noteq> []) (split_on sep s)"

definition device_class :: "string \<Rightarrow> u32 option" where
  "device_class token =
    (if token = ''fast'' then Some AETHERFS_DEV_CLASS_FAST
     else if token = ''capacity'' then Some AETHERFS_DEV_CLASS_CAPACITY
     else if token = ''archival'' then Some AETHERFS_DEV_CLASS_ARCHIVAL
     else if token = ''metadata'' then Some AETHERFS_DEV_CLASS_METADATA
     else if token = ''log'' then Some AETHERFS_DEV_CLASS_LOG
     else if token = ''cache'' then Some AETHERFS_DEV_CLASS_CACHE
     else None)"

primrec class_mask_of :: "string list \<Rightarrow> u32 \<Rightarrow> u32 result" where
  "class_mask_of [] m = Inr m"
| "class_mask_of (token # ts) m =
    (case device_class token of None \<Rightarrow> Inl EINVAL | Some c \<Rightarrow> class_mask_of ts (m OR c))"

definition aetherfs_parse_device_classes :: "string \<Rightarrow> (world, u32) action" where
  "aetherfs_parse_device_classes s =
    (if s = [] then okE 0
     else bindE calloc (\<lambda>_. liftE (class_mask_of (strtok (CHR '','') s) 0)))"

definition aetherfs_parse_device_spec :: "string \<Rightarrow> (world, device_spec) action" where
  "aetherfs_parse_device_spec s =
    bindE calloc (\<lambda>_.
    bindE (if CHR ''='' \<in> set s
           then bindE (aetherfs_parse_device_classes (takeWhile (\<lambda>c. c \<noteq> CHR ''='') s)) (\<lambda>m.
                okE \<lparr>ds_path = tl (dropWhile (\<lambda>c. c \<noteq> CHR ''='') s), ds_class_mask = m\<rparr>)
           else okE \<lparr>ds_path = s, ds_class_mask = 0\<rparr>) (\<lambda>spec.
    bindE (guardE (ds_path spec \<noteq> []) EINVAL) (\<lambda>_. okE spec)))"

section \<open>The option loops\<close>

type_synonym getopt = "string \<Rightarrow> string list \<Rightarrow> (char \<times> string) list \<times> string list"

text \<open>A loop body returns an exit status, which ends the command, or the next options.\<close>

type_synonym 'a command = "world \<Rightarrow> (nat + 'a) \<times> world"

primrec opt_loop :: "(char \<Rightarrow> string \<Rightarrow> 'o \<Rightarrow> 'o command) \<Rightarrow> (char \<times> string) list \<Rightarrow> 'o \<Rightarrow> 'o command" where
  "opt_loop body [] options w = (Inr options, w)"
| "opt_loop body (o' # os) options w =
    (case body (fst o') (snd o') options w of
       (Inl status, w) \<Rightarrow> (Inl status, w)
     | (Inr options, w) \<Rightarrow> opt_loop body os options w)"

definition exit_status :: "'a result \<times> world \<Rightarrow> nat \<times> world" where
  "exit_status rw = (case rw of (Inl _, w) \<Rightarrow> (1, w) | (Inr _, w) \<Rightarrow> (0, w))"

definition mkfs_defaults :: mkfs_options where
  "mkfs_defaults = \<lparr>mk_path = [], mk_blocks = 0, mk_block_size = 4096, mk_mode = AETHERFS_COW_MODE,
     mk_pool_profile = 0, mk_stripe_blocks = 0, mk_member_count = 0,
     mk_members = replicate 8 \<lparr>ds_path = [], ds_class_mask = 0\<rparr>, mk_force = False\<rparr>"

definition mkfs_option :: "char \<Rightarrow> string \<Rightarrow> mkfs_options \<Rightarrow> mkfs_options command" where
  "mkfs_option opt optarg options w =
    (if opt = CHR ''b'' then
       (case aetherfs_parse_u64 optarg of Inl _ \<Rightarrow> (Inl 2, w) | Inr n \<Rightarrow> (Inr (options\<lparr>mk_blocks := n\<rparr>), w))
     else if opt = CHR ''B'' then
       (case aetherfs_parse_u32 optarg of Inl _ \<Rightarrow> (Inl 2, w) | Inr n \<Rightarrow> (Inr (options\<lparr>mk_block_size := n\<rparr>), w))
     else if opt = CHR ''m'' then
       (case aetherfs_parse_mode optarg of Inl _ \<Rightarrow> (Inl 2, w) | Inr n \<Rightarrow> (Inr (options\<lparr>mk_mode := n\<rparr>), w))
     else if opt = CHR ''f'' then (Inr (options\<lparr>mk_force := True\<rparr>), w)
     else if opt = CHR ''h'' then (Inl 0, w)
     else (Inl 2, w))"

definition aetherfs_cmd_mkfs :: "getopt \<Rightarrow> string list \<Rightarrow> world \<Rightarrow> nat \<times> world" where
  "aetherfs_cmd_mkfs getopt_long argv w =
    (let (opts, operands) = getopt_long ''b:B:m:fh'' argv in
     case opt_loop mkfs_option opts mkfs_defaults w of
       (Inl status, w) \<Rightarrow> (status, w)
     | (Inr options, w) \<Rightarrow>
         (case operands of
            [] \<Rightarrow> (2, w)
          | p # _ \<Rightarrow> exit_status (aetherfs_run_mkfs (options\<lparr>mk_path := p\<rparr>) w)))"

definition mount_option :: "char \<Rightarrow> string \<Rightarrow> mount_options \<Rightarrow> mount_options command" where
  "mount_option opt optarg options w =
    (if opt = CHR ''p'' then (Inr (options\<lparr>mo_create_mountpoint := True\<rparr>), w)
     else if opt = CHR ''m'' then (Inr (options\<lparr>mo_module_path := Some optarg\<rparr>), w)
     else if opt = CHR ''s'' then (Inr (options\<lparr>mo_behavior := AETHERFS_MOUNT_STRICT\<rparr>), w)
     else if opt = CHR ''d'' then (Inr (options\<lparr>mo_behavior := AETHERFS_MOUNT_DEGRADED_RO\<rparr>), w)
     else if opt = CHR ''r'' then (Inr (options\<lparr>mo_behavior := AETHERFS_MOUNT_RESCUE\<rparr>), w)
     else if opt = CHR ''h'' then (Inl 0, w)
     else (Inl 2, w))"

definition aetherfs_cmd_mount ::
  "getopt \<Rightarrow> (path \<Rightarrow> path option) \<Rightarrow> os \<Rightarrow> path \<Rightarrow> string list \<Rightarrow> world \<Rightarrow> nat \<times> world" where
  "aetherfs_cmd_mount getopt_long realpath os program argv w =
    (let (default_module, w) = aetherfs_default_module_path realpath program w;
         (opts, operands) = getopt_long ''pm:sdrh'' argv in
     case opt_loop mount_option opts
         \<lparr>mo_image_path = [], mo_mount_path = [], mo_module_path = default_module, mo_create_mountpoint = False,
          mo_behavior = AETHERFS_MOUNT_STRICT\<rparr> w of
       (Inl status, w) \<Rightarrow> (status, w)
     | (Inr options, w) \<Rightarrow>
         (case operands of
            [img, mnt] \<Rightarrow> exit_status (aetherfs_run_mount os (options\<lparr>mo_image_path := img, mo_mount_path := mnt\<rparr>) w)
          | _ \<Rightarrow> (2, w)))"

text \<open>The loop of scrub, health and forensics, which is the same in the three commands.\<close>

definition device_option :: "char \<Rightarrow> string \<Rightarrow> device_spec list \<Rightarrow> device_spec list command" where
  "device_option opt optarg members w =
    (if opt = CHR ''d'' then
       if length members \<ge> AETHERFS_MAX_DEVICES then (Inl 2, w)
       else (case aetherfs_parse_device_spec optarg w of
               (Inl _, w) \<Rightarrow> (Inl 2, w)
             | (Inr spec, w) \<Rightarrow> (Inr (members @ [spec]), w))
     else if opt = CHR ''h'' then (Inl 0, w)
     else (Inl 2, w))"

definition aetherfs_cmd_scrub :: "getopt \<Rightarrow> string list \<Rightarrow> world \<Rightarrow> nat \<times> world" where
  "aetherfs_cmd_scrub getopt_long argv w =
    (let (opts, operands) = getopt_long ''d:h'' argv in
     case opt_loop device_option opts [] w of
       (Inl status, w) \<Rightarrow> (status, w)
     | (Inr members, w) \<Rightarrow>
         (case (members, operands) of
            ([], [p]) \<Rightarrow> exit_status (aetherfs_run_scrub \<lparr>sc_path = p, sc_members = []\<rparr> w)
          | (_ # _, []) \<Rightarrow> exit_status (aetherfs_run_scrub \<lparr>sc_path = [], sc_members = members\<rparr> w)
          | _ \<Rightarrow> (2, w)))"

definition health_status :: "(errno option \<times> health_output option) \<times> world \<Rightarrow> nat \<times> world" where
  "health_status r = (case r of ((rc, _), w) \<Rightarrow> (if rc = None then 0 else 1, w))"

definition aetherfs_cmd_health :: "getopt \<Rightarrow> string list \<Rightarrow> world \<Rightarrow> nat \<times> world" where
  "aetherfs_cmd_health getopt_long argv w =
    (let (opts, operands) = getopt_long ''d:h'' argv in
     case opt_loop device_option opts [] w of
       (Inl status, w) \<Rightarrow> (status, w)
     | (Inr members, w) \<Rightarrow>
         (case (members, operands) of
            ([], [p]) \<Rightarrow> health_status (aetherfs_run_health \<lparr>ad_path = Some p, ad_members = [], ad_output_path = None\<rparr> w)
          | (_ # _, []) \<Rightarrow>
              health_status (aetherfs_run_health \<lparr>ad_path = None, ad_members = members, ad_output_path = None\<rparr> w)
          | _ \<Rightarrow> (2, w)))"

definition aetherfs_cmd_forensics :: "getopt \<Rightarrow> (errno \<Rightarrow> string) \<Rightarrow> string list \<Rightarrow> world \<Rightarrow> nat \<times> world" where
  "aetherfs_cmd_forensics getopt_long strerror argv w =
    (let (opts, operands) = getopt_long ''d:h'' argv in
     case opt_loop device_option opts [] w of
       (Inl status, w) \<Rightarrow> (status, w)
     | (Inr members, w) \<Rightarrow>
         (case (members, operands) of
            ([], [p, output]) \<Rightarrow> exit_status (aetherfs_run_forensics strerror
              \<lparr>ad_path = Some p, ad_members = [], ad_output_path = Some output\<rparr> w)
          | (_ # _, [output]) \<Rightarrow> exit_status (aetherfs_run_forensics strerror
              \<lparr>ad_path = None, ad_members = members, ad_output_path = Some output\<rparr> w)
          | _ \<Rightarrow> (2, w)))"

definition aetherfs_cmd_rebalance :: "temp_os \<Rightarrow> errno option \<Rightarrow> string list \<Rightarrow> world \<Rightarrow> (nat \<times> world) option" where
  "aetherfs_cmd_rebalance temp_os stale argv w =
    (case argv of
       [_, p] \<Rightarrow> map_option exit_status (aetherfs_run_rebalance temp_os stale p w)
     | _ \<Rightarrow> Some (2, w))"

section \<open>Dispatch\<close>

record environment =
  en_getopt :: getopt
  en_realpath :: "path \<Rightarrow> path option"
  en_strerror :: "errno \<Rightarrow> string"
  en_os :: os
  en_temp :: temp_os
  en_errno :: "errno option"

definition main :: "environment \<Rightarrow> string list \<Rightarrow> world \<Rightarrow> (nat \<times> world) option" where
  "main env argv w =
    (case argv of
       program # command # _ \<Rightarrow>
         (let argv' = tl argv in
          if command = ''mkfs'' then Some (aetherfs_cmd_mkfs (en_getopt env) argv' w)
          else if command = ''mount'' then
            Some (aetherfs_cmd_mount (en_getopt env) (en_realpath env) (en_os env) program argv' w)
          else if command = ''scrub'' then Some (aetherfs_cmd_scrub (en_getopt env) argv' w)
          else if command = ''health'' then Some (aetherfs_cmd_health (en_getopt env) argv' w)
          else if command = ''forensics'' then Some (aetherfs_cmd_forensics (en_getopt env) (en_strerror env) argv' w)
          else if command = ''rebalance'' then aetherfs_cmd_rebalance (en_temp env) (en_errno env) argv' w
          else if command = ''--help'' \<or> command = ''help'' then Some (0, w)
          else Some (2, w))
     | _ \<Rightarrow> Some (2, w))"

end
