(* ===== verification/Cli_Sound.thy ===== *)
theory Cli_Sound
  imports Cli Admin_Sound
begin

text \<open>
  Numbers and device specifications on the command line: what is printed is parsed back, and
  what the parsers accept besides.
\<close>

section \<open>Numbers\<close>

lemma digit_char:
  fixes d :: nat
  assumes "d < 10"
  shows "isdigit (char_of (48 + d))" "of_char (char_of (48 + d) :: char) - 48 = d" "\<not> isspace (char_of (48 + d))"
    "(char_of (48 + d) :: char) \<noteq> CHR ''-''" "(char_of (48 + d) :: char) \<noteq> CHR ''+''"
proof -
  have of: "of_char (char_of (48 + d) :: char) = 48 + d"
    using assms by simp
  then show "isdigit (char_of (48 + d))" "of_char (char_of (48 + d) :: char) - 48 = d"
    using assms by (simp_all add: isdigit_def)
  have ne: "(char_of (48 + d) :: char) \<noteq> c" if "of_char c < (48 :: nat)" for c
    using of that by auto
  show "\<not> isspace (char_of (48 + d))"
    using ne by (auto simp: isspace_def)
  show "(char_of (48 + d) :: char) \<noteq> CHR ''-''" "(char_of (48 + d) :: char) \<noteq> CHR ''+''"
    by (rule ne, simp)+
qed

lemma digits_nonempty: "digits n \<noteq> []"
  by (subst digits.simps) simp

lemma digits_all: "list_all isdigit (digits n)"
proof (induction n rule: digits.induct)
  case (1 n)
  then show ?case
    using digit_char(1) [of n] digit_char(1) [of "n mod 10"] by (subst digits.simps) simp
qed

lemma digits_head: "\<not> isspace (hd (digits n)) \<and> hd (digits n) \<noteq> CHR ''-'' \<and> hd (digits n) \<noteq> CHR ''+''"
proof (induction n rule: digits.induct)
  case (1 n)
  then show ?case
    using digit_char(3-5) [of n] digits_nonempty [of "n div 10"] by (subst (1 2 3) digits.simps) simp
qed

lemma digits_value_append: "digits_value (xs @ [c]) = digits_value xs * 10 + (of_char c - 48)"
  by (simp add: digits_value_def)

lemma digits_value_digits: "digits_value (digits n) = n"
proof (induction n rule: digits.induct)
  case (1 n)
  show ?case
  proof (cases "n < 10")
    case True
    then show ?thesis
      using digit_char(2) [of n] by (subst digits.simps) (simp add: digits_value_def)
  next
    case False
    then show ?thesis
      using "1.IH" digit_char(2) [of "n mod 10"] by (subst digits.simps) (simp add: digits_value_append del: of_char_of)
  qed
qed

lemma takeWhile_digits: "takeWhile isdigit (digits n) = digits n" "dropWhile isdigit (digits n) = []"
  using digits_all [of n] by (simp_all add: takeWhile_eq_all_conv dropWhile_eq_Nil_conv list_all_iff)

lemma dropWhile_hd: "xs \<noteq> [] \<Longrightarrow> \<not> P (hd xs) \<Longrightarrow> dropWhile P xs = xs"
  by (cases xs) simp_all

lemma strtoull_digits: "strtoull (digits n) = (if n \<ge> 2 ^ 64 then Inl ERANGE else Inr (of_nat n), [])"
  using digits_head [of n] digits_nonempty [of n]
  by (simp add: strtoull_def dropWhile_hd takeWhile_digits digits_value_digits Let_def)

lemma strtoull_minus: "strtoull (CHR ''-'' # digits n) = (if n \<ge> 2 ^ 64 then Inl ERANGE else Inr (- of_nat n), [])"
  using digits_nonempty [of n]
  by (simp add: strtoull_def isspace_def takeWhile_digits digits_value_digits Let_def)

lemma parse_u64_digits: "aetherfs_parse_u64 (digits n) = (if n < 2 ^ 64 then Inr (of_nat n) else Inl EINVAL)"
  by (simp add: aetherfs_parse_u64_def strtoull_digits)

lemma parse_u32_digits: "aetherfs_parse_u32 (digits n) = (if n < 2 ^ 32 then Inr (of_nat n) else Inl EINVAL)"
proof (cases "n < 2 ^ 64")
  case True
  then have "(of_nat n :: u64) > 0xFFFFFFFF \<longleftrightarrow> \<not> n < 2 ^ 32"
    by (simp add: word_less_nat_alt unat_of_nat) linarith
  then show ?thesis
    using True by (simp add: aetherfs_parse_u32_def parse_u64_digits unsigned_of_nat take_bit_nat_eq_self)
next
  case False
  then show ?thesis
    by (simp add: aetherfs_parse_u32_def parse_u64_digits)
qed

section \<open>Device specifications\<close>

fun join :: "char \<Rightarrow> string list \<Rightarrow> string" where
  "join sep [] = []"
| "join sep [t] = t"
| "join sep (t # ts) = t @ sep # join sep ts"

lemma split_on_token: "sep \<notin> set t \<Longrightarrow> split_on sep t = [t]"
  by (induction t) auto

lemma split_on_append: "sep \<notin> set t \<Longrightarrow> split_on sep (t @ sep # s) = t # split_on sep s"
  by (induction t) auto

lemma split_on_join: "list_all (\<lambda>t. sep \<notin> set t) ts \<Longrightarrow> ts \<noteq> [] \<Longrightarrow> split_on sep (join sep ts) = ts"
  by (induction sep ts rule: join.induct) (simp_all add: split_on_token split_on_append)

lemma set_join: "set (join sep ts) \<subseteq> insert sep (\<Union>t \<in> set ts. set t)"
  by (induction sep ts rule: join.induct) auto

lemma device_class_token:
  assumes "device_class t \<noteq> None"
  shows "CHR '','' \<notin> set t" "CHR ''='' \<notin> set t" "t \<noteq> []"
  using assms by (auto simp: device_class_def split: if_splits)

lemma class_mask_of_tokens:
  "list_all (\<lambda>t. device_class t \<noteq> None) ts \<Longrightarrow>
    class_mask_of ts m = Inr (foldl (\<lambda>m t. m OR the (device_class t)) m ts)"
  by (induction ts arbitrary: m) auto

lemma parse_device_spec_join:
  assumes "benign w" "list_all (\<lambda>t. device_class t \<noteq> None) ts" "p \<noteq> []"
  shows "\<exists>w'. aetherfs_parse_device_spec (join (CHR '','') ts @ CHR ''='' # p) w =
    (Inr \<lparr>ds_path = p, ds_class_mask = foldl (\<lambda>m t. m OR the (device_class t)) 0 ts\<rparr>, w') \<and> sched_adv w w'"
proof -
  let ?s = "join (CHR '','') ts"
  have eq: "CHR ''='' \<notin> set ?s"
    using set_join [of "CHR '',''" ts] device_class_token(2) assms(2) by (fastforce simp: list_all_iff)
  then have parts: "takeWhile (\<lambda>c. c \<noteq> CHR ''='') (?s @ CHR ''='' # p) = ?s"
    "dropWhile (\<lambda>c. c \<noteq> CHR ''='') (?s @ CHR ''='' # p) = CHR ''='' # p"
    by (simp_all add: takeWhile_append dropWhile_append)
  obtain w1 where 1: "calloc w = (Inr (), w1)" "sched_adv w w1"
    using assms(1) by (rule calloc_benign)
  have "\<exists>w2. aetherfs_parse_device_classes ?s w1 = (Inr (foldl (\<lambda>m t. m OR the (device_class t)) 0 ts), w2) \<and> sched_adv w1 w2"
  proof (cases "ts = []")
    case True
    then show ?thesis
      by (simp add: aetherfs_parse_device_classes_def)
  next
    case False
    have ne: "?s \<noteq> []"
      using False assms(2) device_class_token(3) by (cases ts rule: join.cases [of "(CHR '','', ts)" for ts]) (auto simp: list_all_iff)
    have "split_on (CHR '','') ?s = ts"
      using False assms(2) device_class_token(1) by (intro split_on_join) (auto simp: list_all_iff)
    then have tok: "strtok (CHR '','') ?s = ts"
      using assms(2) device_class_token(3) by (auto simp: strtok_def list_all_iff intro: filter_True)
    obtain w2 where 2: "calloc w1 = (Inr (), w2)" "sched_adv w1 w2"
      using benign_adv [OF 1(2) assms(1)] by (rule calloc_benign)
    then show ?thesis
      using ne by (simp add: aetherfs_parse_device_classes_def bindE_def tok class_mask_of_tokens [OF assms(2)])
  qed
  then obtain w2 where "aetherfs_parse_device_classes ?s w1 = (Inr (foldl (\<lambda>m t. m OR the (device_class t)) 0 ts), w2)" "sched_adv w1 w2"
    by blast
  then show ?thesis
    using 1 assms(3) sched_adv_trans by (auto simp: aetherfs_parse_device_spec_def bindE_def parts)
qed

text \<open>A negative number is taken modulo \<open>2 ^ 64\<close>, and the empty string is 0.\<close>

lemma parse_accepts_negative:
  "aetherfs_parse_u64 (CHR ''-'' # digits n) = (if n < 2 ^ 64 then Inr (- of_nat n) else Inl EINVAL) \<and>
   aetherfs_parse_u64 [] = Inr 0"
  by (simp add: aetherfs_parse_u64_def strtoull_minus) (simp add: strtoull_def)

end
