(* ===== verification/Samples.thy ===== *)
theory Samples
  imports Image_Open
begin

text \<open>
  A concrete pool of three members of sixteen blocks each, on which the hypotheses about
  pools are met for every profile.
\<close>

definition sample_label :: "u32 \<Rightarrow> pool_label" where
  "sample_label profile = zero_label\<lparr>pl_profile := profile, pl_member_count := 3, pl_stripe_blocks := 2,
     pl_metadata_mask := 1, pl_data_mask := 7,
     pl_members := replicate 8 (zero_pool_member\<lparr>pm_total_blocks := 16, pm_data_blocks := 8\<rparr>)\<rparr>"

definition sample_image :: "u32 \<Rightarrow> image" where
  "sample_image profile = zero_image\<lparr>img_writable := True, img_member_count := 3,
     img_pool_label := sample_label profile,
     img_members := [zero_member\<lparr>im_fd := 3\<rparr>, zero_member\<lparr>im_fd := 4\<rparr>, zero_member\<lparr>im_fd := 5\<rparr>]\<rparr>"

definition sample_file :: vfile where
  "sample_file = \<lparr>vf_kind = S_IFREG, vf_readonly = False, vf_data = replicate 65536 0\<rparr>"

definition sample_world :: world where
  "sample_world = \<lparr>w_files = [''a'' \<mapsto> sample_file, ''b'' \<mapsto> sample_file, ''c'' \<mapsto> sample_file],
     w_fds = [3 \<mapsto> (''a'', True), 4 \<mapsto> (''b'', True), 5 \<mapsto> (''c'', True)],
     w_nextfd = 6, w_sched = [Io_intr, Io_short 7], w_junk = (\<lambda>_. 0), w_after = [], w_uid = 0, w_gid = 0,
     w_clock = Some 1\<rparr>"

lemma sample_members:
  "i < 3 \<Longrightarrow> aetherfs_pool_member_data_blocks (sample_image p) i = 8"
  by (simp add: aetherfs_pool_member_data_blocks_def sample_image_def sample_label_def)

lemma all_less_3: "(\<forall>i < 3. P i) \<longleftrightarrow> P 0 \<and> P 1 \<and> P (2::nat)"
  by (auto simp: less_Suc_eq numeral_3_eq_3 numeral_2_eq_2)

lemma sample_member_file:
  "member_file sample_world (sample_image p) 0 = Some (''a'', sample_file)"
  "member_file sample_world (sample_image p) 1 = Some (''b'', sample_file)"
  "member_file sample_world (sample_image p) 2 = Some (''c'', sample_file)"
  by (simp_all add: member_file_def sample_world_def sample_image_def)

lemma sample_ready: "pool_ready (sample_image p) sample_world"
proof -
  have "unat (img_member_count (sample_image p)) = 3"
    by (simp add: sample_image_def)
  moreover have "[0..<3] = [0, 1, 2::nat]"
    by (simp add: upt_rec)
  moreover have "\<forall>i < 3. member_ready sample_world (sample_image p) i"
    unfolding all_less_3 member_ready_def sample_member_file
    by (simp add: sample_members sample_file_def) (simp add: sample_image_def)
  moreover have "\<forall>i < 3. member_writable sample_world (sample_image p) i"
    unfolding all_less_3 by (simp add: member_writable_def sample_world_def sample_image_def)
  moreover have "benign sample_world"
    by (simp add: benign_def sample_world_def is_err_def)
  ultimately show ?thesis
    using sample_member_file [of p]
    by (simp add: pool_ready_def pool_live_def) (simp add: sample_image_def)
qed

lemma sample_profile: "aetherfs_pool_profile (sample_image p) = p"
  by (simp add: aetherfs_pool_profile_def sample_image_def sample_label_def)

lemma sample_masks:
  "aetherfs_pool_data_mask (sample_image p) = 7" "aetherfs_pool_metadata_mask (sample_image p) = 1"
  by (simp_all add: aetherfs_pool_data_mask_def aetherfs_pool_metadata_mask_def sample_image_def sample_label_def
      aetherfs_pool_member_limit_mask_def)

lemma sample_bits: "mask_bits 7 = [0, 1, 2]"
  by (simp add: upt_rec)

lemma sample_sized: "pool_sized (sample_image p)"
  using sample_ready by (rule pool_ready_sized)

lemma sample_benign: "benign sample_world"
  by (simp add: benign_def sample_world_def is_err_def)

lemma sample_mirror_block: "8 \<le> b \<Longrightarrow> b < 16 \<Longrightarrow> mirror_block (sample_image p) b"
  by (simp add: mirror_block_def sample_masks sample_bits sample_members word_less_nat_alt)

lemma sample_nth: "aetherfs_mask_nth 7 i = (if i < 3 then Some (unat i) else None)"
proof -
  have "i < 3 \<longleftrightarrow> unat i < 3"
    by (simp add: word_less_nat_alt)
  moreover have "unat i < 3 \<Longrightarrow> [0, 1, 2] ! unat i = unat i"
    by (auto simp: less_Suc_eq numeral_3_eq_3)
  ultimately show ?thesis
    by (simp add: mask_nth_bits sample_bits)
qed

lemma sample_count: "aetherfs_mask_count 7 = 3"
  by (simp add: aetherfs_mask_count_def upt_rec)

lemmas sample_map =
  aetherfs_pool_map_data_block_def sample_profile aetherfs_pool_map_stripe_def aetherfs_pool_map_parity_def
  sample_masks sample_count sample_nth sample_members Let_def

lemma sample_stripe: "pl_stripe_blocks (img_pool_label (sample_image p)) = 2"
  by (simp add: sample_image_def sample_label_def)

lemma sample_stripe_11:
  "aetherfs_pool_map_data_block (sample_image AETHERFS_POOL_PROFILE_STRIPE) 11 =
    Inr \<lparr>mp_member_index = 1, mp_parity_member_index = - 1, mp_member_block = 9\<rparr>"
  by (simp add: sample_map sample_stripe)

lemma sample_parity_8:
  "aetherfs_pool_map_parity (sample_image AETHERFS_POOL_PROFILE_PARITY) 8 =
    Inr \<lparr>mp_member_index = 1, mp_parity_member_index = 0, mp_member_block = 8\<rparr>"
  by (simp add: sample_map sample_stripe)

lemma sample_parity_valid:
  "log_valid (sample_image AETHERFS_POOL_PROFILE_PARITY) 8"
  "log_valid (sample_image AETHERFS_POOL_PROFILE_PARITY) 12"
  by (simp_all add: log_valid_def log_loc_def sample_map sample_stripe)

end
