(* ===== verification/Kernel_Base.thy ===== *)
theory Kernel_Base
  imports Checksum
begin

text \<open>
  What the files of the kernel module share: the checksum of \<open>kernel/aetherfs.h\<close>, which
  makes one bit step for every byte, access to the fields of structures in memory, the
  part of the superblock information that the components use, and the two simple block
  allocators of \<open>kernel/balloc.c\<close>.  A structure of the module lies in memory with the
  alignment of the C ABI; a value stands for a pointer that is not null, and the locks
  make every function one step.
\<close>

section \<open>The checksum of the module\<close>

definition crc_step_k :: "u32 \<Rightarrow> byte \<Rightarrow> u32" where
  "crc_step_k c p = crc_bit (c XOR ucast p)"

definition aetherfs_crc32c_k :: "u32 \<Rightarrow> byte list \<Rightarrow> u32" where
  "aetherfs_crc32c_k crc buf = NOT (foldl crc_step_k crc buf)"

definition aetherfs_crc32_k :: "byte list \<Rightarrow> u32" where
  "aetherfs_crc32_k buf = aetherfs_crc32c_k 0xFFFFFFFF buf"

definition aetherfs_checksum_block_k :: "byte list \<Rightarrow> u32" where
  "aetherfs_checksum_block_k block = aetherfs_crc32_k block"

definition aetherfs_verify_checksum :: "byte list \<Rightarrow> u32 \<Rightarrow> bool" where
  "aetherfs_verify_checksum block expected \<longleftrightarrow> aetherfs_crc32_k block = expected"

section \<open>Memory\<close>

definition mem_get :: "nat \<Rightarrow> nat \<Rightarrow> byte list \<Rightarrow> byte list" where
  "mem_get off n m = take n (drop off m)"

definition mem_put :: "nat \<Rightarrow> byte list \<Rightarrow> byte list \<Rightarrow> byte list" where
  "mem_put off bs m = take off m @ bs @ drop (off + length bs) m"

definition get16 :: "nat \<Rightarrow> byte list \<Rightarrow> u16" where
  "get16 off m = of_le (mem_get off 2 m)"

definition get32 :: "nat \<Rightarrow> byte list \<Rightarrow> u32" where
  "get32 off m = of_le (mem_get off 4 m)"

definition get64 :: "nat \<Rightarrow> byte list \<Rightarrow> u64" where
  "get64 off m = of_le (mem_get off 8 m)"

lemma mem_put_length [simp]: "off + length bs \<le> length m \<Longrightarrow> length (mem_put off bs m) = length m"
  by (simp add: mem_put_def)

lemma mem_get_length [simp]: "off + n \<le> length m \<Longrightarrow> length (mem_get off n m) = n"
  by (simp add: mem_get_def)

lemma mem_get_put: "off + length bs \<le> length m \<Longrightarrow> n = length bs \<Longrightarrow> mem_get off n (mem_put off bs m) = bs"
  by (simp add: mem_get_def mem_put_def)

lemma mem_get_put_before:
  assumes "o' + n \<le> off" "off + length bs \<le> length m"
  shows "mem_get o' n (mem_put off bs m) = mem_get o' n m"
proof -
  have "take n (drop o' (take off m)) = take n (drop o' m)"
    using assms by (simp add: drop_take take_take min_def)
  then show ?thesis
    using assms by (simp add: mem_get_def mem_put_def)
qed

lemma mem_get_put_after:
  assumes "off + length bs \<le> o'" "off + length bs \<le> length m"
  shows "mem_get o' n (mem_put off bs m) = mem_get o' n m"
  using assms by (simp add: mem_get_def mem_put_def)

lemma mem_put_put: "length bs = length cs \<Longrightarrow> off + length bs \<le> length m \<Longrightarrow> mem_put off bs (mem_put off cs m) = mem_put off bs m"
  by (simp add: mem_put_def)

lemma take_mem_put:
  assumes "off + length bs \<le> n" "n \<le> length m"
  shows "take n (mem_put off bs m) = mem_put off bs (take n m)"
proof (cases "n \<le> off")
  case True
  then have "length bs = 0" "n = off"
    using assms by linarith+
  then show ?thesis
    using assms by (simp add: mem_put_def)
next
  case False
  then show ?thesis
    using assms by (simp add: mem_put_def take_drop min_def)
qed

lemma take_mem_put_before: "n \<le> off \<Longrightarrow> n \<le> length m \<Longrightarrow> take n (mem_put off bs m) = take n m"
  by (simp add: mem_put_def min_def)

lemma drop_mem_put: "off + length bs \<le> n \<Longrightarrow> off \<le> length m \<Longrightarrow> drop n (mem_put off bs m) = drop n m"
  by (simp add: mem_put_def)

lemma get32_put32: "off + 4 \<le> length m \<Longrightarrow> get32 off (mem_put off (le32 v) m) = v"
  by (simp add: get32_def mem_get_put of_le_le_bytes_full)

lemma get64_put64: "off + 8 \<le> length m \<Longrightarrow> get64 off (mem_put off (le64 v) m) = v"
  by (simp add: get64_def mem_get_put of_le_le_bytes_full)

lemma get16_put16: "off + 2 \<le> length m \<Longrightarrow> get16 off (mem_put off (le16 v) m) = v"
  by (simp add: get16_def mem_get_put of_le_le_bytes_full)

lemma get_put_other:
  assumes "off + length bs \<le> length m" "o' + n \<le> off \<or> off + length bs \<le> o'"
  shows "mem_get o' n (mem_put off bs m) = mem_get o' n m"
  using assms mem_get_put_before mem_get_put_after by blast

lemma mem_put_get: "off + n \<le> length m \<Longrightarrow> mem_put off (mem_get off n m) m = m"
  by (simp add: mem_put_def mem_get_def) (metis add.commute append_take_drop_id drop_drop)

lemma get_put_fields:
  assumes "off + length bs \<le> length m"
  shows "o' + 2 \<le> off \<or> off + length bs \<le> o' \<Longrightarrow> get16 o' (mem_put off bs m) = get16 o' m"
    "o' + 4 \<le> off \<or> off + length bs \<le> o' \<Longrightarrow> get32 o' (mem_put off bs m) = get32 o' m"
    "o' + 8 \<le> off \<or> off + length bs \<le> o' \<Longrightarrow> get64 o' (mem_put off bs m) = get64 o' m"
  using assms by (simp_all add: get16_def get32_def get64_def get_put_other)

lemmas mem_simps = get16_put16 get32_put32 get64_put64 get_put_fields get_put_other mem_get_put drop_mem_put

lemma clear_after_set: "(f OR m) AND NOT m = f AND NOT (m :: 'a::len word)"
  by (intro bit_eqI) (auto simp: bit_simps)

lemma word_of_length: "n < 2 ^ 32 \<Longrightarrow> unat (of_nat n :: u32) = n"
  by (simp add: unsigned_of_nat take_bit_nat_eq_self)

lemma half_of_length: "n < 2 ^ 16 \<Longrightarrow> unat (of_nat n :: u16) = n"
  by (simp add: unsigned_of_nat take_bit_nat_eq_self)

section \<open>The checksum is weak\<close>

lemma crc_step_k_xor: "crc_step_k (a XOR b) (x XOR y) = crc_step_k a x XOR crc_step_k b y"
proof -
  have "(a XOR b) XOR ucast (x XOR y) = (a XOR ucast x) XOR (b XOR ucast y)"
    by (simp add: unsigned_xor_eq ac_simps)
  then show ?thesis
    unfolding crc_step_k_def by (simp only: crc_bit_xor [symmetric])
qed

lemma crc_step_k_cancel: "crc_step_k (crc_step_k c (a XOR 2)) (b XOR 1) = crc_step_k (crc_step_k c a) b"
proof -
  have "crc_step_k c (a XOR 2) = crc_step_k c a XOR crc_step_k 0 2"
    using crc_step_k_xor [of c 0 a 2] by simp
  moreover have "crc_step_k 0 2 = 1"
    by (simp add: crc_step_k_def crc_bit_def)
  moreover have "crc_step_k (crc_step_k c a XOR 1) (b XOR 1) = crc_step_k (crc_step_k c a) b XOR crc_step_k 1 1"
    by (rule crc_step_k_xor)
  moreover have "crc_step_k 1 1 = 0"
    by (simp add: crc_step_k_def)
  ultimately show ?thesis
    by simp
qed

lemma crc32c_k_append: "aetherfs_crc32c_k crc (xs @ ys) = aetherfs_crc32c_k (NOT (aetherfs_crc32c_k crc xs)) ys"
  by (simp add: aetherfs_crc32c_k_def)

lemma crc32c_k_misses:
  "aetherfs_crc32c_k crc (xs @ [a XOR 2, b XOR 1] @ ys) = aetherfs_crc32c_k crc (xs @ [a, b] @ ys)"
  by (simp add: aetherfs_crc32c_k_def crc_step_k_cancel)

text \<open>Moving the elements behind a slot down over it, in an array of which the first \<open>count\<close> are in use.\<close>

definition close_gap :: "nat \<Rightarrow> nat \<Rightarrow> 'a list \<Rightarrow> 'a list" where
  "close_gap slot count xs = take slot xs @ take (count - slot - 1) (drop (slot + 1) xs) @ drop (count - 1) xs"

lemma close_gap_length [simp]: "slot < count \<Longrightarrow> count \<le> length xs \<Longrightarrow> length (close_gap slot count xs) = length xs"
  by (simp add: close_gap_def)

lemma take_close_gap:
  assumes "slot < count" "count \<le> length xs"
  shows "take (count - 1) (close_gap slot count xs) = take slot (take count xs) @ drop (slot + 1) (take count xs)"
proof -
  obtain d where "count = Suc (slot + d)"
    using assms(1) less_iff_Suc_add by blast
  then show ?thesis
    using assms(2) by (auto simp: close_gap_def drop_take min_def)
qed

section \<open>The superblock information\<close>

definition AETHERFS_DATA_START_BLOCK_k :: u32 where
  "AETHERFS_DATA_START_BLOCK_k = 7"

definition AETHERFS_BLOCKS_PER_GROUP_k :: u32 where
  "AETHERFS_BLOCKS_PER_GROUP_k = 2097152"

record sb_info =
  s_blocksize_k :: u32
  s_blocks_count_k :: u64
  s_root_inode_k :: u64
  s_groups_k :: u64
  s_free_blocks_k :: u64
  s_free_inodes_k :: u64
  s_next_ino_k :: u64
  s_mount_opt_k :: u32
  s_dirty_k :: bool

text \<open>The blocks of the device; reading or getting a block fails where there is none.\<close>

type_synonym disk = "u64 \<Rightarrow> byte list option"

definition aetherfs_alloc_blocks :: "u64 \<Rightarrow> sb_info \<Rightarrow> u64 \<times> sb_info" where
  "aetherfs_alloc_blocks len info =
    (if s_free_blocks_k info = 0 then (0, info)
     else
       let block = s_next_ino_k info mod ucast AETHERFS_BLOCKS_PER_GROUP_k + ucast AETHERFS_DATA_START_BLOCK_k;
           block = (if block \<ge> s_blocks_count_k info then ucast AETHERFS_DATA_START_BLOCK_k else block) in
       (block, info\<lparr>s_next_ino_k := s_next_ino_k info + 1, s_free_blocks_k := s_free_blocks_k info - len, s_dirty_k := True\<rparr>))"

definition aetherfs_free_blocks :: "u64 \<Rightarrow> u64 \<Rightarrow> sb_info \<Rightarrow> sb_info" where
  "aetherfs_free_blocks start len info =
    (if start = 0 \<or> len = 0 then info
     else info\<lparr>s_free_blocks_k := s_free_blocks_k info + len, s_dirty_k := True\<rparr>)"

text \<open>The type of a file in its mode.\<close>

definition S_ISREG_k :: "u32 \<Rightarrow> bool" where "S_ISREG_k m \<longleftrightarrow> m AND 0xF000 = 0x8000"
definition S_ISDIR_k :: "u32 \<Rightarrow> bool" where "S_ISDIR_k m \<longleftrightarrow> m AND 0xF000 = 0x4000"
definition S_ISLNK_k :: "u32 \<Rightarrow> bool" where "S_ISLNK_k m \<longleftrightarrow> m AND 0xF000 = 0xA000"

definition S_ISCHR_k :: "u32 \<Rightarrow> bool" where "S_ISCHR_k m \<longleftrightarrow> m AND 0xF000 = 0x2000"
definition S_ISBLK_k :: "u32 \<Rightarrow> bool" where "S_ISBLK_k m \<longleftrightarrow> m AND 0xF000 = 0x6000"

text \<open>A file system at rest.\<close>

definition idle_sb :: sb_info where
  "idle_sb = \<lparr>s_blocksize_k = 4096, s_blocks_count_k = 65536, s_root_inode_k = 2, s_groups_k = 1, s_free_blocks_k = 60000,
    s_free_inodes_k = 8000, s_next_ino_k = 17, s_mount_opt_k = 0, s_dirty_k = False\<rparr>"

end
