(* ===== verification/Kernel_Balloc.thy ===== *)
theory Kernel_Balloc
  imports Kernel_Base
begin

text \<open>
  The bitmap allocator of the module (\<open>kernel/balloc.c\<close>): a bitmap of 32768 bits for each
  allocation group, searched from a preferred group on.  Setting or clearing bits behind the
  end of a bitmap, which the code does not prevent, is the outcome None.
\<close>

section \<open>The code\<close>

datatype allocation_class = AETHERFS_ALLOC_HOT | AETHERFS_ALLOC_WARM | AETHERFS_ALLOC_COLD

record ag_bitmap =
  ab_bitmap :: "bool list"
  ab_bits :: u32
  ab_free :: u32
  ab_reserved :: u32

record alloc_class =
  ac_class :: allocation_class
  ac_preferred_ag :: u32
  ac_min_size :: u32
  ac_max_size :: u32
  ac_device_hint :: byte

record free_space_info =
  fs_ag_bitmaps :: "ag_bitmap list"
  fs_ag_count :: u32
  fs_classes :: "alloc_class list"

definition AETHERFS_BITMAP_BITS_k :: u32 where
  "AETHERFS_BITMAP_BITS_k = 4096 * 8"

text \<open>The bitmap functions of the kernel.\<close>

definition find_next_zero_bit :: "bool list \<Rightarrow> nat \<Rightarrow> nat \<Rightarrow> nat" where
  "find_next_zero_bit bm sz off = (case find (\<lambda>i. \<not> bm ! i) [off..<sz] of Some i \<Rightarrow> i | None \<Rightarrow> sz)"

definition set_bits_range :: "bool \<Rightarrow> nat \<Rightarrow> nat \<Rightarrow> bool list \<Rightarrow> bool list option" where
  "set_bits_range v pos n bm = (if pos + n \<le> length bm then Some (take pos bm @ replicate n v @ drop (pos + n) bm) else None)"

definition find_next_zero_bit_wrap :: "bool list \<Rightarrow> nat \<Rightarrow> nat \<Rightarrow> nat" where
  "find_next_zero_bit_wrap bm sz off =
    (let pos = find_next_zero_bit bm sz off in if pos \<ge> sz then find_next_zero_bit bm sz 0 else pos)"

definition ag_bitmap_init :: "bool \<Rightarrow> u32 \<Rightarrow> ag_bitmap result" where
  "ag_bitmap_init memory bits =
    (if bits = 0 then Inl EINVAL
     else if \<not> memory then Inl ENOMEM
     else Inr \<lparr>ab_bitmap = replicate (unat bits) False, ab_bits = bits, ab_free = bits, ab_reserved = 0\<rparr>)"

definition ag_bitmap_alloc :: "ag_bitmap \<Rightarrow> u32 \<Rightarrow> (u32 result \<times> ag_bitmap) option" where
  "ag_bitmap_alloc agb count =
    (if count = 0 then Some (Inl EINVAL, agb)
     else if ab_free agb < count then Some (Inl ENOSPC, agb)
     else
       let pos = find_next_zero_bit_wrap (ab_bitmap agb) (unat (ab_bits agb)) 0 in
       if pos \<ge> unat (ab_bits agb) then Some (Inl ENOSPC, agb)
       else case set_bits_range True pos (unat count) (ab_bitmap agb) of
         None \<Rightarrow> None
       | Some bm \<Rightarrow> Some (Inr (of_nat pos), agb\<lparr>ab_bitmap := bm, ab_free := ab_free agb - count\<rparr>))"

definition ag_bitmap_free :: "ag_bitmap \<Rightarrow> u64 \<Rightarrow> u32 \<Rightarrow> ag_bitmap option" where
  "ag_bitmap_free agb block count =
    (if block = 0 \<or> count = 0 then Some agb
     else case set_bits_range False (unat (ucast block :: u32)) (unat count) (ab_bitmap agb) of
       None \<Rightarrow> None
     | Some bm \<Rightarrow> Some (agb\<lparr>ab_bitmap := bm, ab_free := ab_free agb + count\<rparr>))"

definition free_space_init_class :: "allocation_class \<Rightarrow> alloc_class" where
  "free_space_init_class cls =
    (let ac = \<lparr>ac_class = cls, ac_preferred_ag = 0, ac_min_size = 1, ac_max_size = 256, ac_device_hint = 0\<rparr> in
     case cls of
       AETHERFS_ALLOC_HOT \<Rightarrow> ac\<lparr>ac_min_size := 1, ac_max_size := 16\<rparr>
     | AETHERFS_ALLOC_WARM \<Rightarrow> ac\<lparr>ac_min_size := 16, ac_max_size := 128\<rparr>
     | AETHERFS_ALLOC_COLD \<Rightarrow> ac\<lparr>ac_min_size := 128, ac_max_size := 1024\<rparr>)"

text \<open>The bitmaps are allocated one by one; \<open>memory i\<close> says whether the \<open>i\<close>-th request succeeds.\<close>

primrec init_bitmaps :: "(nat \<Rightarrow> bool) \<Rightarrow> nat \<Rightarrow> ag_bitmap list result" where
  "init_bitmaps memory 0 = Inr []"
| "init_bitmaps memory (Suc i) =
    (case init_bitmaps memory i of
       Inl e \<Rightarrow> Inl e
     | Inr bms \<Rightarrow> (case ag_bitmap_init (memory i) AETHERFS_BITMAP_BITS_k of Inl e \<Rightarrow> Inl e | Inr b \<Rightarrow> Inr (bms @ [b])))"

definition aetherfs_free_space_init :: "bool \<Rightarrow> bool \<Rightarrow> (nat \<Rightarrow> bool) \<Rightarrow> u32 \<Rightarrow> free_space_info result" where
  "aetherfs_free_space_init memory_info memory_array memory ag_count =
    (if \<not> memory_info then Inl ENOMEM
     else if \<not> memory_array then Inl ENOMEM
     else case init_bitmaps memory (unat ag_count) of
       Inl e \<Rightarrow> Inl e
     | Inr bms \<Rightarrow> Inr \<lparr>fs_ag_bitmaps = bms, fs_ag_count = ag_count,
         fs_classes = map free_space_init_class [AETHERFS_ALLOC_HOT, AETHERFS_ALLOC_WARM, AETHERFS_ALLOC_COLD]\<rparr>)"

text \<open>
  The loop over the groups.  The product of group number and group size is one of 32-bit
  numbers.
\<close>

primrec alloc_from :: "u32 \<Rightarrow> u32 \<Rightarrow> nat list \<Rightarrow> free_space_info \<Rightarrow> (u64 \<times> free_space_info) option" where
  "alloc_from count ag_hint [] fsi = Some (0, fsi)"
| "alloc_from count ag_hint (ag # ags) fsi =
    (let try_ag = (ag_hint + of_nat ag) mod fs_ag_count fsi in
     case ag_bitmap_alloc (fs_ag_bitmaps fsi ! unat try_ag) count of
       None \<Rightarrow> None
     | Some (Inl _, _) \<Rightarrow> alloc_from count ag_hint ags fsi
     | Some (Inr pos, agb) \<Rightarrow>
         Some (ucast pos + ucast (try_ag * AETHERFS_BLOCKS_PER_GROUP_k) + ucast AETHERFS_DATA_START_BLOCK_k,
               fsi\<lparr>fs_ag_bitmaps := (fs_ag_bitmaps fsi)[unat try_ag := agb]\<rparr>))"

definition aetherfs_free_space_destroy :: "free_space_info option \<Rightarrow> free_space_info option" where
  "aetherfs_free_space_destroy s_private = None"

text \<open>The kind of allocation only selects a record that is not read.\<close>

definition aetherfs_alloc_blocks_extended ::
  "u32 \<Rightarrow> allocation_class \<Rightarrow> u32 \<Rightarrow> free_space_info option \<Rightarrow> sb_info \<Rightarrow> (u64 \<times> free_space_info option \<times> sb_info) option" where
  "aetherfs_alloc_blocks_extended count cls ag_hint s_private info =
    (if count = 0 then Some (0, s_private, info)
     else case s_private of
       None \<Rightarrow> Some (0, s_private, info)
     | Some fsi \<Rightarrow>
         let ag_hint = (if ag_hint \<ge> fs_ag_count fsi then 0 else ag_hint) in
         (case alloc_from count ag_hint [0..<unat (fs_ag_count fsi)] fsi of
            None \<Rightarrow> None
          | Some (block, fsi) \<Rightarrow>
              Some (block, Some fsi,
                if block = 0 then info else info\<lparr>s_free_blocks_k := s_free_blocks_k info - ucast count\<rparr>)))"

definition aetherfs_free_blocks_extended ::
  "u64 \<Rightarrow> u32 \<Rightarrow> free_space_info option \<Rightarrow> sb_info \<Rightarrow> (free_space_info option \<times> sb_info) option" where
  "aetherfs_free_blocks_extended start count s_private info =
    (if start = 0 \<or> count = 0 then Some (s_private, info)
     else case s_private of
       None \<Rightarrow> Some (s_private, info)
     | Some fsi \<Rightarrow>
         let ag_offset = start - ucast AETHERFS_DATA_START_BLOCK_k in
         if ag_offset \<ge> ucast (fs_ag_count fsi * AETHERFS_BLOCKS_PER_GROUP_k) then Some (s_private, info)
         else
           let ag = ucast (ag_offset div ucast AETHERFS_BLOCKS_PER_GROUP_k) :: u32;
               block_in_ag = ag_offset mod ucast AETHERFS_BLOCKS_PER_GROUP_k in
           if ag < fs_ag_count fsi then
             (case ag_bitmap_free (fs_ag_bitmaps fsi ! unat ag) block_in_ag count of
                None \<Rightarrow> None
              | Some agb \<Rightarrow> Some (Some (fsi\<lparr>fs_ag_bitmaps := (fs_ag_bitmaps fsi)[unat ag := agb]\<rparr>),
                  info\<lparr>s_free_blocks_k := s_free_blocks_k info + ucast count\<rparr>))
           else Some (s_private, info))"

section \<open>One bitmap\<close>

definition zero_bits :: "bool list \<Rightarrow> nat" where
  "zero_bits bm = length (filter Not bm)"

definition wf_bitmap :: "ag_bitmap \<Rightarrow> bool" where
  "wf_bitmap b \<longleftrightarrow> length (ab_bitmap b) = 32768 \<and> ab_bits b = 32768 \<and> unat (ab_free b) = zero_bits (ab_bitmap b)"

lemma find_next_zero_bit_0:
  "find_next_zero_bit bm (length bm) 0 = length (takeWhile id bm)"
proof -
  have "length (takeWhile id bm) = (case find (\<lambda>i. \<not> bm ! i) [0..<length bm] of Some i \<Rightarrow> i | None \<Rightarrow> length bm)"
  proof (cases "find (\<lambda>i. \<not> bm ! i) [0..<length bm]")
    case None
    then have "\<forall>x \<in> set bm. id x"
      by (auto simp: find_None_iff in_set_conv_nth)
    then show ?thesis
      using None by (simp add: takeWhile_eq_all_conv [THEN iffD2])
  next
    case (Some i)
    then obtain j where j: "j < length [0..<length bm]" "\<not> bm ! ([0..<length bm] ! j)" "i = [0..<length bm] ! j"
      "\<forall>k < j. bm ! ([0..<length bm] ! k)"
      unfolding find_Some_iff by auto
    then have "i < length bm" "\<not> bm ! i" "\<forall>k < i. bm ! k"
      by auto
    then have "length (takeWhile id bm) = i"
      by (intro antisym) (metis id_apply leI length_takeWhile_le nth_mem order_less_le_trans set_takeWhileD takeWhile_nth,
        metis id_apply length_takeWhile_le nth_length_takeWhile linorder_not_le order_less_trans)
    then show ?thesis
      using Some by simp
  qed
  then show ?thesis
    by (simp add: find_next_zero_bit_def)
qed


lemma set_bits_range_1: "pos < length bm \<Longrightarrow> set_bits_range v pos 1 bm = Some (bm[pos := v])"
  by (simp add: set_bits_range_def upd_conv_take_nth_drop)

lemma zero_bits_set: "pos < length bm \<Longrightarrow> \<not> bm ! pos \<Longrightarrow> Suc (zero_bits (bm[pos := True])) = zero_bits bm"
  by (induction bm arbitrary: pos) (auto simp: zero_bits_def nth_Cons split: nat.splits)

lemma zero_bits_clear: "pos < length bm \<Longrightarrow> bm ! pos \<Longrightarrow> zero_bits (bm[pos := False]) = Suc (zero_bits bm)"
  by (induction bm arbitrary: pos) (auto simp: zero_bits_def nth_Cons split: nat.splits)

lemma zero_bits_le: "zero_bits bm \<le> length bm"
  by (simp add: zero_bits_def)

lemma zero_bits_0: "zero_bits bm = 0 \<longleftrightarrow> (\<forall>i < length bm. bm ! i)"
  by (simp add: zero_bits_def filter_empty_conv all_set_conv_all_nth)

lemma ag_bitmap_init_ok:
  "ag_bitmap_init m bits = Inr b \<Longrightarrow>
    ab_bitmap b = replicate (unat bits) False \<and> ab_bits b = bits \<and> ab_free b = bits \<and> zero_bits (ab_bitmap b) = unat bits"
  by (auto simp: ag_bitmap_init_def zero_bits_def split: if_splits)

lemma wf_bitmap_init:
  assumes "ag_bitmap_init m AETHERFS_BITMAP_BITS_k = Inr b"
  shows "wf_bitmap b" "i < 32768 \<Longrightarrow> \<not> ab_bitmap b ! i"
proof -
  have bits: "AETHERFS_BITMAP_BITS_k = 32768" "unat AETHERFS_BITMAP_BITS_k = 32768"
    by (simp_all add: AETHERFS_BITMAP_BITS_k_def)
  show "wf_bitmap b"
    using ag_bitmap_init_ok [OF assms] by (metis wf_bitmap_def bits length_replicate)
  show "i < 32768 \<Longrightarrow> \<not> ab_bitmap b ! i"
    using ag_bitmap_init_ok [OF assms] by (metis bits(2) nth_replicate)
qed

text \<open>One block: the first clear bit is found, exactly when there is one.\<close>

lemma ag_bitmap_alloc_none:
  assumes "wf_bitmap b" "\<forall>i < 32768. ab_bitmap b ! i"
  shows "ag_bitmap_alloc b 1 = Some (Inl ENOSPC, b)"
proof -
  have "unat (ab_free b) = 0"
    using assms by (simp add: wf_bitmap_def zero_bits_0)
  then show ?thesis
    by (simp add: ag_bitmap_alloc_def unat_eq_zero)
qed

lemma ag_bitmap_alloc_one:
  assumes wf: "wf_bitmap b" and free: "i < 32768" "\<not> ab_bitmap b ! i"
  obtains pos where "pos < 32768" "\<not> ab_bitmap b ! pos"
    "ag_bitmap_alloc b 1 = Some (Inr (of_nat pos), b\<lparr>ab_bitmap := (ab_bitmap b)[pos := True], ab_free := ab_free b - 1\<rparr>)"
    "wf_bitmap (b\<lparr>ab_bitmap := (ab_bitmap b)[pos := True], ab_free := ab_free b - 1\<rparr>)"
proof
  let ?pos = "length (takeWhile id (ab_bitmap b))"
  have len: "length (ab_bitmap b) = 32768" "unat (ab_bits b) = 32768"
    using wf by (simp_all add: wf_bitmap_def)
  have "\<not> (\<forall>x \<in> set (ab_bitmap b). id x)"
    using free len by (auto simp: all_set_conv_all_nth)
  then have "takeWhile id (ab_bitmap b) \<noteq> ab_bitmap b"
    by (metis takeWhile_eq_all_conv)
  then have less: "?pos < length (ab_bitmap b)"
    by (metis length_takeWhile_le order_le_less takeWhile_eq_take take_all_iff)
  then show pos: "?pos < 32768"
    by (simp add: len)
  show clear: "\<not> ab_bitmap b ! ?pos"
    using nth_length_takeWhile [OF less] by simp
  have "zero_bits (ab_bitmap b) \<noteq> 0"
    using free len by (auto simp: zero_bits_0)
  then have nz: "ab_free b \<noteq> 0"
    using wf by (auto simp: wf_bitmap_def)
  then have enough: "\<not> ab_free b < 1"
    by (simp add: word_less_1)
  have found: "find_next_zero_bit_wrap (ab_bitmap b) 32768 0 = ?pos"
    using find_next_zero_bit_0 [of "ab_bitmap b"] len less by (simp add: find_next_zero_bit_wrap_def)
  show "ag_bitmap_alloc b 1 = Some (Inr (of_nat ?pos), b\<lparr>ab_bitmap := (ab_bitmap b)[?pos := True], ab_free := ab_free b - 1\<rparr>)"
    using pos enough set_bits_range_1 [OF less] by (simp add: ag_bitmap_alloc_def len found Let_def del: One_nat_def)
  show "wf_bitmap (b\<lparr>ab_bitmap := (ab_bitmap b)[?pos := True], ab_free := ab_free b - 1\<rparr>)"
    using wf zero_bits_set [OF less clear] nz by (simp add: wf_bitmap_def unat_minus_one)
qed

lemma ag_bitmap_free_one:
  assumes wf: "wf_bitmap b" and pos: "0 < pos" "pos < 32768" "ab_bitmap b ! pos"
  shows "ag_bitmap_free b (of_nat pos) 1 = Some (b\<lparr>ab_bitmap := (ab_bitmap b)[pos := False], ab_free := ab_free b + 1\<rparr>)"
    "wf_bitmap (b\<lparr>ab_bitmap := (ab_bitmap b)[pos := False], ab_free := ab_free b + 1\<rparr>)"
proof -
  have len: "pos < length (ab_bitmap b)"
    using wf pos by (simp add: wf_bitmap_def)
  have small: "unat (ucast (of_nat pos :: u64) :: u32) = pos" "(of_nat pos :: u64) \<noteq> 0"
    using pos by (simp_all add: unsigned_ucast_eq unsigned_of_nat take_bit_nat_eq_self word_of_nat_eq_0_iff nat_dvd_not_less)
  show "ag_bitmap_free b (of_nat pos) 1 = Some (b\<lparr>ab_bitmap := (ab_bitmap b)[pos := False], ab_free := ab_free b + 1\<rparr>)"
    using set_bits_range_1 [OF len] by (simp add: ag_bitmap_free_def small del: One_nat_def)
  have "zero_bits ((ab_bitmap b)[pos := False]) \<le> 32768"
    using zero_bits_le [of "(ab_bitmap b)[pos := False]"] wf by (simp add: wf_bitmap_def)
  then have "unat (ab_free b + 1) = Suc (zero_bits (ab_bitmap b))"
    using wf zero_bits_clear [OF len pos(3)] by (simp add: wf_bitmap_def unat_word_ariths)
  then show "wf_bitmap (b\<lparr>ab_bitmap := (ab_bitmap b)[pos := False], ab_free := ab_free b + 1\<rparr>)"
    using wf zero_bits_clear [OF len pos(3)] by (simp add: wf_bitmap_def)
qed


section \<open>All groups\<close>

text \<open>
  The block numbers in use.  The number of groups is bounded because the code multiplies it by
  the group size in 32 bits.
\<close>

definition block_of :: "nat \<Rightarrow> nat \<Rightarrow> nat" where
  "block_of a p = 7 + a * 2097152 + p"

definition bit_of :: "free_space_info \<Rightarrow> nat \<Rightarrow> nat \<Rightarrow> bool" where
  "bit_of fsi a p \<longleftrightarrow> ab_bitmap (fs_ag_bitmaps fsi ! a) ! p"

definition in_use :: "free_space_info \<Rightarrow> nat set" where
  "in_use fsi = {block_of a p | a p. a < length (fs_ag_bitmaps fsi) \<and> p < 32768 \<and> bit_of fsi a p}"

definition wf_space :: "free_space_info \<Rightarrow> bool" where
  "wf_space fsi \<longleftrightarrow> length (fs_ag_bitmaps fsi) \<le> 2047 \<and> fs_ag_count fsi = of_nat (length (fs_ag_bitmaps fsi)) \<and>
    list_all wf_bitmap (fs_ag_bitmaps fsi)"

definition free_bits :: "free_space_info \<Rightarrow> nat" where
  "free_bits fsi = (\<Sum>b \<leftarrow> fs_ag_bitmaps fsi. unat (ab_free b))"

definition set_bit_of :: "nat \<Rightarrow> nat \<Rightarrow> bool \<Rightarrow> u32 \<Rightarrow> free_space_info \<Rightarrow> free_space_info" where
  "set_bit_of a p v n fsi =
    (let b = fs_ag_bitmaps fsi ! a in
     fsi\<lparr>fs_ag_bitmaps := (fs_ag_bitmaps fsi)[a := b\<lparr>ab_bitmap := (ab_bitmap b)[p := v], ab_free := n\<rparr>]\<rparr>)"

lemma set_bit_of_length [simp]: "length (fs_ag_bitmaps (set_bit_of a p v n fsi)) = length (fs_ag_bitmaps fsi)"
  by (simp add: set_bit_of_def Let_def)

lemma block_of_inj:
  assumes "p < 32768" "q < 32768"
  shows "block_of a p = block_of c q \<longleftrightarrow> a = c \<and> p = q"
proof -
  have "(block_of a p - 7) div 2097152 = a" "(block_of a p - 7) mod 2097152 = p"
    "(block_of c q - 7) div 2097152 = c" "(block_of c q - 7) mod 2097152 = q"
    using assms by (simp_all add: block_of_def)
  then show ?thesis
    by metis
qed

lemma wf_space_nth: "wf_space fsi \<Longrightarrow> a < length (fs_ag_bitmaps fsi) \<Longrightarrow> wf_bitmap (fs_ag_bitmaps fsi ! a)"
  by (simp add: wf_space_def list_all_length)

lemma in_use_block: "p < 32768 \<Longrightarrow> block_of a p \<in> in_use fsi \<longleftrightarrow> a < length (fs_ag_bitmaps fsi) \<and> bit_of fsi a p"
  by (auto simp: in_use_def block_of_inj)

lemma bit_of_set:
  assumes "wf_space fsi" "a < length (fs_ag_bitmaps fsi)" "c < length (fs_ag_bitmaps fsi)" "p < 32768"
  shows "bit_of (set_bit_of a p v n fsi) c q \<longleftrightarrow> (if c = a \<and> q = p then v else bit_of fsi c q)"
  using wf_space_nth [OF assms(1,2)] assms
  by (auto simp: bit_of_def set_bit_of_def Let_def nth_list_update wf_bitmap_def)

lemma in_use_set:
  assumes "wf_space fsi" "a < length (fs_ag_bitmaps fsi)" "p < 32768"
  shows "in_use (set_bit_of a p v n fsi) = (if v then insert (block_of a p) (in_use fsi) else in_use fsi - {block_of a p})"
    (is "?l = ?r")
proof -
  have "x \<in> ?l \<longleftrightarrow> x \<in> ?r" for x
  proof (cases "\<exists>c q. x = block_of c q \<and> q < 32768")
    case True
    then show ?thesis
      using assms by (auto simp: in_use_block bit_of_set block_of_inj split: if_splits)
  next
    case False
    then show ?thesis
      using assms by (auto simp: in_use_def)
  qed
  then show ?thesis
    by blast
qed

lemma wf_set_bit:
  assumes "wf_space fsi" "a < length (fs_ag_bitmaps fsi)"
    "wf_bitmap ((fs_ag_bitmaps fsi ! a)\<lparr>ab_bitmap := (ab_bitmap (fs_ag_bitmaps fsi ! a))[p := v], ab_free := n\<rparr>)"
  shows "wf_space (set_bit_of a p v n fsi)"
  using assms by (auto simp: wf_space_def set_bit_of_def Let_def list_all_length nth_list_update)

lemma sum_list_replace:
  fixes f :: "'a \<Rightarrow> nat"
  shows "a < length xs \<Longrightarrow> (\<Sum>b \<leftarrow> xs[a := y]. f b) + f (xs ! a) = (\<Sum>b \<leftarrow> xs. f b) + f y"
  by (induction xs arbitrary: a) (auto simp: nth_Cons split: nat.splits)

lemma free_bits_set:
  assumes "a < length (fs_ag_bitmaps fsi)"
  shows "free_bits (set_bit_of a p v n fsi) + unat (ab_free (fs_ag_bitmaps fsi ! a)) = free_bits fsi + unat n"
  using sum_list_replace [OF assms, where f = "\<lambda>b. unat (ab_free b)"]
  by (simp add: free_bits_def set_bit_of_def Let_def)

lemma block_word:
  assumes "a < 2047" "p < 32768"
  shows "ucast (of_nat p :: u32) + ucast (of_nat a * AETHERFS_BLOCKS_PER_GROUP_k) + ucast AETHERFS_DATA_START_BLOCK_k
      = (of_nat (block_of a p) :: u64)"
    "unat (of_nat (block_of a p) :: u64) = block_of a p"
proof -
  have bounds: "a * 2097152 < 2 ^ 32" "p < 2 ^ 32" "block_of a p < 2 ^ 64"
    using assms by (simp_all add: block_of_def)
  have "(of_nat a * AETHERFS_BLOCKS_PER_GROUP_k :: u32) = of_nat (a * 2097152)"
    by (simp add: AETHERFS_BLOCKS_PER_GROUP_k_def)
  then have "ucast (of_nat a * AETHERFS_BLOCKS_PER_GROUP_k) = (of_nat (a * 2097152) :: u64)"
    "ucast (of_nat p :: u32) = (of_nat p :: u64)" "ucast AETHERFS_DATA_START_BLOCK_k = (of_nat 7 :: u64)"
    using bounds by (simp_all add: word_unat_eq_iff unsigned_ucast_eq unsigned_of_nat take_bit_nat_eq_self AETHERFS_DATA_START_BLOCK_k_def
        del: of_nat_mult)
  then show "ucast (of_nat p :: u32) + ucast (of_nat a * AETHERFS_BLOCKS_PER_GROUP_k) + ucast AETHERFS_DATA_START_BLOCK_k
      = (of_nat (block_of a p) :: u64)"
    by (simp add: block_of_def)
  show "unat (of_nat (block_of a p) :: u64) = block_of a p"
    using bounds(3) by (simp add: unsigned_of_nat take_bit_nat_eq_self)
qed

lemma try_group:
  assumes "wf_space fsi" "fsi_n = length (fs_ag_bitmaps fsi)" "0 < fsi_n" "h < fsi_n" "i < fsi_n"
  shows "(of_nat h + of_nat i) mod fs_ag_count fsi = of_nat ((h + i) mod fsi_n)"
    "unat (of_nat ((h + i) mod fsi_n) :: u32) = (h + i) mod fsi_n"
proof -
  have n: "fsi_n \<le> 2047" "fs_ag_count fsi = of_nat fsi_n"
    using assms(1,2) by (simp_all add: wf_space_def)
  have "unat (of_nat (h + i) mod of_nat fsi_n :: u32) = (h + i) mod fsi_n"
    using assms(3-5) n(1) by (simp add: unat_mod unsigned_of_nat take_bit_nat_eq_self del: of_nat_add)
  then show "(of_nat h + of_nat i) mod fs_ag_count fsi = of_nat ((h + i) mod fsi_n)"
    by (metis n(2) of_nat_add of_nat_unat ucast_id)
  show "unat (of_nat ((h + i) mod fsi_n) :: u32) = (h + i) mod fsi_n"
    using order_less_le_trans [OF mod_less_divisor [OF assms(3), of "h + i"] n(1)]
    by (simp add: unsigned_of_nat take_bit_nat_eq_self)
qed

definition full_group :: "free_space_info \<Rightarrow> nat \<Rightarrow> bool" where
  "full_group fsi a \<longleftrightarrow> (\<forall>p < 32768. bit_of fsi a p)"

lemma alloc_from_one:
  assumes wf: "wf_space fsi" and n: "n = length (fs_ag_bitmaps fsi)" "0 < n" and h: "h < n" and ags: "\<forall>i \<in> set ags. i < n"
  shows "(alloc_from 1 (of_nat h) ags fsi = Some (0, fsi) \<and> (\<forall>i \<in> set ags. full_group fsi ((h + i) mod n))) \<or>
    (\<exists>a p. a < n \<and> p < 32768 \<and> \<not> bit_of fsi a p \<and>
       alloc_from 1 (of_nat h) ags fsi = Some (of_nat (block_of a p), set_bit_of a p True (ab_free (fs_ag_bitmaps fsi ! a) - 1) fsi) \<and>
       wf_space (set_bit_of a p True (ab_free (fs_ag_bitmaps fsi ! a) - 1) fsi) \<and> 0 < unat (ab_free (fs_ag_bitmaps fsi ! a)))"
  using ags
proof (induction ags)
  case Nil
  then show ?case by simp
next
  case (Cons i ags)
  let ?a = "(h + i) mod n"
  have a: "?a < n"
    using n by simp
  then have small: "?a < 2047"
    using n wf unfolding wf_space_def by (metis order_less_le_trans)
  note step = try_group [OF wf n(1,2) h, of i]
  have i: "i < n" using Cons.prems by simp
  have wfa: "wf_bitmap (fs_ag_bitmaps fsi ! ?a)"
    using wf a n by (simp add: wf_space_nth)
  show ?case
  proof (cases "full_group fsi ?a")
    case True
    then have "ag_bitmap_alloc (fs_ag_bitmaps fsi ! ?a) 1 = Some (Inl ENOSPC, fs_ag_bitmaps fsi ! ?a)"
      using ag_bitmap_alloc_none [OF wfa] by (simp add: full_group_def bit_of_def)
    then have eq: "alloc_from 1 (of_nat h) (i # ags) fsi = alloc_from 1 (of_nat h) ags fsi"
      using step i by simp
    show ?thesis
      using Cons True unfolding eq by auto
  next
    case False
    then obtain q where q: "q < 32768" "\<not> ab_bitmap (fs_ag_bitmaps fsi ! ?a) ! q"
      by (auto simp: full_group_def bit_of_def)
    obtain p where p: "p < 32768" "\<not> ab_bitmap (fs_ag_bitmaps fsi ! ?a) ! p"
      "ag_bitmap_alloc (fs_ag_bitmaps fsi ! ?a) 1 = Some (Inr (of_nat p), (fs_ag_bitmaps fsi ! ?a)
         \<lparr>ab_bitmap := (ab_bitmap (fs_ag_bitmaps fsi ! ?a))[p := True], ab_free := ab_free (fs_ag_bitmaps fsi ! ?a) - 1\<rparr>)"
      "wf_bitmap ((fs_ag_bitmaps fsi ! ?a)
         \<lparr>ab_bitmap := (ab_bitmap (fs_ag_bitmaps fsi ! ?a))[p := True], ab_free := ab_free (fs_ag_bitmaps fsi ! ?a) - 1\<rparr>)"
      by (rule ag_bitmap_alloc_one [OF wfa q])
    have "alloc_from 1 (of_nat h) (i # ags) fsi =
        Some (of_nat (block_of ?a p), set_bit_of ?a p True (ab_free (fs_ag_bitmaps fsi ! ?a) - 1) fsi)"
      using step i p(3) block_word(1) [OF small p(1)] by (simp add: set_bit_of_def Let_def)
    moreover have "wf_space (set_bit_of ?a p True (ab_free (fs_ag_bitmaps fsi ! ?a) - 1) fsi)"
      using wf_set_bit [OF wf _ p(4)] a n by simp
    moreover have "zero_bits (ab_bitmap (fs_ag_bitmaps fsi ! ?a)) \<noteq> 0"
      using p wfa by (auto simp: zero_bits_0 wf_bitmap_def)
    then have "0 < unat (ab_free (fs_ag_bitmaps fsi ! ?a))"
      using wfa by (simp add: wf_bitmap_def)
    ultimately show ?thesis
      using a p(1,2) by (auto simp: bit_of_def)
  qed
qed

lemma all_groups_tried:
  assumes "h < n" "a < (n::nat)"
  obtains i where "i < n" "a = (h + i) mod n"
proof (cases "h \<le> a")
  case True
  then show ?thesis using that [of "a - h"] assms by simp
next
  case False
  then have "n - h + a < n" "h + (n - h + a) = n + a"
    using assms by simp_all
  then show ?thesis using that [of "n - h + a"] assms by simp
qed

text \<open>
  Allocating one block: either every bit of every group is set, and nothing changes; or a
  block that was not in use is returned and is in use afterwards.
\<close>

lemma alloc_extended_one:
  assumes wf: "wf_space fsi"
  shows "(aetherfs_alloc_blocks_extended 1 cls hint (Some fsi) info = Some (0, Some fsi, info) \<and>
       (\<forall>a < length (fs_ag_bitmaps fsi). full_group fsi a)) \<or>
    (\<exists>b fsi'. aetherfs_alloc_blocks_extended 1 cls hint (Some fsi) info =
         Some (b, Some fsi', info\<lparr>s_free_blocks_k := s_free_blocks_k info - 1\<rparr>) \<and> b \<noteq> 0 \<and>
       unat b \<notin> in_use fsi \<and> in_use fsi' = insert (unat b) (in_use fsi) \<and> wf_space fsi' \<and> Suc (free_bits fsi') = free_bits fsi)"
proof (cases "fs_ag_bitmaps fsi = []")
  case True
  then show ?thesis
    using wf by (auto simp: wf_space_def aetherfs_alloc_blocks_extended_def)
next
  case False
  let ?n = "length (fs_ag_bitmaps fsi)"
  let ?h = "if hint \<ge> fs_ag_count fsi then 0 else hint"
  have n: "0 < ?n" "?n \<le> 2047" "fs_ag_count fsi = of_nat ?n" "unat (fs_ag_count fsi) = ?n"
    using False wf by (auto simp: wf_space_def unsigned_of_nat take_bit_nat_eq_self)
  have h: "unat ?h < ?n" "of_nat (unat ?h) = ?h"
    using n(1,4) by (auto simp: word_le_nat_alt)
  have call: "aetherfs_alloc_blocks_extended 1 cls hint (Some fsi) info =
      (case alloc_from 1 ?h [0..<?n] fsi of None \<Rightarrow> None
       | Some (block, fsi) \<Rightarrow> Some (block, Some fsi, if block = 0 then info else info\<lparr>s_free_blocks_k := s_free_blocks_k info - 1\<rparr>))"
  proof -
    have "ucast (1 :: u32) = (1 :: u64)" by simp
    then show ?thesis
      by (simp only: aetherfs_alloc_blocks_extended_def Let_def n(4) option.case if_False one_neq_zero)
  qed
  consider (full) "alloc_from 1 ?h [0..<?n] fsi = Some (0, fsi)" "\<forall>i \<in> set [0..<?n]. full_group fsi ((unat ?h + i) mod ?n)"
    | (found) a p where "a < ?n" "p < 32768" "\<not> bit_of fsi a p"
       "alloc_from 1 ?h [0..<?n] fsi = Some (of_nat (block_of a p), set_bit_of a p True (ab_free (fs_ag_bitmaps fsi ! a) - 1) fsi)"
       "wf_space (set_bit_of a p True (ab_free (fs_ag_bitmaps fsi ! a) - 1) fsi)" "0 < unat (ab_free (fs_ag_bitmaps fsi ! a))"
    using alloc_from_one [OF wf refl n(1) h(1), of "[0..<?n]", unfolded h(2)] by auto
  then show ?thesis
  proof cases
    case full
    have "full_group fsi a" if "a < ?n" for a
      using all_groups_tried [OF h(1) that] full(2) by (metis atLeast_upt lessThan_iff)
    then show ?thesis
      unfolding call full(1) by simp
  next
    case found
    have w: "unat (of_nat (block_of a p) :: u64) = block_of a p"
      using block_word(2) [of a p] found n by simp
    have "of_nat (block_of a p) \<noteq> (0 :: u64)"
      using w by (metis add_is_0 block_of_def unat_0 zero_neq_numeral)
    moreover have "unat (ab_free (fs_ag_bitmaps fsi ! a) - 1) = unat (ab_free (fs_ag_bitmaps fsi ! a)) - 1"
      using found(6) by (simp add: unat_minus_one unat_gt_0)
    then have "Suc (free_bits (set_bit_of a p True (ab_free (fs_ag_bitmaps fsi ! a) - 1) fsi)) = free_bits fsi"
      using free_bits_set [OF found(1), of p True "ab_free (fs_ag_bitmaps fsi ! a) - 1"] found(6)
      by linarith
    ultimately show ?thesis
      unfolding call found(4) using found in_use_set [OF wf found(1,2)] by (auto simp: w in_use_block)
  qed
qed

text \<open>Freeing one block; the first block of a group is never given back.\<close>

lemma free_extended_one:
  assumes wf: "wf_space fsi" and a: "a < length (fs_ag_bitmaps fsi)" and p: "p < 32768" "bit_of fsi a p"
  shows "aetherfs_free_blocks_extended (of_nat (block_of a p)) 1 (Some fsi) info =
    Some (Some (if p = 0 then fsi else set_bit_of a p False (ab_free (fs_ag_bitmaps fsi ! a) + 1) fsi),
      info\<lparr>s_free_blocks_k := s_free_blocks_k info + 1\<rparr>)"
proof -
  let ?n = "length (fs_ag_bitmaps fsi)"
  have n: "?n \<le> 2047" "fs_ag_count fsi = of_nat ?n"
    using wf by (auto simp: wf_space_def)
  have off: "of_nat (block_of a p) - ucast AETHERFS_DATA_START_BLOCK_k = (of_nat (a * 2097152 + p) :: u64)"
    by (simp add: block_of_def AETHERFS_DATA_START_BLOCK_k_def)
  have u: "unat (of_nat (a * 2097152 + p) :: u64) = a * 2097152 + p"
    using a n p by (simp add: unsigned_of_nat take_bit_nat_eq_self del: of_nat_add of_nat_mult)
  have "unat (of_nat ?n * AETHERFS_BLOCKS_PER_GROUP_k) = ?n * 2097152"
    using n by (simp add: AETHERFS_BLOCKS_PER_GROUP_k_def unat_word_ariths unsigned_of_nat take_bit_nat_eq_self)
  then have limit: "\<not> ucast (fs_ag_count fsi * AETHERFS_BLOCKS_PER_GROUP_k) \<le> (of_nat (a * 2097152 + p) :: u64)"
    using a p n by (simp add: word_le_nat_alt u unsigned_ucast_eq take_bit_nat_eq_self del: of_nat_add of_nat_mult)
  have per: "ucast AETHERFS_BLOCKS_PER_GROUP_k = (2097152 :: u64)"
    by (simp add: AETHERFS_BLOCKS_PER_GROUP_k_def)
  have "(of_nat (a * 2097152 + p) :: u64) div 2097152 = of_nat a"
    using a p n by (simp add: word_unat_eq_iff unat_div u unsigned_of_nat take_bit_nat_eq_self del: of_nat_add of_nat_mult)
  then have ag: "(ucast ((of_nat (a * 2097152 + p) :: u64) div 2097152) :: u32) = of_nat a" "unat (of_nat a :: u32) = a"
    using a n by (simp_all add: word_unat_eq_iff unsigned_ucast_eq unsigned_of_nat take_bit_nat_eq_self)
  have off2: "(of_nat (a * 2097152 + p) :: u64) mod 2097152 = of_nat p"
    using a n p by (simp add: word_unat_eq_iff unat_mod u unsigned_of_nat take_bit_nat_eq_self del: of_nat_add of_nat_mult)
  have lt: "(of_nat a :: u32) < fs_ag_count fsi"
    using a n by (simp add: word_less_nat_alt unsigned_of_nat take_bit_nat_eq_self)
  have nz: "of_nat (block_of a p) \<noteq> (0 :: u64)"
    using block_word(2) [of a p] a n p by (metis add_is_0 block_of_def order_less_le_trans unat_0 zero_neq_numeral)
  have one: "ucast (1 :: u32) = (1 :: u64)"
    by simp
  have "ag_bitmap_free (fs_ag_bitmaps fsi ! a) (of_nat p) 1 = Some (if p = 0 then fs_ag_bitmaps fsi ! a else
      (fs_ag_bitmaps fsi ! a)\<lparr>ab_bitmap := (ab_bitmap (fs_ag_bitmaps fsi ! a))[p := False], ab_free := ab_free (fs_ag_bitmaps fsi ! a) + 1\<rparr>)"
    using ag_bitmap_free_one(1) [OF wf_space_nth [OF wf a], of p] p by (auto simp: bit_of_def ag_bitmap_free_def)
  then show ?thesis
    by (auto simp only: aetherfs_free_blocks_extended_def off limit per ag off2 lt nz one Let_def option.case one_neq_zero simp_thms if_True if_False
        set_bit_of_def list_update_id split: if_split) simp
qed

lemma free_extended_in_use:
  assumes wf: "wf_space fsi" and b: "unat b \<in> in_use fsi"
  shows "\<exists>fsi'. aetherfs_free_blocks_extended b 1 (Some fsi) info = Some (Some fsi', info\<lparr>s_free_blocks_k := s_free_blocks_k info + 1\<rparr>) \<and>
    wf_space fsi' \<and> in_use fsi' = (if (unat b - 7) mod 2097152 = 0 then in_use fsi else in_use fsi - {unat b}) \<and>
    free_bits fsi' = (if (unat b - 7) mod 2097152 = 0 then free_bits fsi else Suc (free_bits fsi))"
proof -
  obtain a p where ap: "unat b = block_of a p" "a < length (fs_ag_bitmaps fsi)" "p < 32768" "bit_of fsi a p"
    using b by (auto simp: in_use_def)
  have bw: "b = of_nat (block_of a p)"
    using ap(1) by (metis of_nat_unat ucast_id)
  have first: "(unat b - 7) mod 2097152 = 0 \<longleftrightarrow> p = 0"
    using ap(3) by (simp add: ap(1) block_of_def)
  note call = free_extended_one [OF wf ap(2-4), of info, folded bw]
  show ?thesis
  proof (cases "p = 0")
    case True
    then show ?thesis
      using wf call first by simp
  next
    case False
    have wfa: "wf_bitmap (fs_ag_bitmaps fsi ! a)"
      using wf ap by (simp add: wf_space_nth)
    have wf': "wf_bitmap ((fs_ag_bitmaps fsi ! a)\<lparr>ab_bitmap := (ab_bitmap (fs_ag_bitmaps fsi ! a))[p := False],
        ab_free := ab_free (fs_ag_bitmaps fsi ! a) + 1\<rparr>)"
      using ag_bitmap_free_one(2) [OF wfa] False ap by (simp add: bit_of_def)
    have "unat (ab_free (fs_ag_bitmaps fsi ! a) + 1) = Suc (unat (ab_free (fs_ag_bitmaps fsi ! a)))"
      using wfa zero_bits_le [of "ab_bitmap (fs_ag_bitmaps fsi ! a)"] by (simp add: wf_bitmap_def unat_word_ariths)
    then show ?thesis
      using call first False wf_set_bit [OF wf ap(2) wf'] in_use_set [OF wf ap(2,3), of False] ap(1)
        free_bits_set [OF ap(2), of p False "ab_free (fs_ag_bitmaps fsi ! a) + 1"] by simp
  qed
qed

section \<open>The contract of an allocator\<close>

text \<open>
  What callers rely on: a block that is handed out was free, and as long as there is capacity
  there is a block.  Whatever meets this never hands out a block twice.
\<close>

primrec alloc_run :: "('s \<Rightarrow> (u64 \<times> 's) option) \<Rightarrow> nat \<Rightarrow> 's \<Rightarrow> (u64 list \<times> 's) option" where
  "alloc_run alloc 0 s = Some ([], s)"
| "alloc_run alloc (Suc n) s =
    (case alloc s of
       None \<Rightarrow> None
     | Some (b, s) \<Rightarrow> (case alloc_run alloc n s of None \<Rightarrow> None | Some (bs, s) \<Rightarrow> Some (b # bs, s)))"

locale block_allocator =
  fixes good :: "'s \<Rightarrow> bool"
    and used :: "'s \<Rightarrow> nat set"
    and capacity :: "'s \<Rightarrow> nat"
    and alloc :: "'s \<Rightarrow> (u64 \<times> 's) option"
  assumes alloc_law: "good s \<Longrightarrow> \<exists>b s'. alloc s = Some (b, s') \<and> good s' \<and>
    (if b = 0 then s' = s \<and> capacity s = 0
     else unat b \<notin> used s \<and> used s' = insert (unat b) (used s) \<and> Suc (capacity s') = capacity s)"
begin

lemma alloc_run_fresh:
  assumes "good s"
  shows "\<exists>bs s'. alloc_run alloc n s = Some (bs, s') \<and> good s' \<and> distinct (filter (\<lambda>b. b \<noteq> 0) bs) \<and>
    (\<forall>b \<in> set bs. b \<noteq> 0 \<longrightarrow> unat b \<notin> used s) \<and> used s' = used s \<union> unat ` {b \<in> set bs. b \<noteq> 0} \<and>
    (n \<le> capacity s \<longrightarrow> 0 \<notin> set bs \<and> capacity s' = capacity s - n)"
  using assms
proof (induction n arbitrary: s)
  case 0
  then show ?case by simp
next
  case (Suc n)
  obtain b t where b: "alloc s = Some (b, t)" "good t"
    "if b = 0 then t = s \<and> capacity s = 0
     else unat b \<notin> used s \<and> used t = insert (unat b) (used s) \<and> Suc (capacity t) = capacity s"
    using alloc_law [OF Suc.prems] by blast
  obtain bs s' where bs: "alloc_run alloc n t = Some (bs, s')" "good s'" "distinct (filter (\<lambda>b. b \<noteq> 0) bs)"
    "\<forall>b \<in> set bs. b \<noteq> 0 \<longrightarrow> unat b \<notin> used t" "used s' = used t \<union> unat ` {b \<in> set bs. b \<noteq> 0}"
    "n \<le> capacity t \<longrightarrow> 0 \<notin> set bs \<and> capacity s' = capacity t - n"
    using Suc.IH [OF b(2)] by blast
  have run: "alloc_run alloc (Suc n) s = Some (b # bs, s')"
    by (simp add: b bs)
  show ?case
  proof (cases "b = 0")
    case True
    then have "{x. (x = b \<or> x \<in> set bs) \<and> x \<noteq> 0} = {x \<in> set bs. x \<noteq> 0}"
      by auto
    then show ?thesis
      using True b bs unfolding run by simp
  next
    case False
    then have "{x. (x = b \<or> x \<in> set bs) \<and> x \<noteq> 0} = insert b {x \<in> set bs. x \<noteq> 0}"
      by auto
    moreover have "b \<notin> set bs"
      using False b bs by auto
    ultimately show ?thesis
      using False b bs unfolding run by auto
  qed
qed

end

lemma full_no_free:
  assumes "wf_space fsi" "\<forall>a < length (fs_ag_bitmaps fsi). full_group fsi a"
  shows "free_bits fsi = 0"
proof -
  have "unat (ab_free b) = 0" if "b \<in> set (fs_ag_bitmaps fsi)" for b
  proof -
    from that obtain a where a: "a < length (fs_ag_bitmaps fsi)" "b = fs_ag_bitmaps fsi ! a"
      by (auto simp: in_set_conv_nth)
    then have "\<forall>i < length (ab_bitmap b). ab_bitmap b ! i"
      using assms wf_space_nth [OF assms(1) a(1)] by (auto simp: full_group_def bit_of_def wf_bitmap_def)
    then show ?thesis
      using wf_space_nth [OF assms(1) a(1)] a(2) by (simp add: wf_bitmap_def zero_bits_0 [THEN iffD2])
  qed
  then show ?thesis
    by (simp add: free_bits_def)
qed

definition space_good :: "free_space_info option \<times> sb_info \<Rightarrow> bool" where
  "space_good s \<longleftrightarrow> (\<exists>fsi. fst s = Some fsi \<and> wf_space fsi)"

definition space_used :: "free_space_info option \<times> sb_info \<Rightarrow> nat set" where
  "space_used s = (case fst s of None \<Rightarrow> {} | Some fsi \<Rightarrow> in_use fsi)"

definition space_capacity :: "free_space_info option \<times> sb_info \<Rightarrow> nat" where
  "space_capacity s = (case fst s of None \<Rightarrow> 0 | Some fsi \<Rightarrow> free_bits fsi)"

interpretation extended: block_allocator space_good space_used space_capacity
  "\<lambda>s. aetherfs_alloc_blocks_extended 1 cls hint (fst s) (snd s)" for cls hint
proof unfold_locales
  fix s
  assume "space_good s"
  then obtain fsi info where s: "s = (Some fsi, info)" "wf_space fsi"
    by (cases s) (auto simp: space_good_def)
  from alloc_extended_one [OF s(2), of cls hint info]
  show "\<exists>b s'. aetherfs_alloc_blocks_extended 1 cls hint (fst s) (snd s) = Some (b, s') \<and> space_good s' \<and>
    (if b = 0 then s' = s \<and> space_capacity s = 0
     else unat b \<notin> space_used s \<and> space_used s' = insert (unat b) (space_used s) \<and> Suc (space_capacity s') = space_capacity s)"
    using full_no_free [OF s(2)] s by (fastforce simp: space_good_def space_used_def space_capacity_def)
qed

text \<open>Initialisation meets the contract with nothing in use.\<close>

lemma init_bitmaps_ok:
  "init_bitmaps memory n = Inr bms \<Longrightarrow>
    length bms = n \<and> list_all wf_bitmap bms \<and> (\<forall>b \<in> set bms. unat (ab_free b) = 32768 \<and> (\<forall>i < 32768. \<not> ab_bitmap b ! i))"
proof (induction n arbitrary: bms)
  case 0
  then show ?case by simp
next
  case (Suc n)
  then obtain bs b where b: "init_bitmaps memory n = Inr bs" "ag_bitmap_init (memory n) AETHERFS_BITMAP_BITS_k = Inr b" "bms = bs @ [b]"
    by (auto split: sum.splits)
  have "unat (ab_free b) = 32768"
    using ag_bitmap_init_ok [OF b(2)] by (simp add: AETHERFS_BITMAP_BITS_k_def)
  then show ?case
    using Suc.IH [OF b(1)] wf_bitmap_init [OF b(2)] b(3) by auto
qed

lemma free_space_init_ok:
  assumes "aetherfs_free_space_init m1 m2 memory n = Inr fsi" "unat n \<le> 2047"
  shows "wf_space fsi" "in_use fsi = {}" "free_bits fsi = unat n * 32768"
proof -
  have bms: "init_bitmaps memory (unat n) = Inr (fs_ag_bitmaps fsi)" "fs_ag_count fsi = n"
    using assms(1) by (auto simp: aetherfs_free_space_init_def split: if_splits sum.splits)
  note ok = init_bitmaps_ok [OF bms(1)]
  show "wf_space fsi"
    using ok bms(2) assms(2) by (simp add: wf_space_def)
  show "in_use fsi = {}"
    using ok by (auto simp: in_use_def bit_of_def)
  have "(\<Sum>b \<leftarrow> fs_ag_bitmaps fsi. unat (ab_free b)) = (\<Sum>b \<leftarrow> fs_ag_bitmaps fsi. 32768)"
    using ok by (intro arg_cong [of _ _ sum_list] map_cong) auto
  then show "free_bits fsi = unat n * 32768"
    using ok by (simp add: free_bits_def sum_list_triv)
qed

text \<open>A request for several blocks looks at the first of them only.\<close>

lemma ag_bitmap_alloc_blind:
  assumes "wf_bitmap b" "count \<noteq> 0" "count \<le> ab_free b" "p = length (takeWhile id (ab_bitmap b))" "p + unat count \<le> 32768"
  shows "ag_bitmap_alloc b count = Some (Inr (of_nat p),
    b\<lparr>ab_bitmap := take p (ab_bitmap b) @ replicate (unat count) True @ drop (p + unat count) (ab_bitmap b), ab_free := ab_free b - count\<rparr>)"
proof -
  have len: "length (ab_bitmap b) = 32768" "unat (ab_bits b) = 32768"
    using assms(1) by (simp_all add: wf_bitmap_def)
  have "0 < unat count"
    using assms(2) by (simp add: unat_gt_0)
  then have less: "p < 32768"
    using assms(5) by linarith
  then have "find_next_zero_bit_wrap (ab_bitmap b) 32768 0 = p"
    using find_next_zero_bit_0 [of "ab_bitmap b"] len assms(4) by (simp add: find_next_zero_bit_wrap_def)
  then show ?thesis
    using assms(2,3,5) less by (simp add: ag_bitmap_alloc_def len Let_def set_bits_range_def)
qed

lemma free_space_init_succeeds: "\<exists>fsi. aetherfs_free_space_init True True (\<lambda>_. True) n = Inr fsi"
proof -
  have "\<exists>bms. init_bitmaps (\<lambda>_. True) k = Inr bms" for k
    by (induction k) (auto simp: ag_bitmap_init_def AETHERFS_BITMAP_BITS_k_def)
  then obtain bms where "init_bitmaps (\<lambda>_. True) (unat n) = Inr bms"
    by blast
  then show ?thesis
    by (simp add: aetherfs_free_space_init_def)
qed

end
