(* ===== verification/Kernel_Percpu.thy ===== *)
theory Kernel_Percpu
  imports Kernel_Balloc
begin

text \<open>
  What the module keeps per processor (\<open>kernel/percpu.c\<close>): a stack of free blocks, the
  journal lanes, which several processors use at the same time, and the counters of NUMA
  nodes.  The stack is used under a lock and without preemption, so each of its functions is
  one step; the lanes have no lock, and each access to a lane is a step of its own.  Where the
  code goes through a null pointer the outcome is None.
\<close>

section \<open>The stack of free blocks\<close>

record percpu_data =
  pd_active :: int
  pd_free_count :: nat
  pd_free_list :: "u64 list"
  pd_journal_seq :: u32
  pd_allocation_count :: int
  pd_lock_contention :: int

definition percpu_reset :: "percpu_data \<Rightarrow> percpu_data" where
  "percpu_reset p = p\<lparr>pd_active := 0, pd_allocation_count := 0, pd_lock_contention := 0, pd_free_count := 0, pd_journal_seq := 0\<rparr>"

definition aetherfs_get_percpu :: "percpu_data \<Rightarrow> percpu_data" where
  "aetherfs_get_percpu p = p\<lparr>pd_active := pd_active p + 1\<rparr>"

definition aetherfs_put_percpu :: "percpu_data \<Rightarrow> percpu_data" where
  "aetherfs_put_percpu p = p\<lparr>pd_active := pd_active p - 1\<rparr>"

text \<open>
  With an empty stack the block allocator is called for a null inode.  The first argument says
  whether the lock was taken.
\<close>

definition aetherfs_percpu_alloc_block :: "bool \<Rightarrow> percpu_data \<Rightarrow> (u64 \<times> percpu_data) option" where
  "aetherfs_percpu_alloc_block contended p =
    (let p = (if contended then p\<lparr>pd_lock_contention := pd_lock_contention p + 1\<rparr> else p) in
     if pd_free_count p > 0 then
       let p = p\<lparr>pd_free_count := pd_free_count p - 1\<rparr> in
       Some (pd_free_list p ! pd_free_count p, p\<lparr>pd_allocation_count := pd_allocation_count p - 1\<rparr>)
     else None)"

text \<open>With a full stack the block is to be freed in a null file system.\<close>

definition aetherfs_percpu_free_block :: "u64 \<Rightarrow> percpu_data \<Rightarrow> percpu_data option" where
  "aetherfs_percpu_free_block block p =
    (if pd_free_count p < 64 then
       Some (p\<lparr>pd_free_list := (pd_free_list p)[pd_free_count p := block], pd_free_count := pd_free_count p + 1\<rparr>)
     else None)"

definition aetherfs_percpu_flush :: "percpu_data list \<Rightarrow> percpu_data list option" where
  "aetherfs_percpu_flush ps = (if list_all (\<lambda>p. pd_free_count p = 0) ps then Some ps else None)"

definition aetherfs_get_alloc_contention :: "percpu_data list \<Rightarrow> int" where
  "aetherfs_get_alloc_contention ps = (\<Sum>p \<leftarrow> ps. pd_lock_contention p)"

definition aetherfs_get_active_operations :: "percpu_data list \<Rightarrow> int" where
  "aetherfs_get_active_operations ps = (\<Sum>p \<leftarrow> ps. pd_active p)"

section \<open>Journal lanes\<close>

datatype lane_state = LANE_IDLE | LANE_ACTIVE | LANE_COMMITTING | LANE_WAITING

record percpu_lane =
  ll_state :: lane_state
  ll_sequence :: u64
  ll_committed_seq :: u64
  ll_pending_ops :: int

definition fresh_lane :: percpu_lane where
  "fresh_lane = \<lparr>ll_state = LANE_IDLE, ll_sequence = 0, ll_committed_seq = 0, ll_pending_ops = 0\<rparr>"

definition aetherfs_percpu_init :: "int \<Rightarrow> percpu_data list \<Rightarrow> nat \<times> percpu_data list \<times> percpu_lane list" where
  "aetherfs_percpu_init online ps =
    (let n = min online 64; n = (if n < 1 then 1 else n) in (nat n, map percpu_reset ps, replicate (nat n) fresh_lane))"

definition aetherfs_get_lane_for_cpu :: "nat \<Rightarrow> nat \<Rightarrow> nat" where
  "aetherfs_get_lane_for_cpu nr_lanes cpu = cpu mod nr_lanes"

text \<open>
  Where a thread is: in \<open>aetherfs_journal_percpu_start\<close>, which reads the state until no commit
  is going on, increments the sequence number in two accesses, sets the state and counts the
  operation; in the operation, which has a sequence number; in
  \<open>aetherfs_journal_percpu_end\<close>; or in \<open>aetherfs_journal_percpu_commit\<close>, which
  tries a bounded number of times.
\<close>

datatype pc =
    Start_Check | Start_Load | Start_Store u64 | Start_Active u64 | Start_Pending u64
  | Running u64
  | End_Dec | End_Test | End_Committing
  | Commit_Wait nat | Commit_Seq | Commit_Idle
  | Finished "unit result"

fun lane_exec :: "percpu_lane \<Rightarrow> pc \<Rightarrow> percpu_lane \<times> pc" where
  "lane_exec l Start_Check = (l, if ll_state l = LANE_COMMITTING then Start_Check else Start_Load)"
| "lane_exec l Start_Load = (l, Start_Store (ll_sequence l))"
| "lane_exec l (Start_Store n) = (l\<lparr>ll_sequence := n + 1\<rparr>, Start_Active n)"
| "lane_exec l (Start_Active n) = (l\<lparr>ll_state := LANE_ACTIVE\<rparr>, Start_Pending n)"
| "lane_exec l (Start_Pending n) = (l\<lparr>ll_pending_ops := ll_pending_ops l + 1\<rparr>, Running n)"
| "lane_exec l (Running n) = (l, End_Dec)"
| "lane_exec l End_Dec = (l\<lparr>ll_pending_ops := ll_pending_ops l - 1\<rparr>, End_Test)"
| "lane_exec l End_Test = (l, if ll_pending_ops l = 0 then End_Committing else Finished (Inr ()))"
| "lane_exec l End_Committing = (l\<lparr>ll_state := LANE_COMMITTING\<rparr>, Finished (Inr ()))"
| "lane_exec l (Commit_Wait r) =
    (l, if ll_pending_ops l > 0 then (if r + 1 > 100000 then Finished (Inl EAGAIN) else Commit_Wait (r + 1)) else Commit_Seq)"
| "lane_exec l Commit_Seq = (l\<lparr>ll_committed_seq := ll_sequence l\<rparr>, Commit_Idle)"
| "lane_exec l Commit_Idle = (l\<lparr>ll_state := LANE_IDLE\<rparr>, Finished (Inr ()))"
| "lane_exec l (Finished r) = (l, Finished r)"

text \<open>One step of any thread.\<close>

inductive lane_step :: "percpu_lane \<times> pc list \<Rightarrow> percpu_lane \<times> pc list \<Rightarrow> bool" where
  thread: "i < length ps \<Longrightarrow> lane_exec l (ps ! i) = (l', p') \<Longrightarrow> lane_step (l, ps) (l', ps[i := p'])"

text \<open>Threads that are about to start an operation or to commit, on a new lane.\<close>

inductive lane_reachable :: "percpu_lane \<times> pc list \<Rightarrow> bool" where
  begin_all: "set ps \<subseteq> {Start_Check, Commit_Wait 0} \<Longrightarrow> lane_reachable (fresh_lane, ps)"
| step: "lane_reachable s \<Longrightarrow> lane_step s t \<Longrightarrow> lane_reachable t"

inductive_cases lane_stepE: "lane_step (l, ps) t"

section \<open>NUMA nodes\<close>

record numa_info =
  ni_cache_size :: u64
  ni_refs :: int

definition aetherfs_numa_get_node :: "nat \<Rightarrow> nat" where
  "aetherfs_numa_get_node node = (if node \<ge> 8 then 0 else node)"

text \<open>The processor's node at the time of the call, the outcome of the allocation and the size are arguments.\<close>

definition aetherfs_numa_alloc_cache :: "nat \<Rightarrow> bool \<Rightarrow> u64 \<Rightarrow> numa_info list \<Rightarrow> bool \<times> numa_info list" where
  "aetherfs_numa_alloc_cache node memory sz nodes =
    (let n = aetherfs_numa_get_node node; ni = nodes ! n in
     if memory then (True, nodes[n := ni\<lparr>ni_refs := ni_refs ni + 1, ni_cache_size := ni_cache_size ni + sz\<rparr>]) else (False, nodes))"

definition aetherfs_numa_free_cache :: "nat \<Rightarrow> u64 \<Rightarrow> numa_info list \<Rightarrow> numa_info list" where
  "aetherfs_numa_free_cache node sz nodes =
    (let n = (if node \<ge> 8 then 0 else node); ni = nodes ! n in
     nodes[n := ni\<lparr>ni_refs := ni_refs ni - 1, ni_cache_size := ni_cache_size ni - sz\<rparr>])"

text \<open>The number of allocation groups, \<open>AETHERFS_MAX_AG\<close>, is defined nowhere in the sources.\<close>

definition aetherfs_alloc_local ::
  "nat \<Rightarrow> nat \<Rightarrow> u32 \<Rightarrow> free_space_info option \<Rightarrow> sb_info \<Rightarrow> (u64 \<times> free_space_info option \<times> sb_info) option" where
  "aetherfs_alloc_local max_ag cpu count s_private info =
    aetherfs_alloc_blocks_extended count AETHERFS_ALLOC_HOT (of_nat (cpu mod max_ag)) s_private info"

section \<open>The stack\<close>

definition free_stack :: "percpu_data \<Rightarrow> u64 list" where
  "free_stack p = rev (take (pd_free_count p) (pd_free_list p))"

definition wf_percpu :: "percpu_data \<Rightarrow> bool" where
  "wf_percpu p \<longleftrightarrow> length (pd_free_list p) = 64 \<and> pd_free_count p \<le> 64"

lemma percpu_alloc_pop:
  assumes "wf_percpu p"
  shows "aetherfs_percpu_alloc_block c p = None \<longleftrightarrow> free_stack p = []"
    "aetherfs_percpu_alloc_block c p = Some (b, p') \<Longrightarrow> wf_percpu p' \<and> free_stack p = b # free_stack p'"
proof -
  show "aetherfs_percpu_alloc_block c p = None \<longleftrightarrow> free_stack p = []"
    using assms by (auto simp: aetherfs_percpu_alloc_block_def free_stack_def wf_percpu_def Let_def)
  assume "aetherfs_percpu_alloc_block c p = Some (b, p')"
  then have "0 < pd_free_count p" "b = pd_free_list p ! (pd_free_count p - 1)" "pd_free_count p' = pd_free_count p - 1"
    "pd_free_list p' = pd_free_list p"
    by (auto simp: aetherfs_percpu_alloc_block_def Let_def split: if_splits)
  then show "wf_percpu p' \<and> free_stack p = b # free_stack p'"
    using assms by (cases "pd_free_count p") (auto simp: wf_percpu_def free_stack_def take_Suc_conv_app_nth)
qed

lemma percpu_free_push:
  assumes "wf_percpu p"
  shows "aetherfs_percpu_free_block b p = None \<longleftrightarrow> length (free_stack p) = 64"
    "aetherfs_percpu_free_block b p = Some p' \<Longrightarrow> wf_percpu p' \<and> free_stack p' = b # free_stack p"
  using assms by (auto simp: aetherfs_percpu_free_block_def free_stack_def wf_percpu_def take_Suc_conv_app_nth split: if_splits)

section \<open>The lanes\<close>

definition in_operation :: "pc \<Rightarrow> bool" where
  "in_operation p \<longleftrightarrow> (\<exists>n. p = Running n) \<or> p = End_Dec"

definition operations :: "pc list \<Rightarrow> nat" where
  "operations ps = length (filter in_operation ps)"

lemma operations_update:
  assumes "i < length ps"
  shows "int (operations (ps[i := p])) = int (operations ps) - (if in_operation (ps ! i) then 1 else 0) + (if in_operation p then 1 else 0)"
  using assms
proof (induction ps arbitrary: i)
  case (Cons q ps)
  show ?case
  proof (cases i)
    case 0
    then show ?thesis
      by (simp add: operations_def)
  next
    case (Suc j)
    then have "j < length ps"
      using Cons.prems by simp
    from Cons.IH [OF this] Suc show ?thesis
      by (simp add: operations_def split: if_splits)
  qed
qed simp

text \<open>The counter is the number of operations that are going on, however the threads interleave.\<close>

lemma lane_exec_pending:
  "lane_exec l p = (l', p') \<Longrightarrow>
    ll_pending_ops l' = ll_pending_ops l - (if in_operation p then 1 else 0) + (if in_operation p' then 1 else 0)"
  by (cases "(l, p)" rule: lane_exec.cases) (auto simp: in_operation_def split: if_splits)

lemma lane_pending:
  assumes "lane_reachable (l, ps)"
  shows "ll_pending_ops l = int (operations ps)"
proof -
  have "ll_pending_ops (fst s) = int (operations (snd s))" if "lane_reachable s" for s
    using that
  proof (induction rule: lane_reachable.induct)
    case (begin_all ps)
    then have "operations ps = 0"
      by (auto simp: operations_def in_operation_def filter_empty_conv)
    then show ?case
      by (simp add: fresh_lane_def)
  next
    case (step s t)
    then show ?case
      by (cases s) (auto elim!: lane_stepE simp: operations_update dest!: lane_exec_pending)
  qed
  from this [OF assms] show ?thesis
    by simp
qed

text \<open>A commit goes ahead only when it sees no operation.\<close>

lemma commit_sees_none:
  assumes "lane_reachable (l, ps)" "lane_exec l (Commit_Wait r) = (l', Commit_Seq)"
  shows "operations ps = 0"
  using lane_pending [OF assms(1)] assms(2) by (simp split: if_splits)

text \<open>A commit always ends: after at most 100001 of its own steps, whatever the others do.\<close>

fun commit_fuel :: "pc \<Rightarrow> nat" where
  "commit_fuel (Commit_Wait r) = 100003 - min r 100000"
| "commit_fuel Commit_Seq = 2"
| "commit_fuel Commit_Idle = 1"
| "commit_fuel p = 0"

definition committing :: "pc \<Rightarrow> bool" where
  "committing p \<longleftrightarrow> (\<exists>r. p = Commit_Wait r \<and> r \<le> 100000) \<or> p = Commit_Seq \<or> p = Commit_Idle"

lemma commit_progress:
  assumes "committing p" "lane_exec l p = (l', p')"
  shows "commit_fuel p' < commit_fuel p \<and> (committing p' \<or> (\<exists>r. p' = Finished r))"
  using assms by (auto simp: committing_def split: if_splits)

text \<open>
  An operation is counted after the state is set, and the sequence number is incremented in two
  accesses.  So a commit can pass over an operation that has its number, and two operations can
  have the same number.
\<close>

fun schedule :: "nat list \<Rightarrow> percpu_lane \<times> pc list \<Rightarrow> percpu_lane \<times> pc list" where
  "schedule [] s = s"
| "schedule (i # is) (l, ps) = (let (l', p') = lane_exec l (ps ! i) in schedule is (l', ps[i := p']))"

lemma schedule_reachable:
  "lane_reachable s \<Longrightarrow> list_all (\<lambda>i. i < length (snd s)) is \<Longrightarrow> lane_reachable (schedule is s)"
proof (induction "is" s rule: schedule.induct)
  case (2 i "is" l ps)
  obtain l' p' where exec: "lane_exec l (ps ! i) = (l', p')"
    by fastforce
  then have "lane_reachable (l', ps[i := p'])"
    using 2 by (auto intro: lane_reachable.step lane_step.thread)
  then show ?case
    using 2 exec by (simp add: exec)
qed simp

lemma commit_passes_operation:
  "lane_reachable (\<lparr>ll_state = LANE_IDLE, ll_sequence = 1, ll_committed_seq = 1, ll_pending_ops = 1\<rparr>, [Running 0, Finished (Inr ())])"
proof -
  have "lane_reachable (schedule [0, 0, 0, 0, 1, 1, 1, 0] (fresh_lane, [Start_Check, Commit_Wait 0]))"
    by (rule schedule_reachable) (auto intro: lane_reachable.begin_all)
  then show ?thesis
    by (simp add: fresh_lane_def)
qed

lemma same_sequence_twice:
  "lane_reachable (\<lparr>ll_state = LANE_ACTIVE, ll_sequence = 1, ll_committed_seq = 0, ll_pending_ops = 2\<rparr>, [Running 0, Running 0])"
proof -
  have "lane_reachable (schedule [0, 1, 0, 1, 0, 1, 0, 1, 0, 1] (fresh_lane, [Start_Check, Start_Check]))"
    by (rule schedule_reachable) (auto intro: lane_reachable.begin_all)
  then show ?thesis
    by (simp add: fresh_lane_def)
qed

text \<open>
  The end of the last operation leaves the lane committing, and a start then waits until
  some thread commits.
\<close>

lemma start_waits:
  "lane_exec l End_Committing = (l', p) \<Longrightarrow> lane_exec l' Start_Check = (l', Start_Check)"
  by auto

end
