(* ===== verification/Kernel_File.thy ===== *)
theory Kernel_File
  imports Kernel_Base
begin

text \<open>
  How the module writes file data: block mapping (\<open>kernel/extent.c\<close>), the data modes of
  an inode (\<open>kernel/data_modes.c\<close>), exclusive and shared extents and the choice between
  overwriting and copying (\<open>kernel/layers.c\<close>), the copy-on-write stubs
  (\<open>kernel/cow.c\<close>, \<open>kernel/metadata_cow.c\<close>) and the devices of a pool
  (\<open>kernel/cow.c\<close>).  Copying more bytes than a buffer holds, which the code does not
  prevent, is the outcome None.
\<close>

section \<open>Block mapping\<close>

record inode_info =
  ei_ino :: u64
  ei_flags :: u32
  ei_dirty :: bool

record buffer_map =
  b_blocknr :: u64
  b_size :: u64
  b_new :: bool

text \<open>The extent node that is filled in belongs to nobody; only the return value remains.\<close>

definition aetherfs_extent_set :: "bool \<Rightarrow> u64 \<Rightarrow> u64 \<Rightarrow> u32 \<Rightarrow> unit result" where
  "aetherfs_extent_set memory lblock pblock len =
    (if lblock = 0 \<or> len = 0 then Inl EINVAL else if \<not> memory then Inl ENOMEM else Inr ())"

text \<open>The result is the physical block and the length; there never is one.\<close>

definition aetherfs_extent_get :: "u64 \<Rightarrow> (u64 \<times> u32) result" where
  "aetherfs_extent_get lblock = Inl ENOENT"

definition aetherfs_bmap :: "u64 \<Rightarrow> u64" where
  "aetherfs_bmap lblock = (case aetherfs_extent_get lblock of Inl _ \<Rightarrow> 0 | Inr (pblock, len) \<Rightarrow> pblock)"

definition aetherfs_get_blocks :: "bool \<Rightarrow> u64 \<Rightarrow> u32 \<Rightarrow> bool \<Rightarrow> sb_info \<Rightarrow> buffer_map result \<times> sb_info" where
  "aetherfs_get_blocks memory iblock max_blocks create info =
    (let err = aetherfs_extent_get iblock;
         (pblock, len) = (case err of Inl _ \<Rightarrow> (0, 0) | Inr e \<Rightarrow> e) in
     if isl err \<and> \<not> create then (Inl (projl err), info)
     else if create then
       let (pblock, info) = aetherfs_alloc_blocks 1 info in
       if pblock = 0 then (Inl ENOSPC, info)
       else case aetherfs_extent_set memory iblock pblock max_blocks of
         Inl e \<Rightarrow> (Inl e, info)
       | Inr _ \<Rightarrow> (Inr \<lparr>b_blocknr = pblock, b_size = ucast (len * s_blocksize_k info), b_new = True\<rparr>, info)
     else (Inr \<lparr>b_blocknr = pblock, b_size = ucast (len * s_blocksize_k info), b_new = False\<rparr>, info))"

section \<open>Data modes\<close>

definition AETHERFS_F_COW_k :: u32 where "AETHERFS_F_COW_k = 0x0001"
definition AETHERFS_F_COMPRESSED_k :: u32 where "AETHERFS_F_COMPRESSED_k = 0x0002"
definition AETHERFS_F_APPEND_k :: u32 where "AETHERFS_F_APPEND_k = 0x0020"
definition AETHERFS_COW_MODE :: int where "AETHERFS_COW_MODE = 0"
definition AETHERFS_OVERWRITE_MODE :: int where "AETHERFS_OVERWRITE_MODE = 1"
definition AETHERFS_APPEND_MODE :: int where "AETHERFS_APPEND_MODE = 2"
definition AETHERFS_COW_THRESHOLD :: u32 where "AETHERFS_COW_THRESHOLD = 4"

definition aetherfs_set_data_mode :: "int \<Rightarrow> inode_info \<Rightarrow> unit result \<times> inode_info" where
  "aetherfs_set_data_mode mode ei =
    (if mode = AETHERFS_COW_MODE then
       (Inr (), ei\<lparr>ei_flags := (ei_flags ei AND NOT AETHERFS_F_APPEND_k) OR AETHERFS_F_COW_k, ei_dirty := True\<rparr>)
     else if mode = AETHERFS_OVERWRITE_MODE then
       (Inr (), ei\<lparr>ei_flags := ei_flags ei AND NOT (AETHERFS_F_COW_k OR AETHERFS_F_APPEND_k), ei_dirty := True\<rparr>)
     else if mode = AETHERFS_APPEND_MODE then
       (Inr (), ei\<lparr>ei_flags := (ei_flags ei AND NOT AETHERFS_F_COW_k) OR AETHERFS_F_APPEND_k, ei_dirty := True\<rparr>)
     else (Inl EINVAL, ei))"

definition aetherfs_get_data_mode :: "inode_info \<Rightarrow> int" where
  "aetherfs_get_data_mode ei =
    (if ei_flags ei AND AETHERFS_F_APPEND_k \<noteq> 0 then AETHERFS_APPEND_MODE
     else if ei_flags ei AND AETHERFS_F_COW_k \<noteq> 0 then AETHERFS_COW_MODE
     else AETHERFS_OVERWRITE_MODE)"

text \<open>\<open>memcpy\<close> into a buffer.\<close>

definition copy_into :: "byte list \<Rightarrow> byte list \<Rightarrow> byte list option" where
  "copy_into buf data = (if length buf \<le> length data then Some (mem_put 0 buf data) else None)"

definition aetherfs_mode_overwrite_write :: "u64 \<Rightarrow> byte list \<Rightarrow> disk \<Rightarrow> (unit result \<times> disk) option" where
  "aetherfs_mode_overwrite_write iblock buf d =
    (case d iblock of
       None \<Rightarrow> Some (Inl EIO, d)
     | Some data \<Rightarrow> (case copy_into buf data of None \<Rightarrow> None | Some data \<Rightarrow> Some (Inr (), d(iblock \<mapsto> data))))"

text \<open>The number of bytes is an unsigned int; \<open>s_blocksize_bits\<close> is the second argument.\<close>

definition aetherfs_write_mode ::
  "inode_info \<Rightarrow> nat \<Rightarrow> u64 \<Rightarrow> byte list \<Rightarrow> disk \<times> sb_info \<Rightarrow> (unit result \<times> disk \<times> sb_info) option" where
  "aetherfs_write_mode ei s_blocksize_bits iblock buf = (\<lambda>(d, info).
    let blocks = drop_bit s_blocksize_bits (of_nat (length buf) + s_blocksize_k info - 1) in
    if aetherfs_get_data_mode ei = AETHERFS_COW_MODE \<and> blocks \<le> AETHERFS_COW_THRESHOLD then
      (case d iblock of
         None \<Rightarrow> Some (Inl EIO, d, info)
       | Some data \<Rightarrow>
           let (new_block, info) = aetherfs_alloc_blocks 1 info in
           if new_block = 0 then Some (Inl ENOSPC, d, info)
           else case d new_block of
             None \<Rightarrow> Some (Inl EIO, d, info)
           | Some _ \<Rightarrow> (case copy_into buf data of
                 None \<Rightarrow> None
               | Some new_data \<Rightarrow> Some (Inr (), d(new_block \<mapsto> new_data), info)))
    else map_option (\<lambda>(r, d). (r, d, info)) (aetherfs_mode_overwrite_write iblock buf d))"

definition aetherfs_should_cow :: "inode_info \<Rightarrow> bool" where
  "aetherfs_should_cow ei \<longleftrightarrow> aetherfs_get_data_mode ei = AETHERFS_COW_MODE"

definition aetherfs_should_append :: "inode_info \<Rightarrow> bool" where
  "aetherfs_should_append ei \<longleftrightarrow> aetherfs_get_data_mode ei = AETHERFS_APPEND_MODE"

definition aetherfs_is_cow_mode :: "u32 \<Rightarrow> bool" where
  "aetherfs_is_cow_mode flags \<longleftrightarrow> flags AND AETHERFS_F_COW_k \<noteq> 0"

definition aetherfs_is_append_mode :: "u32 \<Rightarrow> bool" where
  "aetherfs_is_append_mode flags \<longleftrightarrow> flags AND AETHERFS_F_APPEND_k \<noteq> 0"

section \<open>Exclusive and shared extents\<close>

record extent_ref =
  er_extent_id :: u64
  er_refcount :: u32
  er_flags :: u32

definition AETHERFS_EXT_SHARED :: u32 where "AETHERFS_EXT_SHARED = 0x0001"
definition AETHERFS_EXT_PINNED :: u32 where "AETHERFS_EXT_PINNED = 0x0002"
definition AETHERFS_EXT_EXCLUSIVE :: u32 where "AETHERFS_EXT_EXCLUSIVE = 0x0004"
definition AETHERFS_EXT_COW_PENDING :: u32 where "AETHERFS_EXT_COW_PENDING = 0x0008"

definition aetherfs_extent_is_exclusive :: "extent_ref \<Rightarrow> bool" where
  "aetherfs_extent_is_exclusive ref \<longleftrightarrow> er_refcount ref = 1 \<and> er_flags ref AND AETHERFS_EXT_PINNED = 0"

definition aetherfs_extent_is_shared :: "extent_ref \<Rightarrow> bool" where
  "aetherfs_extent_is_shared ref \<longleftrightarrow> er_refcount ref > 1 \<or> er_flags ref AND AETHERFS_EXT_SHARED \<noteq> 0"

definition aetherfs_extent_acquireExclusive :: "extent_ref \<Rightarrow> unit result \<times> extent_ref" where
  "aetherfs_extent_acquireExclusive ref =
    (if er_refcount ref > 1 then (Inl EBUSY, ref)
     else if er_flags ref AND AETHERFS_EXT_PINNED \<noteq> 0 then (Inl EBUSY, ref)
     else (Inr (), ref\<lparr>er_flags := er_flags ref OR AETHERFS_EXT_EXCLUSIVE\<rparr>))"

definition aetherfs_extent_releaseExclusive :: "extent_ref \<Rightarrow> extent_ref" where
  "aetherfs_extent_releaseExclusive ref = ref\<lparr>er_flags := er_flags ref AND NOT AETHERFS_EXT_EXCLUSIVE\<rparr>"

text \<open>
  The modes \<open>AETHERFS_MODE_COW\<close>, \<open>AETHERFS_MODE_OVERWRITE\<close>, \<open>AETHERFS_MODE_APPEND\<close> and
  \<open>AETHERFS_MODE_DEFAULT\<close> and the two functions that write in copy and append mode are
  declared nowhere in the sources; they are parameters.
\<close>

record modes =
  MODE_COW :: u32
  MODE_OVERWRITE :: u32
  MODE_APPEND :: u32
  MODE_DEFAULT :: u32

definition aetherfs_overwrite_allowed :: "modes \<Rightarrow> inode_info \<Rightarrow> extent_ref \<Rightarrow> unit result" where
  "aetherfs_overwrite_allowed ms ei ref =
    (if word_of_int (aetherfs_get_data_mode ei) \<noteq> MODE_OVERWRITE ms then Inr ()
     else if aetherfs_extent_is_exclusive ref then Inr () else Inl EBUSY)"

type_synonym writer = "u64 \<Rightarrow> byte list \<Rightarrow> disk \<Rightarrow> (unit result \<times> disk) option"

text \<open>The recursive call is one to copy mode; not returning is None.\<close>

partial_function (option) aetherfs_write_core :: "modes \<Rightarrow> writer \<Rightarrow> writer \<Rightarrow> inode_info \<Rightarrow> u32 \<Rightarrow> writer" where
  "aetherfs_write_core ms cow_write append_write ei mode iblock buf d =
    (if mode = MODE_OVERWRITE ms then
       (if aetherfs_overwrite_allowed ms ei \<lparr>er_extent_id = 0, er_refcount = 1, er_flags = 0\<rparr> = Inl EBUSY
        then aetherfs_write_core ms cow_write append_write ei (MODE_COW ms) iblock buf d
        else aetherfs_mode_overwrite_write iblock buf d)
     else if mode = MODE_COW ms then cow_write iblock buf d
     else if mode = MODE_APPEND ms then append_write iblock buf d
     else Some (Inl EINVAL, d))"

section \<open>Copy-on-write stubs\<close>

text \<open>The functions that copy metadata hand back the block, or the superblock, they were given.\<close>

definition aetherfs_cow_inode_metadata :: "inode_info \<Rightarrow> unit result" where
  "aetherfs_cow_inode_metadata ei = Inr ()"

definition aetherfs_cow_extent_tree :: "u64 \<Rightarrow> u64 result" where
  "aetherfs_cow_extent_tree tree_root_old = Inr tree_root_old"

definition aetherfs_cow_dir_block :: "u64 \<Rightarrow> u64 result" where
  "aetherfs_cow_dir_block block_old = Inr block_old"

definition aetherfs_cow_alloc_map :: "u64 \<Rightarrow> u64 result" where
  "aetherfs_cow_alloc_map bitmap_block_old = Inr bitmap_block_old"

definition aetherfs_cow_superblock :: "'es \<Rightarrow> 'es result" where
  "aetherfs_cow_superblock old_es = Inr old_es"

datatype meta_type = AETHERFS_META_INODE | AETHERFS_META_EXTENT_TREE | AETHERFS_META_DIR_BLOCK
  | AETHERFS_META_ALLOC_MAP | AETHERFS_META_SUPERBLOCK

definition aetherfs_cow_metadata_update :: "meta_type \<Rightarrow> u64 \<Rightarrow> u64 result" where
  "aetherfs_cow_metadata_update type old_block = Inr old_block"

definition aetherfs_cow_inode :: "inode_info option \<Rightarrow> unit result" where
  "aetherfs_cow_inode inode = (case inode of None \<Rightarrow> Inl EINVAL | Some _ \<Rightarrow> Inr ())"

definition aetherfs_cow_extent :: "inode_info option \<Rightarrow> u64 \<Rightarrow> u64 \<Rightarrow> unit result" where
  "aetherfs_cow_extent inode lblk len = (if inode = None \<or> len = 0 then Inl EINVAL else Inr ())"

definition aetherfs_write_with_checksum :: "byte list \<Rightarrow> byte list \<Rightarrow> byte list result option" where
  "aetherfs_write_with_checksum b_data data =
    (if data = [] then Some (Inl EINVAL) else map_option Inr (copy_into data b_data))"

text \<open>Reading more than the buffer holds is None as well.\<close>

definition aetherfs_read_verify :: "byte list \<Rightarrow> nat \<Rightarrow> byte list result option" where
  "aetherfs_read_verify b_data len =
    (if len = 0 then Some (Inl EINVAL) else if len \<le> length b_data then Some (Inr (take len b_data)) else None)"

section \<open>Devices\<close>

definition AETHERFS_DEV_FAILED :: u32 where "AETHERFS_DEV_FAILED = 0x0002"

record device_group =
  dg_count :: u32
  dg_flags :: "u32 list"

record device_alloc =
  a_preferred_dev :: u32
  a_max_segments :: u32
  a_queue_depth :: u32

record device_state =
  ds_group :: "device_group option"
  ds_count :: u32
  ds_alloc :: "device_alloc option"

definition aetherfs_device_init :: "bool \<Rightarrow> device_group \<Rightarrow> device_state \<Rightarrow> unit result \<times> device_state" where
  "aetherfs_device_init memory dg s =
    (let s = s\<lparr>ds_group := Some dg, ds_count := dg_count dg\<rparr> in
     if \<not> memory then (Inl ENOMEM, s\<lparr>ds_alloc := None\<rparr>)
     else (Inr (), s\<lparr>ds_alloc := Some \<lparr>a_preferred_dev = 0, a_max_segments = 256, a_queue_depth = 32\<rparr>\<rparr>))"

text \<open>Changing the flags of a device number behind the array of devices is None.\<close>

definition set_device_flags :: "(u32 \<Rightarrow> u32) \<Rightarrow> nat \<Rightarrow> device_group \<Rightarrow> device_state \<Rightarrow> (unit result \<times> device_state) option" where
  "set_device_flags f n dg s =
    (if n < length (dg_flags dg) then Some (Inr (), s\<lparr>ds_group := Some (dg\<lparr>dg_flags := (dg_flags dg)[n := f (dg_flags dg ! n)]\<rparr>)\<rparr>)
     else None)"

definition aetherfs_device_failed :: "int \<Rightarrow> device_state \<Rightarrow> (unit result \<times> device_state) option" where
  "aetherfs_device_failed devnr s =
    (case ds_group s of
       None \<Rightarrow> Some (Inl EINVAL, s)
     | Some dg \<Rightarrow>
         if devnr < 0 \<or> devnr \<ge> uint (dg_count dg) then Some (Inl EINVAL, s)
         else if devnr = 0 then Some (Inl EIO, s)
         else set_device_flags (\<lambda>fl. fl OR AETHERFS_DEV_FAILED) (nat devnr) dg s)"

definition aetherfs_device_online :: "int \<Rightarrow> device_state \<Rightarrow> (unit result \<times> device_state) option" where
  "aetherfs_device_online devnr s =
    (case ds_group s of
       None \<Rightarrow> Some (Inl EINVAL, s)
     | Some dg \<Rightarrow>
         if devnr < 0 \<or> devnr \<ge> uint (dg_count dg) then Some (Inl EINVAL, s)
         else set_device_flags (\<lambda>fl. fl AND NOT AETHERFS_DEV_FAILED) (nat devnr) dg s)"

section \<open>Properties\<close>

text \<open>The mapping is never found: a mapped buffer is a new one, of size 0.\<close>

lemma get_blocks_lookup: "aetherfs_get_blocks memory iblock n False info = (Inl ENOENT, info)"
  by (simp add: aetherfs_get_blocks_def aetherfs_extent_get_def)

lemma get_blocks_create:
  assumes "aetherfs_get_blocks memory iblock n True info = (Inr m, info')"
  shows "b_size m = 0 \<and> b_new m \<and> iblock \<noteq> 0 \<and> b_blocknr m = fst (aetherfs_alloc_blocks 1 info) \<and>
    info' = snd (aetherfs_alloc_blocks 1 info)"
  using assms by (auto simp: aetherfs_get_blocks_def aetherfs_extent_get_def aetherfs_extent_set_def split: prod.splits if_splits)

text \<open>Block 0 of a file cannot be created, and trying costs a block.\<close>

lemma get_blocks_zero:
  assumes "s_free_blocks_k info \<noteq> 0" "s_blocks_count_k info \<le> 2 ^ 62"
  shows "\<exists>info'. aetherfs_get_blocks memory 0 n True info = (Inl EINVAL, info') \<and> s_free_blocks_k info' = s_free_blocks_k info - 1"
proof -
  let ?b = "s_next_ino_k info mod 2097152 + 7"
  have m: "unat (s_next_ino_k info mod 2097152) < 2097152"
    by (simp add: unat_mod)
  then have "unat ?b = unat (s_next_ino_k info mod 2097152) + 7"
    by (simp add: unat_word_ariths)
  then have "?b \<noteq> 0"
    by (metis add_is_0 unat_0 zero_neq_numeral)
  then show ?thesis
    using assms by (simp add: aetherfs_get_blocks_def aetherfs_extent_get_def aetherfs_extent_set_def aetherfs_alloc_blocks_def
        AETHERFS_BLOCKS_PER_GROUP_k_def AETHERFS_DATA_START_BLOCK_k_def Let_def)
qed

text \<open>A mode that was set is the mode.\<close>

lemmas mode_defs = AETHERFS_F_COW_k_def AETHERFS_F_APPEND_k_def AETHERFS_F_COMPRESSED_k_def
  AETHERFS_COW_MODE_def AETHERFS_OVERWRITE_MODE_def AETHERFS_APPEND_MODE_def

lemma flag_bits:
  fixes x :: u32
  shows "x AND 32 \<noteq> 0 \<longleftrightarrow> bit x 5" "x AND 1 \<noteq> 0 \<longleftrightarrow> bit x 0"
  using and_exp_eq_0_iff_not_bit [of x 5] and_exp_eq_0_iff_not_bit [of x 0] by simp_all

lemma other_flags:
  fixes x :: u32
  shows "(x AND NOT a OR b) AND NOT (b OR a) = x AND NOT (b OR a)" "(x AND NOT b OR a) AND NOT (b OR a) = x AND NOT (b OR a)"
    "x AND NOT (b OR a) AND NOT (b OR a) = x AND NOT (b OR a)" "(x AND NOT y) AND y = 0"
  by (auto intro!: bit_eqI simp: bit_and_iff bit_or_iff bit_not_iff)

lemma set_get_data_mode:
  assumes "aetherfs_set_data_mode mode ei = (Inr (), ei')"
  shows "aetherfs_get_data_mode ei' = mode \<and> ei_dirty ei' \<and> ei_ino ei' = ei_ino ei \<and>
    ei_flags ei' AND NOT (AETHERFS_F_COW_k OR AETHERFS_F_APPEND_k) = ei_flags ei AND NOT (AETHERFS_F_COW_k OR AETHERFS_F_APPEND_k)"
proof -
  have "aetherfs_get_data_mode ei' = mode"
    using assms by (auto simp: aetherfs_set_data_mode_def aetherfs_get_data_mode_def mode_defs flag_bits bit_and_iff bit_or_iff
        bit_not_iff split: if_splits)
  moreover have "ei_flags ei' AND NOT (AETHERFS_F_COW_k OR AETHERFS_F_APPEND_k) = ei_flags ei AND NOT (AETHERFS_F_COW_k OR AETHERFS_F_APPEND_k)"
    using assms by (auto simp: aetherfs_set_data_mode_def other_flags [simplified] split: if_splits)
  ultimately show ?thesis
    using assms by (auto simp: aetherfs_set_data_mode_def split: if_splits)
qed

lemma set_data_mode_iff: "isl (fst (aetherfs_set_data_mode mode ei)) \<longleftrightarrow> mode \<notin> {0, 1, 2}"
  by (simp add: aetherfs_set_data_mode_def mode_defs)

text \<open>
  Writing in copy mode: the block that was to be written keeps its contents, and nothing
  refers to the copy.
\<close>

lemma write_mode_cow:
  assumes "aetherfs_get_data_mode ei = AETHERFS_COW_MODE" "length buf + 4095 < 2 ^ 32" "s_blocksize_k info = 4096"
    "length buf \<le> 16384" "d iblock = Some old" "aetherfs_write_mode ei 12 iblock buf (d, info) = Some (Inr (), d', info')"
  shows "\<exists>b. b = fst (aetherfs_alloc_blocks 1 info) \<and> length buf \<le> length old \<and> d' = d(b \<mapsto> mem_put 0 buf old)"
proof -
  have "unat (drop_bit 12 (of_nat (length buf) + 4096 - 1 :: u32)) = (length buf + 4095) div 4096"
    using assms(2) by (simp add: unat_drop_bit_eq drop_bit_eq_div unat_word_ariths unsigned_of_nat take_bit_nat_eq_self)
  then have "drop_bit 12 (of_nat (length buf) + 4096 - 1 :: u32) \<le> AETHERFS_COW_THRESHOLD"
    using assms(4) by (simp add: AETHERFS_COW_THRESHOLD_def word_le_nat_alt)
  then show ?thesis
    using assms by (auto simp: aetherfs_write_mode_def copy_into_def Let_def split: prod.splits option.splits if_splits)
qed

text \<open>Up to four blocks are written in copy mode, through a buffer of one.\<close>

lemma write_mode_cow_overrun:
  assumes "aetherfs_get_data_mode ei = AETHERFS_COW_MODE" "s_blocksize_k info = 4096" "4096 < length buf" "length buf \<le> 16384"
    "d iblock = Some old" "length old = 4096" "fst (aetherfs_alloc_blocks 1 info) \<noteq> 0" "d (fst (aetherfs_alloc_blocks 1 info)) \<noteq> None"
  shows "aetherfs_write_mode ei 12 iblock buf (d, info) = None"
proof -
  have "unat (drop_bit 12 (of_nat (length buf) + 4096 - 1 :: u32)) = (length buf + 4095) div 4096"
    using assms(4) by (simp add: unat_drop_bit_eq drop_bit_eq_div unat_word_ariths unsigned_of_nat take_bit_nat_eq_self)
  then have "drop_bit 12 (of_nat (length buf) + 4096 - 1 :: u32) \<le> AETHERFS_COW_THRESHOLD"
    using assms(4) by (simp add: AETHERFS_COW_THRESHOLD_def word_le_nat_alt)
  then show ?thesis
    using assms by (auto simp: aetherfs_write_mode_def copy_into_def Let_def split: prod.splits)
qed

text \<open>Overwriting: the block holds the new bytes and the tail of the old ones, the others are kept.\<close>

lemma overwrite_write:
  assumes "d iblock = Some old" "length buf \<le> length old"
  shows "aetherfs_mode_overwrite_write iblock buf d = Some (Inr (), d(iblock \<mapsto> buf @ drop (length buf) old))"
  using assms by (simp add: aetherfs_mode_overwrite_write_def copy_into_def mem_put_def)

text \<open>The extent whose exclusiveness decides is one made up with a single reference, so overwriting is always allowed.\<close>

lemma write_core_overwrites:
  "aetherfs_write_core ms cow_write append_write ei (MODE_OVERWRITE ms) iblock buf d = aetherfs_mode_overwrite_write iblock buf d"
  by (subst aetherfs_write_core.simps) (simp add: aetherfs_overwrite_allowed_def aetherfs_extent_is_exclusive_def)

lemma acquire_release_exclusive:
  assumes "aetherfs_extent_acquireExclusive ref = (Inr (), ref')"
  shows "\<not> er_refcount ref > 1 \<and> er_refcount ref' = er_refcount ref \<and> (er_flags ref AND AETHERFS_EXT_EXCLUSIVE = 0 \<longrightarrow> aetherfs_extent_releaseExclusive ref' = ref)"
proof -
  have ref: "ref' = ref\<lparr>er_flags := er_flags ref OR AETHERFS_EXT_EXCLUSIVE\<rparr>" "\<not> er_refcount ref > 1"
    using assms by (auto simp: aetherfs_extent_acquireExclusive_def split: if_splits)
  have "(x OR y) AND NOT y = x" if "x AND y = 0" for x y :: u32
    using that by (auto intro!: bit_eqI simp: bit_eq_iff bit_and_iff bit_or_iff bit_not_iff)
  then show ?thesis
    using ref by (auto simp: aetherfs_extent_releaseExclusive_def)
qed

text \<open>A device that failed is online again with its old flags; device 0 never fails.\<close>

lemma device_failed_online:
  assumes "aetherfs_device_failed devnr s = Some (Inr (), s')"
  shows "devnr \<noteq> 0 \<and> (\<exists>dg. ds_group s' = Some dg \<and> dg_flags dg ! nat devnr AND AETHERFS_DEV_FAILED \<noteq> 0 \<and>
    (\<exists>s''. aetherfs_device_online devnr s' = Some (Inr (), s'') \<and>
       (\<forall>dg''. ds_group s'' = Some dg'' \<longrightarrow> dg_flags dg'' ! nat devnr AND AETHERFS_DEV_FAILED = 0)))"
proof -
  obtain dg where dg: "ds_group s = Some dg" "0 < devnr" "devnr < uint (dg_count dg)" "nat devnr < length (dg_flags dg)"
    "s' = s\<lparr>ds_group := Some (dg\<lparr>dg_flags := (dg_flags dg)[nat devnr := dg_flags dg ! nat devnr OR AETHERFS_DEV_FAILED]\<rparr>)\<rparr>"
    using assms by (auto simp: aetherfs_device_failed_def set_device_flags_def split: option.splits if_splits)
  have "(x OR AETHERFS_DEV_FAILED) AND AETHERFS_DEV_FAILED \<noteq> 0" for x
  proof -
    have "(x OR AETHERFS_DEV_FAILED) AND AETHERFS_DEV_FAILED = AETHERFS_DEV_FAILED"
      by (auto intro!: bit_eqI simp: bit_and_iff bit_or_iff)
    then show ?thesis
      by (simp add: AETHERFS_DEV_FAILED_def)
  qed
  then show ?thesis
    using dg by (simp add: aetherfs_device_online_def set_device_flags_def other_flags)
qed

end
