(* ===== verification/Kernel_Policy.thy ===== *)
theory Kernel_Policy
  imports Kernel_File "HOL-Library.Sublist"
begin

text \<open>
  The policies of the module (\<open>kernel/policy.c\<close>): a table of up to 16 path prefixes with
  a data mode and switches, looked up by the longest prefix.  The table is a list; its length
  is \<open>aetherfs_policy_count\<close>.  Paths are the characters before the terminating zero.
\<close>

section \<open>The code\<close>

record policy =
  p_path :: string
  p_mode :: u32
  p_compress :: u32
  p_checksum :: u32
  p_snapshot :: u32

definition aetherfs_set_policy :: "string \<Rightarrow> u32 \<Rightarrow> u32 \<Rightarrow> u32 \<Rightarrow> u32 \<Rightarrow> policy list \<Rightarrow> unit result \<times> policy list" where
  "aetherfs_set_policy path mode compress checksum snapshot policies =
    (if length policies \<ge> 16 then (Inl EINVAL, policies)
     else (Inr (), policies @ [\<lparr>p_path = take 255 path, p_mode = mode, p_compress = compress, p_checksum = checksum, p_snapshot = snapshot\<rparr>]))"

text \<open>\<open>strncmp (path, p_path, strlen (p_path))\<close> is zero.\<close>

definition policy_matches :: "string \<Rightarrow> policy \<Rightarrow> bool" where
  "policy_matches path p \<longleftrightarrow> take (length (p_path p)) path = p_path p"

fun best_match :: "string \<Rightarrow> policy list \<Rightarrow> policy option \<Rightarrow> nat \<Rightarrow> policy option" where
  "best_match path [] best match_len = best"
| "best_match path (p # ps) best match_len =
    (if policy_matches path p \<and> length (p_path p) > match_len then best_match path ps (Some p) (length (p_path p))
     else best_match path ps best match_len)"

definition aetherfs_get_policy :: "string \<Rightarrow> policy list \<Rightarrow> policy result" where
  "aetherfs_get_policy path policies = (case best_match path policies None 0 of None \<Rightarrow> Inl ENOENT | Some p \<Rightarrow> Inr p)"

definition aetherfs_apply_policy :: "modes \<Rightarrow> string \<Rightarrow> policy list \<Rightarrow> inode_info \<Rightarrow> inode_info" where
  "aetherfs_apply_policy ms path policies ei =
    (case aetherfs_get_policy path policies of
       Inl _ \<Rightarrow> ei
     | Inr p \<Rightarrow>
         let fl = ei_flags ei;
             fl = (if p_mode p = MODE_COW ms then fl OR AETHERFS_F_COW_k
                   else if p_mode p = MODE_OVERWRITE ms then fl AND NOT AETHERFS_F_COW_k
                   else if p_mode p = MODE_APPEND ms then fl OR AETHERFS_F_APPEND_k
                   else fl);
             fl = (if p_compress p \<noteq> 0 then fl OR AETHERFS_F_COMPRESSED_k else fl) in
         ei\<lparr>ei_flags := fl, ei_dirty := True\<rparr>)"

definition aetherfs_init_default_policies :: "modes \<Rightarrow> policy list \<Rightarrow> policy list" where
  "aetherfs_init_default_policies ms policies =
    (let ps = snd (aetherfs_set_policy ''/var/lib/vm'' (MODE_OVERWRITE ms) 0 1 0 policies);
         ps = snd (aetherfs_set_policy ''/var/lib/docker'' (MODE_COW ms) 0 1 1 ps);
         ps = snd (aetherfs_set_policy ''/home'' (MODE_COW ms) 1 1 1 ps);
         ps = snd (aetherfs_set_policy ''/srv/archive'' (MODE_COW ms) 2 2 1 ps) in
     snd (aetherfs_set_policy ''/var/log'' (MODE_APPEND ms) 0 0 0 ps))"

definition aetherfs_list_policies :: "('a \<Rightarrow> policy \<Rightarrow> 'a) option \<Rightarrow> policy list \<Rightarrow> 'a \<Rightarrow> unit result \<times> 'a" where
  "aetherfs_list_policies callback policies arg =
    (case callback of None \<Rightarrow> (Inl EINVAL, arg) | Some f \<Rightarrow> (Inr (), foldl f arg policies))"

section \<open>The longest prefix\<close>

lemma policy_matches_prefix: "policy_matches path p \<longleftrightarrow> prefix (p_path p) path"
  by (metis policy_matches_def prefix_def append_take_drop_id append_eq_conv_conj)

text \<open>The policies that apply to a path; the one with an empty path never does.\<close>

definition candidates :: "string \<Rightarrow> policy list \<Rightarrow> policy list" where
  "candidates path ps = filter (\<lambda>p. p_path p \<noteq> [] \<and> prefix (p_path p) path) ps"

text \<open>The first of the longest.\<close>

definition longest :: "policy list \<Rightarrow> policy option" where
  "longest ps = find (\<lambda>p. \<forall>q \<in> set ps. length (p_path q) \<le> length (p_path p)) ps"

lemma longest_Nil: "longest ps = None \<longleftrightarrow> ps = []"
proof
  assume none: "longest ps = None"
  show "ps = []"
  proof (rule ccontr)
    assume "ps \<noteq> []"
    then have "Max ((\<lambda>p. length (p_path p)) ` set ps) \<in> (\<lambda>p. length (p_path p)) ` set ps"
      by (intro Max_in) simp_all
    then obtain p where p: "p \<in> set ps" "length (p_path p) = Max ((\<lambda>p. length (p_path p)) ` set ps)"
      by auto
    then have "\<forall>q \<in> set ps. length (p_path q) \<le> length (p_path p)"
      by simp
    then show False
      using none p(1) by (auto simp: longest_def find_None_iff)
  qed
qed (simp add: longest_def)

lemma find_filter: "find (\<lambda>p. P p \<and> Q p) xs = find Q (filter P xs)"
  by (induction xs) auto

lemma longest_filter:
  assumes p: "p \<in> set ps" "P p" and P: "\<And>p q. P p \<Longrightarrow> \<not> P q \<Longrightarrow> length (p_path q) < length (p_path p)"
  shows "longest ps = longest (filter P ps)"
proof -
  have "(\<forall>q \<in> set ps. length (p_path q) \<le> length (p_path r)) \<longleftrightarrow>
      P r \<and> (\<forall>q \<in> set (filter P ps). length (p_path q) \<le> length (p_path r))" (is "?l \<longleftrightarrow> ?r") for r
  proof
    assume ?l
    moreover from this have "P r"
      using p P [of p r] by force
    ultimately show ?r by simp
  next
    assume ?r
    then show ?l
      using P [of r] by (auto dest: less_imp_le)
  qed
  then show ?thesis
    unfolding longest_def by (simp only: find_filter)
qed

lemma longest_Cons:
  "longest (p # xs) = (case longest (filter (\<lambda>q. length (p_path p) < length (p_path q)) xs) of None \<Rightarrow> Some p | Some q \<Rightarrow> Some q)"
proof (cases "\<exists>q \<in> set xs. length (p_path p) < length (p_path q)")
  case True
  then obtain q where q: "q \<in> set (p # xs)" "length (p_path p) < length (p_path q)"
    by auto
  have "longest (p # xs) = longest (filter (\<lambda>q. length (p_path p) < length (p_path q)) (p # xs))"
    by (rule longest_filter [where p = q]) (use q in auto)
  moreover have "longest (filter (\<lambda>q. length (p_path p) < length (p_path q)) xs) \<noteq> None"
    using True by (auto simp: longest_Nil filter_empty_conv)
  ultimately show ?thesis
    by auto
next
  case False
  then have none: "filter (\<lambda>q. length (p_path p) < length (p_path q)) xs = []"
    by (simp add: filter_empty_conv)
  have "longest (p # xs) = Some p"
    using False by (auto simp: longest_def not_less)
  then show ?thesis
    unfolding none by (simp add: longest_def)
qed

lemma best_match_longest:
  "best_match path ps best n =
    (case longest (filter (\<lambda>p. n < length (p_path p)) (candidates path ps)) of None \<Rightarrow> best | Some p \<Rightarrow> Some p)"
proof (induction ps arbitrary: best n)
  case Nil
  then show ?case by (simp add: candidates_def longest_def)
next
  case (Cons p ps)
  show ?case
  proof (cases "policy_matches path p \<and> length (p_path p) > n")
    case True
    let ?xs = "filter (\<lambda>q. n < length (p_path q)) (candidates path ps)"
    have "filter (\<lambda>q. n < length (p_path q)) (candidates path (p # ps)) = p # ?xs"
      using True by (auto simp: candidates_def policy_matches_prefix)
    moreover have "filter (\<lambda>q. length (p_path p) < length (p_path q)) ?xs =
        filter (\<lambda>q. length (p_path p) < length (p_path q)) (candidates path ps)"
      using True by (auto intro: filter_cong)
    ultimately show ?thesis
      using True Cons.IH by (simp add: longest_Cons split: option.split)
  next
    case False
    then have "filter (\<lambda>q. n < length (p_path q)) (candidates path (p # ps)) = filter (\<lambda>q. n < length (p_path q)) (candidates path ps)"
      by (auto simp: candidates_def policy_matches_prefix)
    then show ?thesis
      using False Cons.IH by auto
  qed
qed

lemma get_policy_longest:
  "aetherfs_get_policy path ps = (case longest (candidates path ps) of None \<Rightarrow> Inl ENOENT | Some p \<Rightarrow> Inr p)"
proof -
  have "filter (\<lambda>p. 0 < length (p_path p)) (candidates path ps) = candidates path ps"
    by (auto simp: candidates_def intro: filter_cong)
  then show ?thesis
    by (simp add: aetherfs_get_policy_def best_match_longest split: option.split)
qed

lemma longest_in: "longest ps = Some p \<Longrightarrow> p \<in> set ps \<and> (\<forall>q \<in> set ps. length (p_path q) \<le> length (p_path p))"
  by (auto simp: longest_def find_Some_iff)

lemma get_policy_set:
  assumes "length ps < 16" "path \<noteq> []" "length path \<le> 255" "\<forall>q \<in> set ps. p_path q \<noteq> path"
  shows "aetherfs_get_policy path (snd (aetherfs_set_policy path m c k s ps)) =
    Inr \<lparr>p_path = path, p_mode = m, p_compress = c, p_checksum = k, p_snapshot = s\<rparr>"
proof -
  let ?p = "\<lparr>p_path = path, p_mode = m, p_compress = c, p_checksum = k, p_snapshot = s\<rparr>"
  have table: "snd (aetherfs_set_policy path m c k s ps) = ps @ [?p]"
    using assms(1,3) by (simp add: aetherfs_set_policy_def)
  have mem: "?p \<in> set (candidates path (ps @ [?p]))"
    using assms(2) by (simp add: candidates_def)
  then obtain q where q: "longest (candidates path (ps @ [?p])) = Some q"
    using longest_Nil [of "candidates path (ps @ [?p])"] by fastforce
  have cand: "set (candidates path (ps @ [?p])) \<subseteq> {r \<in> set (ps @ [?p]). prefix (p_path r) path}"
    by (auto simp: candidates_def)
  have "length (p_path ?p) \<le> length (p_path q)" "q \<in> set (ps @ [?p])" "prefix (p_path q) path"
    using longest_in [OF q] mem cand by blast+
  then have "p_path q = path" "q \<in> set ps \<or> q = ?p"
    using prefix_length_le [of "p_path q" path] by (auto intro: prefix_order.antisym simp: prefix_def)
  then have "q = ?p"
    using assms(4) by blast
  then show ?thesis
    using q by (simp add: get_policy_longest table)
qed

lemma set_policy_bounded: "length ps \<le> 16 \<Longrightarrow> length (snd (aetherfs_set_policy path m c k s ps)) \<le> 16"
  by (simp add: aetherfs_set_policy_def)

end
