(* ===== verification/Kernel_Intent.thy ===== *)
theory Kernel_Intent
  imports Kernel_File
begin

text \<open>
  The intent log of the module (\<open>kernel/journal.c\<close>): a table of 1024 intents that
  transactions add to, the functions that move intents from pending over applied to
  committed, replay and clearing, the transactions on top, and the scan of the log area
  after a crash.  The lock of the log makes every function one step.
\<close>

section \<open>Intents\<close>

record intent_entry =
  ie_magic :: u32
  ie_type :: u32
  ie_flags :: u32
  ie_state :: u32
  ie_txn_id :: u64
  ie_target_ino :: u64
  ie_target_block :: u64
  ie_new_block :: u64
  ie_size :: u64
  ie_checksum :: u32
  ie_padding :: u32

record intent_runtime =
  il_intents :: "intent_entry list"
  il_capacity :: nat
  il_count :: nat

definition AETHERFS_INTENT_MAGIC :: u32 where "AETHERFS_INTENT_MAGIC = 0x494E5445"
definition AETHERFS_INTENT_META :: u32 where "AETHERFS_INTENT_META = 0x0010"
definition AETHERFS_INTENT_DATA :: u32 where "AETHERFS_INTENT_DATA = 0x0020"
definition AETHERFS_INTENT_COW :: u32 where "AETHERFS_INTENT_COW = 0x0040"
definition AETHERFS_INTENT_OVERWRITE :: u32 where "AETHERFS_INTENT_OVERWRITE = 0x0080"
definition AETHERFS_INTENT_PENDING :: u32 where "AETHERFS_INTENT_PENDING = 0"
definition AETHERFS_INTENT_APPLIED :: u32 where "AETHERFS_INTENT_APPLIED = 1"
definition AETHERFS_INTENT_COMMITTED :: u32 where "AETHERFS_INTENT_COMMITTED = 2"
definition AETHERFS_INTENT_REPLAYED :: u32 where "AETHERFS_INTENT_REPLAYED = 3"

definition intent_bytes :: "intent_entry \<Rightarrow> byte list" where
  "intent_bytes e = le32 (ie_magic e) @ le32 (ie_type e) @ le32 (ie_flags e) @ le32 (ie_state e) @ le64 (ie_txn_id e) @
    le64 (ie_target_ino e) @ le64 (ie_target_block e) @ le64 (ie_new_block e) @ le64 (ie_size e) @
    le32 (ie_checksum e) @ le32 (ie_padding e)"

definition blank_intent :: intent_entry where
  "blank_intent = \<lparr>ie_magic = 0, ie_type = 0, ie_flags = 0, ie_state = 0, ie_txn_id = 0, ie_target_ino = 0, ie_target_block = 0,
    ie_new_block = 0, ie_size = 0, ie_checksum = 0, ie_padding = 0\<rparr>"

text \<open>The arguments are the outcomes of the four allocations.\<close>

definition aetherfs_intent_init :: "bool \<Rightarrow> bool \<Rightarrow> bool \<Rightarrow> bool \<Rightarrow> intent_runtime result" where
  "aetherfs_intent_init intent_cache transaction_cache log_memory table_memory =
    (if \<not> intent_cache then Inl ENOMEM
     else if \<not> transaction_cache then Inl ENOMEM
     else if \<not> log_memory then Inl ENOMEM
     else if \<not> table_memory then Inl ENOMEM
     else Inr \<lparr>il_intents = replicate 1024 blank_intent, il_capacity = 1024, il_count = 0\<rparr>)"

text \<open>The checksum covers the first 60 bytes, the old checksum included.\<close>

definition aetherfs_intent_create ::
  "u32 \<Rightarrow> u64 \<Rightarrow> u64 \<Rightarrow> u64 \<Rightarrow> u64 \<Rightarrow> u64 \<Rightarrow> intent_runtime \<Rightarrow> unit result \<times> intent_runtime" where
  "aetherfs_intent_create type target_ino old_block new_block sz txn_id l =
    (if type = 0 \<or> txn_id = 0 then (Inl EINVAL, l)
     else if il_count l \<ge> il_capacity l then (Inl ENOSPC, l)
     else
       let e = (il_intents l ! il_count l)\<lparr>ie_magic := AETHERFS_INTENT_MAGIC, ie_type := type, ie_flags := AETHERFS_INTENT_PENDING,
             ie_txn_id := txn_id, ie_target_ino := target_ino, ie_target_block := old_block, ie_new_block := new_block, ie_size := sz\<rparr>;
           e = e\<lparr>ie_checksum := aetherfs_crc32c_k 0xFFFFFFFF (take 60 (intent_bytes e))\<rparr> in
       (Inr (), l\<lparr>il_intents := (il_intents l)[il_count l := e], il_count := il_count l + 1\<rparr>))"

text \<open>The loops that go over the intents in use and change some of them.\<close>

definition update_intents :: "(intent_entry \<Rightarrow> bool) \<Rightarrow> u32 \<Rightarrow> intent_runtime \<Rightarrow> nat \<times> intent_runtime" where
  "update_intents P state l =
    (length (filter P (take (il_count l) (il_intents l))),
     l\<lparr>il_intents := map (\<lambda>e. if P e then e\<lparr>ie_flags := state\<rparr> else e) (take (il_count l) (il_intents l)) @ drop (il_count l) (il_intents l)\<rparr>)"

definition aetherfs_intent_apply :: "u64 \<Rightarrow> intent_runtime \<Rightarrow> nat \<times> intent_runtime" where
  "aetherfs_intent_apply txn_id l =
    update_intents (\<lambda>e. ie_txn_id e = txn_id \<and> ie_flags e = AETHERFS_INTENT_PENDING) AETHERFS_INTENT_APPLIED l"

definition aetherfs_intent_commit :: "u64 \<Rightarrow> intent_runtime \<Rightarrow> intent_runtime" where
  "aetherfs_intent_commit txn_id l = snd (update_intents (\<lambda>e. ie_txn_id e = txn_id) AETHERFS_INTENT_COMMITTED l)"

definition aetherfs_intent_replay :: "intent_runtime \<Rightarrow> nat \<times> intent_runtime" where
  "aetherfs_intent_replay l =
    (let (replayed, l) = update_intents (\<lambda>e. ie_flags e \<noteq> AETHERFS_INTENT_COMMITTED) AETHERFS_INTENT_REPLAYED l in
     (replayed, l\<lparr>il_count := 0\<rparr>))"

function clear_loop :: "u64 \<Rightarrow> nat \<Rightarrow> nat \<Rightarrow> intent_runtime \<Rightarrow> nat \<times> intent_runtime" where
  "clear_loop txn_id i removed l =
    (if i < il_count l then
       let e = il_intents l ! i in
       if ie_txn_id e \<noteq> txn_id then clear_loop txn_id (i + 1) removed l
       else if ie_flags e = AETHERFS_INTENT_COMMITTED then
         clear_loop txn_id i (removed + 1) (l\<lparr>il_intents := close_gap i (il_count l) (il_intents l), il_count := il_count l - 1\<rparr>)
       else clear_loop txn_id (i + 1) removed l
     else (removed, l))"
  by pat_completeness auto
termination
  by (relation "measure (\<lambda>(t, i, r, l). il_count l - i)") auto

declare clear_loop.simps [simp del]

definition aetherfs_intent_clear :: "u64 \<Rightarrow> intent_runtime \<Rightarrow> nat \<times> intent_runtime" where
  "aetherfs_intent_clear txn_id l = clear_loop txn_id 0 0 l"

definition aetherfs_journal_get_intent_count :: "intent_runtime option \<Rightarrow> nat" where
  "aetherfs_journal_get_intent_count l = (case l of None \<Rightarrow> 0 | Some l \<Rightarrow> il_count l)"

definition aetherfs_get_write_amp_factor :: u32 where
  "aetherfs_get_write_amp_factor = 1"

section \<open>Transactions\<close>

record transaction =
  xt_id :: u64
  xt_sequence :: u64
  xt_state :: u32
  xt_intent_count :: u32
  xt_data_mode :: u32
  xt_start_time :: u64
  xt_commit_time :: u64
  xt_flags :: u32
  xt_checksum :: u32

record journal_state =
  js_log :: intent_runtime
  js_counter :: u64

text \<open>
  The memory of a transaction is not cleared; its content shows in the checksum.  The return
  value is the transaction number as an int, so it may be negative.
\<close>

definition aetherfs_transaction_begin ::
  "u32 option \<Rightarrow> u64 \<Rightarrow> u32 \<Rightarrow> journal_state \<Rightarrow> (int \<times> transaction) result \<times> journal_state" where
  "aetherfs_transaction_begin memory now data_mode s =
    (case memory of
       None \<Rightarrow> (Inl ENOMEM, s)
     | Some old \<Rightarrow>
         let n = js_counter s in
         (Inr (sint (ucast n :: u32), \<lparr>xt_id = n, xt_sequence = n, xt_state = 0, xt_intent_count = 0, xt_data_mode = data_mode,
            xt_start_time = now, xt_commit_time = 0, xt_flags = 0, xt_checksum = old\<rparr>), s\<lparr>js_counter := n + 1\<rparr>))"

text \<open>The result of creating the intent is not looked at.\<close>

definition aetherfs_transaction_add_intent ::
  "transaction \<Rightarrow> u32 \<Rightarrow> u64 \<Rightarrow> u64 \<Rightarrow> u64 \<Rightarrow> journal_state \<Rightarrow> transaction \<times> journal_state" where
  "aetherfs_transaction_add_intent txn type ino old_block new_block s =
    (txn\<lparr>xt_intent_count := xt_intent_count txn + 1\<rparr>,
     s\<lparr>js_log := snd (aetherfs_intent_create type ino old_block new_block 0 (xt_id txn) (js_log s))\<rparr>)"

definition aetherfs_transaction_commit :: "u64 \<Rightarrow> transaction \<Rightarrow> journal_state \<Rightarrow> transaction \<times> journal_state" where
  "aetherfs_transaction_commit now txn s =
    (txn\<lparr>xt_commit_time := now, xt_state := 1\<rparr>, s\<lparr>js_log := aetherfs_intent_commit (xt_id txn) (js_log s)\<rparr>)"

text \<open>A transaction with one intent; \<open>Inr\<close> holds the return value.\<close>

definition one_intent :: "u32 option \<Rightarrow> u64 \<Rightarrow> u32 \<Rightarrow> u32 \<Rightarrow> u64 \<Rightarrow> u64 \<Rightarrow> u64 \<Rightarrow> journal_state \<Rightarrow> int result \<times> journal_state" where
  "one_intent memory now data_mode type ino old_block new_block s =
    (case aetherfs_transaction_begin memory now data_mode s of
       (Inl e, s) \<Rightarrow> (Inl e, s)
     | (Inr (ret, txn), s) \<Rightarrow>
         if ret < 0 then (Inr ret, s)
         else
           let (txn, s) = aetherfs_transaction_add_intent txn type ino old_block new_block s;
               (txn, s) = aetherfs_transaction_commit now txn s in
           (Inr 0, s))"

definition aetherfs_metadata_cow_commit :: "modes \<Rightarrow> u32 option \<Rightarrow> u64 \<Rightarrow> u64 \<Rightarrow> u64 \<Rightarrow> journal_state \<Rightarrow> int result \<times> journal_state" where
  "aetherfs_metadata_cow_commit ms memory now old_root new_root s =
    one_intent memory now (MODE_COW ms) (AETHERFS_INTENT_META OR AETHERFS_INTENT_COW) 0 old_root new_root s"

definition aetherfs_data_write_with_intent ::
  "modes \<Rightarrow> u32 option \<Rightarrow> u64 \<Rightarrow> u64 \<Rightarrow> nat \<Rightarrow> u64 \<Rightarrow> u64 \<Rightarrow> u32 \<Rightarrow> journal_state \<Rightarrow> sb_info \<Rightarrow> int result \<times> journal_state \<times> sb_info" where
  "aetherfs_data_write_with_intent ms memory now ino s_blocksize_bits pos len mode s info =
    (if len = 0 then (Inl EINVAL, s, info)
     else
       let old_block = aetherfs_bmap (drop_bit s_blocksize_bits pos) in
       if mode = MODE_COW ms \<or> (mode = MODE_DEFAULT ms \<and> len \<le> 4 * ucast (s_blocksize_k info)) then
         let (new_block, info) = aetherfs_alloc_blocks 1 info in
         if new_block = 0 then (Inl ENOSPC, s, info)
         else (case one_intent memory now (MODE_COW ms) (AETHERFS_INTENT_DATA OR AETHERFS_INTENT_COW) ino old_block new_block s of
             (Inl e, s) \<Rightarrow> (Inl e, s, aetherfs_free_blocks new_block 1 info)
           | (Inr ret, s) \<Rightarrow> (Inr ret, s, if ret < 0 then aetherfs_free_blocks new_block 1 info else info))
       else if mode = MODE_OVERWRITE ms then
         let (r, s) = one_intent memory now (MODE_OVERWRITE ms) (AETHERFS_INTENT_DATA OR AETHERFS_INTENT_OVERWRITE) ino old_block old_block s in
         (r, s, info)
       else (Inl EINVAL, s, info))"

section \<open>The scan after a crash\<close>

text \<open>The first block of the log area, \<open>AETHERFS_LOG_START_BLOCK\<close>, is defined nowhere in the sources.\<close>

fun scan_loop :: "disk \<Rightarrow> nat \<Rightarrow> u64 \<Rightarrow> nat \<Rightarrow> u64 \<Rightarrow> u64 \<Rightarrow> nat \<times> u64 \<times> u64" where
  "scan_loop d 0 scan_pos found committed pending = (found, committed, pending)"
| "scan_loop d (Suc n) scan_pos found committed pending =
    (case d scan_pos of
       None \<Rightarrow> (found, committed, pending)
     | Some b \<Rightarrow>
         if get32 0 b \<noteq> AETHERFS_INTENT_MAGIC then (found, committed, pending)
         else scan_loop d n (scan_pos + 1) (found + 1)
           (if get32 8 b = AETHERFS_INTENT_COMMITTED then get64 16 b else committed)
           (if get32 8 b = AETHERFS_INTENT_PENDING then get64 16 b else pending))"

definition aetherfs_recovery_scan_intents :: "disk \<Rightarrow> u64 \<Rightarrow> nat \<times> u64 \<times> u64" where
  "aetherfs_recovery_scan_intents d log_start = scan_loop d 100 log_start 0 0 0"

section \<open>The intents in use\<close>

definition entries :: "intent_runtime \<Rightarrow> intent_entry list" where
  "entries l = take (il_count l) (il_intents l)"

definition wf_log :: "intent_runtime \<Rightarrow> bool" where
  "wf_log l \<longleftrightarrow> il_count l \<le> il_capacity l \<and> length (il_intents l) = il_capacity l"

lemma length_entries: "wf_log l \<Longrightarrow> length (entries l) = il_count l"
  by (simp add: wf_log_def entries_def)

lemma intent_init_ok: "aetherfs_intent_init a b c d = Inr l \<Longrightarrow> wf_log l \<and> entries l = [] \<and> il_capacity l = 1024"
  by (auto simp: aetherfs_intent_init_def wf_log_def entries_def split: if_splits)

lemma intent_create_ok:
  assumes "wf_log l" "type \<noteq> 0" "txn \<noteq> 0" "il_count l < il_capacity l"
  obtains e l' where "aetherfs_intent_create type ino old new sz txn l = (Inr (), l')" "wf_log l'" "entries l' = entries l @ [e]"
    "ie_magic e = AETHERFS_INTENT_MAGIC" "ie_type e = type" "ie_flags e = AETHERFS_INTENT_PENDING" "ie_txn_id e = txn"
    "ie_target_ino e = ino" "ie_target_block e = old" "ie_new_block e = new" "ie_size e = sz" "il_capacity l' = il_capacity l"
  using assms by (auto simp: aetherfs_intent_create_def wf_log_def entries_def Let_def take_Suc_conv_app_nth)

lemma intent_create_fails:
  "type = 0 \<or> txn = 0 \<Longrightarrow> aetherfs_intent_create type ino old new sz txn l = (Inl EINVAL, l)"
  "type \<noteq> 0 \<Longrightarrow> txn \<noteq> 0 \<Longrightarrow> il_capacity l \<le> il_count l \<Longrightarrow> aetherfs_intent_create type ino old new sz txn l = (Inl ENOSPC, l)"
  by (simp_all add: aetherfs_intent_create_def)

lemma update_intents_entries:
  assumes "wf_log l" "update_intents P st l = (n, l')"
  shows "wf_log l' \<and> entries l' = map (\<lambda>e. if P e then e\<lparr>ie_flags := st\<rparr> else e) (entries l) \<and> n = length (filter P (entries l)) \<and>
    il_capacity l' = il_capacity l \<and> il_count l' = il_count l"
  using assms by (auto simp: update_intents_def wf_log_def entries_def)

lemma clear_loop_entries:
  assumes "wf_log l" "i \<le> il_count l" "clear_loop t i r l = (r', l')"
  shows "wf_log l' \<and> il_capacity l' = il_capacity l \<and>
    entries l' = take i (entries l) @ filter (\<lambda>e. \<not> (ie_txn_id e = t \<and> ie_flags e = AETHERFS_INTENT_COMMITTED)) (drop i (entries l)) \<and>
    r' = r + length (filter (\<lambda>e. ie_txn_id e = t \<and> ie_flags e = AETHERFS_INTENT_COMMITTED) (drop i (entries l)))"
  using assms
proof (induction t i r l rule: clear_loop.induct)
  case (1 t i r l)
  let ?e = "il_intents l ! i" and ?P = "\<lambda>e. ie_txn_id e = t \<and> ie_flags e = AETHERFS_INTENT_COMMITTED"
  show ?case
  proof (cases "i < il_count l")
    case False
    then show ?thesis
      using "1.prems" by (subst (asm) clear_loop.simps) (simp add: length_entries)
  next
    case True
    have nth: "entries l ! i = ?e" "drop i (entries l) = ?e # drop (Suc i) (entries l)" "take (Suc i) (entries l) = take i (entries l) @ [?e]"
      using True length_entries [OF "1.prems"(1)] by (simp_all add: entries_def Cons_nth_drop_Suc [symmetric] take_Suc_conv_app_nth)
    show ?thesis
    proof (cases "?P ?e")
      case P: True
      let ?l = "l\<lparr>il_intents := close_gap i (il_count l) (il_intents l), il_count := il_count l - 1\<rparr>"
      have len: "il_count l \<le> length (il_intents l)"
        using "1.prems"(1) by (simp add: wf_log_def)
      have wf: "wf_log ?l"
        using "1.prems"(1) True by (auto simp: wf_log_def)
      have ent: "entries ?l = take i (entries l) @ drop (Suc i) (entries l)"
        using take_close_gap [OF True len] by (simp add: entries_def)
      have "clear_loop t i (r + 1) ?l = (r', l')"
        using "1.prems"(3) True P by (subst (asm) clear_loop.simps) (simp add: Let_def)
      from "1.IH"(2) [OF True refl _ _ wf _ this] P True
      have "wf_log l' \<and> il_capacity l' = il_capacity l \<and> entries l' = take i (entries ?l) @ filter (\<lambda>e. \<not> ?P e) (drop i (entries ?l)) \<and>
          r' = r + 1 + length (filter ?P (drop i (entries ?l)))"
        by simp
      moreover have "take i (entries ?l) = take i (entries l)" "drop i (entries ?l) = drop (Suc i) (entries l)"
        unfolding ent using True length_entries [OF "1.prems"(1)] by simp_all
      ultimately show ?thesis
        using P nth(2) by simp
    next
      case P: False
      have "clear_loop t (i + 1) r l = (r', l')"
        using "1.prems"(3) True P by (subst (asm) clear_loop.simps) (auto simp: Let_def split: if_splits)
      then have "wf_log l' \<and> il_capacity l' = il_capacity l \<and> entries l' = take (i + 1) (entries l) @ filter (\<lambda>e. \<not> ?P e) (drop (i + 1) (entries l)) \<and>
          r' = r + length (filter ?P (drop (i + 1) (entries l)))"
        using "1.IH"(1,3) [OF True refl] P True "1.prems"(1) by (cases "ie_txn_id ?e = t") simp_all
      then show ?thesis
        using P nth(2,3) by simp
    qed
  qed
qed

lemma intent_clear_entries:
  assumes "wf_log l" "aetherfs_intent_clear t l = (n, l')"
  shows "wf_log l' \<and> il_capacity l' = il_capacity l \<and>
    entries l' = filter (\<lambda>e. \<not> (ie_txn_id e = t \<and> ie_flags e = AETHERFS_INTENT_COMMITTED)) (entries l) \<and>
    n = length (filter (\<lambda>e. ie_txn_id e = t \<and> ie_flags e = AETHERFS_INTENT_COMMITTED) (entries l))"
  using clear_loop_entries [OF assms(1), of 0 t 0 n l'] assms(2) by (simp add: aetherfs_intent_clear_def)

lemma intent_commit_entries:
  assumes "wf_log l"
  shows "wf_log (aetherfs_intent_commit t l) \<and> il_capacity (aetherfs_intent_commit t l) = il_capacity l \<and>
    entries (aetherfs_intent_commit t l) =
      map (\<lambda>e. if ie_txn_id e = t then e\<lparr>ie_flags := AETHERFS_INTENT_COMMITTED\<rparr> else e) (entries l)"
proof (cases "update_intents (\<lambda>e. ie_txn_id e = t) AETHERFS_INTENT_COMMITTED l")
  case (Pair n l')
  from update_intents_entries [OF assms this] show ?thesis
    by (simp add: aetherfs_intent_commit_def Pair)
qed

lemma intent_apply_entries:
  assumes "wf_log l" "aetherfs_intent_apply t l = (n, l')"
  shows "wf_log l' \<and> il_capacity l' = il_capacity l \<and>
    entries l' = map (\<lambda>e. if ie_txn_id e = t \<and> ie_flags e = AETHERFS_INTENT_PENDING
      then e\<lparr>ie_flags := AETHERFS_INTENT_APPLIED\<rparr> else e) (entries l)"
  using update_intents_entries [OF assms(1)] assms(2) by (simp add: aetherfs_intent_apply_def)

lemma intent_replay_entries:
  assumes "wf_log l" "aetherfs_intent_replay l = (n, l')"
  shows "wf_log l' \<and> il_capacity l' = il_capacity l \<and> entries l' = [] \<and>
    n = length (filter (\<lambda>e. ie_flags e \<noteq> AETHERFS_INTENT_COMMITTED) (entries l))"
proof -
  obtain l1 where l1: "update_intents (\<lambda>e. ie_flags e \<noteq> AETHERFS_INTENT_COMMITTED) AETHERFS_INTENT_REPLAYED l = (n, l1)" "l' = l1\<lparr>il_count := 0\<rparr>"
    using assms(2) by (auto simp: aetherfs_intent_replay_def Let_def split: prod.splits)
  from update_intents_entries [OF assms(1) l1(1)] l1(2) show ?thesis
    by (simp add: wf_log_def entries_def)
qed

section \<open>What the log can hold\<close>

text \<open>The operations in any order, with any arguments and any outcome of the allocations.\<close>

inductive journal_step :: "journal_state \<Rightarrow> journal_state \<Rightarrow> bool" where
  create: "journal_step s (s\<lparr>js_log := snd (aetherfs_intent_create type ino old new sz txn (js_log s))\<rparr>)"
| applied: "journal_step s (s\<lparr>js_log := snd (aetherfs_intent_apply txn (js_log s))\<rparr>)"
| commit: "journal_step s (s\<lparr>js_log := aetherfs_intent_commit txn (js_log s)\<rparr>)"
| replay: "journal_step s (s\<lparr>js_log := snd (aetherfs_intent_replay (js_log s))\<rparr>)"
| clear: "journal_step s (s\<lparr>js_log := snd (aetherfs_intent_clear txn (js_log s))\<rparr>)"
| begin_txn: "journal_step s (snd (aetherfs_transaction_begin memory now mode s))"
| add_intent: "journal_step s (snd (aetherfs_transaction_add_intent t type ino old new s))"
| commit_txn: "journal_step s (snd (aetherfs_transaction_commit now t s))"

inductive journal_reachable :: "journal_state \<Rightarrow> bool" where
  init: "aetherfs_intent_init a b c d = Inr l \<Longrightarrow> journal_reachable \<lparr>js_log = l, js_counter = 1\<rparr>"
| step: "journal_reachable s \<Longrightarrow> journal_step s s' \<Longrightarrow> journal_reachable s'"

definition intent_ok :: "intent_entry \<Rightarrow> bool" where
  "intent_ok e \<longleftrightarrow> ie_magic e = AETHERFS_INTENT_MAGIC \<and> ie_type e \<noteq> 0 \<and> ie_txn_id e \<noteq> 0 \<and>
    ie_flags e \<in> {AETHERFS_INTENT_PENDING, AETHERFS_INTENT_APPLIED, AETHERFS_INTENT_COMMITTED}"

definition log_ok :: "intent_runtime \<Rightarrow> bool" where
  "log_ok l \<longleftrightarrow> wf_log l \<and> il_capacity l = 1024 \<and> list_all intent_ok (entries l)"

lemma intent_ok_flags: "intent_ok e \<Longrightarrow> st \<in> {AETHERFS_INTENT_PENDING, AETHERFS_INTENT_APPLIED, AETHERFS_INTENT_COMMITTED} \<Longrightarrow>
    intent_ok (e\<lparr>ie_flags := st\<rparr>)"
  by (simp add: intent_ok_def)

lemma create_log_ok:
  assumes "log_ok l"
  shows "log_ok (snd (aetherfs_intent_create type ino old new sz txn l))"
proof (cases "type = 0 \<or> txn = 0 \<or> il_capacity l \<le> il_count l")
  case True
  then show ?thesis
    using assms by (auto simp: aetherfs_intent_create_def)
next
  case False
  then have a: "wf_log l" "type \<noteq> 0" "txn \<noteq> 0" "il_count l < il_capacity l"
    using assms by (auto simp: log_ok_def)
  obtain e l' where "aetherfs_intent_create type ino old new sz txn l = (Inr (), l')" "wf_log l'" "entries l' = entries l @ [e]"
    "ie_magic e = AETHERFS_INTENT_MAGIC" "ie_type e = type" "ie_flags e = AETHERFS_INTENT_PENDING" "ie_txn_id e = txn"
    "il_capacity l' = il_capacity l"
    by (rule intent_create_ok [OF a])
  then show ?thesis
    using assms a by (simp add: log_ok_def intent_ok_def)
qed

lemma commit_log_ok: "log_ok l \<Longrightarrow> log_ok (aetherfs_intent_commit t l)"
  using intent_commit_entries [of l t] by (auto simp: log_ok_def list_all_iff intent_ok_flags)

lemma apply_log_ok: "log_ok l \<Longrightarrow> log_ok (snd (aetherfs_intent_apply t l))"
  using intent_apply_entries [of l t] by (cases "aetherfs_intent_apply t l") (auto simp: log_ok_def list_all_iff intent_ok_flags)

lemma replay_log_ok: "log_ok l \<Longrightarrow> log_ok (snd (aetherfs_intent_replay l))"
  using intent_replay_entries [of l] by (cases "aetherfs_intent_replay l") (auto simp: log_ok_def)

lemma clear_log_ok: "log_ok l \<Longrightarrow> log_ok (snd (aetherfs_intent_clear t l))"
  using intent_clear_entries [of l t] by (cases "aetherfs_intent_clear t l") (auto simp: log_ok_def list_all_iff)

lemmas log_ok_intros = create_log_ok commit_log_ok apply_log_ok replay_log_ok clear_log_ok

lemma journal_step_log_ok: "journal_step s s' \<Longrightarrow> log_ok (js_log s) \<Longrightarrow> log_ok (js_log s')"
  by (induction rule: journal_step.induct)
    (auto simp: aetherfs_transaction_begin_def aetherfs_transaction_add_intent_def aetherfs_transaction_commit_def Let_def
      intro: log_ok_intros split: option.splits)

lemma journal_reachable_log_ok: "journal_reachable s \<Longrightarrow> log_ok (js_log s)"
  by (induction rule: journal_reachable.induct) (auto simp: log_ok_def dest: intent_init_ok journal_step_log_ok [unfolded log_ok_def])

section \<open>Transactions on the log\<close>

definition add_all :: "transaction \<Rightarrow> (u32 \<times> u64 \<times> u64 \<times> u64) list \<Rightarrow> journal_state \<Rightarrow> transaction \<times> journal_state" where
  "add_all txn ops s = foldl (\<lambda>(txn, s) (type, ino, old, new). aetherfs_transaction_add_intent txn type ino old new s) (txn, s) ops"

lemma add_all_entries:
  assumes "wf_log (js_log s)" "xt_id txn \<noteq> 0" "\<forall>(type, _) \<in> set ops. type \<noteq> 0" "add_all txn ops s = (txn', s')"
  shows "wf_log (js_log s') \<and> il_capacity (js_log s') = il_capacity (js_log s) \<and> xt_id txn' = xt_id txn \<and>
    xt_intent_count txn' = xt_intent_count txn + of_nat (length ops) \<and>
    (\<exists>es. entries (js_log s') = entries (js_log s) @ es \<and> (\<forall>e \<in> set es. ie_txn_id e = xt_id txn) \<and>
       map (\<lambda>e. (ie_type e, ie_target_ino e, ie_target_block e, ie_new_block e)) es =
         take (il_capacity (js_log s) - il_count (js_log s)) ops)"
  using assms
proof (induction ops arbitrary: txn s)
  case Nil
  then show ?case by (simp add: add_all_def)
next
  case (Cons x ops)
  obtain type ino old new where x: "x = (type, ino, old, new)"
    by (cases x)
  let ?t = "txn\<lparr>xt_intent_count := xt_intent_count txn + 1\<rparr>"
  let ?l = "snd (aetherfs_intent_create type ino old new 0 (xt_id txn) (js_log s))"
  have rest: "add_all ?t ops (s\<lparr>js_log := ?l\<rparr>) = (txn', s')"
    using Cons.prems(4) by (simp add: add_all_def x aetherfs_transaction_add_intent_def)
  have type: "type \<noteq> 0"
    using Cons.prems(3) x by auto
  show ?case
  proof (cases "il_count (js_log s) < il_capacity (js_log s)")
    case True
    obtain e l' where e: "aetherfs_intent_create type ino old new 0 (xt_id txn) (js_log s) = (Inr (), l')" "wf_log l'"
      "entries l' = entries (js_log s) @ [e]" "ie_type e = type" "ie_txn_id e = xt_id txn"
      "ie_target_ino e = ino" "ie_target_block e = old" "ie_new_block e = new" "il_capacity l' = il_capacity (js_log s)"
      by (rule intent_create_ok [OF Cons.prems(1) type Cons.prems(2) True])
    have count: "il_count l' = Suc (il_count (js_log s))"
      using length_entries [OF e(2)] length_entries [OF Cons.prems(1)] e(3) by simp
    have "Suc (il_capacity (js_log s) - Suc (il_count (js_log s))) = il_capacity (js_log s) - il_count (js_log s)"
      using True by simp
    then have "take (il_capacity (js_log s) - il_count (js_log s)) (x # ops) = x # take (il_capacity (js_log s) - Suc (il_count (js_log s))) ops"
      by (metis take_Suc_Cons)
    note room = this
    have l: "?l = l'"
      by (simp add: e(1))
    have ops: "\<forall>(type, _) \<in> set ops. type \<noteq> 0"
      using Cons.prems(3) by simp
    obtain es where es: "wf_log (js_log s')" "il_capacity (js_log s') = il_capacity l'" "xt_id txn' = xt_id txn"
      "xt_intent_count txn' = xt_intent_count txn + 1 + of_nat (length ops)" "entries (js_log s') = entries l' @ es"
      "\<forall>e \<in> set es. ie_txn_id e = xt_id txn"
      "map (\<lambda>e. (ie_type e, ie_target_ino e, ie_target_block e, ie_new_block e)) es = take (il_capacity l' - il_count l') ops"
      using Cons.IH [OF _ _ ops rest] Cons.prems(2) e(2) by (auto simp: l)
    have "map (\<lambda>e. (ie_type e, ie_target_ino e, ie_target_block e, ie_new_block e)) (e # es) =
        take (il_capacity (js_log s) - il_count (js_log s)) (x # ops)"
      unfolding room using es(7) e(4,6-9) count x by simp
    moreover have "entries (js_log s') = entries (js_log s) @ (e # es)" "\<forall>e \<in> set (e # es). ie_txn_id e = xt_id txn"
      using es(5,6) e(3,5) by simp_all
    moreover have "xt_intent_count txn' = xt_intent_count txn + of_nat (length (x # ops))"
      using es(4) by (simp add: add.assoc)
    ultimately show ?thesis
      using es(1-3) e(9) by (intro conjI exI [of _ "e # es"]) simp_all
  next
    case False
    then have "?l = js_log s"
      using type Cons.prems(2) by (simp add: aetherfs_intent_create_def)
    moreover have "\<forall>(type, _) \<in> set ops. type \<noteq> 0"
      using Cons.prems(3) by simp
    ultimately show ?thesis
      using Cons.IH [OF _ _ _ rest] Cons.prems(1,2) False by (simp add: add.assoc)
  qed
qed

text \<open>
  A whole transaction.  Its intents are committed; clearing it restores the log.  Intents for
  which there is no room are counted, and lost.
\<close>

lemma transaction_commits:
  assumes wf: "wf_log (js_log s)" and n: "js_counter s \<noteq> 0" "js_counter s \<notin> ie_txn_id ` set (entries (js_log s))"
    and ops: "\<forall>(type, _) \<in> set ops. type \<noteq> 0"
    and run: "aetherfs_transaction_begin (Some old) now mode s = (Inr (ret, t0), s0)" "add_all t0 ops s0 = (t1, s1)"
      "aetherfs_transaction_commit now' t1 s1 = (t2, s2)"
  shows "xt_intent_count t2 = of_nat (length ops) \<and> (\<exists>es. entries (js_log s2) = entries (js_log s) @ es \<and>
      (\<forall>e \<in> set es. ie_txn_id e = xt_id t2 \<and> ie_flags e = AETHERFS_INTENT_COMMITTED) \<and>
      map (\<lambda>e. (ie_type e, ie_target_ino e, ie_target_block e, ie_new_block e)) es =
        take (il_capacity (js_log s) - il_count (js_log s)) ops \<and>
      (\<exists>l'. aetherfs_intent_clear (xt_id t2) (js_log s2) = (length es, l') \<and> entries l' = entries (js_log s)))"
proof -
  have t0: "xt_id t0 = js_counter s" "xt_intent_count t0 = 0" "js_log s0 = js_log s"
    using run(1) by (auto simp: aetherfs_transaction_begin_def Let_def)
  obtain es where es: "wf_log (js_log s1)" "xt_id t1 = xt_id t0" "xt_intent_count t1 = of_nat (length ops)"
    "entries (js_log s1) = entries (js_log s) @ es" "\<forall>e \<in> set es. ie_txn_id e = xt_id t0"
    "map (\<lambda>e. (ie_type e, ie_target_ino e, ie_target_block e, ie_new_block e)) es = take (il_capacity (js_log s) - il_count (js_log s)) ops"
    using add_all_entries [OF _ _ ops run(2)] wf n t0 by auto
  have t2: "xt_id t2 = js_counter s" "xt_intent_count t2 = xt_intent_count t1" "js_log s2 = aetherfs_intent_commit (js_counter s) (js_log s1)"
    using run(3) es(2) t0(1) by (auto simp: aetherfs_transaction_commit_def)
  let ?es = "map (\<lambda>e. e\<lparr>ie_flags := AETHERFS_INTENT_COMMITTED\<rparr>) es"
  have other: "\<forall>e \<in> set (entries (js_log s)). ie_txn_id e \<noteq> js_counter s"
    using n(2) by (metis imageI)
  have "map (\<lambda>e. if ie_txn_id e = js_counter s then e\<lparr>ie_flags := AETHERFS_INTENT_COMMITTED\<rparr> else e) (entries (js_log s)) = entries (js_log s)"
    using other by (intro map_idI) simp
  moreover have "map (\<lambda>e. if ie_txn_id e = js_counter s then e\<lparr>ie_flags := AETHERFS_INTENT_COMMITTED\<rparr> else e) es = ?es"
    using es(5) t0(1) by auto
  ultimately have commit: "wf_log (js_log s2)" "entries (js_log s2) = entries (js_log s) @ ?es"
    using intent_commit_entries [OF es(1), of "js_counter s"] es(4) t2(3) by simp_all
  obtain k l' where kl: "aetherfs_intent_clear (xt_id t2) (js_log s2) = (k, l')"
    by force
  have "filter (\<lambda>e. \<not> (ie_txn_id e = js_counter s \<and> ie_flags e = AETHERFS_INTENT_COMMITTED)) (entries (js_log s)) = entries (js_log s)"
    "filter (\<lambda>e. ie_txn_id e = js_counter s \<and> ie_flags e = AETHERFS_INTENT_COMMITTED) (entries (js_log s)) = []"
    using other by (auto simp: filter_id_conv filter_empty_conv)
  moreover have "filter (\<lambda>e. \<not> (ie_txn_id e = js_counter s \<and> ie_flags e = AETHERFS_INTENT_COMMITTED)) ?es = []"
    "filter (\<lambda>e. ie_txn_id e = js_counter s \<and> ie_flags e = AETHERFS_INTENT_COMMITTED) ?es = ?es"
    using es(5) t0(1) by (auto simp: filter_id_conv filter_empty_conv)
  ultimately have "entries l' = entries (js_log s)" "k = length ?es"
    using intent_clear_entries [OF commit(1) kl] commit(2) t2(1) by (simp_all del: filter_map)
  then show ?thesis
    using es(3,5,6) t2 t0(1) commit(2) kl by (intro conjI exI [of _ ?es]) (auto simp: comp_def)
qed

lemma scan_loop_result:
  "scan_loop d n pos k c p =
    (let bs = map the (takeWhile (\<lambda>b. b \<noteq> None \<and> get32 0 (the b) = AETHERFS_INTENT_MAGIC) (map (\<lambda>i. d (pos + of_nat i)) [0..<n]));
         last_of = (\<lambda>st x. case filter (\<lambda>b. get32 8 b = st) bs of [] \<Rightarrow> x | ys \<Rightarrow> get64 16 (last ys)) in
     (k + length bs, last_of AETHERFS_INTENT_COMMITTED c, last_of AETHERFS_INTENT_PENDING p))"
proof (induction n arbitrary: pos k c p)
  case 0
  then show ?case by (simp add: Let_def)
next
  case (Suc n)
  have upt: "map (\<lambda>i. d (pos + of_nat i)) [0..<Suc n] = d pos # map (\<lambda>i. d (pos + 1 + of_nat i)) [0..<n]"
    by (simp add: upt_rec [of 0] map_Suc_upt [symmetric] comp_def algebra_simps del: upt_Suc)
  show ?case
    unfolding upt by (cases "d pos") (simp_all add: Suc.IH Let_def split: list.split)
qed

end
