(* ===== verification/Kernel_Log.thy ===== *)
theory Kernel_Log
  imports Kernel_Base
begin

text \<open>
  The ring of journal blocks (\<open>kernel/log.c\<close>).  Taking a remainder by zero, which traps,
  and a loop that does not end are the outcome None.
\<close>

section \<open>The code\<close>

record journal_log =
  j_start :: u64
  j_end :: u64
  j_head :: u64
  j_commit :: u64
  j_flags :: u32

definition AETHERFS_JOURNAL_RECOVERING :: u32 where "AETHERFS_JOURNAL_RECOVERING = 0x0001"
definition TXN_RUNNING :: u32 where "TXN_RUNNING = 1"

record journal_transaction =
  t_txn_id :: u64
  t_state :: u32
  t_start :: u64
  t_end :: u64

text \<open>The current transaction of a log: there never is one.\<close>

definition aetherfs_journal_current :: "journal_log \<Rightarrow> journal_transaction option" where
  "aetherfs_journal_current log = None"

text \<open>The transaction is not kept; the return value is its number as an int.\<close>

definition aetherfs_journal_start :: "bool \<Rightarrow> int \<Rightarrow> journal_log \<Rightarrow> (int result \<times> journal_log) option" where
  "aetherfs_journal_start memory nblocks log =
    (if nblocks \<le> 0 then Some (Inl EINVAL, log)
     else if \<not> memory then Some (Inl ENOMEM, log)
     else if j_end log = 0 then None
     else
       let txn = \<lparr>t_txn_id = j_commit log + 1, t_state = TXN_RUNNING, t_start = j_head log,
             t_end = (j_head log + word_of_int nblocks) mod j_end log\<rparr> in
       Some (Inr (sint (ucast (t_txn_id txn) :: u32)), log\<lparr>j_head := t_end txn\<rparr>))"

definition aetherfs_journal_commit :: "u64 \<Rightarrow> journal_log \<Rightarrow> unit result \<times> journal_log" where
  "aetherfs_journal_commit txn_id log =
    (case aetherfs_journal_current log of
       None \<Rightarrow> (Inl EINVAL, log)
     | Some txn \<Rightarrow> if t_txn_id txn \<noteq> txn_id then (Inl EINVAL, log) else (Inr (), log\<lparr>j_commit := t_end txn\<rparr>))"

text \<open>
  The walk over the blocks; \<open>uptodate\<close> is the state of a buffer after reading.  Blocks with
  the right checksum and the others are passed over alike.
\<close>

partial_function (option) replay_loop :: "disk \<Rightarrow> (u64 \<Rightarrow> bool) \<Rightarrow> u64 \<Rightarrow> u64 \<Rightarrow> u64 \<Rightarrow> u64 result option" where
  "replay_loop d uptodate ring head pos =
    (if pos = head then Some (Inr pos)
     else case d pos of
       None \<Rightarrow> Some (Inl EIO)
     | Some b \<Rightarrow>
         if \<not> uptodate pos then Some (Inr pos)
         else if ring = 0 then None
         else replay_loop d uptodate ring head ((pos + 1) mod ring))"

definition aetherfs_journal_replay :: "disk \<Rightarrow> (u64 \<Rightarrow> bool) \<Rightarrow> journal_log \<Rightarrow> (unit result \<times> journal_log) option" where
  "aetherfs_journal_replay d uptodate log =
    (if j_head log = j_commit log then Some (Inr (), log)
     else
       let log = log\<lparr>j_flags := j_flags log OR AETHERFS_JOURNAL_RECOVERING\<rparr> in
       case replay_loop d uptodate (j_end log) (j_head log) (j_commit log) of
         None \<Rightarrow> None
       | Some (Inl e) \<Rightarrow> Some (Inl e, log)
       | Some (Inr pos) \<Rightarrow>
           Some (Inr (), log\<lparr>j_head := pos, j_commit := pos, j_flags := j_flags log AND NOT AETHERFS_JOURNAL_RECOVERING\<rparr>))"

text \<open>The entry at the start of a buffer; the checksum covers 28 bytes, the old checksum included.\<close>

definition aetherfs_journal_append :: "u64 \<Rightarrow> u32 \<Rightarrow> u32 \<Rightarrow> byte list \<Rightarrow> journal_log \<Rightarrow> (byte list \<times> journal_log) option" where
  "aetherfs_journal_append txn_id op flags b log =
    (let pos = j_head log;
         b = mem_put 0 (le64 txn_id) b;
         b = mem_put 8 (le32 op) b;
         b = mem_put 12 (le32 flags) b;
         b = mem_put 16 (le64 pos) b;
         b = mem_put 24 (le32 (aetherfs_crc32_k (take 28 b))) b in
     if j_end log = 0 then None else Some (b, log\<lparr>j_head := (pos + 1) mod j_end log\<rparr>))"

definition aetherfs_journal_checkpointer :: "nat \<Rightarrow> journal_log \<Rightarrow> disk \<Rightarrow> unit result \<times> disk" where
  "aetherfs_journal_checkpointer s_blocksize log d =
    (case d (j_start log) of
       None \<Rightarrow> (Inl EIO, d)
     | Some _ \<Rightarrow> (Inr (), d(j_start log \<mapsto> mem_put 0 (le64 (j_commit log)) (replicate s_blocksize 0))))"

section \<open>The replay loop\<close>

text \<open>Steps from a position of the ring to the head.\<close>

definition ring_distance :: "nat \<Rightarrow> nat \<Rightarrow> nat \<Rightarrow> nat" where
  "ring_distance n head pos = (if pos \<le> head then head - pos else n - pos + head)"

lemma ring_step:
  assumes "head < n" "pos < n" "pos \<noteq> head"
  shows "ring_distance n head ((pos + 1) mod n) < ring_distance n head pos"
proof (cases "pos + 1 = n")
  case True
  then show ?thesis
    using assms by (simp add: ring_distance_def)
next
  case False
  then have "(pos + 1) mod n = pos + 1"
    using assms by simp
  then show ?thesis
    using assms by (auto simp: ring_distance_def)
qed

lemma next_position:
  assumes "pos < j"
  shows "unat ((pos + 1) mod j :: u64) = (unat pos + 1) mod unat j"
proof -
  have "unat pos + 1 < 2 ^ 64"
    using assms unsigned_less [of j, where ?'a = nat] by (simp add: word_less_nat_alt)
  then have "unat (pos + 1) = unat pos + 1"
    by (simp add: unat_word_ariths)
  then show ?thesis
    by (simp add: unat_mod)
qed

lemma replay_loop_inside:
  assumes "head < j" "pos < j"
  shows "\<exists>r. replay_loop d up j head pos = Some r \<and> (\<forall>p. r = Inr p \<longrightarrow> p < j)"
  using assms(2)
proof (induction "ring_distance (unat j) (unat head) (unat pos)" arbitrary: pos rule: less_induct)
  case less
  show ?case
  proof (cases "pos = head \<or> d pos = None \<or> \<not> up pos")
    case True
    then show ?thesis
      using less.prems by (subst replay_loop.simps) (auto split: option.split)
  next
    case False
    let ?p = "(pos + 1) mod j"
    have "j \<noteq> 0"
      using assms(1) by auto
    then have p: "?p < j"
      by (metis word_mod_less_divisor word_gt_0)
    have "unat head < unat j" "unat pos < unat j" "unat pos \<noteq> unat head"
      using assms(1) less.prems False by (simp_all add: word_less_nat_alt word_unat_eq_iff)
    then have "ring_distance (unat j) (unat head) (unat ?p) < ring_distance (unat j) (unat head) (unat pos)"
      using ring_step next_position [OF less.prems] by metis
    from less.hyps [OF this p] show ?thesis
      using False \<open>j \<noteq> 0\<close> by (subst replay_loop.simps) auto
  qed
qed

text \<open>The loop ends when the head lies inside the ring, wherever it starts.\<close>

lemma replay_loop_returns:
  assumes "head < j"
  shows "\<exists>r. replay_loop d up j head pos = Some r"
proof (cases "pos = head \<or> d pos = None \<or> \<not> up pos")
  case True
  then show ?thesis
    by (subst replay_loop.simps) (auto split: option.split)
next
  case False
  have "j \<noteq> 0"
    using assms by auto
  then have "(pos + 1) mod j < j"
    by (metis word_mod_less_divisor word_gt_0)
  then obtain r where "replay_loop d up j head ((pos + 1) mod j) = Some r"
    using replay_loop_inside [OF assms, of "(pos + 1) mod j" d up] by blast
  then show ?thesis
    using False \<open>j \<noteq> 0\<close> by (subst replay_loop.simps) auto
qed

text \<open>It never ends when all blocks can be read and the head lies outside.\<close>

lemma replay_loop_outside:
  assumes "replay_loop d up j head pos = Some r" "\<forall>p. d p \<noteq> None \<and> up p" "j \<le> head"
  shows "pos = head"
  using assms
proof (induction d up j head pos r rule: replay_loop.raw_induct [rotated, consumes 1])
  case (1 f d up j head pos r)
  show ?case
  proof (rule ccontr)
    assume "pos \<noteq> head"
    moreover obtain b where "d pos = Some b" "up pos"
      using 1(3) by (meson not_None_eq)
    ultimately have j: "j \<noteq> 0" and "f d up j head ((pos + 1) mod j) = Some r"
      using 1(2) by (auto split: if_splits)
    then have "(pos + 1) mod j = head"
      using 1 by blast
    moreover have "(pos + 1) mod j < j"
      using j by (metis word_mod_less_divisor word_gt_0)
    ultimately show False
      using 1(4) by simp
  qed
qed

lemma replay_loop_head:
  assumes "replay_loop d up j head pos = Some r" "\<forall>p. d p \<noteq> None \<and> up p"
  shows "r = Inr head"
  using assms
proof (induction d up j head pos r rule: replay_loop.raw_induct [rotated, consumes 1])
  case (1 f d up j head pos r)
  obtain b where "d pos = Some b" "up pos"
    using 1(3) by (meson not_None_eq)
  then show ?case
    using 1 by (auto split: if_splits)
qed

section \<open>The functions\<close>

lemma journal_replay_outcome:
  assumes "\<forall>p. d p \<noteq> None \<and> up p" "j_head log < j_end log"
  shows "\<exists>fl. aetherfs_journal_replay d up log = Some (Inr (), log\<lparr>j_commit := j_head log, j_flags := fl\<rparr>)"
proof (cases "j_head log = j_commit log")
  case True
  then show ?thesis
    by (intro exI [of _ "j_flags log"]) (simp add: aetherfs_journal_replay_def)
next
  case False
  obtain r where "replay_loop d up (j_end log) (j_head log) (j_commit log) = Some r"
    using replay_loop_returns [OF assms(2)] by blast
  with replay_loop_head [OF this assms(1)] show ?thesis
    using False by (auto simp: aetherfs_journal_replay_def Let_def)
qed

lemma journal_replay_diverges:
  assumes "\<forall>p. d p \<noteq> None \<and> up p" "j_end log \<le> j_head log" "j_commit log \<noteq> j_head log"
  shows "aetherfs_journal_replay d up log = None"
proof (cases "replay_loop d up (j_end log) (j_head log) (j_commit log)")
  case None
  then show ?thesis
    using assms(3) by (simp add: aetherfs_journal_replay_def Let_def)
next
  case (Some r)
  then show ?thesis
    using replay_loop_outside [OF Some assms(1,2)] assms(3) by simp
qed

lemma journal_commit_fails: "aetherfs_journal_commit txn_id log = (Inl EINVAL, log)"
  by (simp add: aetherfs_journal_commit_def aetherfs_journal_current_def)

lemma journal_append_entry:
  assumes "32 \<le> length b" "aetherfs_journal_append txn_id op flags b log = Some (b', log')"
  shows "get64 0 b' = txn_id \<and> get32 8 b' = op \<and> get32 12 b' = flags \<and> get64 16 b' = j_head log \<and> length b' = length b \<and>
    drop 28 b' = drop 28 b \<and> j_head log' < j_end log"
proof -
  have "j_end log \<noteq> 0"
    using assms(2) by (auto simp: aetherfs_journal_append_def Let_def split: if_splits)
  then have "(j_head log + 1) mod j_end log < j_end log"
    by (metis word_mod_less_divisor word_gt_0)
  then show ?thesis
    using assms by (auto simp: aetherfs_journal_append_def Let_def mem_simps split: if_splits)
qed

end
