(* ===== verification/Kernel_Dir.thy ===== *)
theory Kernel_Dir
  imports Kernel_Base
begin

text \<open>
  The hash index of directories (\<open>kernel/dir_idx.c\<close>).  The blocks are the contents of
  the buffers.  The block of a directory holds the header of its index, with the root block at
  offset 0, the depth at 8, the number of entries at 12 and the root of the ordered index at
  24; a leaf has its type at 0, the number of entries at 4, the checksum at 12, the next leaf
  at 16 and entries of 24 bytes and the name from 24 on.  Access behind the end of a buffer,
  which the code does not prevent, is the outcome None.
\<close>

section \<open>Names\<close>

definition dir_hash_seed :: u32 where "dir_hash_seed = 0x12345678"

text \<open>Characters are signed.\<close>

definition hash_char :: "u32 \<Rightarrow> byte \<Rightarrow> u32" where
  "hash_char hash c = (let hash = push_bit 5 hash + hash + scast c in hash XOR drop_bit 16 hash)"

definition aetherfs_hash_name :: "byte list \<Rightarrow> u32" where
  "aetherfs_hash_name name =
    (let hash = foldl hash_char dir_hash_seed name;
         hash = drop_bit 11 hash XOR push_bit 5 hash in
     hash AND 0xFFFF)"

definition aetherfs_hash_match :: "u32 \<Rightarrow> u32 \<Rightarrow> bool" where
  "aetherfs_hash_match h1 h2 \<longleftrightarrow> h1 = h2"

definition DIR_INDEX_HASH :: u32 where "DIR_INDEX_HASH = 0"
definition DIR_INDEX_ORDERED :: u32 where "DIR_INDEX_ORDERED = 1"
definition AETHERFS_DIR_LEAF_ENTRIES :: u32 where "AETHERFS_DIR_LEAF_ENTRIES = 128"
definition AETHERFS_MAX_NAMELEN_k :: nat where "AETHERFS_MAX_NAMELEN_k = 255"

section \<open>The hash index\<close>

definition aetherfs_dir_index_init :: "u64 \<Rightarrow> bool \<Rightarrow> disk \<times> sb_info \<Rightarrow> unit result \<times> disk \<times> sb_info" where
  "aetherfs_dir_index_init dir is_dir = (\<lambda>(d, info).
    if \<not> is_dir then (Inl EINVAL, d, info)
    else case d dir of
      None \<Rightarrow> (Inl EIO, d, info)
    | Some b \<Rightarrow>
        let b = mem_put 0 (le64 0) b;
            b = mem_put 8 (le32 0) b;
            b = mem_put 12 (le32 0) b;
            b = mem_put 16 (le32 dir_hash_seed) b;
            b = mem_put 20 (le32 DIR_INDEX_HASH) b;
            b = mem_put 24 (le64 0) b;
            b = mem_put 32 (le32 AETHERFS_DIR_LEAF_ENTRIES) b in
        (Inr (), d(dir \<mapsto> b), info\<lparr>s_dirty_k := True\<rparr>))"

text \<open>The block of the root, which is allocated on the first use.\<close>

definition index_root :: "nat \<Rightarrow> (byte list \<Rightarrow> byte list) \<Rightarrow> u64 \<Rightarrow> byte list \<Rightarrow> disk \<times> sb_info \<Rightarrow> u64 result \<times> disk \<times> sb_info" where
  "index_root off prepare dir b = (\<lambda>(d, info).
    if get64 off b = 0 then
      let (block, info) = aetherfs_alloc_blocks 1 info in
      if block = 0 then (Inl ENOSPC, d, info)
      else (Inr block, d(dir \<mapsto> prepare (mem_put off (le64 block) b)), info)
    else (Inr (get64 off b), d, info))"

text \<open>A leaf of type 0 is taken for a new one.\<close>

definition fresh_leaf :: "byte list \<Rightarrow> byte list" where
  "fresh_leaf leaf =
    (if get32 0 leaf = 0 then mem_put 16 (le64 0) (mem_put 4 (le32 0) (mem_put 0 (le32 DIR_INDEX_HASH) leaf)) else leaf)"

text \<open>A full leaf is emptied after a block for the next leaf has been allocated.\<close>

definition room_in_leaf :: "byte list \<Rightarrow> sb_info \<Rightarrow> byte list result \<times> sb_info" where
  "room_in_leaf leaf info =
    (if get32 4 leaf \<ge> AETHERFS_DIR_LEAF_ENTRIES then
       let (new_leaf, info) = aetherfs_alloc_blocks 1 info in
       if new_leaf = 0 then (Inl ENOSPC, info)
       else (Inr (mem_put 4 (le32 0) (mem_put 0 (le32 DIR_INDEX_HASH) (mem_put 16 (le64 new_leaf) leaf))), info)
     else (Inr leaf, info))"

definition put_hash_entry :: "nat \<Rightarrow> byte list \<Rightarrow> u64 \<Rightarrow> u32 \<Rightarrow> byte list \<Rightarrow> byte list" where
  "put_hash_entry off name ino type leaf =
    (let leaf = mem_put off (le32 (aetherfs_hash_name name)) leaf;
         leaf = mem_put (off + 8) (le64 ino) leaf;
         leaf = mem_put (off + 16) (le16 (of_nat (length name))) leaf;
         leaf = mem_put (off + 18) (le16 (ucast type)) leaf;
         leaf = mem_put (off + 20) (le32 (aetherfs_crc32_k (mem_get off (20 + length name) leaf))) leaf in
     mem_put (off + 24) name leaf)"

definition leaf_insert :: "nat \<Rightarrow> byte list \<Rightarrow> u64 \<Rightarrow> u32 \<Rightarrow> byte list \<Rightarrow> byte list option" where
  "leaf_insert s_blocksize name ino type leaf =
    (let entry_size = 24 + length name; off = 24 + unat (get32 4 leaf) * entry_size in
     if off + entry_size > length leaf then None
     else
       let leaf = put_hash_entry off name ino type leaf;
           leaf = mem_put 4 (le32 (get32 4 leaf + 1)) leaf in
       Some (mem_put 12 (le32 (aetherfs_crc32_k (take (s_blocksize - 4) leaf))) leaf))"

definition aetherfs_dir_htree_insert ::
  "u64 \<Rightarrow> byte list \<Rightarrow> u64 \<Rightarrow> u32 \<Rightarrow> disk \<times> sb_info \<Rightarrow> (unit result \<times> disk \<times> sb_info) option" where
  "aetherfs_dir_htree_insert dir name ino type = (\<lambda>(d, info).
    if ino = 0 then Some (Inl EINVAL, d, info)
    else if length name > AETHERFS_MAX_NAMELEN_k then Some (Inl ENAMETOOLONG, d, info)
    else case d dir of
      None \<Rightarrow> Some (Inl EIO, d, info)
    | Some b \<Rightarrow>
        (case index_root 0 (mem_put 8 (le32 0)) dir b (d, info) of
           (Inl e, d, info) \<Rightarrow> Some (Inl e, d, info)
         | (Inr leaf_block, d, info) \<Rightarrow>
             (case d leaf_block of
                None \<Rightarrow> Some (Inl EIO, d, info)
              | Some leaf \<Rightarrow>
                  let leaf = fresh_leaf leaf in
                  (case room_in_leaf leaf info of
                     (Inl e, info) \<Rightarrow> Some (Inl e, d(leaf_block \<mapsto> leaf), info)
                   | (Inr leaf, info) \<Rightarrow>
                       (case leaf_insert (unat (s_blocksize_k info)) name ino type leaf of
                          None \<Rightarrow> None
                        | Some leaf \<Rightarrow>
                            let d = d(leaf_block \<mapsto> leaf) in
                            (case d dir of
                               None \<Rightarrow> Some (Inr (), d, info)
                             | Some b \<Rightarrow> Some (Inr (), d(dir \<mapsto> mem_put 12 (le32 (get32 12 b + 1)) b), info)))))))"

text \<open>The loop of the lookup takes an entry every 32 bytes; the list holds the numbers of the entries.\<close>

fun htree_lookup_loop :: "byte list \<Rightarrow> byte list \<Rightarrow> nat list \<Rightarrow> u64 result option" where
  "htree_lookup_loop leaf name [] = Some (Inl ENOENT)"
| "htree_lookup_loop leaf name (i # is) =
    (let off = 24 + i * 32 in
     if off + 24 > length leaf then None
     else if get32 off leaf = aetherfs_hash_name name \<and> unat (get16 (off + 16) leaf) = length name then
       if off + 24 + length name > length leaf then None
       else if mem_get (off + 24) (length name) leaf = name then Some (Inr (get64 (off + 8) leaf))
       else htree_lookup_loop leaf name is
     else htree_lookup_loop leaf name is)"

definition aetherfs_dir_htree_lookup :: "u64 \<Rightarrow> byte list \<Rightarrow> disk \<Rightarrow> u64 result option" where
  "aetherfs_dir_htree_lookup dir name d =
    (case d dir of
       None \<Rightarrow> Some (Inl EIO)
     | Some b \<Rightarrow>
         if get64 0 b = 0 then Some (Inl ENOENT)
         else case d (get64 0 b) of
           None \<Rightarrow> Some (Inl EIO)
         | Some leaf \<Rightarrow> htree_lookup_loop leaf name [0..<unat (get32 4 leaf)])"

definition aetherfs_dir_htree_delete :: "u64 \<Rightarrow> byte list \<Rightarrow> disk \<Rightarrow> (unit result \<times> disk) option" where
  "aetherfs_dir_htree_delete dir name d =
    (case aetherfs_dir_htree_lookup dir name d of
       None \<Rightarrow> None
     | Some (Inl e) \<Rightarrow> Some (Inl e, d)
     | Some (Inr _) \<Rightarrow>
         (case d dir of
            None \<Rightarrow> Some (Inl EIO, d)
          | Some b \<Rightarrow> Some (Inr (), d(dir \<mapsto> mem_put 12 (le32 (get32 12 b - 1)) b))))"

section \<open>The ordered index\<close>

definition ordered_insert :: "nat \<Rightarrow> byte list \<Rightarrow> u64 \<Rightarrow> byte list \<Rightarrow> byte list option" where
  "ordered_insert s_blocksize name ino idx =
    (let idx = (if get32 0 idx = 0 then mem_put 16 (le64 0) (mem_put 4 (le32 0) (mem_put 0 (le32 DIR_INDEX_ORDERED) idx)) else idx);
         entry_size = 24 + length name; off = 24 + unat (get32 4 idx) * entry_size in
     if off + entry_size > length idx then None
     else
       let idx = mem_put (off + 8) (le64 ino) idx;
           idx = mem_put (off + 16) (le16 (of_nat (length name))) idx;
           idx = mem_put (off + 18) (le16 0) idx;
           idx = mem_put (off + 24) name idx;
           idx = mem_put 4 (le32 (get32 4 idx + 1)) idx in
       Some (mem_put 8 (le32 (aetherfs_crc32_k (take (s_blocksize - 4) idx))) idx))"

definition aetherfs_dir_ordered_index_insert ::
  "u64 \<Rightarrow> byte list \<Rightarrow> u64 \<Rightarrow> disk \<times> sb_info \<Rightarrow> (unit result \<times> disk \<times> sb_info) option" where
  "aetherfs_dir_ordered_index_insert dir name ino = (\<lambda>(d, info).
    case d dir of
      None \<Rightarrow> Some (Inl EIO, d, info)
    | Some b \<Rightarrow>
        (case index_root 24 id dir b (d, info) of
           (Inl e, d, info) \<Rightarrow> Some (Inl e, d, info)
         | (Inr idx_block, d, info) \<Rightarrow>
             (case d idx_block of
                None \<Rightarrow> Some (Inl EIO, d, info)
              | Some idx \<Rightarrow>
                  (case ordered_insert (unat (s_blocksize_k info)) name ino idx of
                     None \<Rightarrow> None
                   | Some idx \<Rightarrow> Some (Inr (), d(idx_block \<mapsto> idx), info)))))"

section \<open>Listing\<close>

text \<open>
  The caller's context: the position, the entries taken so far and how many more fit.  The
  kernel's \<open>dir_emit_dots\<close> gives the first two.
\<close>

record dir_context =
  cx_pos :: nat
  cx_out :: "(byte list \<times> u64) list"
  cx_room :: nat

definition dir_emit :: "byte list \<Rightarrow> u64 \<Rightarrow> dir_context \<Rightarrow> bool \<times> dir_context" where
  "dir_emit name ino ctx =
    (if cx_room ctx = 0 then (False, ctx) else (True, ctx\<lparr>cx_out := cx_out ctx @ [(name, ino)], cx_room := cx_room ctx - 1\<rparr>))"

definition dir_emit_dots :: "u64 \<Rightarrow> u64 \<Rightarrow> dir_context \<Rightarrow> bool \<times> dir_context" where
  "dir_emit_dots self parent ctx =
    (let emit_at = (\<lambda>p name ino (ok, ctx).
           if ok \<and> cx_pos ctx = p then
             (case dir_emit name ino ctx of (True, ctx) \<Rightarrow> (True, ctx\<lparr>cx_pos := p + 1\<rparr>) | (False, ctx) \<Rightarrow> (False, ctx))
           else (ok, ctx)) in
     emit_at 1 [46, 46] parent (emit_at 0 [46] self (True, ctx)))"

text \<open>Here the entries are taken every 24 bytes.\<close>

fun iterate_loop :: "byte list \<Rightarrow> nat \<Rightarrow> nat list \<Rightarrow> dir_context \<Rightarrow> dir_context option" where
  "iterate_loop leaf count [] ctx = Some ctx"
| "iterate_loop leaf count (i # is) ctx =
    (if cx_pos ctx < count then
       let off = 24 + i * 24; namelen = unat (get16 (off + 16) leaf) in
       if off + 24 + namelen > length leaf then None
       else (case dir_emit (mem_get (off + 24) namelen leaf) (get64 (off + 8) leaf) ctx of
           (False, ctx) \<Rightarrow> Some ctx
         | (True, ctx) \<Rightarrow> iterate_loop leaf count is (ctx\<lparr>cx_pos := cx_pos ctx + 1\<rparr>))
     else Some ctx)"

definition aetherfs_dir_iterate :: "u64 \<Rightarrow> u64 \<Rightarrow> disk \<Rightarrow> dir_context \<Rightarrow> (unit result \<times> dir_context) option" where
  "aetherfs_dir_iterate dir parent d ctx =
    (case dir_emit_dots dir parent ctx of
       (False, ctx) \<Rightarrow> Some (Inr (), ctx)
     | (True, ctx) \<Rightarrow>
         (case d dir of
            None \<Rightarrow> Some (Inl EIO, ctx)
          | Some b \<Rightarrow>
              if get64 0 b = 0 then Some (Inr (), ctx)
              else case d (get64 0 b) of
                None \<Rightarrow> Some (Inl EIO, ctx)
              | Some leaf \<Rightarrow>
                  map_option (\<lambda>ctx. (Inr (), ctx)) (iterate_loop leaf (unat (get32 4 leaf)) [0..<unat (get32 4 leaf)] ctx)))"

text \<open>A remainder by zero groups traps.\<close>

definition aetherfs_dir_split_if_needed :: "u64 \<Rightarrow> disk \<times> sb_info \<Rightarrow> (unit result \<times> disk \<times> sb_info) option" where
  "aetherfs_dir_split_if_needed dir = (\<lambda>(d, info).
    case d dir of
      None \<Rightarrow> Some (Inl EIO, d, info)
    | Some b \<Rightarrow>
        if get32 12 b \<ge> AETHERFS_DIR_LEAF_ENTRIES * 4 then
          if s_groups_k info = 0 then None
          else
            let (new_block, info) = aetherfs_alloc_blocks 1 info in
            Some (Inr (), if new_block \<noteq> 0 then d(dir \<mapsto> mem_put 8 (le32 1) b) else d, info)
        else Some (Inr (), d, info))"

section \<open>What a directory holds\<close>

lemma hash_name_bound: "aetherfs_hash_name name < 65536"
proof -
  have "aetherfs_hash_name name = take_bit 16 (aetherfs_hash_name name)"
    by (simp add: aetherfs_hash_name_def Let_def take_bit_eq_mask mask_eq_exp_minus_1 and.assoc)
  then have "unat (aetherfs_hash_name name) < 2 ^ 16"
    by (metis take_bit_nat_less_exp unsigned_take_bit_eq)
  then show ?thesis
    by (simp add: word_less_nat_alt)
qed

text \<open>The first entry of a leaf.\<close>

lemma put_hash_entry_fields:
  assumes "48 + length name \<le> length leaf"
  shows "length (put_hash_entry 24 name ino type leaf) = length leaf"
    "get32 0 (put_hash_entry 24 name ino type leaf) = get32 0 leaf"
    "get32 4 (put_hash_entry 24 name ino type leaf) = get32 4 leaf"
    "get32 24 (put_hash_entry 24 name ino type leaf) = aetherfs_hash_name name"
    "get64 32 (put_hash_entry 24 name ino type leaf) = ino"
    "get16 40 (put_hash_entry 24 name ino type leaf) = of_nat (length name)"
    "mem_get 48 (length name) (put_hash_entry 24 name ino type leaf) = name"
  using assms by (simp_all add: put_hash_entry_def Let_def mem_simps)

lemma leaf_insert_first:
  assumes "get32 4 leaf = 0" "48 + length name \<le> length leaf"
  obtains leaf' where "leaf_insert bs name ino type leaf = Some leaf'" "length leaf' = length leaf" "get32 0 leaf' = get32 0 leaf"
    "get32 4 leaf' = 1" "get32 24 leaf' = aetherfs_hash_name name" "get64 32 leaf' = ino" "get16 40 leaf' = of_nat (length name)"
    "mem_get 48 (length name) leaf' = name"
proof
  let ?l = "put_hash_entry 24 name ino type leaf"
  let ?m = "mem_put 4 (le32 1) ?l"
  show "leaf_insert bs name ino type leaf = Some (mem_put 12 (le32 (aetherfs_crc32_k (take (bs - 4) ?m))) ?m)"
    using assms put_hash_entry_fields(3) [OF assms(2)] by (simp add: leaf_insert_def Let_def)
qed (use assms put_hash_entry_fields [OF assms(2)] in \<open>simp_all add: mem_simps\<close>)

lemma lookup_first:
  assumes "get32 4 leaf = 1" "get32 24 leaf = aetherfs_hash_name name" "get64 32 leaf = ino" "get16 40 leaf = of_nat (length name)"
    "mem_get 48 (length name) leaf = name" "48 + length name \<le> length leaf" "length name \<le> 255"
  shows "htree_lookup_loop leaf n [0..<unat (get32 4 leaf)] = Some (if n = name then Inr ino else Inl ENOENT)"
proof -
  have "unat (of_nat (length name) :: u16) = length name"
    using assms(7) by (simp add: unsigned_of_nat take_bit_nat_eq_self)
  then show ?thesis
    using assms by auto
qed

definition small_dir :: "u64 \<Rightarrow> u64 \<Rightarrow> disk \<Rightarrow> bool" where
  "small_dir dir lb d \<longleftrightarrow> lb \<noteq> 0 \<and> lb \<noteq> dir \<and>
    (\<exists>b leaf. d dir = Some b \<and> 40 \<le> length b \<and> get64 0 b = lb \<and> d lb = Some leaf \<and> 512 \<le> length leaf \<and> get32 0 leaf = 0)"

text \<open>
  Type 0 is the type of a leaf of the hash index, so every insertion takes the leaf for a new
  one: the directory holds the last entry and no other.
\<close>

lemma htree_insert_last:
  assumes "small_dir dir lb d" "ino \<noteq> 0" "length name \<le> 255"
  obtains d' where "aetherfs_dir_htree_insert dir name ino type (d, info) = Some (Inr (), d', info)" "small_dir dir lb d'"
    "\<forall>n. aetherfs_dir_htree_lookup dir n d' = Some (if n = name then Inr ino else Inl ENOENT)"
proof -
  obtain b leaf where st: "lb \<noteq> 0" "lb \<noteq> dir" "d dir = Some b" "40 \<le> length b" "get64 0 b = lb" "d lb = Some leaf"
    "512 \<le> length leaf" "get32 0 leaf = 0"
    using assms(1) by (auto simp: small_dir_def)
  let ?f = "fresh_leaf leaf"
  have f: "length ?f = length leaf" "get32 0 ?f = 0" "get32 4 ?f = 0"
    using st(7,8) by (simp_all add: fresh_leaf_def mem_simps DIR_INDEX_HASH_def)
  have room: "room_in_leaf ?f info = (Inr ?f, info)"
    by (simp add: room_in_leaf_def f(3) AETHERFS_DIR_LEAF_ENTRIES_def)
  have fits: "48 + length name \<le> length ?f"
    using assms(3) st(7) f(1) by simp
  obtain l where l: "leaf_insert (unat (s_blocksize_k info)) name ino type ?f = Some l" "length l = length ?f" "get32 0 l = get32 0 ?f"
    "get32 4 l = 1" "get32 24 l = aetherfs_hash_name name" "get64 32 l = ino" "get16 40 l = of_nat (length name)"
    "mem_get 48 (length name) l = name"
    by (rule leaf_insert_first [OF f(3) fits])
  let ?b = "mem_put 12 (le32 (get32 12 b + 1)) b"
  let ?d = "d(lb \<mapsto> l, dir \<mapsto> ?b)"
  have root: "get64 0 ?b = lb" "length ?b = length b"
    using st(4,5) by (simp_all add: mem_simps)
  have "aetherfs_dir_htree_insert dir name ino type (d, info) = Some (Inr (), ?d, info)"
    using assms(2,3) st room l(1) by (simp add: aetherfs_dir_htree_insert_def index_root_def AETHERFS_MAX_NAMELEN_k_def Let_def)
  moreover have "small_dir dir lb ?d"
    using st root l(2,3) f by (auto simp: small_dir_def)
  moreover have "aetherfs_dir_htree_lookup dir n ?d = Some (if n = name then Inr ino else Inl ENOENT)" for n
    using lookup_first [OF l(4-8) _ assms(3), of n] fits l(2) st(1,2) root by (simp add: aetherfs_dir_htree_lookup_def)
  ultimately show ?thesis
    using that by blast
qed

definition insert_names :: "u64 \<Rightarrow> (byte list \<times> u64) list \<Rightarrow> disk \<times> sb_info \<Rightarrow> (disk \<times> sb_info) option" where
  "insert_names dir es s = foldl (\<lambda>s (name, ino). case s of None \<Rightarrow> None
     | Some s \<Rightarrow> map_option snd (aetherfs_dir_htree_insert dir name ino 8 s)) (Some s) es"

lemma insert_names_last:
  assumes "small_dir dir lb d" "\<forall>(name, ino) \<in> set es. ino \<noteq> 0 \<and> length name \<le> 255" "es \<noteq> []"
  shows "\<exists>d'. insert_names dir es (d, info) = Some (d', info) \<and> small_dir dir lb d' \<and>
    (\<forall>n. aetherfs_dir_htree_lookup dir n d' = Some (if n = fst (last es) then Inr (snd (last es)) else Inl ENOENT))"
  using assms(2,3)
proof (induction es rule: rev_induct)
  case (snoc e es)
  obtain name ino where e: "e = (name, ino)"
    by force
  obtain d1 where d1: "insert_names dir es (d, info) = Some (d1, info)" "small_dir dir lb d1"
  proof (cases "es = []")
    case True
    then show ?thesis
      using that [of d] assms(1) by (simp add: insert_names_def)
  next
    case False
    then show ?thesis
      using that snoc by auto
  qed
  have "ino \<noteq> 0" "length name \<le> 255"
    using snoc.prems(1) e by auto
  then obtain d' where "aetherfs_dir_htree_insert dir name ino 8 (d1, info) = Some (Inr (), d', info)" "small_dir dir lb d'"
    "\<forall>n. aetherfs_dir_htree_lookup dir n d' = Some (if n = name then Inr ino else Inl ENOENT)"
    by (rule htree_insert_last [OF d1(2), where type = 8 and info = info])
  then show ?case
    using d1(1) e by (auto simp: insert_names_def)
qed simp

text \<open>Deleting only counts: the entry is still found.\<close>

lemma htree_delete_keeps:
  assumes "aetherfs_dir_htree_delete dir name d = Some (Inr (), d')" "\<forall>b. d dir = Some b \<longrightarrow> 40 \<le> length b \<and> get64 0 b \<noteq> dir"
  shows "aetherfs_dir_htree_lookup dir n d' = aetherfs_dir_htree_lookup dir n d"
proof -
  obtain b where b: "d dir = Some b" "d' = d(dir \<mapsto> mem_put 12 (le32 (get32 12 b - 1)) b)" "40 \<le> length b" "get64 0 b \<noteq> dir"
    using assms by (auto simp: aetherfs_dir_htree_delete_def split: option.splits sum.splits)
  have "get64 0 (mem_put 12 (le32 (get32 12 b - 1)) b) = get64 0 b"
    using b(3) by (simp add: mem_simps)
  then show ?thesis
    using b by (simp add: aetherfs_dir_htree_lookup_def)
qed

text \<open>A listing that starts at the beginning never gets to the only entry of a directory.\<close>

lemma iterate_dots_only:
  assumes "d dir = Some b" "d (get64 0 b) = Some leaf" "get32 4 leaf \<le> 2" "2 \<le> cx_room ctx" "cx_pos ctx = 0"
  shows "\<exists>ctx'. aetherfs_dir_iterate dir parent d ctx = Some (Inr (), ctx') \<and> cx_out ctx' = cx_out ctx @ [([46], dir), ([46, 46], parent)]"
proof -
  have count: "unat (get32 4 leaf) \<le> 2"
    using assms(3) by (simp add: word_le_nat_alt)
  have stop: "iterate_loop leaf n is c = Some c" if "n \<le> cx_pos c" for n "is" c
    using that by (cases "is") simp_all
  show ?thesis
    using assms count by (auto simp: aetherfs_dir_iterate_def dir_emit_dots_def dir_emit_def stop)
qed

end
