(* ===== verification/Kernel_Btree.thy ===== *)
theory Kernel_Btree
  imports Kernel_Base
begin

text \<open>
  The B+tree of the module (\<open>kernel/btree.c\<close>) and the free extent tree on top of it
  (\<open>kernel/balloc.c\<close>).  A node is a header and an array of keys in memory; the key
  record has the four bytes of padding that C adds to \<open>struct aetherfs_btree_key\<close>, so
  that what the checksums cover is all there.
\<close>

section \<open>Nodes\<close>

record btree_key =
  k_ino :: u64
  k_offset :: u64
  k_value :: u64
  k_len :: u32
  k_flags :: u32
  k_checksum :: u32
  k_pad :: u32

record btree_node =
  bn_next :: u64
  bn_level :: u32
  bn_count :: u32
  bn_checksum :: u32
  bn_reserved :: u32
  bn_keys :: "btree_key list"
  bn_tail :: "byte list"

definition AETHERFS_BTREE_DEF_ORDER :: u32 where
  "AETHERFS_BTREE_DEF_ORDER = 32"

definition key_bytes :: "btree_key \<Rightarrow> byte list" where
  "key_bytes k = le64 (k_ino k) @ le64 (k_offset k) @ le64 (k_value k) @ le32 (k_len k) @ le32 (k_flags k) @
     le32 (k_checksum k) @ le32 (k_pad k)"

definition node_bytes :: "btree_node \<Rightarrow> byte list" where
  "node_bytes n = le64 (bn_next n) @ le32 (bn_level n) @ le32 (bn_count n) @ le32 (bn_checksum n) @ le32 (bn_reserved n) @
     concat (map key_bytes (bn_keys n)) @ bn_tail n"

definition btree_is_leaf :: "btree_node \<Rightarrow> bool" where
  "btree_is_leaf node \<longleftrightarrow> bn_level node = 0"

definition btree_is_full :: "btree_node \<Rightarrow> u32 \<Rightarrow> bool" where
  "btree_is_full node order \<longleftrightarrow> bn_count node \<ge> order"

definition btree_is_min :: "btree_node \<Rightarrow> u32 \<Rightarrow> bool" where
  "btree_is_min node order \<longleftrightarrow> bn_count node \<le> order div 2"

definition btree_node_size_for_block :: "u32 \<Rightarrow> u32 \<Rightarrow> u32" where
  "btree_node_size_for_block page_size block_size =
    (let sz = (if block_size > page_size then page_size else block_size); sz = max sz 4096 in min sz 65536)"

definition btree_compare_ino :: "btree_key \<Rightarrow> u64 \<Rightarrow> int" where
  "btree_compare_ino a ino = (if k_ino a < ino then - 1 else if k_ino a > ino then 1 else 0)"

definition btree_compare_extent :: "btree_key \<Rightarrow> u64 \<Rightarrow> int" where
  "btree_compare_extent a lblock = (if k_offset a < lblock then - 1 else if k_offset a > lblock then 1 else 0)"

function find_slot :: "(btree_key \<Rightarrow> int) \<Rightarrow> btree_key list \<Rightarrow> nat \<Rightarrow> nat \<Rightarrow> nat" where
  "find_slot cmp keys low high =
    (if low < high then
       let mid = (low + high) div 2 in
       if cmp (keys ! mid) < 0 then find_slot cmp keys (mid + 1) high else find_slot cmp keys low mid
     else low)"
  by pat_completeness auto
termination
  by (relation "measure (\<lambda>(cmp, keys, low, high). high - low)") auto

declare find_slot.simps [simp del]

definition btree_find_slot_ino :: "btree_node \<Rightarrow> u64 \<Rightarrow> nat" where
  "btree_find_slot_ino node ino = find_slot (\<lambda>k. btree_compare_ino k ino) (bn_keys node) 0 (unat (bn_count node))"

definition btree_find_slot_extent :: "btree_node \<Rightarrow> u64 \<Rightarrow> nat" where
  "btree_find_slot_extent node lblock = find_slot (\<lambda>k. btree_compare_extent k lblock) (bn_keys node) 0 (unat (bn_count node))"

definition btree_checksum_node :: "btree_node \<Rightarrow> nat \<Rightarrow> u32" where
  "btree_checksum_node node sz = aetherfs_crc32_k (take (sz - 4) (node_bytes node))"

text \<open>
  A slab object, which is cleared, is as large as the header of a node; the keys are whatever
  lies behind it.  The argument is that memory, or None where the kernel's allocator fails.
\<close>

type_synonym node_memory = "(btree_key list \<times> byte list) option"

definition btree_alloc_node :: "node_memory \<Rightarrow> btree_node option" where
  "btree_alloc_node memory =
    (case memory of
       None \<Rightarrow> None
     | Some (keys, tail) \<Rightarrow>
         Some \<lparr>bn_next = 0, bn_level = 0, bn_count = 0, bn_checksum = 0, bn_reserved = 0, bn_keys = keys, bn_tail = tail\<rparr>)"

definition aetherfs_btree_create :: "node_memory \<Rightarrow> u32 \<Rightarrow> btree_node result" where
  "aetherfs_btree_create memory node_size =
    (if node_size = 0 then Inl EINVAL
     else case btree_alloc_node memory of
       None \<Rightarrow> Inl ENOMEM
     | Some node \<Rightarrow> Inr (node\<lparr>bn_level := 0, bn_count := 0\<rparr>))"

section \<open>Extents\<close>

text \<open>Moving the keys from a slot on one place up; the slot keeps its old contents.\<close>

definition shift_up :: "nat \<Rightarrow> nat \<Rightarrow> btree_key list \<Rightarrow> btree_key list" where
  "shift_up slot count keys = take (slot + 1) keys @ take (count - slot) (drop slot keys) @ drop (count + 1) keys"

definition seal_key :: "btree_key \<Rightarrow> btree_key" where
  "seal_key k = k\<lparr>k_checksum := aetherfs_crc32_k (take 36 (key_bytes k))\<rparr>"

definition aetherfs_btree_insert_extent ::
  "btree_node option \<Rightarrow> u64 \<Rightarrow> u64 \<Rightarrow> u64 \<Rightarrow> u64 \<Rightarrow> unit result \<times> btree_node option" where
  "aetherfs_btree_insert_extent root ino lblock pblock blocks =
    (case root of
       None \<Rightarrow> (Inl EINVAL, None)
     | Some node \<Rightarrow>
         (Inr (), Some
           (if btree_is_leaf node \<and> \<not> btree_is_full node AETHERFS_BTREE_DEF_ORDER then
              let slot = btree_find_slot_extent node lblock;
                  keys = shift_up slot (unat (bn_count node)) (bn_keys node);
                  key = seal_key ((keys ! slot)\<lparr>k_ino := ino, k_offset := lblock, k_value := pblock, k_len := ucast blocks\<rparr>);
                  node = node\<lparr>bn_keys := keys[slot := key], bn_count := bn_count node + 1\<rparr> in
              node\<lparr>bn_checksum := btree_checksum_node node 4096\<rparr>
            else node)))"

text \<open>The loop does not move to another node: at an inner node without the key it never ends.\<close>

partial_function (option) lookup_extent_loop :: "btree_node \<Rightarrow> u64 \<Rightarrow> u64 \<Rightarrow> (u64 \<times> u32) result option" where
  "lookup_extent_loop node ino lblock =
    (let slot = btree_find_slot_extent node lblock in
     if slot < unat (bn_count node) \<and> k_ino (bn_keys node ! slot) = ino \<and> k_offset (bn_keys node ! slot) = lblock
     then Some (Inr (k_value (bn_keys node ! slot), k_len (bn_keys node ! slot)))
     else if btree_is_leaf node then Some (Inl ENOENT)
     else lookup_extent_loop node ino lblock)"

definition aetherfs_btree_lookup_extent :: "btree_node option \<Rightarrow> u64 \<Rightarrow> u64 \<Rightarrow> (u64 \<times> u32) result option" where
  "aetherfs_btree_lookup_extent root ino lblock =
    (case root of None \<Rightarrow> Some (Inl EINVAL) | Some node \<Rightarrow> lookup_extent_loop node ino lblock)"

definition aetherfs_btree_delete_extent :: "btree_node option \<Rightarrow> u64 \<Rightarrow> u64 \<Rightarrow> unit result \<times> btree_node option" where
  "aetherfs_btree_delete_extent root ino lblock =
    (case root of
       None \<Rightarrow> (Inl ENOENT, None)
     | Some node \<Rightarrow>
         let slot = btree_find_slot_extent node lblock; keys = bn_keys node; count = unat (bn_count node) in
         if slot \<ge> count \<or> k_ino (keys ! slot) \<noteq> ino \<or> k_offset (keys ! slot) \<noteq> lblock then (Inl ENOENT, Some node)
         else (Inr (), Some (node\<lparr>bn_keys := close_gap slot count keys,
                bn_count := bn_count node - 1\<rparr>)))"

section \<open>Metadata\<close>

definition aetherfs_btree_insert_metadata ::
  "btree_node option \<Rightarrow> u64 \<Rightarrow> u64 \<Rightarrow> u32 \<Rightarrow> u32 \<Rightarrow> unit result \<times> btree_node option" where
  "aetherfs_btree_insert_metadata root ino block sz flags =
    (case root of
       None \<Rightarrow> (Inl EINVAL, None)
     | Some node \<Rightarrow>
         (Inr (), Some
           (if btree_is_leaf node \<and> \<not> btree_is_full node AETHERFS_BTREE_DEF_ORDER then
              let slot = btree_find_slot_ino node ino;
                  keys = shift_up slot (unat (bn_count node)) (bn_keys node);
                  key = seal_key ((keys ! slot)\<lparr>k_ino := ino, k_offset := 0, k_value := block, k_len := sz, k_flags := flags\<rparr>) in
              node\<lparr>bn_keys := keys[slot := key], bn_count := bn_count node + 1\<rparr>
            else node)))"

partial_function (option) lookup_metadata_loop :: "btree_node \<Rightarrow> u64 \<Rightarrow> (u64 \<times> u32 \<times> u32) result option" where
  "lookup_metadata_loop node ino =
    (let slot = btree_find_slot_ino node ino in
     if slot < unat (bn_count node) \<and> k_ino (bn_keys node ! slot) = ino
     then Some (Inr (k_value (bn_keys node ! slot), k_len (bn_keys node ! slot), k_flags (bn_keys node ! slot)))
     else if btree_is_leaf node then Some (Inl ENOENT)
     else lookup_metadata_loop node ino)"

definition aetherfs_btree_lookup_metadata :: "btree_node option \<Rightarrow> u64 \<Rightarrow> (u64 \<times> u32 \<times> u32) result option" where
  "aetherfs_btree_lookup_metadata root ino =
    (case root of None \<Rightarrow> Some (Inl EINVAL) | Some node \<Rightarrow> lookup_metadata_loop node ino)"

section \<open>Splitting\<close>

definition btree_split_node :: "node_memory \<Rightarrow> node_memory \<Rightarrow> btree_node \<Rightarrow> (btree_node \<times> btree_node) result" where
  "btree_split_node memory_l memory_r node =
    (case (btree_alloc_node memory_l, btree_alloc_node memory_r) of
       (Some l, Some r) \<Rightarrow>
         let count = bn_count node; mid = count div 2; keys = bn_keys node; rest = unat (count - mid) in
         Inr (l\<lparr>bn_level := bn_level node, bn_count := mid,
                bn_keys := take (unat mid) keys @ drop (unat mid) (bn_keys l)\<rparr>,
              r\<lparr>bn_level := bn_level node, bn_count := count - mid,
                bn_keys := take rest (drop (unat mid) keys) @ drop rest (bn_keys r)\<rparr>)
     | _ \<Rightarrow> Inl ENOMEM)"

section \<open>The free extent tree\<close>

definition free_tree_insert_extent :: "bool \<Rightarrow> btree_node option \<Rightarrow> u64 \<Rightarrow> u64 \<Rightarrow> unit result \<times> btree_node option" where
  "free_tree_insert_extent memory ft_root start blocks =
    (if start = 0 \<or> blocks = 0 then (Inl EINVAL, ft_root)
     else if \<not> memory then (Inl ENOMEM, ft_root)
     else aetherfs_btree_insert_extent ft_root 0 start start blocks)"

definition free_tree_remove_extent :: "btree_node option \<Rightarrow> u64 \<Rightarrow> unit result \<times> btree_node option" where
  "free_tree_remove_extent ft_root start =
    (if start = 0 then (Inl EINVAL, ft_root) else aetherfs_btree_delete_extent ft_root 0 start)"

definition free_tree_find_contiguous :: "btree_node option \<Rightarrow> u64 \<Rightarrow> u64 result option" where
  "free_tree_find_contiguous ft_root wanted =
    (case aetherfs_btree_lookup_extent ft_root 0 0 of
       None \<Rightarrow> None
     | Some (Inl e) \<Rightarrow> Some (Inl e)
     | Some (Inr (pblock, blocks)) \<Rightarrow> Some (if ucast blocks \<ge> wanted then Inr pblock else Inl ENOSPC))"

section \<open>The search\<close>

definition live :: "btree_node \<Rightarrow> btree_key list" where
  "live n = take (unat (bn_count n)) (bn_keys n)"

lemma find_slot_bounds:
  assumes "low \<le> high" "high \<le> length keys" "sorted_wrt (\<lambda>a b. cmp b < 0 \<longrightarrow> cmp a < 0) (take high' keys)" "high \<le> high'"
    and "\<forall>i < low. cmp (keys ! i) < 0" "\<forall>i. high \<le> i \<and> i < high' \<longrightarrow> \<not> cmp (keys ! i) < 0" "high' \<le> length keys"
  shows "low \<le> find_slot cmp keys low high \<and> find_slot cmp keys low high \<le> high \<and>
    (\<forall>i < find_slot cmp keys low high. cmp (keys ! i) < 0) \<and>
    (\<forall>i. find_slot cmp keys low high \<le> i \<and> i < high' \<longrightarrow> \<not> cmp (keys ! i) < 0)"
  using assms
proof (induction cmp keys low high rule: find_slot.induct)
  case (1 cmp keys low high)
  show ?case
  proof (cases "low < high")
    case False
    then have "find_slot cmp keys low high = low" "low = high"
      using "1.prems"(1) by (simp_all add: find_slot.simps)
    then show ?thesis
      using "1.prems" by auto
  next
    case True
    define mid where "mid = (low + high) div 2"
    have mid: "low \<le> mid" "mid < high"
      using True by (auto simp: mid_def)
    have mono: "cmp (keys ! j) < 0 \<Longrightarrow> cmp (keys ! i) < 0" if "i \<le> j" "j < high'" for i j
      using "1.prems"(3,7) that(2) le_less [THEN iffD1, OF that(1)] by (auto simp: sorted_wrt_iff_nth_less)
    show ?thesis
    proof (cases "cmp (keys ! mid) < 0")
      case less: True
      have "\<forall>i < mid + 1. cmp (keys ! i) < 0"
        using mono [of _ mid] less mid(2) "1.prems"(4) by auto
      note ih = "1.IH"(1) [OF True mid_def less _ "1.prems"(2-4) this "1.prems"(6,7)]
      have "find_slot cmp keys low high = find_slot cmp keys (mid + 1) high"
        using True less by (subst find_slot.simps) (simp add: Let_def mid_def)
      then show ?thesis
        using ih mid by (simp del: not_less)
    next
      case ge: False
      have "\<forall>i. mid \<le> i \<and> i < high' \<longrightarrow> \<not> cmp (keys ! i) < 0"
        using mono [of mid] ge by blast
      note ih = "1.IH"(2) [OF True mid_def ge mid(1) _ "1.prems"(3) _ "1.prems"(5) this "1.prems"(7)]
      have "find_slot cmp keys low high = find_slot cmp keys low mid"
        using True ge by (subst find_slot.simps) (simp add: Let_def mid_def)
      then show ?thesis
        using ih mid "1.prems"(2,4) by (simp del: not_less)
    qed
  qed
qed

lemma slot_takeWhile:
  assumes "r \<le> length xs" "\<forall>i < r. P (xs ! i)" "\<forall>i. r \<le> i \<and> i < length xs \<longrightarrow> \<not> P (xs ! i)"
  shows "r = length (takeWhile P xs)"
proof (rule antisym)
  show "r \<le> length (takeWhile P xs)"
    using assms(1,2) by (metis length_takeWhile_le linorder_not_le nth_length_takeWhile order_less_le_trans)
  show "length (takeWhile P xs) \<le> r"
  proof (rule ccontr)
    assume "\<not> length (takeWhile P xs) \<le> r"
    then have "r < length (takeWhile P xs)"
      by simp
    then have "P (xs ! r)" "r < length xs"
      using nth_mem set_takeWhileD takeWhile_nth length_takeWhile_le by (metis, metis order_less_le_trans)
    then show False
      using assms(3) by auto
  qed
qed

section \<open>A leaf is a map from offsets\<close>

text \<open>A leaf with room for 32 keys whose live keys are in order of their offsets.\<close>

definition leaf :: "btree_node \<Rightarrow> bool" where
  "leaf n \<longleftrightarrow> bn_level n = 0 \<and> unat (bn_count n) \<le> 32 \<and> 33 \<le> length (bn_keys n) \<and> sorted (map k_offset (live n))"

definition index :: "btree_node \<Rightarrow> u64 \<rightharpoonup> u64 \<times> u64 \<times> u32" where
  "index n = map_of (map (\<lambda>k. (k_offset k, k_ino k, k_value k, k_len k)) (live n))"

lemma length_live: "leaf n \<Longrightarrow> length (live n) = unat (bn_count n)"
  by (simp add: leaf_def live_def)

lemma live_nth: "i < unat (bn_count n) \<Longrightarrow> live n ! i = bn_keys n ! i"
  by (simp add: live_def)

lemma find_slot_extent:
  assumes "leaf n"
  shows "btree_find_slot_extent n l = length (takeWhile (\<lambda>k. k_offset k < l) (live n))"
proof -
  let ?c = "unat (bn_count n)" and ?cmp = "\<lambda>k. btree_compare_extent k l"
  have len: "?c \<le> length (bn_keys n)"
    using assms by (simp add: leaf_def)
  have cmp: "?cmp k < 0 \<longleftrightarrow> k_offset k < l" for k
    by (simp add: btree_compare_extent_def)
  have "sorted_wrt (\<lambda>a b. ?cmp b < 0 \<longrightarrow> ?cmp a < 0) (take ?c (bn_keys n))"
  proof (rule sorted_wrt_mono_rel)
    show "sorted_wrt (\<lambda>a b. k_offset a \<le> k_offset b) (take ?c (bn_keys n))"
      using assms by (simp add: leaf_def live_def sorted_map)
  qed (auto simp: cmp)
  then have "find_slot ?cmp (bn_keys n) 0 ?c \<le> ?c \<and> (\<forall>i < find_slot ?cmp (bn_keys n) 0 ?c. ?cmp (bn_keys n ! i) < 0) \<and>
      (\<forall>i. find_slot ?cmp (bn_keys n) 0 ?c \<le> i \<and> i < ?c \<longrightarrow> \<not> ?cmp (bn_keys n ! i) < 0)"
    using find_slot_bounds [where cmp = ?cmp and keys = "bn_keys n" and low = 0 and high = ?c and high' = ?c] len by simp
  then have b: "btree_find_slot_extent n l \<le> ?c" "\<forall>i < btree_find_slot_extent n l. k_offset (bn_keys n ! i) < l"
    "\<forall>i. btree_find_slot_extent n l \<le> i \<and> i < ?c \<longrightarrow> \<not> k_offset (bn_keys n ! i) < l"
    unfolding btree_find_slot_extent_def cmp by blast+
  show ?thesis
    by (rule slot_takeWhile) (use b live_nth length_live [OF assms] in auto)
qed

lemma map_of_sorted_slot:
  assumes "sorted (map k_offset ks)" "i = length (takeWhile (\<lambda>k. k_offset k < l) ks)"
  shows "map_of (map (\<lambda>k. (k_offset k, f k)) ks) l = (if i < length ks \<and> k_offset (ks ! i) = l then Some (f (ks ! i)) else None)"
  using assms
proof (induction ks arbitrary: i)
  case (Cons k ks)
  show ?case
  proof (cases "k_offset k < l")
    case True
    then show ?thesis
      using Cons by auto
  next
    case False
    have "l \<notin> k_offset ` set ks" if "k_offset k \<noteq> l"
      using Cons.prems(1) False that by (fastforce simp: image_iff)
    then show ?thesis
      using False Cons.prems(2) by (auto simp: map_of_eq_None_iff image_image)
  qed
qed simp

lemma lookup_extent_index:
  assumes "leaf n"
  shows "aetherfs_btree_lookup_extent (Some n) ino l =
    Some (case index n l of Some (i, v, len) \<Rightarrow> if i = ino then Inr (v, len) else Inl ENOENT | None \<Rightarrow> Inl ENOENT)"
proof -
  let ?s = "btree_find_slot_extent n l"
  have s: "index n l = (if ?s < unat (bn_count n) \<and> k_offset (bn_keys n ! ?s) = l
      then Some (k_ino (bn_keys n ! ?s), k_value (bn_keys n ! ?s), k_len (bn_keys n ! ?s)) else None)"
    unfolding index_def
    using map_of_sorted_slot [OF _ find_slot_extent [OF assms], where f = "\<lambda>k. (k_ino k, k_value k, k_len k)"] assms
    by (auto simp: leaf_def length_live [OF assms] live_nth)
  show ?thesis
    using assms unfolding aetherfs_btree_lookup_extent_def s
    by (subst option.case(2), subst lookup_extent_loop.simps) (auto simp: leaf_def btree_is_leaf_def Let_def)
qed

lemma shift_up_live:
  assumes "slot \<le> c" "c < length keys" "length keys = m"
  shows "take (c + 1) ((shift_up slot c keys)[slot := k]) = take slot (take c keys) @ k # drop slot (take c keys)"
    and "length (shift_up slot c keys) = m"
proof -
  have "(shift_up slot c keys)[slot := k] = take slot keys @ k # take (c - slot) (drop slot keys) @ drop (c + 1) keys"
    using assms by (simp add: shift_up_def list_update_append upd_conv_take_nth_drop min_def)
  then show "take (c + 1) ((shift_up slot c keys)[slot := k]) = take slot (take c keys) @ k # drop slot (take c keys)"
    using assms by (simp add: min_def take_drop Suc_diff_le)
  show "length (shift_up slot c keys) = m"
    using assms by (simp add: shift_up_def)
qed

lemma live_update: "live (n\<lparr>bn_keys := ks, bn_count := c, bn_checksum := x\<rparr>) = take (unat c) ks"
  by (simp add: live_def)

lemma insert_extent_live:
  assumes "leaf n" "bn_count n < 32" "aetherfs_btree_insert_extent (Some n) ino l p blocks = (r, root)"
  obtains n' k where "r = Inr ()" "root = Some n'"
    and "live n' = takeWhile (\<lambda>k. k_offset k < l) (live n) @ k # dropWhile (\<lambda>k. k_offset k < l) (live n)"
    and "k_ino k = ino" "k_offset k = l" "k_value k = p" "k_len k = ucast blocks"
    and "bn_level n' = 0" "unat (bn_count n') = unat (bn_count n) + 1" "length (bn_keys n') = length (bn_keys n)"
proof -
  let ?c = "unat (bn_count n)" and ?s = "btree_find_slot_extent n l"
  define keys where "keys = shift_up ?s ?c (bn_keys n)"
  define k where "k = seal_key ((keys ! ?s)\<lparr>k_ino := ino, k_offset := l, k_value := p, k_len := ucast blocks\<rparr>)"
  define n1 where "n1 = n\<lparr>bn_keys := keys[?s := k], bn_count := bn_count n + 1\<rparr>"
  have c: "unat (bn_count n + 1) = ?c + 1"
    using assms(2) by (simp add: word_less_nat_alt unat_word_ariths)
  have s: "?s = length (takeWhile (\<lambda>k. k_offset k < l) (live n))"
    using assms(1) by (rule find_slot_extent)
  then have "?s \<le> ?c"
    using length_takeWhile_le length_live [OF assms(1)] by metis
  then have sh: "take (?c + 1) (keys[?s := k]) = take ?s (live n) @ k # drop ?s (live n)" "length keys = length (bn_keys n)"
    using shift_up_live [of ?s ?c "bn_keys n"] assms(1,2) by (simp_all add: leaf_def keys_def live_def word_less_nat_alt)
  have "r = Inr ()" "root = Some (n1\<lparr>bn_checksum := btree_checksum_node n1 4096\<rparr>)"
    using assms by (auto simp: aetherfs_btree_insert_extent_def leaf_def btree_is_leaf_def btree_is_full_def
        AETHERFS_BTREE_DEF_ORDER_def Let_def n1_def k_def keys_def)
  moreover have "live (n1\<lparr>bn_checksum := btree_checksum_node n1 4096\<rparr>) =
      takeWhile (\<lambda>k. k_offset k < l) (live n) @ k # dropWhile (\<lambda>k. k_offset k < l) (live n)"
    using sh(1) c by (simp add: live_update n1_def s takeWhile_eq_take [symmetric] dropWhile_eq_drop [symmetric])
  moreover have "k_ino k = ino" "k_offset k = l" "k_value k = p" "k_len k = ucast blocks"
    by (simp_all add: k_def seal_key_def)
  ultimately show ?thesis
    using that assms(1) c sh(2) by (simp add: n1_def leaf_def)
qed

lemma sorted_insert_slot:
  assumes "sorted (map k_offset ks)" "k_offset k = l"
  shows "sorted (map k_offset (takeWhile (\<lambda>k. k_offset k < l) ks @ k # dropWhile (\<lambda>k. k_offset k < l) ks))"
proof -
  have "\<forall>x \<in> set (takeWhile (\<lambda>k. k_offset k < l) ks). k_offset x < l"
    by (auto dest: set_takeWhileD)
  moreover have "\<forall>x \<in> set (dropWhile (\<lambda>k. k_offset k < l) ks). l \<le> k_offset x"
    using assms(1)
  proof (induction ks)
    case (Cons a ks)
    then show ?case
      by (auto intro: order_trans)
  qed simp
  moreover have "sorted (map k_offset (takeWhile (\<lambda>k. k_offset k < l) ks))" "sorted (map k_offset (dropWhile (\<lambda>k. k_offset k < l) ks))"
    using assms(1) by (metis map_append sorted_append takeWhile_dropWhile_id)+
  ultimately show ?thesis
    using assms(2) by (force simp: sorted_append)
qed

lemma insert_extent_leaf:
  assumes "leaf n" "bn_count n < 32" "aetherfs_btree_insert_extent (Some n) ino l p blocks = (r, root)"
  shows "r = Inr () \<and> (\<exists>n'. root = Some n' \<and> leaf n' \<and> index n' = (index n)(l \<mapsto> (ino, p, ucast blocks)))"
proof -
  obtain n' k where n': "r = Inr ()" "root = Some n'"
    "live n' = takeWhile (\<lambda>k. k_offset k < l) (live n) @ k # dropWhile (\<lambda>k. k_offset k < l) (live n)"
    "k_ino k = ino" "k_offset k = l" "k_value k = p" "k_len k = ucast blocks"
    "bn_level n' = 0" "unat (bn_count n') = unat (bn_count n) + 1" "length (bn_keys n') = length (bn_keys n)"
    using assms by (rule insert_extent_live)
  have sorted: "sorted (map k_offset (live n'))"
    unfolding n'(3) by (rule sorted_insert_slot) (use assms(1) n'(5) in \<open>simp_all add: leaf_def\<close>)
  then have "leaf n'"
    using assms(1,2) n'(8-10) by (simp add: leaf_def word_less_nat_alt)
  moreover have "index n' x = ((index n)(l \<mapsto> (ino, p, ucast blocks))) x" for x
  proof -
    have tw: "map_of (map (\<lambda>k. (k_offset k, k_ino k, k_value k, k_len k)) (takeWhile (\<lambda>k. k_offset k < l) (live n))) l = None"
      by (auto simp: map_of_eq_None_iff dest!: set_takeWhileD)
    have "index n = map_of (map (\<lambda>k. (k_offset k, k_ino k, k_value k, k_len k))
        (takeWhile (\<lambda>k. k_offset k < l) (live n) @ dropWhile (\<lambda>k. k_offset k < l) (live n)))"
      by (simp add: index_def)
    then show ?thesis
      using tw n'(3-7) by (auto simp: index_def map_add_def simp del: takeWhile_dropWhile_id split: option.split)
  qed
  ultimately show ?thesis
    using n'(1,2) by (auto simp: fun_eq_iff)
qed

text \<open>A full leaf drops the key and reports success.\<close>

lemma insert_extent_full:
  "bn_count n \<ge> 32 \<Longrightarrow> aetherfs_btree_insert_extent (Some n) ino l p blocks = (Inr (), Some n)"
  by (simp add: aetherfs_btree_insert_extent_def btree_is_full_def AETHERFS_BTREE_DEF_ORDER_def)

lemma created_leaf:
  assumes "aetherfs_btree_create (Some (keys, tail)) sz = Inr n" "33 \<le> length keys"
  shows "leaf n \<and> bn_count n = 0 \<and> index n = Map.empty"
  using assms by (auto simp: aetherfs_btree_create_def btree_alloc_node_def leaf_def live_def index_def split: if_splits)

text \<open>A sequence of insertions into a new tree, up to its capacity.\<close>

definition insert_all :: "(u64 \<times> u64 \<times> u64 \<times> u64) list \<Rightarrow> btree_node option \<Rightarrow> btree_node option" where
  "insert_all es root = foldl (\<lambda>r (ino, l, p, blocks). snd (aetherfs_btree_insert_extent r ino l p blocks)) root es"

lemma insert_all_leaf:
  assumes "leaf n" "unat (bn_count n) + length es \<le> 32"
  shows "\<exists>n'. insert_all es (Some n) = Some n' \<and> leaf n' \<and> unat (bn_count n') = unat (bn_count n) + length es \<and>
    index n' = index n ++ map_of (rev (map (\<lambda>(ino, l, p, blocks). (l, ino, p, ucast blocks)) es))"
  using assms
proof (induction es arbitrary: n)
  case Nil
  then show ?case by (simp add: insert_all_def)
next
  case (Cons e es)
  obtain ino l p blocks where e: "e = (ino, l, p, blocks)"
    by (cases e)
  obtain r root where call: "aetherfs_btree_insert_extent (Some n) ino l p blocks = (r, root)"
    by force
  have room: "bn_count n < 32"
    using Cons.prems(2) by (simp add: word_less_nat_alt)
  obtain n1 where n1: "root = Some n1" "leaf n1" "index n1 = (index n)(l \<mapsto> (ino, p, ucast blocks))"
    using insert_extent_leaf [OF Cons.prems(1) room call] by blast
  have count: "unat (bn_count n1) = unat (bn_count n) + 1"
    using insert_extent_live [OF Cons.prems(1) room call] n1(1) by (metis option.inject)
  obtain n' where "insert_all es (Some n1) = Some n'" "leaf n'" "unat (bn_count n') = unat (bn_count n1) + length es"
    "index n' = index n1 ++ map_of (rev (map (\<lambda>(ino, l, p, blocks). (l, ino, p, ucast blocks)) es))"
    using Cons.IH [OF n1(2)] Cons.prems(2) count by auto
  then show ?case
    using n1 count call by (intro exI [of _ n']) (simp add: insert_all_def e)
qed

lemma lookup_extent_returns:
  assumes "lookup_extent_loop n ino l = Some y"
  shows "bn_level n = 0 \<or> bn_count n \<noteq> 0"
  using assms
proof (induction n ino l y rule: lookup_extent_loop.raw_induct [rotated, consumes 1])
  case (1 f node ino l y)
  then show ?case
    by (auto simp: btree_is_leaf_def Let_def split: if_splits)
qed

lemma lookup_inner_diverges:
  assumes "bn_level n \<noteq> 0" "bn_count n = 0"
  shows "aetherfs_btree_lookup_extent (Some n) ino l = None"
  using lookup_extent_returns [of n ino l] assms by (cases "lookup_extent_loop n ino l") (auto simp: aetherfs_btree_lookup_extent_def)

lemma delete_extent_live:
  assumes "leaf n" "aetherfs_btree_delete_extent (Some n) ino l = (Inr (), root)"
  obtains n' where "root = Some n'" "bn_level n' = 0" "length (bn_keys n') = length (bn_keys n)"
    "unat (bn_count n') = unat (bn_count n) - 1"
    "live n' = takeWhile (\<lambda>k. k_offset k < l) (live n) @ tl (dropWhile (\<lambda>k. k_offset k < l) (live n))"
proof -
  let ?c = "unat (bn_count n)" and ?s = "btree_find_slot_extent n l" and ?ks = "bn_keys n"
  let ?n = "n\<lparr>bn_keys := close_gap ?s ?c ?ks, bn_count := bn_count n - 1\<rparr>"
  have s: "?s < ?c" "root = Some ?n"
    using assms(2) by (auto simp: aetherfs_btree_delete_extent_def Let_def split: if_splits)
  have len: "?c \<le> length ?ks" "33 \<le> length ?ks"
    using assms(1) by (simp_all add: leaf_def)
  have c: "unat (bn_count n - 1) = ?c - 1"
    using s(1) by (subst unat_sub) (simp_all add: word_le_nat_alt)
  have "live ?n = take ?s (live n) @ drop (?s + 1) (live n)"
    using take_close_gap [OF s(1) len(1)] c by (simp add: live_def)
  moreover have "drop (?s + 1) (live n) = tl (drop ?s (live n))"
    by (simp add: tl_drop drop_Suc)
  ultimately have "live ?n = takeWhile (\<lambda>k. k_offset k < l) (live n) @ tl (dropWhile (\<lambda>k. k_offset k < l) (live n))"
    unfolding find_slot_extent [OF assms(1)] by (simp add: takeWhile_eq_take [symmetric] dropWhile_eq_drop [symmetric])
  then show ?thesis
    using that [OF s(2)] s(1) len c assms(1) by (simp add: leaf_def)
qed

lemma delete_extent_leaf:
  assumes "leaf n" "distinct (map k_offset (live n))" "aetherfs_btree_delete_extent (Some n) ino l = (Inr (), root)"
  shows "\<exists>n'. root = Some n' \<and> leaf n' \<and> distinct (map k_offset (live n')) \<and> index n' = (index n)(l := None)"
proof -
  obtain n' where n': "root = Some n'" "bn_level n' = 0" "length (bn_keys n') = length (bn_keys n)"
    "unat (bn_count n') = unat (bn_count n) - 1"
    "live n' = takeWhile (\<lambda>k. k_offset k < l) (live n) @ tl (dropWhile (\<lambda>k. k_offset k < l) (live n))"
    using assms(1,3) by (rule delete_extent_live)
  obtain x xs where x: "dropWhile (\<lambda>k. k_offset k < l) (live n) = x # xs" "k_offset x = l"
  proof -
    let ?s = "btree_find_slot_extent n l"
    have s: "?s < unat (bn_count n)" "k_offset (bn_keys n ! ?s) = l"
      using assms(3) by (auto simp: aetherfs_btree_delete_extent_def Let_def split: if_splits)
    have "dropWhile (\<lambda>k. k_offset k < l) (live n) = drop ?s (live n)"
      by (simp add: dropWhile_eq_drop find_slot_extent [OF assms(1)])
    also have "\<dots> = bn_keys n ! ?s # drop (Suc ?s) (live n)"
      using s(1) length_live [OF assms(1)] live_nth by (metis Cons_nth_drop_Suc)
    finally show ?thesis
      using that s(2) by blast
  qed
  define ys where "ys = takeWhile (\<lambda>k. k_offset k < l) (live n)"
  have old: "live n = ys @ x # xs" and new: "live n' = ys @ xs"
    using x(1) n'(5) takeWhile_dropWhile_id [of "\<lambda>k. k_offset k < l" "live n"] by (simp_all add: ys_def)
  have "leaf n'"
    using assms(1) n'(2-4) old new by (auto simp: leaf_def sorted_append)
  moreover have "distinct (map k_offset (live n'))"
    using assms(2) old new by simp
  moreover have "index n' y = ((index n)(l := None)) y" for y
  proof -
    have "map_of (map (\<lambda>k. (k_offset k, k_ino k, k_value k, k_len k)) zs) l = None" if "set zs \<subseteq> set ys \<union> set xs" for zs
      using assms(2) x(2) that unfolding old by (force simp: map_of_eq_None_iff)
    from this [of ys] this [of xs] show ?thesis
      using x(2) unfolding index_def old new by (auto simp: map_add_def split: option.split)
  qed
  ultimately show ?thesis
    using n'(1) by (simp add: fun_eq_iff)
qed

lemma split_node_live:
  assumes "btree_split_node ml mr n = Inr (l, r)" "unat (bn_count n) \<le> length (bn_keys n)"
  shows "live l @ live r = live n \<and> bn_level l = bn_level n \<and> bn_level r = bn_level n \<and>
    bn_count l = bn_count n div 2 \<and> bn_count l + bn_count r = bn_count n"
proof -
  let ?m = "bn_count n div 2"
  have m: "unat ?m \<le> unat (bn_count n)" "unat (bn_count n - ?m) = unat (bn_count n) - unat ?m"
    by (simp_all add: unat_div unat_sub word_le_nat_alt)
  obtain l0 r0 where lr: "l = l0\<lparr>bn_level := bn_level n, bn_count := ?m, bn_keys := take (unat ?m) (bn_keys n) @ drop (unat ?m) (bn_keys l0)\<rparr>"
    "r = r0\<lparr>bn_level := bn_level n, bn_count := bn_count n - ?m,
      bn_keys := take (unat (bn_count n - ?m)) (drop (unat ?m) (bn_keys n)) @ drop (unat (bn_count n - ?m)) (bn_keys r0)\<rparr>"
    using assms(1) by (auto simp: btree_split_node_def Let_def split: option.splits)
  have "live l = take (unat ?m) (bn_keys n)" "live r = take (unat (bn_count n) - unat ?m) (drop (unat ?m) (bn_keys n))"
    using m assms(2) by (simp_all add: live_def lr)
  then have "live l @ live r = take (unat ?m + (unat (bn_count n) - unat ?m)) (bn_keys n)"
    by (simp only: take_add)
  then show ?thesis
    using m(1) by (simp add: live_def [of n] lr)
qed

text \<open>A node full of equal keys.\<close>

definition blank_key :: btree_key where
  "blank_key = \<lparr>k_ino = 0, k_offset = 0, k_value = 0, k_len = 0, k_flags = 0, k_checksum = 0, k_pad = 0\<rparr>"

definition full_leaf :: btree_node where
  "full_leaf = \<lparr>bn_next = 0, bn_level = 0, bn_count = 32, bn_checksum = 0, bn_reserved = 0, bn_keys = replicate 33 blank_key, bn_tail = []\<rparr>"

text \<open>The tree does not grow: an extent inserted into a full leaf is lost, although success is reported.\<close>

lemma btree_full_leaf_loses_extent:
  assumes "leaf n" "bn_count n = 32" "index n l = None"
  shows "aetherfs_btree_insert_extent (Some n) ino l p blocks = (Inr (), Some n) \<and>
    aetherfs_btree_lookup_extent (Some n) ino l = Some (Inl ENOENT)"
  using lookup_extent_index [OF assms(1)] insert_extent_full [of n] assms(2,3) by simp

lemma btree_full_leaf_sample:
  "aetherfs_btree_insert_extent (Some full_leaf) 16 9 700 1 = (Inr (), Some full_leaf) \<and>
    aetherfs_btree_lookup_extent (Some full_leaf) 16 9 = Some (Inl ENOENT)"
  using btree_full_leaf_loses_extent [of full_leaf 9 16 700 1]
  by (simp add: leaf_def live_def index_def full_leaf_def blank_key_def map_of_eq_None_iff sorted_replicate)

end
