(* ===== verification/Kernel_Refcount.thy ===== *)
theory Kernel_Refcount
  imports Kernel_Base "HOL-Library.Multiset"
begin

text \<open>
  The contract of a table with reference counts, which the two deduplication tables of the
  module are shown to meet: taking a reference counts it, dropping one takes it back, and a
  drop fails exactly where there is no reference.  The counts are 32 bits wide, so taking
  keeps its promise only below that bound.
\<close>

locale refcounts =
  fixes good :: "'s \<Rightarrow> bool"
    and refs :: "'s \<Rightarrow> 'k \<Rightarrow> nat"
    and valid :: "'k \<Rightarrow> bool"
    and take_ref :: "'k \<Rightarrow> 's \<Rightarrow> unit result \<times> 's"
    and drop_ref :: "'k \<Rightarrow> 's \<Rightarrow> unit result \<times> 's"
  assumes take_law: "good s \<Longrightarrow> valid k \<Longrightarrow> Suc (refs s k) < 2 ^ 32 \<Longrightarrow>
      \<exists>s'. take_ref k s = (Inr (), s') \<and> good s' \<and> refs s' = (refs s)(k := Suc (refs s k))"
    and drop_law: "good s \<Longrightarrow> valid k \<Longrightarrow> 0 < refs s k \<Longrightarrow>
      \<exists>s'. drop_ref k s = (Inr (), s') \<and> good s' \<and> refs s' = (refs s)(k := refs s k - 1)"
    and drop_none: "good s \<Longrightarrow> valid k \<Longrightarrow> refs s k = 0 \<Longrightarrow> drop_ref k s = (Inl ENOENT, s)"
begin

definition take_all :: "'k list \<Rightarrow> 's \<Rightarrow> 's" where
  "take_all ks s = foldl (\<lambda>s k. snd (take_ref k s)) s ks"

definition drop_all :: "'k list \<Rightarrow> 's \<Rightarrow> 's" where
  "drop_all ks s = foldl (\<lambda>s k. snd (drop_ref k s)) s ks"

lemma take_all_refs:
  assumes "good s" "\<forall>k \<in> set ks. valid k" "\<forall>k. refs s k + count (mset ks) k < 2 ^ 32"
  shows "good (take_all ks s) \<and> refs (take_all ks s) = (\<lambda>k. refs s k + count (mset ks) k)"
  using assms
proof (induction ks arbitrary: s)
  case Nil
  then show ?case by (simp add: take_all_def)
next
  case (Cons x ks)
  have small: "Suc (refs s x) < 2 ^ 32"
  proof -
    have "refs s x + count (mset (x # ks)) x < 2 ^ 32"
      using Cons.prems(3) by blast
    then show ?thesis by simp
  qed
  obtain s1 where s1: "take_ref x s = (Inr (), s1)" "good s1" "refs s1 = (refs s)(x := Suc (refs s x))"
    using take_law [OF Cons.prems(1) _ small] Cons.prems(2) by auto
  have step: "refs s1 k + count (mset ks) k = refs s k + count (mset (x # ks)) k" for k
    by (simp add: s1(3))
  have bound: "\<forall>k. refs s1 k + count (mset ks) k < 2 ^ 32"
    unfolding step by (rule Cons.prems(3))
  have "good (take_all ks s1) \<and> refs (take_all ks s1) = (\<lambda>k. refs s1 k + count (mset ks) k)"
    by (rule Cons.IH [OF s1(2) _ bound]) (use Cons.prems(2) in simp)
  then show ?case
    unfolding step by (simp add: take_all_def s1(1))
qed

lemma drop_all_refs:
  assumes "good s" "\<forall>k \<in> set ks. valid k" "\<forall>k. count (mset ks) k \<le> refs s k"
  shows "good (drop_all ks s) \<and> refs (drop_all ks s) = (\<lambda>k. refs s k - count (mset ks) k)"
  using assms
proof (induction ks arbitrary: s)
  case Nil
  then show ?case by (simp add: drop_all_def)
next
  case (Cons x ks)
  have pos: "0 < refs s x"
  proof -
    have "count (mset (x # ks)) x \<le> refs s x"
      using Cons.prems(3) by blast
    then show ?thesis by simp
  qed
  obtain s1 where s1: "drop_ref x s = (Inr (), s1)" "good s1" "refs s1 = (refs s)(x := refs s x - 1)"
    using drop_law [OF Cons.prems(1) _ pos] Cons.prems(2) by auto
  have bound: "count (mset ks) k \<le> refs s1 k" for k
  proof -
    have "count (mset (x # ks)) k \<le> refs s k"
      using Cons.prems(3) by blast
    then show ?thesis by (simp add: s1(3) split: if_splits)
  qed
  have "good (drop_all ks s1) \<and> refs (drop_all ks s1) = (\<lambda>k. refs s1 k - count (mset ks) k)"
    by (rule Cons.IH [OF s1(2)]) (use Cons.prems(2) bound in auto)
  moreover have "refs s1 k - count (mset ks) k = refs s k - count (mset (x # ks)) k" for k
    by (simp add: s1(3))
  ultimately show ?case
    by (simp add: drop_all_def s1(1))
qed

text \<open>References that are all dropped again, in whatever order, leave the counts as they were.\<close>

lemma take_drop_all:
  assumes "good s" "\<forall>k \<in> set ks. valid k" "\<forall>k. refs s k + count (mset ks) k < 2 ^ 32" "mset js = mset ks"
  shows "good (drop_all js (take_all ks s)) \<and> refs (drop_all js (take_all ks s)) = refs s"
proof -
  note taken = take_all_refs [OF assms(1-3)]
  have "\<forall>k \<in> set js. valid k"
    using assms(2,4) by (metis mset_eq_setD)
  then have "good (drop_all js (take_all ks s)) \<and>
      refs (drop_all js (take_all ks s)) = (\<lambda>k. refs (take_all ks s) k - count (mset js) k)"
    by (intro drop_all_refs) (use taken assms(4) in auto)
  then show ?thesis
    using taken assms(4) by (auto simp: fun_eq_iff)
qed

end

end
