(* ===== verification/Kernel_Dense.thy ===== *)
theory Kernel_Dense
  imports Kernel_File Kernel_Dir Kernel_Btree Kernel_Refcount
begin

text \<open>
  Small files (\<open>kernel/dense.c\<close>, \<open>kernel/inline.c\<close>): data inside the block of an
  inode, packed tails, packed extended attributes, inline symbolic links, directory entries
  in memory and the table of deduplicated metadata.  In the block of an inode the flags are at
  offset 68, the extent root at 56, the checksum at 104, the length of the inline data at 108
  and the inline data at 144.  Access behind the end of a buffer is the outcome None.
\<close>

section \<open>Inline files\<close>

record file_inode = inode_info +
  fi_mode :: u32
  fi_size :: u64
  fi_blocks :: u64

definition AETHERFS_F_INLINE_k :: u32 where "AETHERFS_F_INLINE_k = 0x0080"
definition AETHERFS_INLINE_FILE_MAX :: nat where "AETHERFS_INLINE_FILE_MAX = 4096"
definition AETHERFS_MAX_INLINE :: nat where "AETHERFS_MAX_INLINE = 4096"
definition AETHERFS_MAX_SYMLINK :: nat where "AETHERFS_MAX_SYMLINK = 256"

definition aetherfs_should_store_inline :: "file_inode \<Rightarrow> nat \<Rightarrow> bool" where
  "aetherfs_should_store_inline inode sz \<longleftrightarrow> S_ISREG_k (fi_mode inode) \<and> sz \<le> AETHERFS_INLINE_FILE_MAX"

definition aetherfs_write_inline_file :: "byte list \<Rightarrow> file_inode \<Rightarrow> disk \<Rightarrow> (unit result \<times> file_inode \<times> disk) option" where
  "aetherfs_write_inline_file data inode d =
    (if length data > AETHERFS_INLINE_FILE_MAX then Some (Inl EINVAL, inode, d)
     else case d (ei_ino inode) of
       None \<Rightarrow> Some (Inl EIO, inode, d)
     | Some raw \<Rightarrow>
         if 144 + length data + 4 > length raw then None
         else
           let raw = mem_put 68 (le32 (get32 68 raw OR AETHERFS_F_INLINE_k)) raw;
               raw = mem_put 108 (le32 (of_nat (length data))) raw;
               raw = mem_put 144 data raw;
               raw = mem_put (144 + length data) (le32 (aetherfs_crc32c_k 0xFFFFFFFF data)) raw in
           Some (Inr (), inode\<lparr>fi_size := of_nat (length data), ei_dirty := True\<rparr>, d(ei_ino inode \<mapsto> raw)))"

definition aetherfs_read_inline_file :: "file_inode \<Rightarrow> disk \<Rightarrow> byte list result option" where
  "aetherfs_read_inline_file inode d =
    (if ei_flags inode AND AETHERFS_F_INLINE_k = 0 then Some (Inl EINVAL)
     else case d (ei_ino inode) of
       None \<Rightarrow> Some (Inl EIO)
     | Some raw \<Rightarrow>
         let inline_len = unat (get32 108 raw) in
         if inline_len > AETHERFS_INLINE_FILE_MAX then Some (Inl EIO)
         else if 144 + inline_len + 4 > length raw then None
         else
           let data = mem_get 144 inline_len raw in
           if get32 (144 + inline_len) raw \<noteq> aetherfs_crc32c_k 0xFFFFFFFF data then Some (Inl EUCLEAN) else Some (Inr data))"

definition aetherfs_checksum_metadata :: "byte list \<Rightarrow> u32" where
  "aetherfs_checksum_metadata raw = aetherfs_crc32_k (take 508 raw)"

definition aetherfs_write_inline :: "byte list \<Rightarrow> file_inode \<Rightarrow> disk \<Rightarrow> (unit result \<times> file_inode \<times> disk) option" where
  "aetherfs_write_inline data inode d =
    (if length data > AETHERFS_MAX_INLINE - 100 then Some (Inl ENOSPC, inode, d)
     else case d (ei_ino inode) of
       None \<Rightarrow> Some (Inl EIO, inode, d)
     | Some raw \<Rightarrow>
         if 144 + length data > length raw then None
         else
           let raw = mem_put 108 (le32 (of_nat (length data))) raw;
               raw = mem_put 68 (le32 (get32 68 raw OR AETHERFS_F_INLINE_k)) raw;
               raw = mem_put 144 data raw;
               raw = mem_put 104 (le32 (aetherfs_checksum_metadata raw)) raw in
           Some (Inr (), inode\<lparr>fi_size := of_nat (length data), ei_dirty := True\<rparr>, d(ei_ino inode \<mapsto> raw)))"

text \<open>
  The size is the room at the destination; when the data is longer, the data is copied all the
  same, which is None.
\<close>

definition aetherfs_read_inline :: "nat \<Rightarrow> file_inode \<Rightarrow> disk \<Rightarrow> byte list result option" where
  "aetherfs_read_inline sz inode d =
    (if ei_flags inode AND AETHERFS_F_INLINE_k = 0 then Some (Inl EINVAL)
     else case d (ei_ino inode) of
       None \<Rightarrow> Some (Inl EIO)
     | Some raw \<Rightarrow>
         let inline_len = unat (get32 108 raw) in
         if inline_len > AETHERFS_MAX_INLINE - 100 then Some (Inl EIO)
         else if sz < inline_len \<or> 144 + sz > length raw then None
         else Some (Inr (mem_get 144 sz raw)))"

definition aetherfs_convert_inline :: "file_inode \<Rightarrow> disk \<times> sb_info \<Rightarrow> (unit result \<times> disk \<times> sb_info) option" where
  "aetherfs_convert_inline inode = (\<lambda>(d, info).
    if ei_flags inode AND AETHERFS_F_INLINE_k = 0 then Some (Inr (), d, info)
    else if unat (fi_size inode) > AETHERFS_MAX_INLINE - 100 then Some (Inl ENOSPC, d, info)
    else case d (ei_ino inode) of
      None \<Rightarrow> Some (Inl EIO, d, info)
    | Some raw \<Rightarrow>
        let (block, info) = aetherfs_alloc_blocks 1 info in
        if block = 0 then Some (Inl ENOSPC, d, info)
        else case d block of
          None \<Rightarrow> Some (Inl EIO, d, info)
        | Some data \<Rightarrow>
            let inline_len = unat (get32 108 raw) in
            if 144 + inline_len > length raw \<or> inline_len > length data then None
            else
              let d = d(block \<mapsto> mem_put 0 (mem_get 144 inline_len raw) data) in
              (case d (ei_ino inode) of
                 None \<Rightarrow> None
               | Some raw \<Rightarrow>
                   let raw = mem_put 68 (le32 (get32 68 raw AND NOT AETHERFS_F_INLINE_k)) raw;
                       raw = mem_put 56 (le64 block) raw in
                   Some (Inr (), d(ei_ino inode \<mapsto> raw), info)))"

definition aetherfs_should_inline :: "file_inode \<Rightarrow> nat \<Rightarrow> bool" where
  "aetherfs_should_inline inode sz \<longleftrightarrow>
    S_ISDIR_k (fi_mode inode) \<or> (S_ISLNK_k (fi_mode inode) \<and> sz < AETHERFS_MAX_SYMLINK) \<or>
    (S_ISREG_k (fi_mode inode) \<and> sz \<le> AETHERFS_MAX_INLINE)"

definition aetherfs_is_small_file :: "nat \<Rightarrow> bool" where
  "aetherfs_is_small_file sz \<longleftrightarrow> sz \<le> AETHERFS_MAX_INLINE"

definition aetherfs_get_block_inline :: "file_inode \<Rightarrow> buffer_map result" where
  "aetherfs_get_block_inline inode = Inr \<lparr>b_blocknr = 0, b_size = fi_size inode, b_new = False\<rparr>"

section \<open>Packed tails\<close>

definition AETHERFS_TAIL_PACKING_MIN :: nat where "AETHERFS_TAIL_PACKING_MIN = 512"

text \<open>Magic at 0, size at 4, offset at 8, checksum at 12, data from 16 on.\<close>

definition aetherfs_tail_pack :: "u64 \<Rightarrow> byte list \<Rightarrow> disk \<times> sb_info \<Rightarrow> (unit result \<times> disk \<times> sb_info) option" where
  "aetherfs_tail_pack offset data = (\<lambda>(d, info).
    if data = [] then Some (Inl EINVAL, d, info)
    else if length data < AETHERFS_TAIL_PACKING_MIN then Some (Inl EINVAL, d, info)
    else if length data > unat (s_blocksize_k info) - 16 then Some (Inl EINVAL, d, info)
    else
      let (block, info) = aetherfs_alloc_blocks 1 info in
      if block = 0 then Some (Inl ENOSPC, d, info)
      else case d block of
        None \<Rightarrow> Some (Inl EIO, d, aetherfs_free_blocks block 1 info)
      | Some tail \<Rightarrow>
          if 16 + length data > length tail then None
          else
            let tail = mem_put 0 (le32 0x5441494C) tail;
                tail = mem_put 4 (le32 (of_nat (length data))) tail;
                tail = mem_put 8 (le32 (ucast offset)) tail;
                tail = mem_put 16 data tail;
                tail = mem_put 12 (le32 (aetherfs_crc32c_k 0xFFFFFFFF (take (12 + length data) tail))) tail in
            Some (Inr (), d(block \<mapsto> tail), info))"

definition unpack_block :: "nat \<Rightarrow> byte list \<Rightarrow> byte list result option" where
  "unpack_block s_blocksize tail =
    (if get32 0 tail \<noteq> 0x5441494C then Some (Inl EIO)
     else
       let len = unat (get32 4 tail) in
       if len > s_blocksize - 16 then Some (Inl EIO)
       else if 16 + len > length tail then None
       else if get32 12 tail \<noteq> aetherfs_crc32c_k 0xFFFFFFFF (take (12 + len) (mem_put 12 (le32 0) tail)) then Some (Inl EUCLEAN)
       else Some (Inr (mem_get 16 len tail)))"

text \<open>The extent is looked up in no tree.\<close>

definition aetherfs_tail_unpack :: "nat \<Rightarrow> u64 \<Rightarrow> u64 \<Rightarrow> disk \<Rightarrow> byte list result option" where
  "aetherfs_tail_unpack s_blocksize ino offset d =
    (case aetherfs_btree_lookup_extent None ino offset of
       None \<Rightarrow> None
     | Some (Inl _) \<Rightarrow> Some (Inl ENOENT)
     | Some (Inr (block, _)) \<Rightarrow>
         if block = 0 then Some (Inl ENOENT)
         else case d block of None \<Rightarrow> Some (Inl EIO) | Some tail \<Rightarrow> unpack_block s_blocksize tail)"

definition aetherfs_is_tail_packing_worth :: "u32 \<Rightarrow> u32 \<Rightarrow> bool" where
  "aetherfs_is_tail_packing_worth tail_size block_size \<longleftrightarrow>
    (let overhead = 16; saved = block_size - (tail_size + overhead) in saved \<ge> block_size div 8)"

section \<open>Packed extended attributes\<close>

definition AETHERFS_PACKED_XATTR_MAX :: nat where "AETHERFS_PACKED_XATTR_MAX = 4096"
definition AETHERFS_XATTR_INLINE_MAX :: nat where "AETHERFS_XATTR_INLINE_MAX = 256"

text \<open>
  At offset 128 of the inode's block: flags at 0, length of the name at 2 and of the value at
  4, next at 6, checksum at 8, name and value from 12 on.  The checksum covers the old one and
  leaves out the last four bytes.
\<close>

definition aetherfs_write_packed_xattr :: "u64 \<Rightarrow> byte list \<Rightarrow> byte list \<Rightarrow> disk \<Rightarrow> (unit result \<times> disk) option" where
  "aetherfs_write_packed_xattr ino name value d =
    (if value = [] then Some (Inl EINVAL, d)
     else if length name > 255 \<or> length value > AETHERFS_PACKED_XATTR_MAX then Some (Inl EINVAL, d)
     else if 12 + length name + length value > AETHERFS_XATTR_INLINE_MAX then Some (Inl ENOSPC, d)
     else case d ino of
       None \<Rightarrow> Some (Inl EIO, d)
     | Some b \<Rightarrow>
         if 140 + length name + length value > length b then None
         else
           let b = mem_put 130 (le16 (of_nat (length name))) b;
               b = mem_put 132 (le16 (of_nat (length value))) b;
               b = mem_put 128 (le16 0) b;
               b = mem_put 134 (le16 0) b;
               b = mem_put 140 name b;
               b = mem_put (140 + length name) value b;
               b = mem_put 136 (le32 (aetherfs_crc32c_k 0xFFFFFFFF (mem_get 128 (8 + length name + length value) b))) b in
           Some (Inr (), d(ino \<mapsto> b)))"

definition aetherfs_read_packed_xattr :: "u64 \<Rightarrow> byte list \<Rightarrow> disk \<Rightarrow> byte list result option" where
  "aetherfs_read_packed_xattr ino name d =
    (case d ino of
       None \<Rightarrow> Some (Inl EIO)
     | Some b \<Rightarrow>
         if unat (get16 130 b) \<noteq> length name then Some (Inl ENOENT)
         else if 140 + length name > length b then None
         else if mem_get 140 (length name) b \<noteq> name then Some (Inl ENOENT)
         else
           let value_len = unat (get16 132 b) in
           if 140 + length name + value_len > length b then None
           else if get32 136 b \<noteq> aetherfs_crc32c_k 0xFFFFFFFF (mem_get 128 (8 + length name + value_len) (mem_put 136 (le32 0) b))
           then Some (Inl EUCLEAN)
           else Some (Inr (mem_get (140 + length name) value_len b)))"

section \<open>Symbolic links and directory entries\<close>

definition AETHERFS_SYMLINK_INLINE_MAX :: nat where "AETHERFS_SYMLINK_INLINE_MAX = 256"

definition aetherfs_symlink_inline :: "byte list \<Rightarrow> file_inode \<Rightarrow> unit result \<times> file_inode" where
  "aetherfs_symlink_inline tgt inode =
    (if length tgt > AETHERFS_SYMLINK_INLINE_MAX then (Inl ENAMETOOLONG, inode)
     else (Inr (), inode\<lparr>fi_size := of_nat (length tgt), fi_blocks := 0, ei_flags := ei_flags inode OR AETHERFS_F_INLINE_k, ei_dirty := True\<rparr>))"

definition aetherfs_symlink_read :: "file_inode \<Rightarrow> byte list result" where
  "aetherfs_symlink_read inode =
    (if ei_flags inode AND AETHERFS_F_INLINE_k \<noteq> 0 then
       if unat (fi_size inode) > AETHERFS_SYMLINK_INLINE_MAX then Inl EIO else Inl EOPNOTSUPP
     else Inl EOPNOTSUPP)"

text \<open>The inode number at 0, the length of the record at 8 and of the name at 10, the type at 12, the checksum at 13, the name at 14.\<close>

definition aetherfs_encode_dir_entry :: "byte list \<Rightarrow> u64 \<Rightarrow> byte \<Rightarrow> byte list \<Rightarrow> byte list result" where
  "aetherfs_encode_dir_entry name ino type de =
    (if name = [] \<or> ino = 0 then Inl EINVAL
     else if length name > 255 then Inl ENAMETOOLONG
     else
       let de = mem_put 0 (le64 ino) de;
           de = mem_put 8 (le16 (of_nat (8 + length name))) de;
           de = mem_put 10 (le16 (of_nat (length name))) de;
           de = mem_put 12 [type] de;
           de = mem_put 13 [0] de;
           de = mem_put 14 name de in
       Inr (mem_put 13 [ucast (aetherfs_crc32c_k 0xFFFFFFFF (take (12 + length name) de))] de))"

record compact_dir_entry =
  cde_hash :: u32
  cde_ino :: u64
  cde_namelen :: u16
  cde_type :: byte
  cde_flags :: byte
  cde_next :: u16

definition aetherfs_compact_dir_entry :: "byte list \<Rightarrow> compact_dir_entry" where
  "aetherfs_compact_dir_entry src =
    \<lparr>cde_hash = aetherfs_hash_name (mem_get 14 (unat (get16 10 src)) src), cde_ino = get64 0 src, cde_namelen = get16 10 src,
     cde_type = src ! 12, cde_flags = 0, cde_next = 0\<rparr>"

section \<open>Deduplicated metadata\<close>

record dedup_entry =
  de_hash :: u32
  de_refcount :: u32
  de_first_ino :: u64
  de_checksum :: u32
  de_data :: "byte list"

text \<open>A bucket is the chain of its entries; the size of an entry is the length of its data.\<close>

type_synonym dedup_table = "u32 \<Rightarrow> dedup_entry list"

definition dedup_hash :: "byte list \<Rightarrow> u32" where
  "dedup_hash data = aetherfs_crc32c_k 0xFFFFFFFF data AND 4095"

fun bump_first :: "byte list \<Rightarrow> dedup_entry list \<Rightarrow> dedup_entry list option" where
  "bump_first data [] = None"
| "bump_first data (e # es) =
    (if de_data e = data then Some (e\<lparr>de_refcount := de_refcount e + 1\<rparr> # es) else map_option (\<lambda>es. e # es) (bump_first data es))"

definition dedup_bytes :: "dedup_entry \<Rightarrow> byte list" where
  "dedup_bytes e = le32 (de_hash e) @ le32 (de_refcount e) @ le32 (of_nat (length (de_data e))) @ le32 (de_checksum e) @
    le64 (de_first_ino e) @ le64 0 @ de_data e"

definition aetherfs_dedup_metadata :: "bool \<Rightarrow> u64 \<Rightarrow> byte list \<Rightarrow> dedup_table \<Rightarrow> unit result \<times> dedup_table" where
  "aetherfs_dedup_metadata memory ino data t =
    (if data = [] \<or> length data > 128 then (Inl EINVAL, t)
     else
       let h = dedup_hash data in
       case bump_first data (t h) of
         Some es \<Rightarrow> (Inr (), t(h := es))
       | None \<Rightarrow>
           if \<not> memory then (Inl ENOMEM, t)
           else
             let e = \<lparr>de_hash = h, de_refcount = 1, de_first_ino = ino, de_checksum = 0, de_data = data\<rparr>;
                 e = e\<lparr>de_checksum := aetherfs_crc32c_k 0xFFFFFFFF (take (28 + length data) (dedup_bytes e))\<rparr> in
             (Inr (), t(h := e # t h)))"

definition aetherfs_dedup_resolve :: "byte list \<Rightarrow> dedup_table \<Rightarrow> byte list result" where
  "aetherfs_dedup_resolve data t =
    (if data = [] then Inl EINVAL
     else case find (\<lambda>e. de_data e = data) (t (dedup_hash data)) of None \<Rightarrow> Inl ENOENT | Some e \<Rightarrow> Inr (de_data e))"

fun release_first :: "byte list \<Rightarrow> dedup_entry list \<Rightarrow> dedup_entry list option" where
  "release_first data [] = None"
| "release_first data (e # es) =
    (if de_data e = data then
       let refs = de_refcount e - 1 in Some (if refs = 0 then es else e\<lparr>de_refcount := refs\<rparr> # es)
     else map_option (\<lambda>es. e # es) (release_first data es))"

definition aetherfs_dedup_release :: "byte list \<Rightarrow> dedup_table \<Rightarrow> unit result \<times> dedup_table" where
  "aetherfs_dedup_release data t =
    (if data = [] then (Inl EINVAL, t)
     else
       let h = dedup_hash data in
       case release_first data (t h) of None \<Rightarrow> (Inl ENOENT, t) | Some es \<Rightarrow> (Inr (), t(h := es)))"

section \<open>The table of deduplicated metadata\<close>

definition dedup_ok :: "dedup_table \<Rightarrow> bool" where
  "dedup_ok t \<longleftrightarrow> (\<forall>h. distinct (map de_data (t h)) \<and> (\<forall>e \<in> set (t h). dedup_hash (de_data e) = h \<and> de_refcount e \<noteq> 0))"

definition chain_refs :: "dedup_entry list \<Rightarrow> byte list \<Rightarrow> nat" where
  "chain_refs es data = (case find (\<lambda>e. de_data e = data) es of None \<Rightarrow> 0 | Some e \<Rightarrow> unat (de_refcount e))"

definition dedup_refs :: "dedup_table \<Rightarrow> byte list \<Rightarrow> nat" where
  "dedup_refs t data = chain_refs (t (dedup_hash data)) data"

definition dedup_valid :: "byte list \<Rightarrow> bool" where
  "dedup_valid data \<longleftrightarrow> data \<noteq> [] \<and> length data \<le> 128"

lemma bump_first_Some:
  "bump_first data es = Some es' \<Longrightarrow> map de_data es' = map de_data es \<and> data \<in> de_data ` set es \<and>
    (Suc (chain_refs es data) < 2 ^ 32 \<longrightarrow> chain_refs es' = (chain_refs es)(data := Suc (chain_refs es data)) \<and>
      ((\<forall>e \<in> set es. de_refcount e \<noteq> 0) \<longrightarrow> (\<forall>e \<in> set es'. de_refcount e \<noteq> 0)))"
proof (induction es arbitrary: es')
  case (Cons e es)
  show ?case
  proof (cases "de_data e = data")
    case True
    have "unat (de_refcount e + 1) = Suc (unat (de_refcount e))" if "Suc (unat (de_refcount e)) < 2 ^ 32"
      using that by (simp add: unat_word_ariths)
    moreover from this have "de_refcount e + 1 \<noteq> 0" if "Suc (unat (de_refcount e)) < 2 ^ 32"
      using that by (metis nat.distinct(1) unat_0)
    ultimately show ?thesis
      using Cons.prems True by (auto simp: chain_refs_def fun_eq_iff)
  next
    case False
    then obtain xs where xs: "bump_first data es = Some xs" "es' = e # xs"
      using Cons.prems by auto
    show ?thesis
      using Cons.IH [OF xs(1)] xs(2) False by (auto simp: chain_refs_def fun_eq_iff split: if_splits)
  qed
qed simp

lemma bump_first_None: "bump_first data es = None \<longleftrightarrow> data \<notin> de_data ` set es"
  by (induction es) auto

lemma release_first_Some:
  "release_first data es = Some es' \<Longrightarrow> distinct (map de_data es) \<Longrightarrow> \<forall>e \<in> set es. de_refcount e \<noteq> 0 \<Longrightarrow>
    distinct (map de_data es') \<and> de_data ` set es' \<subseteq> de_data ` set es \<and> (\<forall>e \<in> set es'. de_refcount e \<noteq> 0) \<and>
    chain_refs es' = (chain_refs es)(data := chain_refs es data - 1)"
proof (induction es arbitrary: es')
  case (Cons e es)
  show ?case
  proof (cases "de_data e = data")
    case True
    have "unat (de_refcount e - 1) = unat (de_refcount e) - 1"
      using Cons.prems(3) by (simp add: unat_minus_one)
    moreover have "de_refcount e - 1 = 0 \<Longrightarrow> unat (de_refcount e) = 1"
      by (metis eq_iff_diff_eq_0 unsigned_1)
    moreover have "find (\<lambda>e. de_data e = data) es = None"
      using Cons.prems(2) True by (simp add: find_None_iff) (metis imageI)
    ultimately show ?thesis
      using Cons.prems True by (auto simp: chain_refs_def fun_eq_iff Let_def split: if_splits)
  next
    case False
    then obtain xs where xs: "release_first data es = Some xs" "es' = e # xs"
      using Cons.prems(1) by auto
    have wf: "distinct (map de_data es)" "\<forall>e \<in> set es. de_refcount e \<noteq> 0"
      using Cons.prems(2,3) by simp_all
    note ih = Cons.IH [OF xs(1) wf]
    have "chain_refs (e # ys) = (chain_refs ys)(de_data e := unat (de_refcount e))" for ys
      by (auto simp: chain_refs_def fun_eq_iff)
    then show ?thesis
      using ih xs(2) False Cons.prems(2,3) by (auto simp: fun_eq_iff)
  qed
qed simp

lemma release_first_None: "release_first data es = None \<longleftrightarrow> data \<notin> de_data ` set es"
  by (induction es) (auto simp: Let_def)

lemma chain_refs_0: "\<forall>e \<in> set es. de_refcount e \<noteq> 0 \<Longrightarrow> chain_refs es data = 0 \<longleftrightarrow> data \<notin> de_data ` set es"
  by (induction es) (auto simp: chain_refs_def unat_eq_zero split: if_splits)

lemma dedup_refs_update:
  assumes "chain_refs es = (chain_refs (t (dedup_hash data)))(data := m)"
  shows "dedup_refs (t(dedup_hash data := es)) = (dedup_refs t)(data := m)"
  using assms by (auto simp: dedup_refs_def fun_eq_iff)

lemma dedup_metadata_take:
  assumes "dedup_ok t" "dedup_valid data" "Suc (dedup_refs t data) < 2 ^ 32"
  shows "\<exists>t'. aetherfs_dedup_metadata True ino data t = (Inr (), t') \<and> dedup_ok t' \<and>
    dedup_refs t' = (dedup_refs t)(data := Suc (dedup_refs t data))"
proof (cases "bump_first data (t (dedup_hash data))")
  case None
  let ?e = "\<lparr>de_hash = dedup_hash data, de_refcount = 1, de_first_ino = ino, de_checksum = 0, de_data = data\<rparr>"
  let ?e' = "?e\<lparr>de_checksum := aetherfs_crc32c_k 0xFFFFFFFF (take (28 + length data) (dedup_bytes ?e))\<rparr>"
  have new: "data \<notin> de_data ` set (t (dedup_hash data))"
    using None by (simp add: bump_first_None)
  then have "dedup_refs t data = 0"
    using assms(1) chain_refs_0 by (simp add: dedup_refs_def dedup_ok_def)
  moreover have "chain_refs (?e' # t (dedup_hash data)) = (chain_refs (t (dedup_hash data)))(data := 1)"
    by (auto simp: chain_refs_def fun_eq_iff)
  ultimately have "dedup_refs (t(dedup_hash data := ?e' # t (dedup_hash data))) = (dedup_refs t)(data := Suc (dedup_refs t data))"
    using dedup_refs_update [of "?e' # t (dedup_hash data)" t data 1] by simp
  moreover have "dedup_ok (t(dedup_hash data := ?e' # t (dedup_hash data)))"
    using assms(1) new by (auto simp: dedup_ok_def)
  ultimately show ?thesis
    using None assms(2) by (simp add: aetherfs_dedup_metadata_def dedup_valid_def Let_def)
next
  case (Some es)
  note es = bump_first_Some [OF Some]
  have refs: "Suc (chain_refs (t (dedup_hash data)) data) < 2 ^ 32"
    using assms(3) by (simp add: dedup_refs_def)
  have data: "de_data ` set es = de_data ` set (t (dedup_hash data))"
    using es by (metis set_map)
  have "dedup_hash (de_data e) = dedup_hash data" if "e \<in> set es" for e
  proof -
    have "de_data e \<in> de_data ` set (t (dedup_hash data))"
      using that data by blast
    then show ?thesis
      using assms(1) by (auto simp: dedup_ok_def)
  qed
  then have "dedup_ok (t(dedup_hash data := es))"
    using assms(1) es refs by (auto simp: dedup_ok_def)
  moreover have "dedup_refs (t(dedup_hash data := es)) = (dedup_refs t)(data := Suc (dedup_refs t data))"
    using es refs by (intro dedup_refs_update) (simp add: dedup_refs_def)
  ultimately show ?thesis
    using Some assms(2) by (simp add: aetherfs_dedup_metadata_def dedup_valid_def Let_def)
qed

lemma dedup_release_drop:
  assumes "dedup_ok t" "dedup_valid data" "0 < dedup_refs t data"
  shows "\<exists>t'. aetherfs_dedup_release data t = (Inr (), t') \<and> dedup_ok t' \<and> dedup_refs t' = (dedup_refs t)(data := dedup_refs t data - 1)"
proof -
  have wf: "distinct (map de_data (t (dedup_hash data)))" "\<forall>e \<in> set (t (dedup_hash data)). de_refcount e \<noteq> 0"
    using assms(1) by (auto simp: dedup_ok_def)
  have "data \<in> de_data ` set (t (dedup_hash data))"
    using assms(3) chain_refs_0 [OF wf(2), of data] by (simp add: dedup_refs_def)
  then obtain es where es: "release_first data (t (dedup_hash data)) = Some es"
    using release_first_None by fastforce
  note rel = release_first_Some [OF es wf]
  have "dedup_hash (de_data e) = dedup_hash data" if "e \<in> set es" for e
    using rel that assms(1) by (auto simp: dedup_ok_def)
  then have "dedup_ok (t(dedup_hash data := es))"
    using assms(1) rel by (auto simp: dedup_ok_def)
  moreover have "dedup_refs (t(dedup_hash data := es)) = (dedup_refs t)(data := dedup_refs t data - 1)"
    using rel by (intro dedup_refs_update) (simp add: dedup_refs_def)
  ultimately show ?thesis
    using es assms(2) by (simp add: aetherfs_dedup_release_def dedup_valid_def Let_def)
qed

interpretation dedup: refcounts dedup_ok dedup_refs dedup_valid "aetherfs_dedup_metadata True ino" aetherfs_dedup_release for ino
proof unfold_locales
  show "aetherfs_dedup_release k s = (Inl ENOENT, s)" if "dedup_ok s" "dedup_valid k" "dedup_refs s k = 0" for s k
  proof -
    have "k \<notin> de_data ` set (s (dedup_hash k))"
      using that chain_refs_0 [of "s (dedup_hash k)" k] by (simp add: dedup_refs_def dedup_ok_def)
    then show ?thesis
      using that(2) by (simp add: aetherfs_dedup_release_def dedup_valid_def Let_def release_first_None [THEN iffD2])
  qed
qed (use dedup_metadata_take dedup_release_drop in auto)

lemma dedup_resolve_iff:
  assumes "dedup_ok t" "data \<noteq> []"
  shows "aetherfs_dedup_resolve data t = (if 0 < dedup_refs t data then Inr data else Inl ENOENT)"
proof (cases "find (\<lambda>e. de_data e = data) (t (dedup_hash data))")
  case None
  then show ?thesis
    using assms(2) by (simp add: aetherfs_dedup_resolve_def dedup_refs_def chain_refs_def)
next
  case (Some e)
  then have "e \<in> set (t (dedup_hash data))" "de_data e = data"
    by (auto simp: find_Some_iff)
  moreover from this(1) have "de_refcount e \<noteq> 0"
    using assms(1) by (auto simp: dedup_ok_def)
  ultimately show ?thesis
    using Some assms(2) by (simp add: aetherfs_dedup_resolve_def dedup_refs_def chain_refs_def unat_gt_0)
qed

lemma dedup_empty: "dedup_ok (\<lambda>_. [])" "dedup_refs (\<lambda>_. []) data = 0"
  by (simp_all add: dedup_ok_def dedup_refs_def chain_refs_def)

section \<open>Inline files are read back\<close>

text \<open>
  Writing sets the flag in the block and not in the inode in memory, where reading looks for
  it; with the flag set there, the data is read back.
\<close>

lemma inline_file_roundtrip:
  assumes "aetherfs_write_inline_file data inode d = Some (Inr (), inode', d')"
  shows "aetherfs_read_inline_file inode' d' = Some (if ei_flags inode AND AETHERFS_F_INLINE_k = 0 then Inl EINVAL else Inr data) \<and>
    fi_size inode' = of_nat (length data) \<and> (\<forall>b. b \<noteq> ei_ino inode \<longrightarrow> d' b = d b)"
proof -
  obtain raw where raw: "d (ei_ino inode) = Some raw" "length data \<le> 4096" "148 + length data \<le> length raw"
    "inode' = inode\<lparr>fi_size := of_nat (length data), ei_dirty := True\<rparr>"
    "d' = d(ei_ino inode \<mapsto> mem_put (144 + length data) (le32 (aetherfs_crc32c_k 0xFFFFFFFF data)) (mem_put 144 data
      (mem_put 108 (le32 (of_nat (length data))) (mem_put 68 (le32 (get32 68 raw OR AETHERFS_F_INLINE_k)) raw))))"
    using assms by (auto simp: aetherfs_write_inline_file_def AETHERFS_INLINE_FILE_MAX_def Let_def split: if_splits option.splits)
  then show ?thesis
    by (simp add: aetherfs_read_inline_file_def AETHERFS_INLINE_FILE_MAX_def Let_def mem_simps word_of_length)
qed

text \<open>The limit is the size of a block, but the data starts 144 bytes into one.\<close>

lemma inline_file_overrun:
  assumes "d (ei_ino inode) = Some raw" "length raw = 4096" "3948 < length data" "length data \<le> 4096"
  shows "aetherfs_write_inline_file data inode d = None"
  using assms by (simp add: aetherfs_write_inline_file_def AETHERFS_INLINE_FILE_MAX_def)

lemma write_inline_read:
  assumes "aetherfs_write_inline data inode d = Some (Inr (), inode', d')" "ei_flags inode AND AETHERFS_F_INLINE_k \<noteq> 0"
  shows "aetherfs_read_inline (length data) inode' d' = Some (Inr data)"
proof -
  obtain raw where raw: "d (ei_ino inode) = Some raw" "length data \<le> 3996" "144 + length data \<le> length raw"
    "inode' = inode\<lparr>fi_size := of_nat (length data), ei_dirty := True\<rparr>"
    "\<exists>c. d' = d(ei_ino inode \<mapsto> mem_put 104 (le32 c) (mem_put 144 data
      (mem_put 68 (le32 (get32 68 (mem_put 108 (le32 (of_nat (length data))) raw) OR AETHERFS_F_INLINE_k))
        (mem_put 108 (le32 (of_nat (length data))) raw))))"
    using assms by (auto simp: aetherfs_write_inline_def AETHERFS_MAX_INLINE_def Let_def split: if_splits option.splits)
  then show ?thesis
    using assms(2) by (auto simp: aetherfs_read_inline_def AETHERFS_MAX_INLINE_def Let_def mem_simps word_of_length)
qed

section \<open>Extended attributes are read back\<close>

text \<open>The first time, while the checksum field is zero.\<close>

lemma packed_xattr_roundtrip:
  assumes "aetherfs_write_packed_xattr ino name value d = Some (Inr (), d')" "d ino = Some b" "get32 136 b = 0"
  shows "aetherfs_read_packed_xattr ino name d' = Some (Inr value)"
proof -
  define b1 where "b1 = mem_put (140 + length name) value (mem_put 140 name (mem_put 134 (le16 0) (mem_put 128 (le16 0)
    (mem_put 132 (le16 (of_nat (length value))) (mem_put 130 (le16 (of_nat (length name))) b)))))"
  define c where "c = aetherfs_crc32c_k 0xFFFFFFFF (mem_get 128 (8 + length name + length value) b1)"
  have fits: "140 + length name + length value \<le> length b" "length name + length value \<le> 244"
    and d': "d' = d(ino \<mapsto> mem_put 136 (le32 c) b1)"
    using assms(1,2) by (auto simp: aetherfs_write_packed_xattr_def AETHERFS_XATTR_INLINE_MAX_def Let_def c_def b1_def split: if_splits)
  have fields: "length b1 = length b" "get16 130 b1 = of_nat (length name)" "get16 132 b1 = of_nat (length value)"
    "mem_get 140 (length name) b1 = name" "mem_get (140 + length name) (length value) b1 = value" "get32 136 b1 = 0"
    using fits assms(3) by (simp_all add: b1_def mem_simps)
  have "mem_get 136 4 b1 = le32 0"
    using fields(6) fits fields(1) le_bytes_of_le_take [of 4 "drop 136 b1", where 'a = 32] by (simp add: get32_def mem_get_def)
  then have "mem_put 136 (le32 0) b1 = b1"
    using mem_put_get [of 136 4 b1] fits fields(1) by simp
  then have "mem_put 136 (le32 0) (mem_put 136 (le32 c) b1) = b1"
    using fits fields(1) by (simp add: mem_put_put)
  then show ?thesis
    using fits fields by (simp add: d' aetherfs_read_packed_xattr_def Let_def mem_simps half_of_length c_def)
qed

text \<open>A packed tail is never found again.\<close>

lemma tail_unpack_fails: "aetherfs_tail_unpack bs ino offset d = Some (Inl ENOENT)"
  by (simp add: aetherfs_tail_unpack_def aetherfs_btree_lookup_extent_def)

text \<open>Packing is recommended for tails that do not fit, because the difference wraps around.\<close>

lemma tail_packing_wraps:
  assumes "unat block_size \<le> 65536" "unat tail_size \<le> 65536" "unat block_size < unat tail_size + 16"
  shows "aetherfs_is_tail_packing_worth tail_size block_size"
proof -
  have "unat (tail_size + 16) = unat tail_size + 16"
    using assms(2) by (simp add: unat_word_ariths)
  then have "unat (block_size - (tail_size + 16)) = 2 ^ 32 + unat block_size - (unat tail_size + 16)"
    using assms by (subst unat_sub_if') (simp add: word_le_nat_alt)
  then show ?thesis
    using assms by (simp add: aetherfs_is_tail_packing_worth_def word_le_nat_alt unat_div)
qed

end
