(* ===== verification/Kernel_Reflink.thy ===== *)
theory Kernel_Reflink
  imports Kernel_File Kernel_Refcount
begin

text \<open>
  Shared extents and block deduplication (\<open>kernel/reflink.c\<close>).  The radix tree of the
  kernel is a map from checksums to entries; whether memory is there and what inserting into
  the tree returns are arguments.  A division by a block size of zero traps, which is the
  outcome None.  The flag \<open>AETHERFS_F_SHARED_EXTENT\<close> is declared nowhere in the sources and
  is a parameter.
\<close>

section \<open>Reflinks\<close>

definition AETHERFS_F_REFLINKED_k :: u32 where "AETHERFS_F_REFLINKED_k = 0x0008"

partial_function (option) reflink_loop :: "u32 \<Rightarrow> nat \<Rightarrow> int \<Rightarrow> int \<Rightarrow> u32 \<Rightarrow> u32 option" where
  "reflink_loop shared s_blocksize len copied flags =
    (if copied < len then
       if s_blocksize = 0 then None else reflink_loop shared s_blocksize len (copied + int s_blocksize) (flags OR shared)
     else Some flags)"

definition aetherfs_reflink ::
  "u32 \<Rightarrow> bool \<Rightarrow> nat \<Rightarrow> inode_info \<Rightarrow> inode_info \<Rightarrow> int \<Rightarrow> bool \<Rightarrow> (unit result \<times> inode_info \<times> inode_info) option" where
  "aetherfs_reflink shared same_sb s_blocksize src dst len preserve =
    (if \<not> same_sb then Some (Inl EINVAL, src, dst)
     else case reflink_loop shared s_blocksize len 0 (ei_flags dst) of
       None \<Rightarrow> None
     | Some flags \<Rightarrow>
         Some (Inr (), src\<lparr>ei_dirty := True\<rparr>,
           dst\<lparr>ei_flags := (if preserve then flags OR AETHERFS_F_REFLINKED_k else flags), ei_dirty := True\<rparr>))"

text \<open>The new inode, or the error of making one, is an argument; the result is the clone.\<close>

definition aetherfs_clone :: "u32 \<Rightarrow> nat \<Rightarrow> inode_info \<Rightarrow> int \<Rightarrow> inode_info result \<Rightarrow> inode_info result option" where
  "aetherfs_clone shared s_blocksize src i_size new_inode =
    (case new_inode of
       Inl e \<Rightarrow> Some (Inl e)
     | Inr dst \<Rightarrow>
         (case aetherfs_reflink shared True s_blocksize src dst i_size True of
            None \<Rightarrow> None
          | Some (Inl e, _, _) \<Rightarrow> Some (Inl e)
          | Some (Inr _, _, dst) \<Rightarrow> Some (Inr dst)))"

definition aetherfs_dedupe_range ::
  "u32 \<Rightarrow> bool \<Rightarrow> nat \<Rightarrow> inode_info \<Rightarrow> inode_info \<Rightarrow> int \<Rightarrow> (unit result \<times> inode_info \<times> inode_info) option" where
  "aetherfs_dedupe_range shared same_sb s_blocksize src inode len =
    (if \<not> same_sb then Some (Inl EXDEV, src, inode)
     else aetherfs_reflink shared same_sb s_blocksize src (inode\<lparr>ei_flags := ei_flags inode OR shared\<rparr>) len False)"

definition aetherfs_is_shared_extent :: "u32 \<Rightarrow> inode_info \<Rightarrow> bool" where
  "aetherfs_is_shared_extent shared ei \<longleftrightarrow> ei_flags ei AND shared \<noteq> 0"

section \<open>Block deduplication\<close>

datatype dedup_mode = DEDUP_MODE_NONE | DEDUP_MODE_REFLINK | DEDUP_MODE_BLOCK | DEDUP_MODE_CDC

record dedup_block =
  db_blocknr :: u64
  db_checksum :: u32
  db_refcount :: u32

record dedup_info =
  dd_mode :: dedup_mode
  dd_enabled :: bool
  dd_saved_bytes :: u64
  dd_dedup_blocks :: u64
  dd_tree :: "u32 \<rightharpoonup> dedup_block"

definition block_checksum :: "byte list \<Rightarrow> u32" where
  "block_checksum data = aetherfs_crc32c_k 0xFFFFFFFF data"

definition aetherfs_dedup_init :: dedup_info where
  "aetherfs_dedup_init = \<lparr>dd_mode = DEDUP_MODE_REFLINK, dd_enabled = False, dd_saved_bytes = 0, dd_dedup_blocks = 0, dd_tree = Map.empty\<rparr>"

fun mode_of_number :: "nat \<Rightarrow> dedup_mode option" where
  "mode_of_number n = (if n = 0 then Some DEDUP_MODE_NONE else if n = 1 then Some DEDUP_MODE_REFLINK
     else if n = 2 then Some DEDUP_MODE_BLOCK else if n = 3 then Some DEDUP_MODE_CDC else None)"

definition aetherfs_dedup_enable :: "nat \<Rightarrow> dedup_info \<Rightarrow> unit result \<times> dedup_info" where
  "aetherfs_dedup_enable mode s =
    (case mode_of_number mode of None \<Rightarrow> (Inl EINVAL, s) | Some m \<Rightarrow> (Inr (), s\<lparr>dd_mode := m, dd_enabled := True\<rparr>))"

definition aetherfs_dedup_disable :: "dedup_info \<Rightarrow> dedup_info" where
  "aetherfs_dedup_disable s = s\<lparr>dd_enabled := False, dd_mode := DEDUP_MODE_NONE\<rparr>"

definition aetherfs_dedup_block :: "bool \<Rightarrow> unit result \<Rightarrow> u32 \<Rightarrow> u64 \<Rightarrow> u32 \<Rightarrow> dedup_info \<Rightarrow> unit result \<times> dedup_info" where
  "aetherfs_dedup_block memory inserted s_blocksize blocknr checksum s =
    (if blocknr = 0 then (Inl EINVAL, s)
     else if \<not> dd_enabled s then (Inr (), s)
     else if dd_mode s = DEDUP_MODE_NONE \<or> dd_mode s = DEDUP_MODE_REFLINK then (Inr (), s)
     else case dd_tree s checksum of
       Some db \<Rightarrow>
         (Inr (), s\<lparr>dd_tree := (dd_tree s)(checksum \<mapsto> db\<lparr>db_refcount := db_refcount db + 1\<rparr>),
            dd_saved_bytes := dd_saved_bytes s + ucast s_blocksize, dd_dedup_blocks := dd_dedup_blocks s + 1\<rparr>)
     | None \<Rightarrow>
         if \<not> memory then (Inl ENOMEM, s)
         else case inserted of
           Inl e \<Rightarrow> (Inl e, s)
         | Inr _ \<Rightarrow> (Inr (), s\<lparr>dd_tree := (dd_tree s)(checksum \<mapsto> \<lparr>db_blocknr = blocknr, db_checksum = checksum, db_refcount = 1\<rparr>)\<rparr>))"

definition aetherfs_dedup_resolve_r :: "u32 \<Rightarrow> dedup_info \<Rightarrow> (u64 \<times> u32) result" where
  "aetherfs_dedup_resolve_r checksum s =
    (if \<not> dd_enabled s then Inl EINVAL
     else case dd_tree s checksum of None \<Rightarrow> Inl ENOENT | Some db \<Rightarrow> Inr (db_blocknr db, db_refcount db))"

definition aetherfs_dedup_release_r :: "u32 \<Rightarrow> dedup_info \<Rightarrow> unit result \<times> dedup_info" where
  "aetherfs_dedup_release_r checksum s =
    (if checksum = 0 then (Inl EINVAL, s)
     else case dd_tree s checksum of
       None \<Rightarrow> (Inl ENOENT, s)
     | Some db \<Rightarrow>
         let refs = db_refcount db - 1 in
         (Inr (), s\<lparr>dd_tree := (if refs = 0 then (dd_tree s)(checksum := None) else (dd_tree s)(checksum \<mapsto> db\<lparr>db_refcount := refs\<rparr>))\<rparr>))"

definition aetherfs_dedup_saved_bytes :: "dedup_info \<Rightarrow> u64" where
  "aetherfs_dedup_saved_bytes s = dd_saved_bytes s"

definition aetherfs_dedup_block_count :: "dedup_info \<Rightarrow> u64" where
  "aetherfs_dedup_block_count s = dd_dedup_blocks s"

definition aetherfs_dedup_exit :: "dedup_info \<Rightarrow> dedup_info" where
  "aetherfs_dedup_exit s = s\<lparr>dd_enabled := False, dd_tree := Map.empty\<rparr>"

text \<open>The information that the ioctl gathers stays on its stack.\<close>

definition aetherfs_dedup_ioctl :: "nat \<Rightarrow> unit result" where
  "aetherfs_dedup_ioctl cmd = (if cmd = 0 then Inr () else Inl ENOTTY)"

section \<open>Content-defined chunks\<close>

definition cdc_table :: "u16 list" where
  "cdc_table =
    [0x0000, 0xCC01, 0xD801, 0x1400, 0xF001, 0x3C00, 0x2800, 0xE201,
     0xA001, 0x6C00, 0x7800, 0x9901, 0x8801, 0x7800, 0x6800, 0xB001,
     0x5001, 0x3C00, 0x4C00, 0x8501, 0x9401, 0xA001, 0x8400, 0xD001,
     0xD801, 0xC001, 0xFC01, 0x1400, 0x4C00, 0xCC01, 0xD801, 0x1400]"

definition cdc_step :: "u16 \<Rightarrow> byte \<Rightarrow> u16" where
  "cdc_step crc b =
    (let tmp = cdc_table ! unat (crc AND 0xF);
         crc = drop_bit 4 crc XOR tmp XOR cdc_table ! unat (b AND 0xF);
         tmp = cdc_table ! unat (crc AND 0xF) in
     drop_bit 4 crc XOR tmp XOR cdc_table ! unat (drop_bit 4 b))"

text \<open>The loop over all bytes but the last; the result is the index where it stops.\<close>

fun cdc_loop :: "byte list \<Rightarrow> nat \<Rightarrow> u16 \<Rightarrow> nat option" where
  "cdc_loop [] i crc = None"
| "cdc_loop (b # bs) i crc =
    (let crc = cdc_step crc b; hash = crc AND 0x3FFF in
     if hash AND 0x3FF = 0x3FF \<and> i \<ge> 4096 then Some i else cdc_loop bs (i + 1) crc)"

definition cdc_find_chunk_boundary :: "byte list \<Rightarrow> nat \<times> nat" where
  "cdc_find_chunk_boundary data =
    (case cdc_loop (butlast data) 0 0xFFFF of
       Some i \<Rightarrow> let chunk_start = i - 47; chunk_len = i - chunk_start in (chunk_start, if chunk_len > 65536 then 65536 else chunk_len)
     | None \<Rightarrow> (0, if length data < 4096 then length data else 4096))"

text \<open>The list holds the references stored so far; the block number that is registered is 0.\<close>

fun cdc_chunks :: "u32 \<Rightarrow> nat \<Rightarrow> byte list \<Rightarrow> dedup_info \<Rightarrow> u64 list \<times> dedup_info" where
  "cdc_chunks s_blocksize 0 data s = ([], s)"
| "cdc_chunks s_blocksize (Suc n) data s =
    (if data = [] then ([], s)
     else
       let (chunk_start, chunk_len) = cdc_find_chunk_boundary data;
           checksum = block_checksum (take chunk_len (drop chunk_start data));
           s = snd (aetherfs_dedup_block True (Inr ()) s_blocksize 0 checksum s);
           (refs, s) = cdc_chunks s_blocksize n (drop (chunk_start + chunk_len) data) s in
       (ucast checksum # refs, s))"

definition aetherfs_cdc_dedup :: "u32 \<Rightarrow> byte list \<Rightarrow> nat \<Rightarrow> dedup_info \<Rightarrow> u64 list result \<times> dedup_info" where
  "aetherfs_cdc_dedup s_blocksize data chunk_count s =
    (if data = [] then (Inl EINVAL, s)
     else if dd_mode s \<noteq> DEDUP_MODE_CDC then (Inr [], s)
     else let (refs, s) = cdc_chunks s_blocksize chunk_count data s in (Inr refs, s))"

section \<open>Hints\<close>

definition DEDUP_HINT_F_SHARED :: u32 where "DEDUP_HINT_F_SHARED = 0x00000001"

record dedup_hint =
  dh_ino :: u64
  dh_offset :: u64
  dh_length :: u64
  dh_checksum :: u32
  dh_flags :: u32

text \<open>The hint itself is not kept.\<close>

definition aetherfs_dedup_hint_set :: "u32 \<Rightarrow> int \<Rightarrow> u32 \<Rightarrow> inode_info \<Rightarrow> unit result \<times> inode_info" where
  "aetherfs_dedup_hint_set shared len flags ei =
    (if len = 0 then (Inl EINVAL, ei)
     else (Inr (), ei\<lparr>ei_flags := (if flags AND DEDUP_HINT_F_SHARED \<noteq> 0 then ei_flags ei OR shared else ei_flags ei), ei_dirty := True\<rparr>))"

definition aetherfs_dedup_hint_get :: "inode_info \<Rightarrow> u64 \<Rightarrow> dedup_hint \<Rightarrow> dedup_hint" where
  "aetherfs_dedup_hint_get ei offset hint = hint\<lparr>dh_ino := ei_ino ei, dh_offset := offset\<rparr>"

section \<open>Properties\<close>

lemma reflink_loop_result:
  assumes "0 < bs"
  shows "reflink_loop shared bs len copied flags = Some (if copied < len then flags OR shared else flags)"
proof (induction "nat (len - copied)" arbitrary: copied flags rule: less_induct)
  case less
  show ?case
  proof (cases "copied < len")
    case True
    then have "nat (len - (copied + int bs)) < nat (len - copied)"
      using assms by simp
    from less [OF this] show ?thesis
      using True assms by (subst reflink_loop.simps) (simp add: or.assoc)
  next
    case False
    then show ?thesis
      by (subst reflink_loop.simps) simp
  qed
qed

text \<open>A reflink marks the inode; no block is mapped.\<close>

lemma reflink_effect:
  assumes "0 < bs"
  shows "aetherfs_reflink shared True bs src dst len preserve =
    Some (Inr (), src\<lparr>ei_dirty := True\<rparr>, dst\<lparr>ei_flags := ei_flags dst OR (if 0 < len then shared else 0) OR
      (if preserve then AETHERFS_F_REFLINKED_k else 0), ei_dirty := True\<rparr>)"
  by (simp add: aetherfs_reflink_def reflink_loop_result [OF assms] or.assoc)

definition tree_good :: "dedup_info \<Rightarrow> bool" where
  "tree_good s \<longleftrightarrow> dd_enabled s \<and> dd_mode s \<in> {DEDUP_MODE_BLOCK, DEDUP_MODE_CDC} \<and> (\<forall>c db. dd_tree s c = Some db \<longrightarrow> db_refcount db \<noteq> 0)"

definition tree_refs :: "dedup_info \<Rightarrow> u32 \<Rightarrow> nat" where
  "tree_refs s c = (case dd_tree s c of None \<Rightarrow> 0 | Some db \<Rightarrow> unat (db_refcount db))"

lemma tree_take:
  assumes "tree_good s" "Suc (tree_refs s c) < 2 ^ 32" "b \<noteq> 0"
  shows "\<exists>s'. aetherfs_dedup_block True (Inr ()) bs b c s = (Inr (), s') \<and> tree_good s' \<and> tree_refs s' = (tree_refs s)(c := Suc (tree_refs s c))"
proof (cases "dd_tree s c")
  case None
  then show ?thesis
    using assms by (auto simp: aetherfs_dedup_block_def tree_good_def tree_refs_def fun_eq_iff)
next
  case (Some db)
  have "unat (db_refcount db + 1) = Suc (unat (db_refcount db))"
    using assms(2) Some by (simp add: tree_refs_def unat_word_ariths)
  moreover from this have "db_refcount db + 1 \<noteq> 0"
    by (metis nat.distinct(1) unat_0)
  ultimately show ?thesis
    using assms Some by (auto simp: aetherfs_dedup_block_def tree_good_def tree_refs_def fun_eq_iff)
qed

lemma tree_drop:
  assumes "tree_good s" "c \<noteq> 0" "0 < tree_refs s c"
  shows "\<exists>s'. aetherfs_dedup_release_r c s = (Inr (), s') \<and> tree_good s' \<and> tree_refs s' = (tree_refs s)(c := tree_refs s c - 1)"
proof -
  obtain db where db: "dd_tree s c = Some db" "db_refcount db \<noteq> 0"
    using assms by (auto simp: tree_refs_def tree_good_def split: option.splits)
  then have "unat (db_refcount db - 1) = unat (db_refcount db) - 1"
    by (simp add: unat_minus_one)
  moreover have "db_refcount db - 1 = 0 \<Longrightarrow> unat (db_refcount db) = 1"
    by (metis eq_iff_diff_eq_0 unsigned_1)
  ultimately show ?thesis
    using assms db by (auto simp: aetherfs_dedup_release_r_def tree_good_def tree_refs_def fun_eq_iff Let_def)
qed

text \<open>Every block number but 0 is one of the form \<open>max 1 b\<close>.\<close>

interpretation tree: refcounts tree_good tree_refs "\<lambda>c. c \<noteq> 0" "aetherfs_dedup_block True (Inr ()) bs (max 1 b)" aetherfs_dedup_release_r for bs b
proof unfold_locales
  show "\<exists>s'. aetherfs_dedup_block True (Inr ()) bs (max 1 b) c s = (Inr (), s') \<and> tree_good s' \<and>
      tree_refs s' = (tree_refs s)(c := Suc (tree_refs s c))" if "tree_good s" "Suc (tree_refs s c) < 2 ^ 32" for s c
    by (rule tree_take [OF that]) (auto simp: max_def)
  show "aetherfs_dedup_release_r c s = (Inl ENOENT, s)" if "tree_good s" "c \<noteq> 0" "tree_refs s c = 0" for s c
    using that by (auto simp: aetherfs_dedup_release_r_def tree_refs_def tree_good_def unat_eq_zero split: option.splits)
qed (use tree_drop in auto)

text \<open>
  The data is never compared: two blocks with the same checksum count as one, and resolving
  the checksum of the second gives the number of the first.
\<close>

lemma dedup_confuses_blocks:
  assumes "dd_enabled s" "dd_mode s = DEDUP_MODE_BLOCK" "dd_tree s (block_checksum x) = None" "b \<noteq> 0" "b' \<noteq> 0"
    "block_checksum y = block_checksum x"
    "aetherfs_dedup_block True (Inr ()) bs b (block_checksum x) s = (r, s1)" "aetherfs_dedup_block True (Inr ()) bs b' (block_checksum y) s1 = (r', s2)"
  shows "r = Inr () \<and> r' = Inr () \<and> aetherfs_dedup_resolve_r (block_checksum y) s2 = Inr (b, 2)"
  using assms by (auto simp: aetherfs_dedup_block_def aetherfs_dedup_resolve_r_def)

lemma block_checksum_collision:
  "block_checksum (xs @ [a XOR 2, b XOR 1] @ ys) = block_checksum (xs @ [a, b] @ ys)" "xs @ [a XOR 2, b XOR 1] @ ys \<noteq> xs @ [a, b] @ ys"
proof -
  have "(a XOR 2) XOR a \<noteq> 0"
    by (simp add: xor.commute [of a] xor.assoc)
  then show "xs @ [a XOR 2, b XOR 1] @ ys \<noteq> xs @ [a, b] @ ys"
    by auto
qed (simp add: block_checksum_def crc32c_k_misses [simplified])

text \<open>Chunks are registered for block 0, which is refused: chunk deduplication changes nothing.\<close>

lemma cdc_chunks_state: "snd (cdc_chunks bs n data s) = s"
  by (induction bs n data s rule: cdc_chunks.induct) (auto simp: aetherfs_dedup_block_def Let_def split: prod.splits)

lemma cdc_dedup_state: "snd (aetherfs_cdc_dedup bs data n s) = s"
  using cdc_chunks_state [of bs n data s] by (auto simp: aetherfs_cdc_dedup_def Let_def split: prod.splits)

lemma cdc_loop_bounds: "cdc_loop bs i crc = Some k \<Longrightarrow> i \<le> k \<and> k < i + length bs \<and> 4096 \<le> k"
  by (induction bs arbitrary: i crc) (force simp: Let_def split: if_splits)+

text \<open>Every chunk lies inside the data and is not empty, so the walk over the chunks makes progress.\<close>

lemma chunk_boundary:
  assumes "data \<noteq> []" "cdc_find_chunk_boundary data = (st, len)"
  shows "st + len \<le> length data \<and> 0 < len \<and> len \<le> 4096"
  using assms cdc_loop_bounds [of "butlast data" 0 "0xFFFF"]
  by (auto simp: cdc_find_chunk_boundary_def Let_def split: option.splits if_splits)

end
