(* ===== verification/Kernel_Seal.thy ===== *)
theory Kernel_Seal
  imports Kernel_Base
begin

text \<open>
  The checksums of the module's structures (\<open>kernel/invariants.c\<close>): each structure has a
  function that computes its checksum and one that verifies it.  The structures are byte
  ranges in memory; the offsets are those of \<open>kernel/aetherfs.h\<close> with C alignment.  The
  verifiers set the checksum field to zero and put it back, so they change nothing.
\<close>

section \<open>Computing and verifying\<close>

text \<open>The checksum of the first \<open>n\<close> bytes with the field at \<open>off\<close> set to zero.\<close>

definition sum_zeroed :: "nat \<Rightarrow> nat \<Rightarrow> byte list \<Rightarrow> u32" where
  "sum_zeroed off n m = aetherfs_crc32c_k 0xFFFFFFFF (take n (mem_put off (le32 0) m))"

definition aetherfs_verify_superblock_checksum :: "byte list option \<Rightarrow> unit result" where
  "aetherfs_verify_superblock_checksum s_sbh =
    (case s_sbh of
       None \<Rightarrow> Inl EINVAL
     | Some es \<Rightarrow> if get32 52 es = sum_zeroed 52 72 es then Inr () else Inl EINVAL)"

definition aetherfs_compute_superblock_checksum :: "byte list option \<Rightarrow> byte list result" where
  "aetherfs_compute_superblock_checksum s_es =
    (case s_es of
       None \<Rightarrow> Inl EINVAL
     | Some es \<Rightarrow> Inr (mem_put 52 (le32 (sum_zeroed 52 72 es)) es))"

definition aetherfs_verify_inode_checksum :: "byte list \<Rightarrow> unit result" where
  "aetherfs_verify_inode_checksum raw =
    (if get32 104 raw = sum_zeroed 104 508 raw then Inr () else Inl EUCLEAN)"

definition aetherfs_compute_inode_checksum :: "byte list \<Rightarrow> byte list" where
  "aetherfs_compute_inode_checksum raw = mem_put 104 (le32 (sum_zeroed 104 508 raw)) raw"

text \<open>A data block has a header of 24 bytes, which its checksum does not cover.\<close>

definition aetherfs_verify_data_checksum :: "nat \<Rightarrow> byte list \<Rightarrow> unit result" where
  "aetherfs_verify_data_checksum s_blocksize cb =
    (if get32 0 cb = 0 then Inr ()
     else if get32 0 cb = aetherfs_crc32c_k 0xFFFFFFFF (mem_get 24 (s_blocksize - 24) cb) then Inr ()
     else Inl EUCLEAN)"

definition aetherfs_compute_data_checksum :: "nat \<Rightarrow> u64 \<Rightarrow> byte list \<Rightarrow> byte list" where
  "aetherfs_compute_data_checksum s_blocksize blocknr cb =
    (let cb = mem_put 4 (le32 (ucast blocknr)) cb;
         cb = mem_put 8 (le16 0) cb in
     mem_put 0 (le32 (aetherfs_crc32c_k 0xFFFFFFFF (mem_get 24 (s_blocksize - 24) cb))) cb)"

text \<open>
  The checksum of a directory entry is one byte at offset 13; the sum covers the first
  twelve bytes, and the byte is compared with all 32 bits of it.
\<close>

definition dir_entry_sum :: "byte list \<Rightarrow> u32" where
  "dir_entry_sum de = aetherfs_crc32c_k 0xFFFFFFFF (take 12 (mem_put 13 [0] de))"

definition aetherfs_verify_directory_entry_checksum :: "byte list \<Rightarrow> unit result" where
  "aetherfs_verify_directory_entry_checksum de =
    (if ucast (de ! 13) = dir_entry_sum de then Inr () else Inl EUCLEAN)"

definition aetherfs_compute_directory_entry_checksum :: "byte list \<Rightarrow> byte list" where
  "aetherfs_compute_directory_entry_checksum de = mem_put 13 [ucast (dir_entry_sum de)] de"

text \<open>An extent node keeps its checksum in \<open>en_reserved\<close>; the verifier does not clear it.\<close>

definition aetherfs_verify_extent_checksum :: "byte list \<Rightarrow> unit result" where
  "aetherfs_verify_extent_checksum node =
    (if get32 12 node = aetherfs_crc32c_k 0xFFFFFFFF (take 3084 node) then Inr () else Inl EUCLEAN)"

definition aetherfs_compute_extent_checksum :: "byte list \<Rightarrow> byte list" where
  "aetherfs_compute_extent_checksum node = mem_put 12 (le32 (sum_zeroed 12 3084 node)) node"

definition aetherfs_verify_snapshot_checksum :: "byte list \<Rightarrow> unit result" where
  "aetherfs_verify_snapshot_checksum snap =
    (if get32 60 snap = aetherfs_crc32c_k 0xFFFFFFFF (take 60 snap) then Inr () else Inl EUCLEAN)"

definition aetherfs_compute_snapshot_checksum :: "byte list \<Rightarrow> byte list" where
  "aetherfs_compute_snapshot_checksum snap = mem_put 60 (le32 (sum_zeroed 60 60 snap)) snap"

definition aetherfs_verify_journal_checksum :: "byte list \<Rightarrow> unit result" where
  "aetherfs_verify_journal_checksum jh =
    (if get32 24 jh = sum_zeroed 24 28 jh then Inr () else Inl EUCLEAN)"

definition aetherfs_compute_journal_checksum :: "byte list \<Rightarrow> byte list" where
  "aetherfs_compute_journal_checksum jh = mem_put 24 (le32 (sum_zeroed 24 28 jh)) jh"

definition aetherfs_verify_btree_node_checksum :: "u32 \<Rightarrow> byte list \<Rightarrow> unit result" where
  "aetherfs_verify_btree_node_checksum sz node =
    (if get32 16 node = sum_zeroed 16 (unat (sz - 4)) node then Inr () else Inl EUCLEAN)"

definition aetherfs_compute_btree_node_checksum :: "u32 \<Rightarrow> byte list \<Rightarrow> byte list" where
  "aetherfs_compute_btree_node_checksum sz node = mem_put 16 (le32 (sum_zeroed 16 (unat (sz - 4)) node)) node"

section \<open>What was computed is verified\<close>

text \<open>
  The interface of a structure with a checksum field: a sum that does not look at the
  field, and a field that returns what was put there.
\<close>

locale sealed =
  fixes fits :: "'m \<Rightarrow> bool" and field :: "'m \<Rightarrow> u32" and store :: "u32 \<Rightarrow> 'm \<Rightarrow> 'm" and sum :: "'m \<Rightarrow> u32"
  assumes field_store: "fits m \<Longrightarrow> field (store v m) = v"
    and sum_store: "fits m \<Longrightarrow> sum (store v m) = sum m"
begin

lemma computed_verifies: "fits m \<Longrightarrow> field (store (sum m) m) = sum (store (sum m) m)"
  by (simp add: field_store sum_store)

end

lemma sum_zeroed_put:
  assumes "off + 4 \<le> length m"
  shows "sum_zeroed off n (mem_put off (le32 v) m) = sum_zeroed off n m"
  using assms by (simp add: sum_zeroed_def mem_put_put)

interpretation word_seal: sealed "\<lambda>m. off + 4 \<le> length m" "get32 off" "\<lambda>v. mem_put off (le32 v)" "sum_zeroed off n" for off n
  by unfold_locales (simp_all add: get32_put32 sum_zeroed_put)

interpretation snapshot_seal: sealed "\<lambda>m. 64 \<le> length m" "get32 60" "\<lambda>v. mem_put 60 (le32 v)"
  "\<lambda>m. aetherfs_crc32c_k 0xFFFFFFFF (take 60 m)"
  by unfold_locales (simp_all add: get32_put32 take_mem_put_before)

lemma superblock_sealed:
  assumes "72 \<le> length es" "aetherfs_compute_superblock_checksum (Some es) = Inr es'"
  shows "aetherfs_verify_superblock_checksum (Some es') = Inr ()"
  using assms word_seal.computed_verifies [of 52 es 72]
  by (simp add: aetherfs_compute_superblock_checksum_def aetherfs_verify_superblock_checksum_def)

lemma inode_sealed:
  assumes "512 \<le> length raw"
  shows "aetherfs_verify_inode_checksum (aetherfs_compute_inode_checksum raw) = Inr ()"
  using assms word_seal.computed_verifies [of 104 raw 508]
  by (simp add: aetherfs_compute_inode_checksum_def aetherfs_verify_inode_checksum_def)

lemma journal_sealed:
  assumes "32 \<le> length jh"
  shows "aetherfs_verify_journal_checksum (aetherfs_compute_journal_checksum jh) = Inr ()"
  using assms word_seal.computed_verifies [of 24 jh 28]
  by (simp add: aetherfs_compute_journal_checksum_def aetherfs_verify_journal_checksum_def)

lemma btree_node_sealed:
  assumes "24 \<le> length node"
  shows "aetherfs_verify_btree_node_checksum sz (aetherfs_compute_btree_node_checksum sz node) = Inr ()"
  using assms word_seal.computed_verifies [of 16 node "unat (sz - 4)"]
  by (simp add: aetherfs_compute_btree_node_checksum_def aetherfs_verify_btree_node_checksum_def)

lemma snapshot_sealed:
  assumes "64 \<le> length snap"
  shows "aetherfs_verify_snapshot_checksum (aetherfs_compute_snapshot_checksum snap) = Inr ()"
proof -
  have "sum_zeroed 60 60 snap = aetherfs_crc32c_k 0xFFFFFFFF (take 60 snap)"
    using assms by (simp add: sum_zeroed_def take_mem_put_before)
  then show ?thesis
    using snapshot_seal.computed_verifies [OF assms]
    by (simp add: aetherfs_compute_snapshot_checksum_def aetherfs_verify_snapshot_checksum_def)
qed

lemma data_sealed:
  assumes "24 \<le> length cb"
  shows "aetherfs_verify_data_checksum bs (aetherfs_compute_data_checksum bs blocknr cb) = Inr ()"
  using assms by (simp add: aetherfs_compute_data_checksum_def aetherfs_verify_data_checksum_def Let_def get32_put32
      mem_get_put_after)

text \<open>For a directory entry this needs a sum that fits the byte.\<close>

lemma directory_entry_sealed_iff:
  assumes "14 \<le> length de"
  shows "aetherfs_verify_directory_entry_checksum (aetherfs_compute_directory_entry_checksum de) = Inr () \<longleftrightarrow>
    dir_entry_sum de < 256"
proof -
  have "dir_entry_sum (mem_put 13 [b] de) = dir_entry_sum de" for b
    using assms by (simp add: dir_entry_sum_def take_mem_put_before)
  moreover have "mem_put 13 [b] de ! 13 = b" for b
    using assms by (simp add: mem_put_def nth_append)
  moreover have "ucast (ucast s :: byte) = s \<longleftrightarrow> s < 256" for s :: u32
    by (simp add: word_unat_eq_iff word_less_nat_alt unsigned_ucast_eq unsigned_take_bit_eq take_bit_nat_eq_self_iff)
  ultimately show ?thesis
    by (simp add: aetherfs_verify_directory_entry_checksum_def aetherfs_compute_directory_entry_checksum_def)
qed

end
