(* ===== verification/Kernel_Heal.thy ===== *)
theory Kernel_Heal
  imports Kernel_Seal Kernel_Balloc
begin

text \<open>
  Self-healing, device detection and allocation policies (\<open>kernel/recovery.c\<close>).  The private
  pointer of the superblock is shared by the allocator, the self-healing data and the device
  data, each of which takes what it finds there for its own.  Using one of them as another is
  the outcome None, as are division by zero and access through a null pointer.  Fields that are
  always zero are left out of the records.
\<close>

section \<open>The data behind the private pointer\<close>

datatype self_heal_mode = SELF_HEAL_DISABLED | SELF_HEAL_REPAIR | SELF_HEAL_QUARANTINE | SELF_HEAL_SCRUB

datatype device_type = DEVICE_TYPE_UNKNOWN | DEVICE_TYPE_HDD | DEVICE_TYPE_SATA_SSD | DEVICE_TYPE_NVME | DEVICE_TYPE_ZNS | DEVICE_TYPE_SMR

datatype allocation_policy = ALLOC_POLICY_DEFAULT | ALLOC_POLICY_SEQ_HDD | ALLOC_POLICY_SEQ_SSD | ALLOC_POLICY_STREAM_NVME
  | ALLOC_POLICY_ZONE_AWARE | ALLOC_POLICY_LOCALITY

record self_heal_info =
  sh_mode :: self_heal_mode
  sh_last_scrub :: u64
  sh_scrub_interval :: u32
  sh_repair_count :: int
  sh_corruption_count :: int

record device_info =
  dev_type :: device_type
  dev_physical_sector :: u32
  dev_logical_sector :: u32
  dev_capacity :: u64
  dev_queue_depth :: byte
  dev_zoned :: bool
  dev_rotational :: bool

record allocation_context =
  policy :: allocation_policy
  preferred_ag :: u32
  preferred_device :: u32
  min_extent_size :: u32
  max_extent_size :: u32
  hotness :: byte

datatype private_data = Heal self_heal_info | Device device_info | Space free_space_info

section \<open>Devices\<close>

record request_queue =
  q_zoned :: bool
  q_nonrot :: bool
  q_nvme :: bool
  q_smr :: bool
  q_physical :: u32
  q_logical :: u32
  q_requests :: u64
  q_discard :: bool

definition detect_device_type :: "request_queue \<Rightarrow> device_type" where
  "detect_device_type q =
    (if q_zoned q then DEVICE_TYPE_ZNS
     else if q_nonrot q then (if q_nvme q then DEVICE_TYPE_NVME else DEVICE_TYPE_SATA_SSD)
     else if q_smr q then DEVICE_TYPE_SMR
     else DEVICE_TYPE_HDD)"

definition aetherfs_device_info_init ::
  "bool \<Rightarrow> request_queue option \<Rightarrow> u64 \<Rightarrow> private_data option \<Rightarrow> unit result \<times> private_data option" where
  "aetherfs_device_info_init memory queue sectors s_private =
    (if \<not> memory then (Inl ENOMEM, s_private)
     else
       (Inr (), Some (Device (case queue of
          None \<Rightarrow> \<lparr>dev_type = DEVICE_TYPE_UNKNOWN, dev_physical_sector = 0, dev_logical_sector = 0, dev_capacity = 0, dev_queue_depth = 0,
            dev_zoned = False, dev_rotational = False\<rparr>
        | Some q \<Rightarrow> \<lparr>dev_type = detect_device_type q, dev_physical_sector = q_physical q, dev_logical_sector = q_logical q,
            dev_capacity = sectors, dev_queue_depth = ucast (q_requests q), dev_zoned = q_zoned q, dev_rotational = \<not> q_nonrot q\<rparr>))))"

definition aetherfs_device_info_exit :: "private_data option \<Rightarrow> private_data option" where
  "aetherfs_device_info_exit s_private = None"

definition aetherfs_get_device_stats :: "private_data option \<Rightarrow> device_info result option" where
  "aetherfs_get_device_stats s_private =
    (case s_private of None \<Rightarrow> Some (Inl EINVAL) | Some (Device di) \<Rightarrow> Some (Inr di) | Some _ \<Rightarrow> None)"

definition aetherfs_stream_hint :: "request_queue option \<Rightarrow> unit result" where
  "aetherfs_stream_hint queue = (case queue of None \<Rightarrow> Inl EINVAL | Some q \<Rightarrow> if q_nonrot q then Inr () else Inl EINVAL)"

section \<open>Self-healing\<close>

definition aetherfs_self_heal_init :: "bool \<Rightarrow> private_data option \<Rightarrow> unit result \<times> private_data option" where
  "aetherfs_self_heal_init memory s_private =
    (if \<not> memory then (Inl ENOMEM, s_private)
     else (Inr (), Some (Heal \<lparr>sh_mode = SELF_HEAL_REPAIR, sh_last_scrub = 0, sh_scrub_interval = 86400, sh_repair_count = 0, sh_corruption_count = 0\<rparr>)))"

text \<open>
  The buffer belongs to the block, and so does the one that is to be repaired; \<open>uptodate\<close> is
  its state.
\<close>

definition aetherfs_self_heal_repair_on_read ::
  "nat \<Rightarrow> bool \<Rightarrow> byte list \<Rightarrow> u64 \<Rightarrow> private_data option \<Rightarrow> disk \<Rightarrow> (unit result \<times> private_data option \<times> disk) option" where
  "aetherfs_self_heal_repair_on_read s_blocksize uptodate bh blocknr s_private d =
    (case s_private of
       None \<Rightarrow> Some (Inr (), s_private, d)
     | Some (Heal sh) \<Rightarrow>
         if sh_mode sh = SELF_HEAL_DISABLED then Some (Inr (), s_private, d)
         else if aetherfs_verify_data_checksum s_blocksize bh = Inr () then Some (Inr (), s_private, d)
         else
           let sh = sh\<lparr>sh_corruption_count := sh_corruption_count sh + 1\<rparr> in
           if sh_mode sh = SELF_HEAL_QUARANTINE then Some (Inl EUCLEAN, Some (Heal sh), d)
           else (case d blocknr of
             None \<Rightarrow> Some (Inl EIO, Some (Heal sh), d)
           | Some old \<Rightarrow>
               if uptodate then
                 Some (Inr (), Some (Heal (sh\<lparr>sh_repair_count := sh_repair_count sh + 1\<rparr>)),
                   d(blocknr \<mapsto> mem_put 0 (take s_blocksize bh) old))
               else Some (Inl EIO, Some (Heal sh), d))
     | Some _ \<Rightarrow> None)"

definition aetherfs_extent_quarantine :: "nat \<Rightarrow> u64 \<Rightarrow> u32 \<Rightarrow> disk \<Rightarrow> unit result \<times> disk" where
  "aetherfs_extent_quarantine s_blocksize extent_start extent_len d =
    (if extent_start = 0 \<or> extent_len = 0 then (Inl EINVAL, d)
     else case d extent_start of
       None \<Rightarrow> (Inl EIO, d)
     | Some _ \<Rightarrow>
         (Inr (), d(extent_start \<mapsto> mem_put 12 (le32 0x51434152) (mem_put 8 (le32 extent_len) (mem_put 0 (le64 extent_start)
            (replicate s_blocksize 0))))))"

text \<open>The work that is scheduled has no function.\<close>

definition aetherfs_scrub_start :: "u64 \<Rightarrow> private_data option \<Rightarrow> (unit result \<times> private_data option) option" where
  "aetherfs_scrub_start now s_private =
    (case s_private of
       None \<Rightarrow> Some (Inl EINVAL, s_private)
     | Some (Heal sh) \<Rightarrow> Some (Inr (), Some (Heal (sh\<lparr>sh_last_scrub := now\<rparr>)))
     | Some _ \<Rightarrow> None)"

definition aetherfs_scrub_status :: "private_data option \<Rightarrow> (u64 \<times> u32 \<times> u32) result option" where
  "aetherfs_scrub_status s_private =
    (case s_private of
       None \<Rightarrow> Some (Inl EINVAL)
     | Some (Heal sh) \<Rightarrow> Some (Inr (sh_last_scrub sh, of_int (sh_corruption_count sh), of_int (sh_repair_count sh)))
     | Some _ \<Rightarrow> None)"

section \<open>Allocation policies\<close>

definition aetherfs_alloc_init_context :: "u32 \<Rightarrow> u32 \<Rightarrow> u32 \<Rightarrow> private_data option \<Rightarrow> allocation_context option" where
  "aetherfs_alloc_init_context cpu dev_count requested_size s_private =
    (let ctx = \<lparr>policy = ALLOC_POLICY_DEFAULT, preferred_ag = 0, preferred_device = 0, min_extent_size = 1,
           max_extent_size = requested_size, hotness = 0\<rparr> in
     case (case s_private of None \<Rightarrow> Some DEVICE_TYPE_HDD | Some (Device di) \<Rightarrow> Some (dev_type di) | Some _ \<Rightarrow> None) of
       None \<Rightarrow> None
     | Some DEVICE_TYPE_HDD \<Rightarrow> Some (ctx\<lparr>policy := ALLOC_POLICY_SEQ_HDD, max_extent_size := 256\<rparr>)
     | Some DEVICE_TYPE_SATA_SSD \<Rightarrow> Some (ctx\<lparr>policy := ALLOC_POLICY_SEQ_SSD, max_extent_size := 128\<rparr>)
     | Some DEVICE_TYPE_NVME \<Rightarrow>
         if dev_count = 0 then None
         else Some (ctx\<lparr>policy := ALLOC_POLICY_STREAM_NVME, max_extent_size := 64, preferred_device := cpu mod dev_count\<rparr>)
     | Some DEVICE_TYPE_ZNS \<Rightarrow> Some (ctx\<lparr>policy := ALLOC_POLICY_ZONE_AWARE, max_extent_size := 32\<rparr>)
     | Some DEVICE_TYPE_SMR \<Rightarrow> Some (ctx\<lparr>policy := ALLOC_POLICY_SEQ_HDD, max_extent_size := 512\<rparr>)
     | Some DEVICE_TYPE_UNKNOWN \<Rightarrow> Some ctx)"

definition aetherfs_select_ag_for_allocation :: "u32 \<Rightarrow> allocation_context \<Rightarrow> sb_info \<Rightarrow> u32 option" where
  "aetherfs_select_ag_for_allocation cpu ctx info =
    (if preferred_ag ctx > 0 \<and> ucast (preferred_ag ctx) < s_groups_k info then Some (preferred_ag ctx)
     else if s_groups_k info = 0 then None
     else Some (ucast (ucast (cpu + ucast (hotness ctx)) mod s_groups_k info)))"

text \<open>The allocator does not read the class, so what the number of a class beyond the last means does not matter.\<close>

definition class_of_number :: "byte \<Rightarrow> allocation_class" where
  "class_of_number n = (if n = 0 then AETHERFS_ALLOC_HOT else if n = 1 then AETHERFS_ALLOC_WARM else AETHERFS_ALLOC_COLD)"

definition aetherfs_alloc_with_policy ::
  "u32 \<Rightarrow> allocation_context \<Rightarrow> u32 \<Rightarrow> private_data option \<Rightarrow> sb_info \<Rightarrow> (u64 \<times> private_data option \<times> sb_info) option" where
  "aetherfs_alloc_with_policy cpu ctx sz s_private info =
    (case aetherfs_select_ag_for_allocation cpu ctx info of
       None \<Rightarrow> None
     | Some ag \<Rightarrow>
         (case s_private of
            Some (Space fsi) \<Rightarrow>
              map_option (\<lambda>(block, p, info). (block, map_option Space p, info))
                (aetherfs_alloc_blocks_extended sz (class_of_number (hotness ctx)) ag (Some fsi) info)
          | None \<Rightarrow>
              map_option (\<lambda>(block, _, info). (block, None, info))
                (aetherfs_alloc_blocks_extended sz (class_of_number (hotness ctx)) ag None info)
          | Some _ \<Rightarrow> if sz = 0 then Some (0, s_private, info) else None))"

definition policy_number :: "allocation_policy \<Rightarrow> u32" where
  "policy_number p = (case p of ALLOC_POLICY_DEFAULT \<Rightarrow> 0 | ALLOC_POLICY_SEQ_HDD \<Rightarrow> 1 | ALLOC_POLICY_SEQ_SSD \<Rightarrow> 2
     | ALLOC_POLICY_STREAM_NVME \<Rightarrow> 3 | ALLOC_POLICY_ZONE_AWARE \<Rightarrow> 4 | ALLOC_POLICY_LOCALITY \<Rightarrow> 5)"

definition aetherfs_set_allocation_policy :: "allocation_policy \<Rightarrow> sb_info \<Rightarrow> sb_info" where
  "aetherfs_set_allocation_policy p info =
    info\<lparr>s_mount_opt_k := (s_mount_opt_k info AND NOT (push_bit 16 7)) OR push_bit 16 (policy_number p)\<rparr>"

definition aetherfs_locality_group_init :: "u32 \<Rightarrow> sb_info \<Rightarrow> sb_info" where
  "aetherfs_locality_group_init num_groups info = info\<lparr>s_groups_k := ucast num_groups\<rparr>"

section \<open>Discarding\<close>

text \<open>What is discarded is the list of the requests to the device; their results are not looked at.\<close>

definition aetherfs_trim_device :: "bool \<Rightarrow> u64 \<Rightarrow> u64 \<Rightarrow> (u64 \<times> u64) list" where
  "aetherfs_trim_device discard start len = (if len = 0 then [] else if \<not> discard then [] else [(start, len)])"

definition aetherfs_trim_all_free :: "bool \<Rightarrow> private_data option \<Rightarrow> (u64 \<times> u64) list option" where
  "aetherfs_trim_all_free discard s_private =
    (case s_private of
       None \<Rightarrow> Some []
     | Some (Space fsi) \<Rightarrow>
         Some (concat (map (\<lambda>ag. aetherfs_trim_device discard
             (ucast (AETHERFS_DATA_START_BLOCK_k + of_nat ag * AETHERFS_BLOCKS_PER_GROUP_k)) (ucast AETHERFS_BLOCKS_PER_GROUP_k))
           [0..<unat (fs_ag_count fsi)]))
     | Some _ \<Rightarrow> None)"

section \<open>What repairing does\<close>

text \<open>
  The buffer that was read is the buffer of the block, so a repair writes back the bytes it
  found wrong, and counts the block as repaired.
\<close>

lemma repair_keeps_corruption:
  assumes "d blocknr = Some bh" "length bh = bs" "aetherfs_verify_data_checksum bs bh \<noteq> Inr ()"
    "sh_mode sh \<noteq> SELF_HEAL_DISABLED" "sh_mode sh \<noteq> SELF_HEAL_QUARANTINE"
  shows "aetherfs_self_heal_repair_on_read bs True bh blocknr (Some (Heal sh)) d =
    Some (Inr (), Some (Heal (sh\<lparr>sh_corruption_count := sh_corruption_count sh + 1, sh_repair_count := sh_repair_count sh + 1\<rparr>)), d)"
proof -
  have "mem_put 0 (take bs bh) bh = bh"
    using assms(2) by (simp add: mem_put_def)
  then show ?thesis
    using assms by (simp add: aetherfs_self_heal_repair_on_read_def Let_def fun_upd_idem)
qed

text \<open>A quarantined extent has lost its first block.\<close>

lemma quarantine_block:
  assumes "d st = Some b" "st \<noteq> 0" "n \<noteq> 0" "16 \<le> bs"
  obtains q where "aetherfs_extent_quarantine bs st n d = (Inr (), d(st \<mapsto> q))" "get64 0 q = st" "get32 8 q = n" "drop 16 q = replicate (bs - 16) 0"
proof
  show "aetherfs_extent_quarantine bs st n d = (Inr (), d(st \<mapsto> mem_put 12 (le32 0x51434152) (mem_put 8 (le32 n) (mem_put 0 (le64 st) (replicate bs 0)))))"
    using assms(1-3) by (simp add: aetherfs_extent_quarantine_def)
qed (use assms(4) in \<open>simp_all add: mem_simps\<close>)

text \<open>Only one of the three can use the private pointer at a time.\<close>

lemma device_info_replaces:
  assumes "aetherfs_device_info_init True q n p = (r, p')"
  shows "aetherfs_scrub_start now p' = None" "aetherfs_trim_all_free discard p' = None"
    "aetherfs_self_heal_repair_on_read bs uptodate bh blocknr p' d = None"
  using assms by (auto simp: aetherfs_device_info_init_def aetherfs_scrub_start_def aetherfs_trim_all_free_def aetherfs_self_heal_repair_on_read_def)

lemma space_used_as_device: "aetherfs_alloc_init_context cpu n sz (Some (Space fsi)) = None"
  by (simp add: aetherfs_alloc_init_context_def Let_def)

section \<open>Groups\<close>

lemma select_ag_in_range:
  assumes "0 < s_groups_k info"
  obtains ag where "aetherfs_select_ag_for_allocation cpu ctx info = Some ag" "unat ag < unat (s_groups_k info)"
proof (cases "preferred_ag ctx > 0 \<and> ucast (preferred_ag ctx) < s_groups_k info")
  case True
  then have "aetherfs_select_ag_for_allocation cpu ctx info = Some (preferred_ag ctx)"
    by (simp add: aetherfs_select_ag_for_allocation_def)
  moreover have "unat (preferred_ag ctx) < unat (s_groups_k info)"
    using True by (simp add: word_less_nat_alt unat_ucast_u64)
  ultimately show ?thesis
    by (rule that)
next
  case False
  let ?n = "cpu + ucast (hotness ctx)" and ?g = "s_groups_k info"
  have g: "0 < unat ?g"
    using assms by (simp add: unat_gt_0)
  have "unat (ucast ?n mod ?g) = unat ?n mod unat ?g"
    by (simp add: unat_mod unat_ucast_u64)
  moreover have "unat ?n mod unat ?g \<le> unat ?n"
    by simp
  moreover have "unat ?n < 2 ^ 32"
    using unsigned_less [of ?n, where ?'a = nat] by simp
  ultimately have "unat (ucast (ucast ?n mod ?g :: u64) :: u32) = unat ?n mod unat ?g"
    by (subst unat_ucast_u32_small) (linarith, assumption)
  then have "unat (ucast (ucast ?n mod ?g :: u64) :: u32) < unat ?g"
    using g by simp
  moreover have "aetherfs_select_ag_for_allocation cpu ctx info = Some (ucast (ucast ?n mod ?g))"
    using False assms by (auto simp: aetherfs_select_ag_for_allocation_def)
  ultimately show ?thesis
    using that by blast
qed

text \<open>Discarding the free space discards every block of every group, the ones in use as well.\<close>

lemma trim_discards_used:
  assumes "wf_space fsi" "b \<in> in_use fsi"
  obtains ts st n where "aetherfs_trim_all_free True (Some (Space fsi)) = Some ts" "(st, n) \<in> set ts" "unat st \<le> b" "b < unat st + unat n"
proof -
  obtain a p where ap: "a < length (fs_ag_bitmaps fsi)" "p < 32768" "b = 7 + a * 2097152 + p"
    using assms(2) by (auto simp: in_use_def block_of_def)
  have n: "length (fs_ag_bitmaps fsi) \<le> 2047" "unat (fs_ag_count fsi) = length (fs_ag_bitmaps fsi)"
    using assms(1) by (auto simp: wf_space_def word_of_length)
  let ?st = "AETHERFS_DATA_START_BLOCK_k + of_nat a * AETHERFS_BLOCKS_PER_GROUP_k"
  have "?st = of_nat (7 + a * 2097152)"
    by (simp add: AETHERFS_DATA_START_BLOCK_k_def AETHERFS_BLOCKS_PER_GROUP_k_def)
  moreover have "7 + a * 2097152 < 2 ^ 32"
    using ap(1) n(1) by simp
  ultimately have "unat ?st = 7 + a * 2097152"
    by (simp only: word_of_length)
  then have st: "unat (ucast ?st :: u64) = 7 + a * 2097152"
    by (simp only: unat_ucast_u64)
  have len: "unat (ucast AETHERFS_BLOCKS_PER_GROUP_k :: u64) = 2097152" "ucast AETHERFS_BLOCKS_PER_GROUP_k \<noteq> (0 :: u64)"
    by (simp_all add: AETHERFS_BLOCKS_PER_GROUP_k_def)
  show ?thesis
  proof (rule that)
    show "(ucast ?st, ucast AETHERFS_BLOCKS_PER_GROUP_k) \<in> set (concat (map (\<lambda>ag. aetherfs_trim_device True
        (ucast (AETHERFS_DATA_START_BLOCK_k + of_nat ag * AETHERFS_BLOCKS_PER_GROUP_k)) (ucast AETHERFS_BLOCKS_PER_GROUP_k))
      [0..<unat (fs_ag_count fsi)]))"
      using ap(1) n(2) len(2) by (auto simp: aetherfs_trim_device_def)
  qed (use ap st len in \<open>simp_all add: aetherfs_trim_all_free_def\<close>)
qed

end
