(* ===== verification/Kernel_Dirent.thy ===== *)
theory Kernel_Dirent
  imports Kernel_Base
begin

text \<open>
  Directory operations and inodes of the module (\<open>kernel/dir.c\<close>, \<open>kernel/inode.c\<close>).  All
  entries of all directories lie in one block, the one the superblock calls the root inode.  An
  entry is 14 bytes (inode number, length of the record, length of the name, type, checksum)
  and the name.  The walk over the block follows the record lengths; it does not end at a
  record of length 0, and it leaves the buffer when a record is too long.  Both are the outcome
  None.
\<close>

section \<open>The block of entries\<close>

definition AETHERFS_DIR_REC_LEN_k :: "nat \<Rightarrow> nat" where
  "AETHERFS_DIR_REC_LEN_k name_len = unat (of_nat ((14 + name_len + 3) div 4 * 4) :: u16)"

definition rec_len_at :: "byte list \<Rightarrow> nat \<Rightarrow> nat" where
  "rec_len_at b i = unat (get16 (i + 8) b)"

definition name_len_at :: "byte list \<Rightarrow> nat \<Rightarrow> nat" where
  "name_len_at b i = unat (get16 (i + 10) b)"

definition name_at :: "byte list \<Rightarrow> nat \<Rightarrow> byte list" where
  "name_at b i = mem_get (i + 14) (name_len_at b i) b"

text \<open>The loop of the three functions: the first offset where the test holds.\<close>

partial_function (option) entry_loop :: "(nat \<Rightarrow> bool option) \<Rightarrow> byte list \<Rightarrow> nat \<Rightarrow> nat \<Rightarrow> nat option option" where
  "entry_loop test b b_size i =
    (if i < b_size then
       case test i of
         None \<Rightarrow> None
       | Some found \<Rightarrow>
           if found then Some (Some i)
           else if length b < i + 10 then None
           else entry_loop test b b_size (i + rec_len_at b i)
     else Some None)"

declare entry_loop.simps [code]

definition free_test :: "byte list \<Rightarrow> nat \<Rightarrow> nat \<Rightarrow> nat \<Rightarrow> bool option" where
  "free_test b b_size namelen i =
    (if length b < i + 8 then None else Some (get64 i b = 0 \<and> i + AETHERFS_DIR_REC_LEN_k namelen \<le> b_size))"

definition name_test :: "byte list \<Rightarrow> byte list \<Rightarrow> nat \<Rightarrow> bool option" where
  "name_test b name i =
    (if length b < i + 8 then None
     else if get64 i b = 0 then Some False
     else if length b < i + 12 then None
     else if name_len_at b i \<noteq> length name then Some False
     else if length b < i + 14 + length name then None
     else Some (mem_get (i + 14) (length name) b = name))"

definition put_entry :: "nat \<Rightarrow> u64 \<Rightarrow> byte list \<Rightarrow> byte list \<Rightarrow> byte list" where
  "put_entry i ino name b =
    mem_put (i + 14) name (mem_put (i + 12) [0] (mem_put (i + 10) (le16 (of_nat (length name))) (mem_put i (le64 ino) b)))"

definition aetherfs_add_entry :: "byte list \<Rightarrow> u64 \<Rightarrow> disk \<Rightarrow> sb_info \<Rightarrow> (unit result \<times> disk \<times> sb_info) option" where
  "aetherfs_add_entry name ino d info =
    (if length name > 255 then Some (Inl ENAMETOOLONG, d, info)
     else case d (s_root_inode_k info) of
       None \<Rightarrow> Some (Inl EIO, d, info)
     | Some b \<Rightarrow>
         (case entry_loop (free_test b (unat (s_blocksize_k info)) (length name)) b (unat (s_blocksize_k info)) 0 of
            None \<Rightarrow> None
          | Some None \<Rightarrow> Some (Inl EINVAL, d, info)
          | Some (Some i) \<Rightarrow>
              if length b < i + 14 + length name then None
              else Some (Inr (), d(s_root_inode_k info \<mapsto> put_entry i ino name b), info\<lparr>s_dirty_k := True\<rparr>)))"

definition aetherfs_delete_entry :: "byte list \<Rightarrow> disk \<Rightarrow> sb_info \<Rightarrow> (unit result \<times> disk) option" where
  "aetherfs_delete_entry name d info =
    (case d (s_root_inode_k info) of
       None \<Rightarrow> Some (Inl EIO, d)
     | Some b \<Rightarrow>
         (case entry_loop (name_test b name) b (unat (s_blocksize_k info)) 0 of
            None \<Rightarrow> None
          | Some None \<Rightarrow> Some (Inl ENOENT, d)
          | Some (Some i) \<Rightarrow> Some (Inr (), d(s_root_inode_k info \<mapsto> mem_put i (le64 0) b))))"

section \<open>Inodes\<close>

record vnode =
  vn_mode :: u32
  vn_uid :: u32
  vn_gid :: u32
  vn_nlink :: u32
  vn_size :: u64
  vn_blocks :: u64
  vn_atime :: u64
  vn_ctime :: u64
  vn_mtime :: u64
  vn_flags :: u32
  vn_extent_root :: u64
  vn_dirty :: bool

text \<open>The inodes in memory, by their numbers, with the device and the superblock.\<close>

record vfs =
  v_disk :: disk
  v_info :: sb_info
  v_inodes :: "u64 \<Rightarrow> vnode option"

definition AETHERFS_ROOT_INO_k :: u64 where "AETHERFS_ROOT_INO_k = 16"

text \<open>
  Reading an inode.  The structure has 4144 bytes.  The number of inodes in a block, which the
  code takes from a macro without its argument, and the number of inodes in the superblock are
  arguments.
\<close>

definition raw_vnode :: "byte list \<Rightarrow> vnode" where
  "raw_vnode m = \<lparr>vn_mode = ucast (get16 0 m), vn_uid = get32 4 m, vn_gid = get32 8 m, vn_nlink = ucast (get16 2 m), vn_size = get64 16 m,
    vn_blocks = get64 24 m, vn_atime = get64 32 m, vn_ctime = get64 40 m, vn_mtime = get64 48 m, vn_flags = get32 68 m,
    vn_extent_root = get64 56 m, vn_dirty = False\<rparr>"

definition aetherfs_iget :: "nat \<Rightarrow> u32 \<Rightarrow> bool \<Rightarrow> u64 \<Rightarrow> vfs \<Rightarrow> (u64 result \<times> vfs) option" where
  "aetherfs_iget per_block inodes_count memory ino s =
    (case v_inodes s ino of
       Some _ \<Rightarrow> Some (Inr ino, s)
     | None \<Rightarrow>
         if \<not> memory then Some (Inl ENOMEM, s)
         else if ino < AETHERFS_ROOT_INO_k \<or> ino > ucast inodes_count then Some (Inl EINVAL, s)
         else if per_block = 0 then None
         else case v_disk s (of_nat (unat ino div per_block)) of
           None \<Rightarrow> Some (Inl EIO, s)
         | Some b \<Rightarrow>
             let off = unat ino mod per_block * 4144 in
             if length b < off + 72 then None
             else Some (Inr ino, s\<lparr>v_inodes := (v_inodes s)(ino \<mapsto> raw_vnode (drop off b))\<rparr>))"

definition add_links :: "u32 \<Rightarrow> u64 \<Rightarrow> vfs \<Rightarrow> vfs" where
  "add_links n ino s = s\<lparr>v_inodes := (v_inodes s)(ino := map_option (\<lambda>v. v\<lparr>vn_nlink := vn_nlink v + n, vn_dirty := True\<rparr>) (v_inodes s ino))\<rparr>"

definition inc_nlink :: "u64 \<Rightarrow> vfs \<Rightarrow> vfs" where
  "inc_nlink ino s = s\<lparr>v_inodes := (v_inodes s)(ino := map_option (\<lambda>v. v\<lparr>vn_nlink := vn_nlink v + 1\<rparr>) (v_inodes s ino))\<rparr>"

text \<open>The user, the group and the time are arguments.\<close>

definition aetherfs_new_inode :: "bool \<Rightarrow> u32 \<Rightarrow> u32 \<Rightarrow> u64 \<Rightarrow> u64 \<Rightarrow> u32 \<Rightarrow> vfs \<Rightarrow> u64 result \<times> vfs" where
  "aetherfs_new_inode memory uid gid now dir mode s =
    (if \<not> S_ISREG_k mode \<and> \<not> S_ISDIR_k mode \<and> \<not> S_ISLNK_k mode \<and> \<not> S_ISCHR_k mode \<and> \<not> S_ISBLK_k mode then (Inl EINVAL, s)
     else
       let next = s_next_ino_k (v_info s);
           s = s\<lparr>v_info := (v_info s)\<lparr>s_next_ino_k := next + 1\<rparr>\<rparr>;
           ino = (if next < AETHERFS_ROOT_INO_k + 1 then AETHERFS_ROOT_INO_k + 1 else next) in
       if \<not> memory then (Inl ENOMEM, s)
       else
         let v = \<lparr>vn_mode = mode, vn_uid = uid, vn_gid = gid, vn_nlink = 1, vn_size = 0, vn_blocks = 0, vn_atime = now, vn_ctime = now,
               vn_mtime = now, vn_flags = 0, vn_extent_root = 0, vn_dirty = True\<rparr>;
             s = (if S_ISDIR_k mode then inc_nlink dir s else s) in
         (Inr ino, s\<lparr>v_inodes := (v_inodes s)(ino \<mapsto> v)\<rparr>))"

definition aetherfs_free_inode :: "int \<Rightarrow> u64 \<Rightarrow> vfs \<Rightarrow> vfs" where
  "aetherfs_free_inode i_count ino s =
    (if i_count > 1 then s else add_links 0 ino (s\<lparr>v_info := (v_info s)\<lparr>s_free_inodes_k := s_free_inodes_k (v_info s) + 1\<rparr>\<rparr>))"

section \<open>Directory operations\<close>

text \<open>
  A lookup adds what it found to the dentry: nothing, an inode, or the error of reading it.
\<close>

definition aetherfs_lookup :: "nat \<Rightarrow> u32 \<Rightarrow> bool \<Rightarrow> byte list \<Rightarrow> vfs \<Rightarrow> (u64 result option result \<times> vfs) option" where
  "aetherfs_lookup per_block inodes_count memory name s =
    (if length name > 255 then Some (Inl ENAMETOOLONG, s)
     else case v_disk s (s_root_inode_k (v_info s)) of
       None \<Rightarrow> Some (Inl EIO, s)
     | Some b \<Rightarrow>
         (case entry_loop (name_test b name) b (unat (s_blocksize_k (v_info s))) 0 of
            None \<Rightarrow> None
          | Some None \<Rightarrow> Some (Inr None, s)
          | Some (Some i) \<Rightarrow>
              map_option (\<lambda>(r, s). (Inr (Some r), s)) (aetherfs_iget per_block inodes_count memory (get64 i b) s)))"

definition add_entry :: "byte list \<Rightarrow> u64 \<Rightarrow> vfs \<Rightarrow> (unit result \<times> vfs) option" where
  "add_entry name ino s =
    map_option (\<lambda>(r, d, info). (r, s\<lparr>v_disk := d, v_info := info\<rparr>)) (aetherfs_add_entry name ino (v_disk s) (v_info s))"

definition delete_entry :: "byte list \<Rightarrow> vfs \<Rightarrow> (unit result \<times> vfs) option" where
  "delete_entry name s = map_option (\<lambda>(r, d). (r, s\<lparr>v_disk := d\<rparr>)) (aetherfs_delete_entry name (v_disk s) (v_info s))"

text \<open>Creating a file does not look at the result of adding the entry.\<close>

definition aetherfs_create :: "bool \<Rightarrow> u32 \<Rightarrow> u32 \<Rightarrow> u64 \<Rightarrow> u64 \<Rightarrow> byte list \<Rightarrow> u32 \<Rightarrow> vfs \<Rightarrow> (u64 result \<times> vfs) option" where
  "aetherfs_create memory uid gid now dir name mode s =
    (case aetherfs_new_inode memory uid gid now dir (0x8000 OR mode) s of
       (Inl e, s) \<Rightarrow> Some (Inl e, s)
     | (Inr ino, s) \<Rightarrow> map_option (\<lambda>(_, s). (Inr ino, add_links 0 ino s)) (add_entry name ino s))"

text \<open>The references to an inode in memory are not counted, so giving one back changes nothing.\<close>

definition aetherfs_mkdir :: "bool \<Rightarrow> u32 \<Rightarrow> u32 \<Rightarrow> u64 \<Rightarrow> u64 \<Rightarrow> byte list \<Rightarrow> u32 \<Rightarrow> vfs \<Rightarrow> (u64 result \<times> vfs) option" where
  "aetherfs_mkdir memory uid gid now dir name mode s =
    (case aetherfs_new_inode memory uid gid now dir (0x4000 OR mode) s of
       (Inl e, s) \<Rightarrow> Some (Inl e, s)
     | (Inr ino, s) \<Rightarrow>
         (case add_entry name ino s of
            None \<Rightarrow> None
          | Some (Inl e, s) \<Rightarrow> Some (Inl e, s)
          | Some (Inr _, s) \<Rightarrow> Some (Inr ino, add_links 1 dir s)))"

definition aetherfs_unlink :: "byte list \<Rightarrow> u64 \<Rightarrow> vfs \<Rightarrow> (unit result \<times> vfs) option" where
  "aetherfs_unlink name ino s =
    (case delete_entry name s of
       None \<Rightarrow> None
     | Some (Inl e, s) \<Rightarrow> Some (Inl e, s)
     | Some (Inr _, s) \<Rightarrow> Some (Inr (), add_links (- 1) ino s))"

definition aetherfs_rmdir :: "u64 \<Rightarrow> byte list \<Rightarrow> u64 \<Rightarrow> vfs \<Rightarrow> (unit result \<times> vfs) option" where
  "aetherfs_rmdir dir name ino s =
    (case delete_entry name s of
       None \<Rightarrow> None
     | Some (Inl e, s) \<Rightarrow> Some (Inl e, s)
     | Some (Inr _, s) \<Rightarrow> Some (Inr (), add_links (- 1) dir (add_links (- 1) ino s)))"

definition set_ctime :: "u64 \<Rightarrow> u64 \<Rightarrow> vfs \<Rightarrow> vfs" where
  "set_ctime now ino s = s\<lparr>v_inodes := (v_inodes s)(ino := map_option (\<lambda>v. v\<lparr>vn_ctime := now, vn_dirty := True\<rparr>) (v_inodes s ino))\<rparr>"

text \<open>
  A dentry is its name with the number of its inode, if it has one.  When the target exists its
  entry stays as it is.
\<close>

definition aetherfs_rename ::
  "u64 \<Rightarrow> u64 \<Rightarrow> byte list \<Rightarrow> u64 \<Rightarrow> u64 \<Rightarrow> byte list \<Rightarrow> u64 option \<Rightarrow> bool \<Rightarrow> vfs \<Rightarrow> (unit result \<times> vfs) option" where
  "aetherfs_rename now old_dir old_name old_ino new_dir new_name new_ino exchange s =
    (let s = (case new_ino of Some n \<Rightarrow> if exchange then add_links (- 1) n s else s | None \<Rightarrow> s) in
     case delete_entry old_name s of
       None \<Rightarrow> None
     | Some (Inl e, s) \<Rightarrow> Some (Inl e, s)
     | Some (Inr _, s) \<Rightarrow>
         let finish = (\<lambda>s.
               let s = set_ctime now old_ino s in
               (Inr (), if old_dir \<noteq> new_dir then add_links 1 new_dir (add_links (- 1) old_dir s) else s)) in
         (case new_ino of
            Some n \<Rightarrow> Some (finish (add_links (- 1) n s))
          | None \<Rightarrow>
              (case add_entry new_name old_ino s of
                 None \<Rightarrow> None
               | Some (Inr _, s) \<Rightarrow> Some (finish s)
               | Some (Inl _, s) \<Rightarrow> add_entry old_name old_ino s)))"

section \<open>Well-formed blocks\<close>

text \<open>The offsets of the records of a block, from one offset to the end.\<close>

fun chain :: "byte list \<Rightarrow> nat \<Rightarrow> nat \<Rightarrow> nat list \<Rightarrow> bool" where
  "chain b b_size i [] \<longleftrightarrow> i = b_size"
| "chain b b_size i (j # js) \<longleftrightarrow> j = i \<and> 14 \<le> rec_len_at b i \<and> i + rec_len_at b i \<le> b_size \<and>
    (get64 i b \<noteq> 0 \<longrightarrow> 14 + name_len_at b i \<le> rec_len_at b i) \<and> chain b b_size (i + rec_len_at b i) js"

definition live_entries :: "byte list \<Rightarrow> nat list \<Rightarrow> (byte list \<times> u64) list" where
  "live_entries b js = map (\<lambda>j. (name_at b j, get64 j b)) (filter (\<lambda>j. get64 j b \<noteq> 0) js)"

definition dir_map :: "byte list \<Rightarrow> nat list \<Rightarrow> byte list \<Rightarrow> u64 option" where
  "dir_map b js = map_of (live_entries b js)"

definition dir_ok :: "byte list \<Rightarrow> nat \<Rightarrow> nat list \<Rightarrow> bool" where
  "dir_ok b b_size js \<longleftrightarrow> length b = b_size \<and> chain b b_size 0 js \<and> distinct (map fst (live_entries b js))"

lemma chain_bounds:
  assumes "chain b n i js" "k \<in> set js"
  shows "i \<le> k \<and> 14 \<le> rec_len_at b k \<and> k + rec_len_at b k \<le> n \<and> (get64 k b \<noteq> 0 \<longrightarrow> 14 + name_len_at b k \<le> rec_len_at b k)"
  using assms by (induction js arbitrary: i) fastforce+

lemma chain_append:
  "chain b n i (xs @ j # ys) \<Longrightarrow> (\<forall>k \<in> set xs. k + rec_len_at b k \<le> j) \<and> (\<forall>k \<in> set ys. j + rec_len_at b j \<le> k)"
proof (induction xs arbitrary: i)
  case Nil
  then show ?case
    using chain_bounds by auto
next
  case (Cons x xs)
  have "i + rec_len_at b i \<le> j"
    using chain_bounds [of b n "i + rec_len_at b i" "xs @ j # ys" j] Cons.prems by simp
  then show ?case
    using Cons by auto
qed

lemma live_entries_append [simp]: "live_entries b (xs @ ys) = live_entries b xs @ live_entries b ys"
  by (simp add: live_entries_def)

lemma live_entries_Cons: "live_entries b (j # js) = (if get64 j b = 0 then [] else [(name_at b j, get64 j b)]) @ live_entries b js"
  by (simp add: live_entries_def)

section \<open>Changing one record\<close>

definition changes_record :: "nat \<Rightarrow> nat \<Rightarrow> byte list \<Rightarrow> byte list \<Rightarrow> bool" where
  "changes_record j r b b' \<longleftrightarrow> length b' = length b \<and> (\<forall>off n. off + n \<le> j \<or> j + r \<le> off \<longrightarrow> mem_get off n b' = mem_get off n b)"

lemma changes_record_fields:
  assumes "changes_record j r b b'" "k + rec_len_at b k \<le> j \<or> j + r \<le> k" "14 \<le> rec_len_at b k"
  shows "get64 k b' = get64 k b" "rec_len_at b' k = rec_len_at b k" "name_len_at b' k = name_len_at b k"
    "14 + name_len_at b k \<le> rec_len_at b k \<Longrightarrow> name_at b' k = name_at b k"
proof -
  have same: "mem_get off n b' = mem_get off n b" if "k \<le> off" "off + n \<le> k + rec_len_at b k" for off n
    using assms(1,2) that by (auto simp: changes_record_def)
  show "get64 k b' = get64 k b" "rec_len_at b' k = rec_len_at b k" and len: "name_len_at b' k = name_len_at b k"
    using assms(3) by (simp_all add: get64_def rec_len_at_def name_len_at_def get16_def same)
  show "name_at b' k = name_at b k" if "14 + name_len_at b k \<le> rec_len_at b k"
    using that by (simp add: name_at_def len same)
qed

lemma chain_change_from:
  assumes "changes_record j r b b'" "chain b n i js" "\<forall>k \<in> set js. k + rec_len_at b k \<le> j \<or> j + r \<le> k"
  shows "chain b' n i js"
  using assms(2,3)
proof (induction js arbitrary: i)
  case (Cons k js)
  then have "k = i" "14 \<le> rec_len_at b k" "k + rec_len_at b k \<le> j \<or> j + r \<le> k"
    by auto
  then show ?case
    using Cons changes_record_fields [OF assms(1), of k] by simp
qed simp

lemma chain_change:
  assumes "changes_record j (rec_len_at b j) b b'" "chain b n i (xs @ j # ys)" "rec_len_at b' j = rec_len_at b j"
    "get64 j b' \<noteq> 0 \<longrightarrow> 14 + name_len_at b' j \<le> rec_len_at b j"
  shows "chain b' n i (xs @ j # ys)"
  using assms(2) chain_append [OF assms(2)]
proof (induction xs arbitrary: i)
  case Nil
  have "chain b' n (j + rec_len_at b j) ys"
    by (rule chain_change_from [OF assms(1)]) (use Nil in auto)
  then show ?case
    using Nil assms(3,4) by simp
next
  case (Cons x xs)
  then have "14 \<le> rec_len_at b x" "x + rec_len_at b x \<le> j \<or> j + rec_len_at b j \<le> x"
    by auto
  then show ?case
    using Cons changes_record_fields [OF assms(1), of x] by simp
qed

lemma live_entries_change:
  assumes "changes_record j r b b'" "chain b n i js'" "set js \<subseteq> set js'" "\<forall>k \<in> set js. k + rec_len_at b k \<le> j \<or> j + r \<le> k"
  shows "live_entries b' js = live_entries b js"
proof -
  have "get64 k b' = get64 k b \<and> (get64 k b \<noteq> 0 \<longrightarrow> name_at b' k = name_at b k)" if "k \<in> set js" for k
    using changes_record_fields [OF assms(1), of k] chain_bounds [OF assms(2), of k] that assms(3,4) by auto
  then show ?thesis
    unfolding live_entries_def by (intro map_cong filter_cong) auto
qed

lemma record_change:
  assumes "dir_ok b n (xs @ j # ys)" "changes_record j (rec_len_at b j) b b'" "rec_len_at b' j = rec_len_at b j"
    "get64 j b' \<noteq> 0 \<longrightarrow> 14 + name_len_at b' j \<le> rec_len_at b j"
  shows "length b' = n" "chain b' n 0 (xs @ j # ys)" "live_entries b' xs = live_entries b xs" "live_entries b' ys = live_entries b ys"
proof -
  have ok: "chain b n 0 (xs @ j # ys)" "length b = n"
    using assms(1) by (simp_all add: dir_ok_def)
  note apart = chain_append [OF ok(1)]
  show "length b' = n" "chain b' n 0 (xs @ j # ys)"
    using ok(2) assms(2) chain_change [OF assms(2) ok(1) assms(3,4)] by (simp_all add: changes_record_def)
  show "live_entries b' xs = live_entries b xs" "live_entries b' ys = live_entries b ys"
    using live_entries_change [OF assms(2) ok(1)] apart by auto
qed

section \<open>The loops on well-formed blocks\<close>

lemma entry_loop_chain:
  assumes "chain b n i js" "length b = n" "\<forall>j \<in> set js. test j = Some (P j)"
  shows "entry_loop test b n i = Some (find P js)"
  using assms(1,3)
proof (induction js arbitrary: i)
  case Nil
  then show ?case
    by (subst entry_loop.simps) simp
next
  case (Cons j js)
  then have "j = i" "i < n" "i + 10 \<le> length b" "entry_loop test b n (i + rec_len_at b i) = Some (find P js)"
    using assms(2) by auto
  then show ?case
    using Cons.prems by (subst entry_loop.simps) simp
qed

lemma name_test_chain:
  assumes "chain b n 0 js" "length b = n" "j \<in> set js"
  shows "name_test b name j = Some (get64 j b \<noteq> 0 \<and> name_at b j = name)"
proof -
  note bounds = chain_bounds [OF assms(1,3)]
  have "name_at b j = name \<Longrightarrow> get64 j b \<noteq> 0 \<Longrightarrow> name_len_at b j = length name"
    using bounds assms(2) by (auto simp: name_at_def)
  then show ?thesis
    using bounds assms(2) by (auto simp: name_test_def name_at_def)
qed

lemma free_test_chain:
  assumes "chain b n 0 js" "length b = n" "j \<in> set js" "\<forall>k \<in> set js. get64 k b = 0 \<longrightarrow> AETHERFS_DIR_REC_LEN_k l \<le> rec_len_at b k"
  shows "free_test b n l j = Some (get64 j b = 0)"
  using chain_bounds [OF assms(1,3)] assms(2-4) by (force simp: free_test_def)

lemma find_live:
  "map_option (\<lambda>j. get64 j b) (find (\<lambda>j. get64 j b \<noteq> 0 \<and> name_at b j = name) js) = dir_map b js name"
  by (induction js) (auto simp: dir_map_def live_entries_def)

lemma find_splits:
  assumes "find P js = Some j"
  obtains xs ys where "js = xs @ j # ys" "P j" "\<forall>k \<in> set xs. \<not> P k"
  using assms unfolding find_Some_iff by (metis id_take_nth_drop in_set_conv_nth length_take min_less_iff_conj nth_take)

section \<open>The directory is a map\<close>

lemma map_of_middle:
  assumes "x \<notin> fst ` set xs" "x \<notin> fst ` set ys"
  shows "map_of (xs @ (x, v) # ys) = (map_of (xs @ ys))(x \<mapsto> v)" "map_of (xs @ ys) = (map_of (xs @ (x, v) # ys))(x := None)"
proof -
  show insert: "map_of (xs @ (x, v) # ys) = (map_of (xs @ ys))(x \<mapsto> v)"
    using assms(1) by (induction xs) (auto simp: fun_upd_twist)
  have "map_of (xs @ ys) x = None"
    using assms by (simp add: map_of_eq_None_iff)
  then show "map_of (xs @ ys) = (map_of (xs @ (x, v) # ys))(x := None)"
    unfolding insert by (simp add: fun_upd_idem)
qed

lemma delete_record:
  assumes "dir_ok b n js" "find (\<lambda>j. get64 j b \<noteq> 0 \<and> name_at b j = name) js = Some j"
  shows "dir_ok (mem_put j (le64 0) b) n js \<and> dir_map (mem_put j (le64 0) b) js = (dir_map b js)(name := None)"
proof -
  obtain xs ys where js: "js = xs @ j # ys" and hit: "get64 j b \<noteq> 0" "name_at b j = name"
    and first: "\<forall>k \<in> set xs. \<not> (get64 k b \<noteq> 0 \<and> name_at b k = name)"
    using find_splits [OF assms(2)] by metis
  have ok: "dir_ok b n (xs @ j # ys)"
    using assms(1) js by simp
  let ?b = "mem_put j (le64 0) b"
  have bounds: "14 \<le> rec_len_at b j" "j + rec_len_at b j \<le> length b"
    using chain_bounds [of b n 0 js j] assms(1) js by (auto simp: dir_ok_def)
  have change: "changes_record j (rec_len_at b j) b ?b"
    unfolding changes_record_def using bounds by (auto intro!: get_put_other)
  have at: "get64 j ?b = 0" "rec_len_at ?b j = rec_len_at b j"
    using bounds by (simp_all add: rec_len_at_def mem_simps)
  note new = record_change [OF ok change at(2)]
  have entries: "live_entries ?b js = live_entries b xs @ live_entries b ys"
    "live_entries b js = live_entries b xs @ (name, get64 j b) # live_entries b ys"
    using new(3,4) at(1) hit js by (simp_all add: live_entries_Cons)
  have "name \<notin> fst ` set (live_entries b xs)" "name \<notin> fst ` set (live_entries b ys)"
    using assms(1) entries(2) by (auto simp: dir_ok_def)
  then have "dir_map ?b js = (dir_map b js)(name := None)"
    unfolding dir_map_def entries by (rule map_of_middle(2))
  moreover have "dir_ok ?b n js"
    using new(1,2) at(1) assms(1) entries js by (auto simp: dir_ok_def)
  ultimately show ?thesis
    by blast
qed

lemma put_entry_fields:
  assumes "j + 14 + length name \<le> length b" "length name \<le> 255"
  shows "get64 j (put_entry j ino name b) = ino" "rec_len_at (put_entry j ino name b) j = rec_len_at b j"
    "name_len_at (put_entry j ino name b) j = length name" "name_at (put_entry j ino name b) j = name"
    "changes_record j (14 + length name) b (put_entry j ino name b)"
proof -
  have len: "unat (of_nat (length name) :: u16) = length name"
    using assms(2) by (simp add: half_of_length)
  show "get64 j (put_entry j ino name b) = ino" "rec_len_at (put_entry j ino name b) j = rec_len_at b j"
    and "name_len_at (put_entry j ino name b) j = length name"
    using assms(1) len by (simp_all add: put_entry_def rec_len_at_def name_len_at_def mem_simps)
  then show "name_at (put_entry j ino name b) j = name"
    using assms(1) by (simp add: name_at_def) (simp add: put_entry_def mem_simps)
  show "changes_record j (14 + length name) b (put_entry j ino name b)"
    unfolding changes_record_def
  proof (intro conjI allI impI)
    fix off n assume "off + n \<le> j \<or> j + (14 + length name) \<le> off"
    then show "mem_get off n (put_entry j ino name b) = mem_get off n b"
      using assms(1) by (elim disjE) (simp_all add: put_entry_def get_put_other)
  qed (use assms(1) in \<open>simp add: put_entry_def\<close>)
qed

lemma dir_rec_len: "l \<le> 255 \<Longrightarrow> 14 + l \<le> AETHERFS_DIR_REC_LEN_k l"
proof -
  assume l: "l \<le> 255"
  then have "unat (of_nat ((14 + l + 3) div 4 * 4) :: u16) = (14 + l + 3) div 4 * 4"
    by (intro half_of_length) simp
  then show ?thesis
    unfolding AETHERFS_DIR_REC_LEN_k_def by linarith
qed

lemma add_record:
  assumes "dir_ok b n js" "find (\<lambda>j. get64 j b = 0) js = Some j" "14 + length name \<le> rec_len_at b j" "length name \<le> 255" "ino \<noteq> 0"
    "dir_map b js name = None"
  shows "dir_ok (put_entry j ino name b) n js \<and> dir_map (put_entry j ino name b) js = (dir_map b js)(name \<mapsto> ino)"
proof -
  obtain xs ys where js: "js = xs @ j # ys" and free: "get64 j b = 0"
    using find_splits [OF assms(2)] by metis
  have ok: "dir_ok b n (xs @ j # ys)"
    using assms(1) js by simp
  let ?b = "put_entry j ino name b"
  have "j + rec_len_at b j \<le> length b"
    using chain_bounds [of b n 0 js j] assms(1) js by (auto simp: dir_ok_def)
  then have room: "j + 14 + length name \<le> length b"
    using assms(3) by simp
  note at = put_entry_fields [OF room assms(4), of ino]
  have change: "changes_record j (rec_len_at b j) b ?b"
    using at(5) assms(3) by (auto simp: changes_record_def)
  note new = record_change [OF ok change at(2)]
  have entries: "live_entries ?b js = live_entries b xs @ (name, ino) # live_entries b ys"
    "live_entries b js = live_entries b xs @ live_entries b ys"
    using new(3,4) at assms(3,5) free js by (simp_all add: live_entries_Cons)
  have "name \<notin> fst ` set (live_entries b xs)" "name \<notin> fst ` set (live_entries b ys)"
    using assms(6) entries(2) by (auto simp: dir_map_def map_of_eq_None_iff)
  then have "dir_map ?b js = (dir_map b js)(name \<mapsto> ino)" "distinct (map fst (live_entries ?b js))"
    using assms(1) map_of_middle(1) [of name "live_entries b xs" "live_entries b ys" ino] unfolding dir_map_def dir_ok_def entries by auto
  then show ?thesis
    using new(1,2) at(3) assms(3) js by (auto simp: dir_ok_def)
qed

text \<open>
  On a block whose free records have room for the name, the three functions are insertion,
  deletion and lookup in the map.
\<close>

definition dir_at :: "disk \<Rightarrow> sb_info \<Rightarrow> nat list \<Rightarrow> (byte list \<Rightarrow> u64 option) \<Rightarrow> bool" where
  "dir_at d info js m \<longleftrightarrow> (\<exists>b. d (s_root_inode_k info) = Some b \<and> dir_ok b (unat (s_blocksize_k info)) js \<and> dir_map b js = m)"

definition free_room :: "disk \<Rightarrow> sb_info \<Rightarrow> nat list \<Rightarrow> nat \<Rightarrow> bool" where
  "free_room d info js l \<longleftrightarrow> (\<exists>b. d (s_root_inode_k info) = Some b \<and> (\<exists>j \<in> set js. get64 j b = 0) \<and>
    (\<forall>j \<in> set js. get64 j b = 0 \<longrightarrow> AETHERFS_DIR_REC_LEN_k l \<le> rec_len_at b j))"

lemma add_entry_map:
  assumes "dir_at d info js m" "free_room d info js (length name)" "length name \<le> 255" "ino \<noteq> 0" "m name = None"
  obtains d' where "aetherfs_add_entry name ino d info = Some (Inr (), d', info\<lparr>s_dirty_k := True\<rparr>)" "dir_at d' info js (m(name \<mapsto> ino))"
    "\<forall>k. k \<noteq> s_root_inode_k info \<longrightarrow> d' k = d k"
proof -
  let ?n = "unat (s_blocksize_k info)"
  obtain b where b: "d (s_root_inode_k info) = Some b" "dir_ok b ?n js" "dir_map b js = m"
    using assms(1) by (auto simp: dir_at_def)
  have room: "\<exists>j \<in> set js. get64 j b = 0" "\<forall>k \<in> set js. get64 k b = 0 \<longrightarrow> AETHERFS_DIR_REC_LEN_k (length name) \<le> rec_len_at b k"
    using assms(2) b(1) by (auto simp: free_room_def)
  have "find (\<lambda>j. get64 j b = 0) js \<noteq> None"
    using room(1) by (auto simp: find_None_iff)
  then obtain j where j: "find (\<lambda>j. get64 j b = 0) js = Some j"
    by blast
  then have in_js: "j \<in> set js" "get64 j b = 0"
    using find_splits [OF j] by (metis in_set_conv_decomp)+
  have ok: "chain b ?n 0 js" "length b = ?n"
    using b(2) by (simp_all add: dir_ok_def)
  have "AETHERFS_DIR_REC_LEN_k (length name) \<le> rec_len_at b j"
    using room(2) in_js by blast
  then have fits: "14 + length name \<le> rec_len_at b j" "j + rec_len_at b j \<le> length b"
    using dir_rec_len [OF assms(3)] chain_bounds [OF ok(1) in_js(1)] ok(2) by linarith+
  have "\<forall>j \<in> set js. free_test b ?n (length name) j = Some (get64 j b = 0)"
    using free_test_chain [OF ok _ room(2)] by blast
  from entry_loop_chain [OF ok this] have loop: "entry_loop (free_test b ?n (length name)) b ?n 0 = Some (Some j)"
    using j by simp
  have add: "aetherfs_add_entry name ino d info =
      Some (Inr (), d(s_root_inode_k info \<mapsto> put_entry j ino name b), info\<lparr>s_dirty_k := True\<rparr>)"
    using b(1) loop fits assms(3) by (simp add: aetherfs_add_entry_def)
  moreover have "dir_at (d(s_root_inode_k info \<mapsto> put_entry j ino name b)) info js (m(name \<mapsto> ino))"
    using add_record [OF b(2) j fits(1) assms(3,4)] assms(5) b(3) by (simp add: dir_at_def)
  ultimately show thesis
    by (rule that) simp
qed

lemma name_loop:
  assumes "dir_ok b n js"
  shows "entry_loop (name_test b name) b n 0 = Some (find (\<lambda>j. get64 j b \<noteq> 0 \<and> name_at b j = name) js)"
  using assms entry_loop_chain [of b n 0 js] name_test_chain [of b n js] by (simp add: dir_ok_def)

lemma delete_entry_map:
  assumes "dir_at d info js m"
  shows "\<exists>d'. aetherfs_delete_entry name d info = Some (if m name = None then Inl ENOENT else Inr (), d') \<and>
    dir_at d' info js (m(name := None)) \<and> (\<forall>k. k \<noteq> s_root_inode_k info \<longrightarrow> d' k = d k)"
proof -
  let ?n = "unat (s_blocksize_k info)"
  obtain b where b: "d (s_root_inode_k info) = Some b" "dir_ok b ?n js" "dir_map b js = m"
    using assms(1) by (auto simp: dir_at_def)
  note loop = name_loop [OF b(2), of name] and hit = find_live [of b name js]
  show ?thesis
  proof (cases "find (\<lambda>j. get64 j b \<noteq> 0 \<and> name_at b j = name) js")
    case None
    then have "m name = None"
      using hit b(3) by simp
    then show ?thesis
      using b loop None by (auto simp: aetherfs_delete_entry_def dir_at_def fun_upd_idem)
  next
    case (Some j)
    then have "m name = Some (get64 j b)"
      using hit b(3) by simp
    then show ?thesis
      using b loop Some delete_record [OF b(2) Some] by (auto simp: aetherfs_delete_entry_def dir_at_def)
  qed
qed

lemma lookup_map:
  assumes "dir_at (v_disk s) (v_info s) js m" "length name \<le> 255"
  shows "aetherfs_lookup per_block inodes_count memory name s =
    (case m name of None \<Rightarrow> Some (Inr None, s)
     | Some ino \<Rightarrow> map_option (\<lambda>(r, s). (Inr (Some r), s)) (aetherfs_iget per_block inodes_count memory ino s))"
proof -
  let ?n = "unat (s_blocksize_k (v_info s))"
  obtain b where b: "v_disk s (s_root_inode_k (v_info s)) = Some b" "dir_ok b ?n js" "dir_map b js = m"
    using assms(1) by (auto simp: dir_at_def)
  note loop = name_loop [OF b(2), of name] and hit = find_live [of b name js, symmetric]
  show ?thesis
    using b(1) assms(2) loop hit unfolding b(3) [symmetric]
    by (cases "find (\<lambda>j. get64 j b \<noteq> 0 \<and> name_at b j = name) js") (simp_all add: aetherfs_lookup_def)
qed

section \<open>Renaming\<close>

definition dir_of :: "vfs \<Rightarrow> nat list \<Rightarrow> (byte list \<Rightarrow> u64 option) \<Rightarrow> bool" where
  "dir_of s js m \<longleftrightarrow> dir_at (v_disk s) (v_info s) js m"

text \<open>Every record of the block, free or not, has room for a name of this length.\<close>

definition all_room :: "vfs \<Rightarrow> nat list \<Rightarrow> nat \<Rightarrow> bool" where
  "all_room s js l \<longleftrightarrow> (\<exists>b. v_disk s (s_root_inode_k (v_info s)) = Some b \<and> (\<forall>j \<in> set js. AETHERFS_DIR_REC_LEN_k l \<le> rec_len_at b j))"

lemma links_keep_dir [simp]:
  "dir_of (add_links n ino s) js m = dir_of s js m" "all_room (add_links n ino s) js l = all_room s js l"
  "dir_of (set_ctime now ino s) js m = dir_of s js m"
  by (simp_all add: dir_of_def all_room_def add_links_def set_ctime_def)

lemma dir_map_nonzero: "dir_of s js m \<Longrightarrow> m name = Some ino \<Longrightarrow> ino \<noteq> 0"
  by (auto simp: dir_of_def dir_at_def dir_map_def live_entries_def dest!: map_of_SomeD)

lemma delete_entry_frees:
  assumes "dir_of s js m" "m name \<noteq> None" "all_room s js l"
  obtains s' where "delete_entry name s = Some (Inr (), s')" "dir_of s' js (m(name := None))" "free_room (v_disk s') (v_info s') js l"
proof -
  let ?n = "unat (s_blocksize_k (v_info s))"
  obtain b where b: "v_disk s (s_root_inode_k (v_info s)) = Some b" "dir_ok b ?n js" "dir_map b js = m"
    "\<forall>j \<in> set js. AETHERFS_DIR_REC_LEN_k l \<le> rec_len_at b j"
    using assms(1,3) by (auto simp: dir_of_def dir_at_def all_room_def)
  obtain j where j: "find (\<lambda>j. get64 j b \<noteq> 0 \<and> name_at b j = name) js = Some j"
    using assms(2) find_live [of b name js] b(3) by auto
  then obtain xs ys where js: "js = xs @ j # ys"
    by (rule find_splits)
  have ok: "chain b ?n 0 js" "length b = ?n"
    using b(2) by (simp_all add: dir_ok_def)
  let ?b = "mem_put j (le64 0) b" and ?s = "s\<lparr>v_disk := (v_disk s)(s_root_inode_k (v_info s) \<mapsto> mem_put j (le64 0) b)\<rparr>"
  have fits: "j + 14 \<le> length b"
    using chain_bounds [OF ok(1), of j] ok(2) js by simp
  have "delete_entry name s = Some (Inr (), ?s)"
    using b(1) name_loop [OF b(2), of name] j by (simp add: delete_entry_def aetherfs_delete_entry_def)
  moreover have "dir_of ?s js (m(name := None))"
    using delete_record [OF b(2) j] b(3) by (simp add: dir_of_def dir_at_def)
  moreover have "rec_len_at ?b k = rec_len_at b k" if "k \<in> set js" for k
  proof (cases "k = j")
    case True
    then show ?thesis
      using fits by (simp add: rec_len_at_def mem_simps)
  next
    case False
    then have "k \<in> set xs \<or> k \<in> set ys"
      using that js by auto
    then have "k + 14 \<le> j \<or> j + 14 \<le> k"
      using chain_append [of b ?n 0 xs j ys] chain_bounds [OF ok(1), of k] chain_bounds [OF ok(1), of j] ok(1) js by fastforce
    then show ?thesis
      using fits by (auto simp: rec_len_at_def mem_simps)
  qed
  then have "free_room (v_disk ?s) (v_info ?s) js l"
    using b(4) js fits by (auto simp: free_room_def mem_simps)
  ultimately show thesis
    by (rule that)
qed

lemma add_entry_dir:
  assumes "dir_of s js m" "m name = None \<and> ino \<noteq> 0 \<and> length name \<le> 255 \<and> free_room (v_disk s) (v_info s) js (length name)"
  shows "\<exists>s'. add_entry name ino s = Some (Inr (), s') \<and> dir_of s' js (m(name \<mapsto> ino))"
proof -
  obtain d' where "aetherfs_add_entry name ino (v_disk s) (v_info s) = Some (Inr (), d', (v_info s)\<lparr>s_dirty_k := True\<rparr>)"
    "dir_at d' (v_info s) js (m(name \<mapsto> ino))"
    using add_entry_map [OF assms(1) [unfolded dir_of_def]] assms(2) by metis
  then show ?thesis
    by (auto simp: add_entry_def dir_of_def dir_at_def)
qed

lemma delete_entry_dir:
  assumes "dir_of s js m"
  shows "\<exists>s'. delete_entry name s = Some (if m name = None then Inl ENOENT else Inr (), s') \<and> dir_of s' js (m(name := None))"
  using delete_entry_map [OF assms [unfolded dir_of_def], of name] by (auto simp: delete_entry_def dir_of_def)

lemma rename_new_name:
  assumes "dir_of s js m" "m old = Some ino \<and> m new = None \<and> length new \<le> 255 \<and> all_room s js (length new)"
  shows "\<exists>s'. aetherfs_rename now old_dir old ino new_dir new None exchange s = Some (Inr (), s') \<and> dir_of s' js ((m(old := None))(new \<mapsto> ino))"
proof -
  obtain s1 where s1: "delete_entry old s = Some (Inr (), s1)" "dir_of s1 js (m(old := None))" "free_room (v_disk s1) (v_info s1) js (length new)"
    using delete_entry_frees [OF assms(1)] assms(2) by (metis option.distinct(1))
  have "(m(old := None)) new = None \<and> ino \<noteq> 0 \<and> length new \<le> 255 \<and> free_room (v_disk s1) (v_info s1) js (length new)"
    using assms s1(3) dir_map_nonzero [OF assms(1)] by auto
  from add_entry_dir [OF s1(2) this] obtain s' where
    "add_entry new ino s1 = Some (Inr (), s')" "dir_of s' js ((m(old := None))(new \<mapsto> ino))"
    by blast
  then show ?thesis
    using s1(1) by (simp add: aetherfs_rename_def Let_def)
qed

text \<open>When the new name exists it keeps its inode, and the renamed file has no name any more.\<close>

lemma rename_existing_name:
  assumes "dir_of s js m" "m old = Some ino \<and> m new = Some n"
  shows "\<exists>s'. aetherfs_rename now old_dir old ino new_dir new (Some n) exchange s = Some (Inr (), s') \<and> dir_of s' js (m(old := None))"
proof -
  let ?s = "if exchange then add_links (- 1) n s else s"
  have at: "dir_at (v_disk ?s) (v_info ?s) js m"
    using assms(1) by (simp add: dir_of_def [symmetric])
  obtain d' where "aetherfs_delete_entry old (v_disk ?s) (v_info ?s) = Some (Inr (), d')" "dir_at d' (v_info ?s) js (m(old := None))"
    using delete_entry_map [OF at, of old] assms(2) by auto
  then have "delete_entry old ?s = Some (Inr (), ?s\<lparr>v_disk := d'\<rparr>)" "dir_of (?s\<lparr>v_disk := d'\<rparr>) js (m(old := None))"
    by (simp_all add: delete_entry_def dir_of_def)
  then show ?thesis
    by (simp add: aetherfs_rename_def Let_def)
qed

section \<open>Blocks that are not well-formed\<close>

text \<open>
  Adding an entry does not set the length of its record.  In a new block, which holds zeros, the
  walk gets the first entry in and never passes it again.
\<close>

lemma entry_loop_stuck:
  assumes "entry_loop test b n i = Some r" "rec_len_at b i = 0" "i < n"
  shows "test i = Some True"
  using assms
proof (induction test b n i r rule: entry_loop.raw_induct [rotated, consumes 1])
  case (1 f test b n i r)
  show ?case
  proof (rule ccontr)
    assume "test i \<noteq> Some True"
    then have "f test b n i = Some r"
      using 1(2-4) by (auto split: option.splits if_splits)
    then show False
      using 1 \<open>test i \<noteq> Some True\<close> by blast
  qed
qed

lemma add_entry_stuck:
  assumes "d (s_root_inode_k info) = Some b" "rec_len_at b 0 = 0" "get64 0 b \<noteq> 0" "0 < s_blocksize_k info" "length name \<le> 255"
  shows "aetherfs_add_entry name ino d info = None"
proof -
  let ?loop = "entry_loop (free_test b (unat (s_blocksize_k info)) (length name)) b (unat (s_blocksize_k info)) 0"
  have "0 < unat (s_blocksize_k info)"
    using assms(4) by (simp add: unat_gt_0)
  moreover have "free_test b (unat (s_blocksize_k info)) (length name) 0 \<noteq> Some True"
    using assms(3) by (simp add: free_test_def)
  ultimately have "?loop = None"
    using entry_loop_stuck [OF _ assms(2)] by (metis not_None_eq)
  then show ?thesis
    using assms(1,5) by (simp add: aetherfs_add_entry_def)
qed

lemma new_block_fields: "get64 0 (replicate 4096 0) = 0" "rec_len_at (replicate 4096 0) 0 = 0"
  by (simp_all add: get64_def rec_len_at_def get16_def mem_get_def numeral_eq_Suc)

lemma new_block_second_entry:
  assumes "d (s_root_inode_k info) = Some (replicate 4096 0)" "s_blocksize_k info = 4096" "length name \<le> 255" "ino \<noteq> 0" "length name' \<le> 255"
  shows "\<exists>d'. aetherfs_add_entry name ino d info = Some (Inr (), d', info\<lparr>s_dirty_k := True\<rparr>) \<and>
    aetherfs_add_entry name' ino' d' (info\<lparr>s_dirty_k := True\<rparr>) = None"
proof -
  let ?b = "replicate 4096 (0 :: byte)" and ?b' = "put_entry 0 ino name (replicate 4096 0)"
  have "(14 + length name + 3) div 4 * 4 \<le> 4096"
    using assms(3) by linarith
  then have "AETHERFS_DIR_REC_LEN_k (length name) \<le> 4096"
    using half_of_length [of "(14 + length name + 3) div 4 * 4"] by (simp add: AETHERFS_DIR_REC_LEN_k_def)
  then have "free_test ?b 4096 (length name) 0 = Some True"
    using new_block_fields(1) by (simp add: free_test_def)
  then have "entry_loop (free_test ?b 4096 (length name)) ?b 4096 0 = Some (Some 0)"
    by (subst entry_loop.simps) simp
  then have add: "aetherfs_add_entry name ino d info = Some (Inr (), d(s_root_inode_k info \<mapsto> ?b'), info\<lparr>s_dirty_k := True\<rparr>)"
    using assms(1-3) by (simp add: aetherfs_add_entry_def)
  have "get64 0 ?b' \<noteq> 0" "rec_len_at ?b' 0 = 0"
    using put_entry_fields [of 0 name ?b ino] assms(3,4) new_block_fields(2) by simp_all
  then have "aetherfs_add_entry name' ino' (d(s_root_inode_k info \<mapsto> ?b')) (info\<lparr>s_dirty_k := True\<rparr>) = None"
    using assms(2,5) by (intro add_entry_stuck [where b = ?b']) simp_all
  then show ?thesis
    using add by blast
qed

text \<open>A new directory adds two links to its parent.\<close>

lemma mkdir_links:
  assumes "aetherfs_mkdir memory uid gid now dir name mode s = Some (Inr ino, s')" "v_inodes s dir = Some v" "ino \<noteq> dir" "S_ISDIR_k (0x4000 OR mode)"
  shows "\<exists>v'. v_inodes s' dir = Some v' \<and> vn_nlink v' = vn_nlink v + 2"
proof -
  obtain s1 s2 where s1: "aetherfs_new_inode memory uid gid now dir (0x4000 OR mode) s = (Inr ino, s1)" "add_entry name ino s1 = Some (Inr (), s2)"
    "s' = add_links 1 dir s2"
    using assms(1) by (auto simp: aetherfs_mkdir_def split: prod.splits sum.splits option.splits)
  have "v_inodes s1 dir = Some (v\<lparr>vn_nlink := vn_nlink v + 1\<rparr>)"
    using s1(1) assms(2-4) by (auto simp: aetherfs_new_inode_def Let_def inc_nlink_def split: if_splits)
  moreover have "v_inodes s2 = v_inodes s1"
    using s1(2) by (auto simp: add_entry_def)
  ultimately show ?thesis
    using s1(3) by (simp add: add_links_def)
qed

section \<open>A block with one entry\<close>

text \<open>One record of 2048 bytes for the name \<open>a\<close> with inode 17, and a free one.\<close>

definition sample_block :: "byte list" where
  "sample_block = put_entry 0 17 [97] (mem_put 2056 (le16 2048) (mem_put 8 (le16 2048) (replicate 4096 0)))"

definition sample_vfs :: vfs where
  "sample_vfs = \<lparr>v_disk = [2 \<mapsto> sample_block], v_info = idle_sb, v_inodes = Map.empty\<rparr>"

lemma get_zeros: "get64 off (replicate n 0) = 0"
proof -
  have "of_le (replicate k 0) = (0 :: u64)" for k
    by (induction k) simp_all
  then show ?thesis
    by (simp add: get64_def mem_get_def)
qed

lemma sample_fields: "length sample_block = 4096" "get64 0 sample_block = 17" "get64 2048 sample_block = 0" "rec_len_at sample_block 0 = 2048"
  "rec_len_at sample_block 2048 = 2048" "name_len_at sample_block 0 = 1" "name_at sample_block 0 = [97]"
proof -
  let ?b = "mem_put 2056 (le16 2048) (mem_put 8 (le16 2048) (replicate 4096 0))"
  have len: "length ?b = 4096"
    by simp
  show "length sample_block = 4096"
    by (simp add: sample_block_def put_entry_def)
  show "get64 0 sample_block = 17" "rec_len_at sample_block 0 = 2048" "name_len_at sample_block 0 = 1" "name_at sample_block 0 = [97]"
    using put_entry_fields [of 0 "[97]" ?b 17] len by (simp_all add: sample_block_def rec_len_at_def mem_simps)
  show "get64 2048 sample_block = 0" "rec_len_at sample_block 2048 = 2048"
    by (simp_all add: sample_block_def put_entry_def rec_len_at_def mem_simps get_zeros)
qed

lemma sample_dir: "dir_of sample_vfs [0, 2048] [[97] \<mapsto> 17]" "all_room sample_vfs [0, 2048] 1" "free_room (v_disk sample_vfs) (v_info sample_vfs) [0, 2048] 1"
proof -
  have "AETHERFS_DIR_REC_LEN_k 1 = 16"
    by (simp add: AETHERFS_DIR_REC_LEN_k_def)
  then show "dir_of sample_vfs [0, 2048] [[97] \<mapsto> 17]" "all_room sample_vfs [0, 2048] 1"
    "free_room (v_disk sample_vfs) (v_info sample_vfs) [0, 2048] 1"
    using sample_fields
    by (simp_all add: dir_of_def dir_at_def dir_ok_def dir_map_def live_entries_def all_room_def free_room_def sample_vfs_def idle_sb_def)
qed

end
