(* ===== verification/Kernel_Super.thy ===== *)
theory Kernel_Super
  imports Kernel_Seal Kernel_Dirent
begin

text \<open>
  Mounting and the superblock of the module (\<open>kernel/super.c\<close>).  The superblock is the buffer
  of block 1: magic number at 0, block size at 8, number of blocks at 16, free blocks at 24,
  checksum at 52, root inode at 152.  The code names two of these fields differently than the
  structure in \<open>kernel/aetherfs.h\<close> does.
\<close>

section \<open>The superblock\<close>

definition AETHERFS_MAGIC_k :: u32 where "AETHERFS_MAGIC_k = 0x41455448"
definition AETHERFS_BLOCKS_PER_AG_k :: u64 where "AETHERFS_BLOCKS_PER_AG_k = 2097152"
definition AETHERFS_MOUNT_NOBARRIER :: u32 where "AETHERFS_MOUNT_NOBARRIER = 1"
definition AETHERFS_MOUNT_DEBUG :: u32 where "AETHERFS_MOUNT_DEBUG = 64"

text \<open>Both ways of writing, with and without a barrier, leave the same buffer.\<close>

definition aetherfs_sb_write_super :: "sb_info \<Rightarrow> disk \<Rightarrow> unit result \<times> disk" where
  "aetherfs_sb_write_super info d =
    (case d 1 of
       None \<Rightarrow> (Inl EINVAL, d)
     | Some es \<Rightarrow>
         let es = mem_put 24 (le64 (s_free_blocks_k info)) es;
             es = mem_put 52 (le32 (aetherfs_crc32_k (take 260 es))) es in
         (Inr (), d(1 \<mapsto> es)))"

definition aetherfs_sync_fs :: "bool \<Rightarrow> sb_info \<Rightarrow> disk \<Rightarrow> unit result \<times> disk" where
  "aetherfs_sync_fs wait info d = (Inr (), if wait then snd (aetherfs_sb_write_super info d) else d)"

text \<open>
  Writing an inode goes to the start of the block of the root inode, whatever the number of the
  inode.
\<close>

definition aetherfs_write_inode :: "u64 \<Rightarrow> vnode \<Rightarrow> sb_info \<Rightarrow> disk \<Rightarrow> (unit result \<times> disk) option" where
  "aetherfs_write_inode ino v info d =
    (if ino < AETHERFS_ROOT_INO_k then Some (Inl EINVAL, d)
     else case d (s_root_inode_k info) of
       None \<Rightarrow> Some (Inl EIO, d)
     | Some raw \<Rightarrow>
         if length raw < 56 then None
         else Some (Inr (), d(s_root_inode_k info \<mapsto>
           mem_put 48 (le64 (vn_mtime v)) (mem_put 40 (le64 (vn_ctime v)) (mem_put 32 (le64 (vn_atime v)) (mem_put 16 (le64 (vn_size v)) raw))))))"

text \<open>The flags are the new and the old read-only flag; the options of the module are an argument.\<close>

definition aetherfs_remount :: "u32 \<Rightarrow> bool \<Rightarrow> bool \<Rightarrow> sb_info \<Rightarrow> disk \<Rightarrow> sb_info \<times> disk" where
  "aetherfs_remount options rdonly was_rdonly info d =
    (let old_options = s_mount_opt_k info; info = info\<lparr>s_mount_opt_k := options\<rparr> in
     if rdonly = was_rdonly then (info, d)
     else if rdonly then (info, snd (aetherfs_sync_fs True info d))
     else (info\<lparr>s_mount_opt_k := s_mount_opt_k info OR old_options\<rparr>, d))"

record kstatfs =
  f_bsize :: u32
  f_blocks :: u64
  f_bfree :: u64
  f_bavail :: u64
  f_files :: u64
  f_ffree :: u64
  f_namelen :: u32

definition aetherfs_statfs :: "byte list \<Rightarrow> sb_info \<Rightarrow> kstatfs" where
  "aetherfs_statfs es info = \<lparr>f_bsize = get32 8 es, f_blocks = get64 16 es, f_bfree = s_free_blocks_k info, f_bavail = s_free_blocks_k info,
    f_files = get64 16 es div 512, f_ffree = s_free_inodes_k info, f_namelen = 255\<rparr>"

definition aetherfs_show_options :: "sb_info \<Rightarrow> string list" where
  "aetherfs_show_options info =
    (if s_mount_opt_k info AND AETHERFS_MOUNT_NOBARRIER \<noteq> 0 then ['',nobarrier''] else []) @
    (if s_mount_opt_k info AND AETHERFS_MOUNT_DEBUG \<noteq> 0 then ['',debug''] else [])"

text \<open>
  Mounting; the outcomes of allocating the information, the root inode and its dentry are
  arguments.  A failure to read and a wrong magic number both give EFBIG.
\<close>

definition aetherfs_fill_super :: "bool \<Rightarrow> bool \<Rightarrow> bool \<Rightarrow> u32 \<Rightarrow> disk \<Rightarrow> sb_info result" where
  "aetherfs_fill_super memory root dentry options d =
    (if \<not> memory then Inl ENOMEM
     else case d 1 of
       None \<Rightarrow> Inl EFBIG
     | Some es \<Rightarrow>
         if get32 0 es \<noteq> AETHERFS_MAGIC_k then Inl EFBIG
         else if \<not> root then Inl EACCES
         else if \<not> dentry then Inl ENOMEM
         else Inr \<lparr>s_blocksize_k = get32 8 es, s_blocks_count_k = get64 16 es, s_root_inode_k = get64 152 es,
           s_groups_k = get64 16 es div AETHERFS_BLOCKS_PER_AG_k, s_free_blocks_k = get64 24 es, s_free_inodes_k = 0, s_next_ino_k = 0,
           s_mount_opt_k = options, s_dirty_k = False\<rparr>)"

section \<open>Writing and mounting again\<close>

lemma write_super_block:
  assumes "d 1 = Some es" "264 \<le> length es"
  obtains es' where "aetherfs_sb_write_super info d = (Inr (), d(1 \<mapsto> es'))" "get64 24 es' = s_free_blocks_k info" "length es' = length es"
    "get32 0 es' = get32 0 es" "get32 8 es' = get32 8 es" "get64 16 es' = get64 16 es" "get64 152 es' = get64 152 es"
    "get32 52 es' = aetherfs_crc32_k (take 260 (mem_put 24 (le64 (s_free_blocks_k info)) es))"
    "sum_zeroed 52 72 es' = sum_zeroed 52 72 (mem_put 24 (le64 (s_free_blocks_k info)) es)"
proof
  let ?es = "mem_put 24 (le64 (s_free_blocks_k info)) es"
  show "aetherfs_sb_write_super info d = (Inr (), d(1 \<mapsto> mem_put 52 (le32 (aetherfs_crc32_k (take 260 ?es))) ?es))"
    using assms(1) by (simp add: aetherfs_sb_write_super_def Let_def)
qed (use assms(2) in \<open>simp_all add: mem_simps sum_zeroed_def mem_put_put\<close>)

text \<open>What is written is mounted again: the number of free blocks survives, as does the geometry.\<close>

lemma mount_after_write:
  assumes "d 1 = Some es" "264 \<le> length es" "aetherfs_fill_super True True True options d = Inr info" "aetherfs_sb_write_super info' d = (r, d')"
  shows "aetherfs_fill_super True True True options d' = Inr (info\<lparr>s_free_blocks_k := s_free_blocks_k info'\<rparr>)"
proof -
  obtain es' where es': "aetherfs_sb_write_super info' d = (Inr (), d(1 \<mapsto> es'))" "get64 24 es' = s_free_blocks_k info'"
    "get32 0 es' = get32 0 es" "get32 8 es' = get32 8 es" "get64 16 es' = get64 16 es" "get64 152 es' = get64 152 es"
    using write_super_block [of d es, OF assms(1,2)] by metis
  then have "d' 1 = Some es'"
    using assms(4) by auto
  then show ?thesis
    using assms(1,3) es' by (auto simp: aetherfs_fill_super_def split: if_splits)
qed

text \<open>
  The checksum written is that of 260 bytes with the old checksum among them; the verifier takes
  72 bytes with the field zeroed.  It accepts the superblock only where the two happen to agree.
\<close>

lemma written_super_verifies_iff:
  assumes "d 1 = Some es" "264 \<le> length es" "aetherfs_sb_write_super info d = (r, d')"
  shows "aetherfs_verify_superblock_checksum (d' 1) = Inr () \<longleftrightarrow>
    aetherfs_crc32_k (take 260 (mem_put 24 (le64 (s_free_blocks_k info)) es)) = sum_zeroed 52 72 (mem_put 24 (le64 (s_free_blocks_k info)) es)"
proof -
  obtain es' where "aetherfs_sb_write_super info d = (Inr (), d(1 \<mapsto> es'))"
    "get32 52 es' = aetherfs_crc32_k (take 260 (mem_put 24 (le64 (s_free_blocks_k info)) es))"
    "sum_zeroed 52 72 es' = sum_zeroed 52 72 (mem_put 24 (le64 (s_free_blocks_k info)) es)"
    using write_super_block [of d es, OF assms(1,2)] by metis
  then show ?thesis
    using assms(3) by (auto simp: aetherfs_verify_superblock_checksum_def)
qed

section \<open>Inodes over the directory\<close>

text \<open>
  The block of the root inode holds the directory entries.  After writing an inode, an entry
  that starts at offset 16 leads to the inode whose number is the size of that file.
\<close>

lemma write_inode_changes_entry:
  assumes "d (s_root_inode_k info) = Some b" "56 \<le> length b" "AETHERFS_ROOT_INO_k \<le> ino"
  shows "\<exists>b'. aetherfs_write_inode ino v info d = Some (Inr (), d(s_root_inode_k info \<mapsto> b')) \<and> get64 16 b' = vn_size v"
proof -
  have "get64 16 (mem_put 48 (le64 (vn_mtime v)) (mem_put 40 (le64 (vn_ctime v)) (mem_put 32 (le64 (vn_atime v))
      (mem_put 16 (le64 (vn_size v)) b)))) = vn_size v"
    using assms(2) by (simp add: mem_simps)
  then show ?thesis
    using assms by (auto simp: aetherfs_write_inode_def)
qed

end
