(* ===== verification/Kernel_Snapshot.thy ===== *)
theory Kernel_Snapshot
  imports Kernel_Dirent
begin

text \<open>
  Snapshots (\<open>kernel/snapshots.c\<close>).  A snapshot reference has 64 bytes: identifier, time, the
  roots of the inode, extent and metadata trees, reference count and flags.  The block of the
  checkpoint root, which the code takes from a field the superblock of the module does not have,
  is an argument.
\<close>

section \<open>Snapshot references\<close>

record tree_roots =
  t_generation :: u32
  t_extent_tree :: u64
  t_meta_tree :: u64

definition AETHERFS_F_IMMUTABLE_k :: u32 where "AETHERFS_F_IMMUTABLE_k = 0x0040"
definition AETHERFS_SNAP_READONLY :: u32 where "AETHERFS_SNAP_READONLY = 0x0001"

definition put_snapshot :: "u64 \<Rightarrow> u64 \<Rightarrow> u64 \<Rightarrow> u64 \<Rightarrow> u64 \<Rightarrow> bool \<Rightarrow> byte list \<Rightarrow> byte list" where
  "put_snapshot snap_id now root extent_tree meta_tree readonly b =
    mem_put 44 (le32 (if readonly then AETHERFS_SNAP_READONLY else 0)) (mem_put 40 (le32 1) (mem_put 32 (le64 meta_tree)
      (mem_put 24 (le64 extent_tree) (mem_put 16 (le64 root) (mem_put 8 (le64 now) (mem_put 0 (le64 snap_id) b))))))"

definition set_flags :: "(u32 \<Rightarrow> u32) \<Rightarrow> u64 \<Rightarrow> vfs \<Rightarrow> vfs" where
  "set_flags f ino s = s\<lparr>v_inodes := (v_inodes s)(ino := map_option (\<lambda>v. v\<lparr>vn_flags := f (vn_flags v)\<rparr>) (v_inodes s ino))\<rparr>"

definition aetherfs_snapshot_create ::
  "bool \<Rightarrow> u32 \<Rightarrow> u32 \<Rightarrow> u64 \<Rightarrow> u64 \<Rightarrow> u64 \<Rightarrow> bool \<Rightarrow> vfs \<Rightarrow> tree_roots \<Rightarrow> (unit result \<times> vfs \<times> tree_roots) option" where
  "aetherfs_snapshot_create memory uid gid now checkpoint_root dir readonly s t =
    (let t = t\<lparr>t_generation := t_generation t + 1\<rparr>; snap_id = ucast (t_generation t) in
     case aetherfs_new_inode memory uid gid now dir (0x4000 OR 0x1ED) s of
       (Inl e, s) \<Rightarrow> Some (Inl e, s, t)
     | (Inr ino, s) \<Rightarrow>
         let s = (if readonly then set_flags (\<lambda>f. f OR AETHERFS_F_IMMUTABLE_k) ino s else s) in
         (case v_disk s checkpoint_root of
            None \<Rightarrow> Some (Inl EIO, s, t)
          | Some b \<Rightarrow>
              if length b < 48 then None
              else Some (Inr (), s\<lparr>v_disk := (v_disk s)(checkpoint_root \<mapsto>
                put_snapshot snap_id now (s_root_inode_k (v_info s)) (t_extent_tree t) (t_meta_tree t) readonly b)\<rparr>, t)))"

definition aetherfs_snapshot_ro :: "u64 \<Rightarrow> vfs \<Rightarrow> vfs" where
  "aetherfs_snapshot_ro ino s = add_links 0 ino (set_flags (\<lambda>f. f OR AETHERFS_F_IMMUTABLE_k) ino s)"

definition aetherfs_snapshot_rw :: "u64 \<Rightarrow> vfs \<Rightarrow> vfs" where
  "aetherfs_snapshot_rw ino s = add_links 0 ino (set_flags (\<lambda>f. f AND NOT AETHERFS_F_IMMUTABLE_k) ino s)"

text \<open>The blocks that can be read, out of eight.\<close>

definition snapshot_blocks :: "u64 \<Rightarrow> disk \<Rightarrow> byte list list" where
  "snapshot_blocks root d = List.map_filter (\<lambda>i. d (root + of_nat i)) [0..<8]"

definition aetherfs_snapshot_list :: "u64 \<Rightarrow> disk \<Rightarrow> byte list list" where
  "aetherfs_snapshot_list root d = filter (\<lambda>b. get64 0 b \<noteq> 0) (snapshot_blocks root d)"

definition aetherfs_snapshot_rollback :: "u64 \<Rightarrow> u64 \<Rightarrow> vfs \<Rightarrow> tree_roots \<Rightarrow> unit result \<times> vfs \<times> tree_roots" where
  "aetherfs_snapshot_rollback root snap_id s t =
    (case find (\<lambda>b. get64 0 b = snap_id) (snapshot_blocks root (v_disk s)) of
       None \<Rightarrow> (Inl ENOENT, s, t)
     | Some b \<Rightarrow>
         (Inr (), s\<lparr>v_info := (v_info s)\<lparr>s_root_inode_k := get64 16 b\<rparr>\<rparr>, t\<lparr>t_extent_tree := get64 24 b, t_meta_tree := get64 32 b\<rparr>))"

section \<open>Rolling back\<close>

lemma put_snapshot_fields:
  assumes "48 \<le> length b"
  shows "get64 0 (put_snapshot i now r e m ro b) = i" "get64 16 (put_snapshot i now r e m ro b) = r"
    "get64 24 (put_snapshot i now r e m ro b) = e" "get64 32 (put_snapshot i now r e m ro b) = m" "length (put_snapshot i now r e m ro b) = length b"
  using assms by (simp_all add: put_snapshot_def mem_simps)

lemma snapshot_blocks_first: "d root = Some b \<Longrightarrow> \<exists>bs. snapshot_blocks root d = b # bs"
  by (simp add: snapshot_blocks_def upt_conv_Cons map_filter_simps)

text \<open>A snapshot is written to the first of the eight blocks.\<close>

lemma snapshot_create_block:
  assumes "aetherfs_snapshot_create memory uid gid now root dir ro s t = Some (Inr (), s', t')"
  obtains b where "v_disk s' root = Some b" "get64 0 b = ucast (t_generation t + 1)" "get64 16 b = s_root_inode_k (v_info s)"
    "get64 24 b = t_extent_tree t" "get64 32 b = t_meta_tree t" "t' = t\<lparr>t_generation := t_generation t + 1\<rparr>"
    "\<forall>k. k \<noteq> root \<longrightarrow> v_disk s' k = v_disk s k"
proof -
  obtain ino s1 where s1: "aetherfs_new_inode memory uid gid now dir (0x4000 OR 0x1ED) s = (Inr ino, s1)"
    using assms by (auto simp: aetherfs_snapshot_create_def Let_def split: prod.splits sum.splits)
  then have same: "v_disk s1 = v_disk s" "s_root_inode_k (v_info s1) = s_root_inode_k (v_info s)"
    by (auto simp: aetherfs_new_inode_def Let_def inc_nlink_def split: if_splits)
  let ?s = "if ro then set_flags (\<lambda>f. f OR AETHERFS_F_IMMUTABLE_k) ino s1 else s1"
  have keep: "v_disk ?s = v_disk s1" "v_info ?s = v_info s1"
    by (simp_all add: set_flags_def)
  obtain old where old: "v_disk s1 root = Some old" "48 \<le> length old"
    "s' = ?s\<lparr>v_disk := (v_disk s1)(root \<mapsto> put_snapshot (ucast (t_generation t + 1)) now (s_root_inode_k (v_info s1)) (t_extent_tree t) (t_meta_tree t) ro old)\<rparr>"
    "t' = t\<lparr>t_generation := t_generation t + 1\<rparr>"
    using assms s1 keep by (auto simp: aetherfs_snapshot_create_def Let_def split: option.splits if_splits)
  show thesis
    by (rule that [of "put_snapshot (ucast (t_generation t + 1)) now (s_root_inode_k (v_info s)) (t_extent_tree t) (t_meta_tree t) ro old"])
      (use old same put_snapshot_fields [OF old(2)] in simp_all)
qed

text \<open>Whatever happened since, rolling back to the last snapshot restores the roots of its time.\<close>

lemma snapshot_rollback_restores:
  assumes "aetherfs_snapshot_create memory uid gid now root dir ro s t = Some (Inr (), s', t')" "v_disk s2 root = v_disk s' root"
  shows "aetherfs_snapshot_rollback root (ucast (t_generation t')) s2 t2 =
    (Inr (), s2\<lparr>v_info := (v_info s2)\<lparr>s_root_inode_k := s_root_inode_k (v_info s)\<rparr>\<rparr>,
     t2\<lparr>t_extent_tree := t_extent_tree t, t_meta_tree := t_meta_tree t\<rparr>)"
proof -
  obtain b where b: "v_disk s' root = Some b" "get64 0 b = ucast (t_generation t + 1)" "get64 16 b = s_root_inode_k (v_info s)"
    "get64 24 b = t_extent_tree t" "get64 32 b = t_meta_tree t" "t' = t\<lparr>t_generation := t_generation t + 1\<rparr>"
    using snapshot_create_block [OF assms(1)] by metis
  obtain bs where "snapshot_blocks root (v_disk s2) = b # bs"
    using snapshot_blocks_first b(1) assms(2) by metis
  then show ?thesis
    using b by (simp add: aetherfs_snapshot_rollback_def)
qed

text \<open>The next snapshot takes the same block, and the one before is gone.\<close>

lemma snapshot_forgets:
  assumes "aetherfs_snapshot_create memory uid gid now root dir ro s t = Some (Inr (), s', t')"
    "\<forall>i \<in> {1..<8}. \<forall>b. v_disk s (root + of_nat i) = Some b \<longrightarrow> get64 0 b \<noteq> old" "old \<noteq> ucast (t_generation t + 1)"
  shows "aetherfs_snapshot_rollback root old s' t' = (Inl ENOENT, s', t')"
proof -
  obtain b where b: "v_disk s' root = Some b" "get64 0 b = ucast (t_generation t + 1)" "\<forall>k. k \<noteq> root \<longrightarrow> v_disk s' k = v_disk s k"
    using snapshot_create_block [OF assms(1)] by metis
  have "get64 0 c \<noteq> old" if "v_disk s' (root + of_nat i) = Some c" "i < 8" for i c
  proof (cases "root + of_nat i = root")
    case True
    then show ?thesis
      using that(1) b(1,2) assms(3) by simp
  next
    case False
    then have "i \<in> {1..<8}"
      using that(2) by (cases i) auto
    then show ?thesis
      using that(1) b(3) False assms(2) by auto
  qed
  then have "find (\<lambda>b. get64 0 b = old) (snapshot_blocks root (v_disk s')) = None"
    by (auto simp: find_None_iff snapshot_blocks_def List.map_filter_def)
  then show ?thesis
    by (simp add: aetherfs_snapshot_rollback_def)
qed

lemma snapshot_ro_rw:
  assumes "v_inodes s ino = Some v"
  shows "\<exists>v'. v_inodes (aetherfs_snapshot_rw ino (aetherfs_snapshot_ro ino s)) ino = Some v' \<and> vn_flags v' = vn_flags v AND NOT AETHERFS_F_IMMUTABLE_k"
  using assms by (simp add: aetherfs_snapshot_rw_def aetherfs_snapshot_ro_def set_flags_def add_links_def clear_after_set)

end
