(* ===== verification/Kernel_Compress.thy ===== *)
theory Kernel_Compress
  imports Kernel_File
begin

text \<open>
  Compression of buffers (\<open>kernel/compress.c\<close>).  The LZ4 and ZSTD libraries are a parameter:
  what a call stores at its destination and what it returns.  The destination is the buffer of
  block 0.
\<close>

section \<open>Compression\<close>

record codec_library =
  lz4_compress :: "byte list \<Rightarrow> nat \<Rightarrow> byte list \<times> int"
  lz4_decompress :: "byte list \<Rightarrow> nat \<Rightarrow> byte list \<times> int"
  zstd_compress :: "nat \<Rightarrow> byte list \<Rightarrow> int \<Rightarrow> byte list \<times> nat option"
  zstd_decompress :: "nat \<Rightarrow> byte list \<Rightarrow> byte list \<times> nat option"

record buffer =
  b_bytes :: "byte list"
  b_len :: nat

definition AETHERFS_COMPRESS_LZ4 :: int where "AETHERFS_COMPRESS_LZ4 = 1"
definition AETHERFS_COMPRESS_ZSTD :: int where "AETHERFS_COMPRESS_ZSTD = 2"

text \<open>The bytes stored, the return value, and the length afterwards.\<close>

definition aetherfs_compress_lz4 :: "codec_library \<Rightarrow> nat \<Rightarrow> byte list \<Rightarrow> byte list \<times> int \<times> nat" where
  "aetherfs_compress_lz4 lib dst_len src = (let (out, n) = lz4_compress lib src dst_len in (out, n, dst_len))"

definition aetherfs_decompress_lz4 :: "codec_library \<Rightarrow> nat \<Rightarrow> byte list \<Rightarrow> byte list \<times> int \<times> nat" where
  "aetherfs_decompress_lz4 lib dst_len src = (let (out, n) = lz4_decompress lib src dst_len in (out, n, dst_len))"

definition aetherfs_compress_zstd :: "codec_library \<Rightarrow> nat \<Rightarrow> byte list \<Rightarrow> int \<Rightarrow> byte list \<times> int \<times> nat" where
  "aetherfs_compress_zstd lib dst_len src level =
    (case zstd_compress lib dst_len src level of (out, None) \<Rightarrow> (out, - 5, dst_len) | (out, Some n) \<Rightarrow> (out, 0, n))"

definition aetherfs_decompress_zstd :: "codec_library \<Rightarrow> nat \<Rightarrow> byte list \<Rightarrow> byte list \<times> int \<times> nat" where
  "aetherfs_decompress_zstd lib dst_len src =
    (case zstd_decompress lib dst_len src of (out, None) \<Rightarrow> (out, - 5, dst_len) | (out, Some n) \<Rightarrow> (out, 0, n))"

text \<open>Storing at the start of the buffer of block 0, which must be large enough.\<close>

definition into_block_0 :: "byte list \<Rightarrow> byte list \<Rightarrow> disk \<Rightarrow> disk option" where
  "into_block_0 out old d = (if length out \<le> length old then Some (d(0 \<mapsto> mem_put 0 out old)) else None)"

definition aetherfs_compress :: "codec_library \<Rightarrow> int \<Rightarrow> int \<Rightarrow> buffer \<Rightarrow> disk \<Rightarrow> (unit result \<times> buffer \<times> disk) option" where
  "aetherfs_compress lib algorithm level bh d =
    (case d 0 of
       None \<Rightarrow> Some (Inl EIO, bh, d)
     | Some old \<Rightarrow>
         if algorithm \<noteq> AETHERFS_COMPRESS_LZ4 \<and> algorithm \<noteq> AETHERFS_COMPRESS_ZSTD then Some (Inl EINVAL, bh, d)
         else
           let orig_len = b_len bh; src = take orig_len (b_bytes bh);
               (out, err, comp_len) = (if algorithm = AETHERFS_COMPRESS_LZ4 then aetherfs_compress_lz4 lib orig_len src
                 else aetherfs_compress_zstd lib orig_len src level) in
           map_option (\<lambda>d.
             if err \<noteq> 0 \<or> comp_len \<ge> orig_len then (Inr (), bh, d)
             else (Inr (), bh\<lparr>b_bytes := mem_put 0 (take comp_len (mem_put 0 out old)) (b_bytes bh), b_len := comp_len\<rparr>, d))
             (into_block_0 out old d))"

text \<open>The result is the number the function returns; EIO is 5 and EINVAL is 22.\<close>

definition aetherfs_decompress :: "codec_library \<Rightarrow> int \<Rightarrow> buffer \<Rightarrow> disk \<Rightarrow> (int \<times> buffer \<times> disk) option" where
  "aetherfs_decompress lib algorithm bh d =
    (case d 0 of
       None \<Rightarrow> Some (- 5, bh, d)
     | Some old \<Rightarrow>
         if algorithm \<noteq> AETHERFS_COMPRESS_LZ4 \<and> algorithm \<noteq> AETHERFS_COMPRESS_ZSTD then Some (- 22, bh, d)
         else
           let src = take (b_len bh) (b_bytes bh);
               (out, err, decomp_len) = (if algorithm = AETHERFS_COMPRESS_LZ4 then aetherfs_decompress_lz4 lib (length old) src
                 else aetherfs_decompress_zstd lib (length old) src) in
           case into_block_0 out old d of
             None \<Rightarrow> None
           | Some d \<Rightarrow>
               if err \<noteq> 0 then Some (err, bh, d)
               else if length (b_bytes bh) < decomp_len then None
               else Some (0, bh\<lparr>b_bytes := mem_put 0 (take decomp_len (mem_put 0 out old)) (b_bytes bh), b_len := decomp_len\<rparr>, d))"

definition aetherfs_should_compress :: "inode_info \<Rightarrow> nat \<Rightarrow> bool" where
  "aetherfs_should_compress ei sz \<longleftrightarrow> sz \<ge> 4096 \<and> ei_flags ei AND AETHERFS_F_COMPRESSED_k \<noteq> 0"

section \<open>What is compressed is read back\<close>

text \<open>What ZSTD promises: decompressing the output of a compression gives the input.\<close>

definition zstd_law :: "codec_library \<Rightarrow> bool" where
  "zstd_law lib \<longleftrightarrow> (\<forall>cap src level out n. zstd_compress lib cap src level = (out, Some n) \<longrightarrow> length out = n \<and> n \<le> cap \<and>
    (\<forall>cap'. length src \<le> cap' \<longrightarrow> zstd_decompress lib cap' out = (src, Some (length src))))"

lemma take_mem_put_0: "take (length out) (mem_put 0 out m) = out"
  by (simp add: mem_put_def)

lemma zstd_shrinks:
  assumes "aetherfs_compress lib AETHERFS_COMPRESS_ZSTD level bh d = Some (r, bh', d')" "zstd_law lib" "b_len bh' < b_len bh"
    "b_len bh \<le> length (b_bytes bh)"
  obtains out old where "zstd_compress lib (b_len bh) (take (b_len bh) (b_bytes bh)) level = (out, Some (length out))" "b_len bh' = length out"
    "b_bytes bh' = mem_put 0 out (b_bytes bh)" "d 0 = Some old" "d' = d(0 \<mapsto> mem_put 0 out old)" "length out \<le> length old"
proof -
  obtain old where old: "d 0 = Some old"
    using assms(1,3) by (cases "d 0") (auto simp: aetherfs_compress_def)
  obtain out n where z: "zstd_compress lib (b_len bh) (take (b_len bh) (b_bytes bh)) level = (out, n)"
    by fastforce
  show thesis
  proof (cases n)
    case None
    then show ?thesis
      using assms(1,3) old z
      by (auto simp: aetherfs_compress_def aetherfs_compress_zstd_def AETHERFS_COMPRESS_LZ4_def AETHERFS_COMPRESS_ZSTD_def into_block_0_def split: if_splits)
  next
    case (Some k)
    have k: "length out = k"
      using assms(2) z Some by (simp add: zstd_law_def)
    have "into_block_0 out old d = Some d'" "bh' = bh\<lparr>b_bytes := mem_put 0 (take k (mem_put 0 out old)) (b_bytes bh), b_len := k\<rparr>"
      using assms(1,3) old z Some
      by (auto simp: aetherfs_compress_def aetherfs_compress_zstd_def AETHERFS_COMPRESS_LZ4_def AETHERFS_COMPRESS_ZSTD_def split: if_splits)
    then show ?thesis
      using that [OF _ _ _ old] z Some k take_mem_put_0 [of out old] by (auto simp: into_block_0_def split: if_splits)
  qed
qed

lemma zstd_roundtrip:
  assumes "aetherfs_compress lib AETHERFS_COMPRESS_ZSTD level bh d = Some (r, bh', d')" "zstd_law lib" "b_len bh' < b_len bh"
    "b_len bh \<le> length (b_bytes bh)" "\<forall>old. d 0 = Some old \<longrightarrow> b_len bh \<le> length old"
  shows "\<exists>bh'' d''. aetherfs_decompress lib AETHERFS_COMPRESS_ZSTD bh' d' = Some (0, bh'', d'') \<and> b_len bh'' = b_len bh \<and>
    take (b_len bh) (b_bytes bh'') = take (b_len bh) (b_bytes bh)"
proof -
  let ?src = "take (b_len bh) (b_bytes bh)"
  obtain out old where out: "zstd_compress lib (b_len bh) ?src level = (out, Some (length out))" "b_len bh' = length out"
    "b_bytes bh' = mem_put 0 out (b_bytes bh)" "d 0 = Some old" "d' = d(0 \<mapsto> mem_put 0 out old)" "length out \<le> length old"
    using zstd_shrinks [OF assms(1-4)] .
  have len: "length ?src = b_len bh" "length out < b_len bh"
    using assms(3,4) out(2) by simp_all
  have old: "length (mem_put 0 out old) = length old" "b_len bh \<le> length old"
    using out(4,6) assms(5) by simp_all
  have "zstd_decompress lib (length old) out = (?src, Some (b_len bh))"
    using assms(2) out(1) old(2) len(1) unfolding zstd_law_def by metis
  moreover have "take (b_len bh') (b_bytes bh') = out"
    using out(2,3) by (simp add: take_mem_put_0)
  ultimately have "aetherfs_decompress lib AETHERFS_COMPRESS_ZSTD bh' d' = Some (0, bh'\<lparr>b_bytes := mem_put 0
      (take (b_len bh) (mem_put 0 ?src (mem_put 0 out old))) (b_bytes bh'), b_len := b_len bh\<rparr>, d'(0 \<mapsto> mem_put 0 ?src (mem_put 0 out old)))"
    using out(3,5) old len assms(4)
    by (simp add: aetherfs_decompress_def aetherfs_decompress_zstd_def AETHERFS_COMPRESS_LZ4_def AETHERFS_COMPRESS_ZSTD_def into_block_0_def)
  moreover have "take (b_len bh) (mem_put 0 ?src (mem_put 0 out old)) = ?src"
    using take_mem_put_0 [of ?src] len(1) by metis
  ultimately show ?thesis
    using take_mem_put_0 [of ?src "b_bytes bh'"] len(1) by auto
qed

text \<open>
  LZ4 returns the number of bytes, which is taken for an error: a buffer is never compressed with
  it, and decompressing returns the number and leaves the buffer as it was.
\<close>

lemma lz4_keeps_buffer:
  assumes "aetherfs_compress lib AETHERFS_COMPRESS_LZ4 level bh d = Some (r, bh', d')"
  shows "bh' = bh"
  using assms
  by (auto simp: aetherfs_compress_def aetherfs_compress_lz4_def into_block_0_def Let_def split: option.splits prod.splits if_splits)

lemma lz4_decompress_fails:
  assumes "aetherfs_decompress lib AETHERFS_COMPRESS_LZ4 bh d = Some (r, bh', d')" "d 0 = Some old"
    "lz4_decompress lib (take (b_len bh) (b_bytes bh)) (length old) = (out, n)" "0 < n"
  shows "r = n \<and> bh' = bh"
  using assms by (auto simp: aetherfs_decompress_def aetherfs_decompress_lz4_def into_block_0_def split: if_splits)

text \<open>The buffer of block 0 is overwritten.\<close>

lemma compress_overwrites_block_0:
  assumes "aetherfs_compress lib AETHERFS_COMPRESS_ZSTD level bh d = Some (Inr (), bh', d')"
    "zstd_compress lib (b_len bh) (take (b_len bh) (b_bytes bh)) level = (out, n)"
  shows "\<exists>old. d 0 = Some old \<and> d' 0 = Some (mem_put 0 out old)"
  using assms
  by (auto simp: aetherfs_compress_def aetherfs_compress_zstd_def into_block_0_def AETHERFS_COMPRESS_LZ4_def AETHERFS_COMPRESS_ZSTD_def Let_def
      split: option.splits if_splits)

end
