(* ===== verification/Kernel_Security.thy ===== *)
theory Kernel_Security
  imports Kernel_File
begin

text \<open>
  Keys, authenticated snapshots, verity and the audit trail (\<open>kernel/security.c\<close>).  The three
  lists are lists of records, new ones at the end; the random numbers, the time, the user and the
  process are arguments.
\<close>

section \<open>Records\<close>

record encryption_key =
  ek_id :: u64
  ek_creation_time :: u64
  ek_algo :: u32
  ek_refcount :: u32
  ek_key :: "byte list"

record authenticated_snapshot =
  as_id :: u64
  as_timestamp :: u64
  as_flags :: u32
  as_hmac_algo :: u32
  as_hmac :: "byte list"

record audit_event =
  ae_timestamp :: u64
  ae_ino :: u64
  ae_operation :: u32
  ae_uid :: u32
  ae_pid :: u32
  ae_path :: "byte list"
  ae_checksum :: u32

text \<open>An event in memory up to its last four bytes, the checksum and the fields that are not set being zero.\<close>

definition event_bytes :: "audit_event \<Rightarrow> byte list" where
  "event_bytes e = le64 (ae_timestamp e) @ le64 (ae_ino e) @ le64 0 @ le32 (ae_operation e) @ le32 0 @ le32 (ae_uid e) @ le32 (ae_pid e) @
    ae_path e @ replicate (256 - length (ae_path e)) 0 @ le32 0 @ replicate 8 0"

section \<open>Extent trees\<close>

definition aetherfs_extent_tree_lookup :: "u64 \<Rightarrow> u64 \<Rightarrow> (u64 \<times> u32 \<times> u32) result" where
  "aetherfs_extent_tree_lookup ino lstart = Inr (lstart, 1, 0)"

definition aetherfs_free_extent_tree_lookup :: "u64 \<Rightarrow> (u64 \<times> u64) result" where
  "aetherfs_free_extent_tree_lookup len = Inr (0, len)"

section \<open>Authenticated snapshots\<close>

definition AETHERFS_SNAP_FLAG_AUTHENTICATED :: u32 where "AETHERFS_SNAP_FLAG_AUTHENTICATED = 0x0001"

definition aetherfs_auth_snapshot_create ::
  "bool \<Rightarrow> u64 \<Rightarrow> byte list \<Rightarrow> u64 \<Rightarrow> byte list \<Rightarrow> authenticated_snapshot list \<Rightarrow> u64 result \<times> authenticated_snapshot list" where
  "aetherfs_auth_snapshot_create memory random hmac now key snaps =
    (if key = [] then (Inl EINVAL, snaps)
     else
       let n = (random AND 0x7FFFFFFFFFFFFFFF) OR 0x0100000000000000 in
       if \<not> memory then (Inl ENOMEM, snaps)
       else (Inr n, snaps @ [\<lparr>as_id = n, as_timestamp = now, as_flags = AETHERFS_SNAP_FLAG_AUTHENTICATED, as_hmac_algo = 1, as_hmac = hmac\<rparr>]))"

definition aetherfs_auth_snapshot_verify :: "u64 \<Rightarrow> byte list \<Rightarrow> authenticated_snapshot list \<Rightarrow> unit result" where
  "aetherfs_auth_snapshot_verify snapshot_id key snaps =
    (if key = [] then Inl EINVAL
     else case find (\<lambda>s. as_id s = snapshot_id) snaps of
       None \<Rightarrow> Inl ENOENT
     | Some s \<Rightarrow> if as_flags s AND AETHERFS_SNAP_FLAG_AUTHENTICATED \<noteq> 0 then Inr () else Inl ENOENT)"

section \<open>Verity\<close>

definition AETHERFS_F_VERITY :: u32 where "AETHERFS_F_VERITY = 0x0010"

definition aetherfs_verity_enable :: "inode_info \<Rightarrow> inode_info" where
  "aetherfs_verity_enable ei = ei\<lparr>ei_flags := ei_flags ei OR AETHERFS_F_VERITY\<rparr>"

definition aetherfs_verity_disable :: "inode_info \<Rightarrow> inode_info" where
  "aetherfs_verity_disable ei = ei\<lparr>ei_flags := ei_flags ei AND NOT AETHERFS_F_VERITY\<rparr>"

text \<open>No data is looked at.\<close>

definition aetherfs_verity_verify :: "inode_info \<Rightarrow> u64 \<Rightarrow> u64 \<Rightarrow> unit result" where
  "aetherfs_verity_verify ei pos count = (if ei_flags ei AND AETHERFS_F_VERITY = 0 then Inr () else Inr ())"

section \<open>Encryption keys\<close>

definition aetherfs_encryption_key_add ::
  "bool \<Rightarrow> u64 \<Rightarrow> u64 \<Rightarrow> byte list \<Rightarrow> u32 \<Rightarrow> encryption_key list \<Rightarrow> u64 result \<times> encryption_key list" where
  "aetherfs_encryption_key_add memory random now key algo keys =
    (if key = [] \<or> length key > 64 then (Inl EINVAL, keys)
     else if \<not> memory then (Inl ENOMEM, keys)
     else
       let n = (random AND 0x7FFFFFFFFFFFFFFF) OR 0x0200000000000000 in
       (Inr n, keys @ [\<lparr>ek_id = n, ek_creation_time = now, ek_algo = algo, ek_refcount = 1, ek_key = key\<rparr>]))"

fun aetherfs_encryption_key_remove :: "u64 \<Rightarrow> encryption_key list \<Rightarrow> unit result \<times> encryption_key list" where
  "aetherfs_encryption_key_remove key_id [] = (Inl ENOENT, [])"
| "aetherfs_encryption_key_remove key_id (k # keys) =
    (if ek_id k = key_id then
       let k = k\<lparr>ek_refcount := ek_refcount k - 1\<rparr> in
       if ek_refcount k = 0 then (Inr (), keys) else (Inl ENOENT, k # keys)
     else let (r, keys) = aetherfs_encryption_key_remove key_id keys in (r, k # keys))"

section \<open>Extended attributes and audit\<close>

definition aetherfs_xattr_set :: "byte list \<Rightarrow> byte list \<Rightarrow> unit result" where
  "aetherfs_xattr_set name value =
    (if value = [] then Inl EINVAL else if length value > 65536 then Inl E2BIG else if length name > 255 then Inl ERANGE else Inr ())"

definition aetherfs_xattr_get :: "byte list \<Rightarrow> nat \<Rightarrow> byte list result" where
  "aetherfs_xattr_get name sz = Inl ENODATA"

definition aetherfs_audit_log_event ::
  "bool \<Rightarrow> u64 \<Rightarrow> u32 \<Rightarrow> u32 \<Rightarrow> u64 \<Rightarrow> u32 \<Rightarrow> byte list \<Rightarrow> audit_event list \<Rightarrow> unit result \<times> audit_event list" where
  "aetherfs_audit_log_event memory now uid pid ino operation path events =
    (if \<not> memory then (Inl ENOMEM, events)
     else
       let e = \<lparr>ae_timestamp = now, ae_ino = ino, ae_operation = operation, ae_uid = uid, ae_pid = pid, ae_path = take 255 path, ae_checksum = 0\<rparr> in
       (Inr (), events @ [e\<lparr>ae_checksum := aetherfs_crc32_k (event_bytes e)\<rparr>]))"

section \<open>The key ring\<close>

lemma filter_other_ids: "n \<notin> ek_id ` set keys \<Longrightarrow> filter (\<lambda>k. ek_id k \<noteq> n) keys = keys"
  by (auto simp: filter_id_conv)

lemma key_remove_filter:
  assumes "\<forall>k \<in> set keys. ek_refcount k = 1" "distinct (map ek_id keys)"
  shows "aetherfs_encryption_key_remove n keys =
    (if n \<in> ek_id ` set keys then Inr () else Inl ENOENT, filter (\<lambda>k. ek_id k \<noteq> n) keys)"
  using assms
proof (induction keys)
  case (Cons k keys)
  show ?case
  proof (cases "ek_id k = n")
    case True
    moreover have "filter (\<lambda>k. ek_id k \<noteq> n) keys = keys"
      using Cons.prems(2) True by (simp add: filter_other_ids)
    ultimately show ?thesis
      using Cons.prems(1) by simp
  next
    case False
    then show ?thesis
      using Cons by auto
  qed
qed simp

text \<open>The keys on the ring all have one reference, and adding and removing one leaves the others.\<close>

lemma key_add_remove:
  assumes "\<forall>k \<in> set keys. ek_refcount k = 1" "distinct (map ek_id keys)"
    "aetherfs_encryption_key_add memory random now key algo keys = (Inr n, keys')" "n \<notin> ek_id ` set keys"
  shows "(\<forall>k \<in> set keys'. ek_refcount k = 1) \<and> distinct (map ek_id keys') \<and> aetherfs_encryption_key_remove n keys' = (Inr (), keys)"
proof -
  obtain k where k: "keys' = keys @ [k]" "ek_id k = n" "ek_refcount k = 1"
    using assms(3) by (auto simp: aetherfs_encryption_key_add_def Let_def split: if_splits)
  have ok: "\<forall>k \<in> set keys'. ek_refcount k = 1" "distinct (map ek_id keys')"
    using assms(1,2,4) k by auto
  have "filter (\<lambda>k. ek_id k \<noteq> n) keys' = keys"
    using assms(4) k by (simp add: filter_other_ids)
  then show ?thesis
    using ok key_remove_filter [OF ok, of n] k by simp
qed

lemma key_id_marked:
  assumes "aetherfs_encryption_key_add memory random now key algo keys = (Inr n, keys')"
  shows "bit n 57 \<and> \<not> bit n 63"
proof -
  have "n = (random AND 0x7FFFFFFFFFFFFFFF) OR 0x0200000000000000"
    using assms by (auto simp: aetherfs_encryption_key_add_def Let_def split: if_splits)
  moreover have "bit (0x0200000000000000 :: u64) 57" "\<not> bit (0x0200000000000000 :: u64) 63" "\<not> bit (0x7FFFFFFFFFFFFFFF :: u64) 63"
    by (simp_all add: bit_iff_odd)
  ultimately show ?thesis
    by (simp add: bit_simps)
qed

text \<open>A snapshot is verified under any key, not only under the one it was made with.\<close>

lemma auth_verify_any_key:
  assumes "aetherfs_auth_snapshot_create memory random hmac now key snaps = (Inr n, snaps')" "n \<notin> as_id ` set snaps" "other \<noteq> []"
  shows "aetherfs_auth_snapshot_verify n other snaps' = Inr ()"
proof -
  have "find (\<lambda>s. as_id s = n) snaps = None"
    using assms(2) by (auto simp: find_None_iff)
  then have "find (\<lambda>s. as_id s = n) (snaps @ [x]) = (if as_id x = n then Some x else None)" for x
    by (induction snaps) (auto split: if_splits)
  then show ?thesis
    using assms(1,3) by (auto simp: aetherfs_auth_snapshot_create_def aetherfs_auth_snapshot_verify_def AETHERFS_SNAP_FLAG_AUTHENTICATED_def
        Let_def split: if_splits)
qed

lemma verity_enable_disable: "ei_flags (aetherfs_verity_disable (aetherfs_verity_enable ei)) = ei_flags ei AND NOT AETHERFS_F_VERITY"
  by (simp add: aetherfs_verity_disable_def aetherfs_verity_enable_def clear_after_set)

text \<open>The path of an event is cut, so that it ends with a zero byte, and the event has 308 bytes before the last four.\<close>

lemma event_bytes_length: "length (ae_path e) \<le> 255 \<Longrightarrow> length (event_bytes e) = 308"
  by (simp add: event_bytes_def)

text \<open>An attribute that was set cannot be read.\<close>

lemma xattr_lost: "aetherfs_xattr_set name value = Inr () \<Longrightarrow> aetherfs_xattr_get name sz = Inl ENODATA"
  by (simp add: aetherfs_xattr_get_def)

end
