(* ===== verification/Kernel_Accel.thy ===== *)
theory Kernel_Accel
  imports Kernel_Base
begin

text \<open>
  The bitmap routines of \<open>kernel/x86_accel.c\<close>.  A bitmap is a list of 64-bit words.  The
  intrinsic for trailing zeros, which is declared nowhere, is a parameter, and the bitmaps have a
  word for every bit below the size.
\<close>

section \<open>Bitmaps\<close>

definition popcount :: "u64 \<Rightarrow> nat" where
  "popcount x = length (filter (bit x) [0..<64])"

definition aetherfs_popcount :: "bool \<Rightarrow> u64 \<Rightarrow> nat" where
  "aetherfs_popcount has_popcnt x = (if has_popcnt then popcount x else popcount x)"

definition aetherfs_count_free_bits :: "bool \<Rightarrow> u64 list \<Rightarrow> nat \<Rightarrow> nat" where
  "aetherfs_count_free_bits has_popcnt bitmap sz = (\<Sum>i \<leftarrow> [0..<(sz + 63) div 64]. aetherfs_popcount has_popcnt (NOT (bitmap ! i)))"

fun first_zero_loop :: "u64 list \<Rightarrow> nat \<Rightarrow> nat \<Rightarrow> nat" where
  "first_zero_loop [] sz i = sz"
| "first_zero_loop (w # ws) sz i =
    (if i < sz then (if NOT w \<noteq> 0 then i + popcount (NOT w) else first_zero_loop ws sz (i + 64)) else sz)"

definition bitmap_bit :: "u64 list \<Rightarrow> nat \<Rightarrow> bool" where
  "bitmap_bit bitmap i = bit (bitmap ! (i div 64)) (i mod 64)"

definition find_first_zero_bit :: "u64 list \<Rightarrow> nat \<Rightarrow> nat" where
  "find_first_zero_bit bitmap sz = (case find (\<lambda>i. \<not> bitmap_bit bitmap i) [0..<sz] of Some i \<Rightarrow> i | None \<Rightarrow> sz)"

definition aetherfs_find_first_zero_bit :: "(u64 list \<Rightarrow> nat \<Rightarrow> nat) \<Rightarrow> bool \<Rightarrow> bool \<Rightarrow> u64 list \<Rightarrow> nat \<Rightarrow> nat" where
  "aetherfs_find_first_zero_bit tzcnt has_tzcnt has_popcnt bitmap sz =
    (if has_tzcnt then tzcnt bitmap sz
     else if has_popcnt then first_zero_loop bitmap sz 0
     else find_first_zero_bit bitmap sz)"

section \<open>Counting\<close>

lemma filter_upt_add: "length (filter P [n..<n + k]) = length (filter (\<lambda>i. P (n + i)) [0..<k])"
proof -
  have "[n..<n + k] = map (\<lambda>i. i + n) [0..<k]"
    by (simp add: map_add_upt add.commute)
  then show ?thesis
    by (simp add: filter_map comp_def add.commute)
qed

text \<open>The free bits are the zero bits of the bitmap.\<close>

lemma count_free_bits:
  assumes "n \<le> length bitmap"
  shows "aetherfs_count_free_bits h bitmap (64 * n) = length (filter (\<lambda>i. \<not> bitmap_bit bitmap i) [0..<64 * n])"
  using assms
proof (induction n)
  case 0
  then show ?case
    by (simp add: aetherfs_count_free_bits_def)
next
  case (Suc n)
  have "popcount (NOT (bitmap ! n)) = length (filter (\<lambda>i. \<not> bitmap_bit bitmap (64 * n + i)) [0..<64])"
    unfolding popcount_def by (intro arg_cong [where f = length] filter_cong) (auto simp: bitmap_bit_def bit_simps)
  moreover have "[0..<64 * Suc n] = [0..<64 * n] @ [64 * n..<64 * n + 64]"
    by (metis mult_Suc_right add.commute le_add1 upt_add_eq_append le0)
  moreover have "aetherfs_count_free_bits h bitmap (64 * Suc n) = aetherfs_count_free_bits h bitmap (64 * n) + popcount (NOT (bitmap ! n))"
    by (simp add: aetherfs_count_free_bits_def aetherfs_popcount_def)
  ultimately show ?case
    using Suc filter_upt_add [of "\<lambda>i. \<not> bitmap_bit bitmap i" "64 * n" 64] by simp
qed

section \<open>Searching\<close>

text \<open>
  The search adds the number of zero bits of a word where it should add the position of the
  lowest: in an empty bitmap of one word it finds nothing, and in general it can give a bit
  that is set.
\<close>

lemma popcount_all: "popcount (NOT 0) = 64"
  by (simp add: popcount_def)

lemma first_zero_misses: "aetherfs_find_first_zero_bit tzcnt False True [0] 64 = 64" "find_first_zero_bit [0] 64 = 0"
proof -
  show "aetherfs_find_first_zero_bit tzcnt False True [0] 64 = 64"
    using popcount_all by (simp add: aetherfs_find_first_zero_bit_def)
  show "find_first_zero_bit [0] 64 = 0"
    by (simp add: find_first_zero_bit_def bitmap_bit_def upt_conv_Cons)
qed

text \<open>It is right about full bitmaps.\<close>

lemma first_zero_full: "\<forall>w \<in> set ws. w = NOT 0 \<Longrightarrow> first_zero_loop ws sz i = sz"
  by (induction ws arbitrary: i) auto

end
