(* ===== verification/Spec2Isabelle.thy ===== *)
theory Spec2Isabelle
  imports Tools_Sound Cli_Sound Samples Kernel_Percpu Kernel_Policy Kernel_Intent Kernel_Log Kernel_Dense Kernel_Reflink
    Kernel_Heal Kernel_Super Kernel_Snapshot Kernel_Compress Kernel_Security Kernel_Accel
begin

text \<open>
  AetherFS: the user-space tools and the kernel module.

  The repository has two programs that share an on-disk format.  The tools under
  \<open>src/aetherfsprogs/\<close> (one binary, \<open>aetherfs\<close>) format, inspect, mount and rebalance images and
  pools of images.  The module under \<open>src/kernel/\<close> is a collection of file system components
  with their own layouts of the same structures.  The development models both; the tools as
  functions on a small operating system, the module component by component.

  The operating system of the tools (theory Blockio).  A record of type \<open>world\<close> holds files
  by path, open descriptors, and a list of outcomes that the next system calls will have: complete,
  short, interrupted or failed.  An action takes a world to an error or a value and a new world
  (theory Prelude, with the monad and the rules for it).  Every theorem about the tools thus
  speaks about every sequence of short transfers, interruptions and errors, unless it asks for a
  machine without errors.

  Tools, from the bottom up.
  \<^item> Checksum: \<open>aetherfs_crc32c\<close> of the format header.  Linear algebra of the CRC step; it detects
    every change of at most four bytes (C12); it is not CRC-32C (C13).
  \<^item> Format: the structures of \<open>aetherfs_format.h\<close> as records with encoders, decoders and
    checksums.  A locale of codecs with an instance for every structure gives both round trips
    (C10, C11).
  \<^item> Blockio: \<open>aetherfs_read_all\<close>, \<open>aetherfs_write_all\<close> as loops over system calls (C8, C9).
  \<^item> Pool, Placement, Image_Store: members, masks and the placement of blocks under the profiles
    single, mirror, stripe, parity and tiered; \<open>aetherfs_image_read_block\<close> and
    \<open>aetherfs_image_write_block\<close>.  The block store is a locale, interpreted for a member and for
    the whole pool; C1 to C7 follow.
  \<^item> Image_Open, Image_Load: opening and closing images and pools, reading and writing their
    metadata.
  \<^item> Intervals, Image_Validate, Validate_Sound: \<open>aetherfs_image_validate\<close> with the interval lists,
    the coverage check, the checksum chains and the redundancy of pools (C14, C15).
  \<^item> Mkfs, Mkfs_Sound, Mkfs_Roundtrip, Mkfs_Total: formatting, what it touches, that a scrub
    accepts what it made, and that it succeeds on a machine without errors (C16 to C19).
  \<^item> Admin, Admin_Sound: scrub, health and forensics (C20, C21).
  \<^item> Mount, Mount_Sound: the mount command and its checks (C22 to C24).
  \<^item> Rebalance, Rebalance_Sound: rebalancing and the replacement of the image (C25 to C27).
  \<^item> Cli, Cli_Sound: the command line (C28, C29).
  \<^item> Tools_Sound, Samples: what spans several tools, and the concrete images and worlds that the
    witnesses use.

  The module.  A component is its state and one function per C function; locks make a function
  one step.  Buffers are byte lists, the device a partial map from block numbers to buffers
  (theory Kernel_Base, with the checksum of \<open>aetherfs.h\<close>, access to fields in memory and the
  simple allocator).  The result None of a function says that the code runs over the end of its
  memory, goes through a null pointer, divides by zero, uses memory as something it is not, or
  does not end.  Whether memory could be allocated is an argument, as are numbers the sources
  use and never define.  Names that the format of the tools uses as well have the suffix \<open>_k\<close>.
  \<^item> Kernel_Seal (\<open>invariants.c\<close>): checksums of all structures (C34).
  \<^item> Kernel_Btree (\<open>btree.c\<close>): the extent tree refines a map while it has room (C30); a full node
    loses extents.
  \<^item> Kernel_Dirent (\<open>dir.c\<close>, \<open>inode.c\<close>): directory entries and inodes; a well-formed block refines
    a map from names to inodes (C31), a new block does not.
  \<^item> Kernel_Balloc (\<open>balloc.c\<close>): the bitmap allocator, through a locale of allocators (C32, C33).
  \<^item> Kernel_Intent (\<open>journal.c\<close>), Kernel_Log (\<open>log.c\<close>): the intent log as a transition system with
    its type invariant (C35), transactions (C36), and the replay loop (C37).
  \<^item> Kernel_Policy (\<open>policy.c\<close>): the longest matching prefix (C38).
  \<^item> Kernel_Refcount, Kernel_Dense (\<open>dense.c\<close>, \<open>inline.c\<close>), Kernel_Reflink (\<open>reflink.c\<close>): a locale
    of reference-counted tables, interpreted for both deduplication tables (C39); inline files,
    packed attributes and tails; reflinks and chunks.
  \<^item> Kernel_Percpu (\<open>percpu.c\<close>): the stack of free blocks, and the journal lanes as interleavings
    of single memory accesses (C40), with the races they have.
  \<^item> Kernel_File (\<open>extent.c\<close>, \<open>data_modes.c\<close>, \<open>layers.c\<close>, \<open>cow.c\<close>, \<open>metadata_cow.c\<close>): the write
    paths of file data.
  \<^item> Kernel_Dir (\<open>dir_idx.c\<close>): the directory index, which keeps the last entry only.
  \<^item> Kernel_Super (\<open>super.c\<close>), Kernel_Snapshot (\<open>snapshots.c\<close>): mounting, the superblock, snapshots
    and rollback.
  \<^item> Kernel_Heal (\<open>recovery.c\<close>), Kernel_Compress (\<open>compress.c\<close>), Kernel_Security (\<open>security.c\<close>),
    Kernel_Accel (\<open>x86_accel.c\<close>): self-healing and device policies, compression with the
    libraries as a parameter, keys and audit, bitmap routines.

  Loops and fuel.  Loops over data are structural recursion or recursion with a measure.  The
  transfer loops, which a system call can interrupt any number of times, recurse on the list of
  outcomes, which is finite; when it is used up every call is complete.  The loops of the module
  that may not end (the replay of the log, the walk over directory entries, the descent in the
  extent tree) are partial functions, and the theorems say when they return.  The copy loop of
  rebalancing is total by the same list of outcomes.  Bounds that occur in theorems are those of
  the code: 32 keys of a tree node, 2047 allocation groups (beyond which 32-bit arithmetic wraps
  around), 1024 intents, 2^32 references, names of 255 bytes.

  Properties that are known to fail are stated as what the code does: C13, C19, C27, the exceptions
  in C30, C31, C33, C34, C36, C37, and lemmas in the theories of the module.

  Not modelled: the generated file \<open>aetherfs.mod.c\<close>, module registration (\<open>aetherfs_mod.c\<close>,
  \<open>folio.c\<close>), \<open>on_disk.h\<close>, whose structures no code uses, and the empty headers.  Of \<open>super.c\<close> the
  teardown functions, which free memory that belongs to a buffer; of \<open>snapshots.c\<close> the deletion,
  which does not parse; of \<open>percpu.c\<close> the cached metadata lists, the stubs for parallel directories
  and the RCU wrappers; of \<open>x86_accel.c\<close> feature detection, prefetching and vector copies; of
  \<open>security.c\<close>, \<open>recovery.c\<close>, \<open>journal.c\<close> and \<open>dense.c\<close> functions that only print, and the
  creation and destruction of slab caches.  Text that the tools print is modelled as the data it
  shows, except for reports that are written to files, which are modelled byte for byte.
\<close>

section \<open>The block layer of the tools\<close>

text \<open>
  C1: An opened pool of any profile (single, mirror, stripe, parity or tiered) is a block
  store: after any sequence of \<open>aetherfs_image_write_block\<close> calls,
  \<open>aetherfs_image_read_block\<close> returns the last block written at that address, and the
  previous contents where nothing was written.  The calls succeed, whatever interruptions
  and short transfers the system calls meet.
\<close>

theorem image_write_read:
  assumes "pool_ready img w" "\<forall>(b, d) \<in> set ws. log_valid img b \<and> length d = AETHERFS_DEF_BLOCK_SIZE" "log_valid img c"
  shows "\<exists>w'. bindE (forE (\<lambda>(b, d) _. aetherfs_image_write_block img b d) ws ())
      (\<lambda>_. aetherfs_image_read_block img c) w
    = (Inr (case map_of (rev ws) c of Some d \<Rightarrow> d | None \<Rightarrow> log_peek img w c), w') \<and> pool_ready img w'"
proof -
  obtain w1 where 1: "forE (\<lambda>(b, d) _. aetherfs_image_write_block img b d) ws () w = (Inr (), w1)" "pool_ready img w1"
    "log_peek img w1 c = (case map_of (rev ws) c of Some d \<Rightarrow> d | None \<Rightarrow> log_peek img w c)"
    using log.write_sequence [OF assms(1,2)] assms(3) by blast
  then show ?thesis
    using log.rd_ok [OF 1(2) assms(3)] by (auto simp: bindE_run_Inr)
qed

theorem image_write_read_witness:
  "\<exists>w'. bindE (forE (\<lambda>(b, d) _. aetherfs_image_write_block (sample_image AETHERFS_POOL_PROFILE_PARITY) b d)
        [(8, replicate 4096 1), (12, replicate 4096 2), (8, replicate 4096 3)] ())
      (\<lambda>_. aetherfs_image_read_block (sample_image AETHERFS_POOL_PROFILE_PARITY) 8) sample_world
    = (Inr (replicate 4096 3), w') \<and> pool_ready (sample_image AETHERFS_POOL_PROFILE_PARITY) w'"
  using image_write_read [OF sample_ready [of AETHERFS_POOL_PROFILE_PARITY],
      of "[(8, replicate 4096 1), (12, replicate 4096 2), (8, replicate 4096 3)]" 8]
  by (simp add: sample_parity_valid)

text \<open>
  C2: On a mirror a write reaches every data member: afterwards all members hold the new
  block at that address, and every other mirrored block of every member is unchanged, so
  replicas that agreed still agree.
\<close>

theorem mirror_write_replicates:
  assumes "pool_ready img w" "aetherfs_pool_profile img = AETHERFS_POOL_PROFILE_MIRROR"
    and "mirror_block img b" "length d = AETHERFS_DEF_BLOCK_SIZE"
  shows "\<exists>w'. aetherfs_image_write_block img b d w = (Inr (), w') \<and> pool_ready img w' \<and> mirror_synced img w' b \<and>
    (\<forall>i \<in> set (data_bits img). \<forall>c. mirror_block img c \<longrightarrow>
       phys_peek img w' (of_nat i, c) = (if c = b then d else phys_peek img w (of_nat i, c)))"
proof -
  obtain w' where "aetherfs_image_write_block img b d w = (Inr (), w')" "pool_ready img w'"
    "\<forall>i \<in> set (data_bits img). \<forall>c. mirror_block img c \<longrightarrow>
       phys_peek img w' (of_nat i, c) = (if c = b then d else phys_peek img w (of_nat i, c))"
    using mirror_write_members [OF assms] by blast
  then show ?thesis
    using assms(3) by (auto simp: mirror_synced_def)
qed

theorem mirror_write_replicates_witness:
  "\<exists>w'. aetherfs_image_write_block (sample_image AETHERFS_POOL_PROFILE_MIRROR) 9 (replicate 4096 5) sample_world = (Inr (), w') \<and>
    mirror_synced (sample_image AETHERFS_POOL_PROFILE_MIRROR) w' 9"
  using mirror_write_replicates [OF sample_ready sample_profile sample_mirror_block, of 9 "replicate 4096 5"]
  by auto

text \<open>
  C3: On a parity pool a write keeps the exclusive or of every row of the pool: a row
  that was consistent (its exclusive or is the zero block) stays consistent.
\<close>

theorem parity_write_consistent:
  assumes "pool_ready img w" "aetherfs_pool_profile img = AETHERFS_POOL_PROFILE_PARITY"
    and "log_valid img b" "AETHERFS_DATA_START_BLOCK \<le> b" "length d = AETHERFS_DEF_BLOCK_SIZE"
  shows "\<exists>w'. aetherfs_image_write_block img b d w = (Inr (), w') \<and> pool_ready img w' \<and>
    (\<forall>c. mirror_block img c \<longrightarrow> parity_row img w' c = parity_row img w c)"
  using assms by (rule parity_write_row)

theorem parity_write_consistent_witness:
  "\<exists>w'. aetherfs_image_write_block (sample_image AETHERFS_POOL_PROFILE_PARITY) 12 (replicate 4096 5) sample_world = (Inr (), w') \<and>
    parity_row (sample_image AETHERFS_POOL_PROFILE_PARITY) w' 9 = parity_row (sample_image AETHERFS_POOL_PROFILE_PARITY) sample_world 9"
  using parity_write_consistent [OF sample_ready sample_profile sample_parity_valid(2), of "replicate 4096 5"]
    sample_mirror_block [of 9] by auto

text \<open>
  C4: The placement of data blocks is injective for every profile: two logical blocks
  never share a location of a member.
\<close>

theorem map_data_block_injective:
  assumes "pool_sized img" "AETHERFS_DATA_START_BLOCK \<le> a" "AETHERFS_DATA_START_BLOCK \<le> b"
    and "aetherfs_pool_map_data_block img a = Inr m" "aetherfs_pool_map_data_block img b = Inr m'"
    and "mp_member_index m = mp_member_index m'" "mp_member_block m = mp_member_block m'"
  shows "a = b"
  using assms by (rule map_data_block_inj)

theorem map_data_block_injective_witness:
  "(11 :: u64) = 11 \<and> aetherfs_pool_map_data_block (sample_image AETHERFS_POOL_PROFILE_STRIPE) 11 =
    Inr \<lparr>mp_member_index = 1, mp_parity_member_index = - 1, mp_member_block = 9\<rparr>"
  using map_data_block_injective [OF sample_sized, of 11 11, OF _ _ sample_stripe_11 sample_stripe_11] sample_stripe_11
  by simp

text \<open>
  C5: On a parity pool no data block lies where a row keeps its parity, and the blocks of
  one row agree on the member that holds the parity.
\<close>

theorem parity_location_reserved:
  assumes "pool_sized img" "AETHERFS_DATA_START_BLOCK \<le> a" "AETHERFS_DATA_START_BLOCK \<le> b"
    and "aetherfs_pool_map_parity img a = Inr m" "aetherfs_pool_map_parity img b = Inr m'"
    and "mp_member_block m = mp_member_block m'"
  shows "mp_member_index m \<noteq> mp_parity_member_index m' \<and> mp_parity_member_index m = mp_parity_member_index m'"
  using map_parity_disjoint [OF assms] by blast

theorem parity_location_reserved_witness:
  "(1 :: u32) \<noteq> 0 \<and> aetherfs_pool_map_parity (sample_image AETHERFS_POOL_PROFILE_PARITY) 8 =
    Inr \<lparr>mp_member_index = 1, mp_parity_member_index = 0, mp_member_block = 8\<rparr>"
  using parity_location_reserved [OF sample_sized, of 8 8, OF _ _ sample_parity_8 sample_parity_8] sample_parity_8
  by simp

text \<open>
  C6: A linear pool places a data block exactly when the data members together hold that
  many blocks: \<open>aetherfs_pool_map_linear\<close> fails only past the end of the pool.
\<close>

theorem map_linear_total:
  "(\<exists>m. aetherfs_pool_map_linear img b = Inr m) \<longleftrightarrow>
    unat (b - AETHERFS_DATA_START_BLOCK) < (\<Sum>i \<leftarrow> data_bits img. unat (aetherfs_pool_member_data_blocks img i))"
  by (simp add: aetherfs_pool_map_linear_def mask_members_bits map_linear_loop_total)

text \<open>
  C7: The loops over the members of a mask, \<open>aetherfs_mask_count\<close> calls of
  \<open>aetherfs_mask_nth\<close> that stop at the first failure, visit the set bits below
  \<open>AETHERFS_MAX_DEVICES\<close> in increasing order, each once.
\<close>

theorem mask_members_enumerates:
  "mask_members m = filter (bit m) [0..<AETHERFS_MAX_DEVICES]"
  by (rule mask_members_bits)

section \<open>Transfers\<close>

text \<open>
  C8: \<open>aetherfs_read_all\<close> terminates under every sequence of short reads, interruptions
  and errors, changes no file, and when it succeeds it returns exactly the bytes of the
  file at that offset; when no call fails and the range lies in the file it succeeds.
\<close>

theorem read_all_correct:
  assumes "fd_file w fd = Some f" "unat offset + len < 2 ^ 63"
  shows "\<exists>r w'. aetherfs_read_all fd offset len w = (r, w') \<and> w_files w' = w_files w \<and>
    (\<forall>bs. r = Inr bs \<longrightarrow> bs = take len (drop (unat offset) (vf_data f)) \<and> length bs = len) \<and>
    (benign w \<and> unat offset + len \<le> length (vf_data f) \<longrightarrow> r = Inr (take len (drop (unat offset) (vf_data f))))"
proof -
  obtain r w' where *: "aetherfs_read_all fd offset len w = (r, w')"
    by fastforce
  have "w_files w' = w_files w"
    using read_all_adv [OF *] by (simp add: sched_adv_def)
  moreover have "bs = take len (drop (unat offset) (vf_data f)) \<and> length bs = len" if "r = Inr bs" for bs
    using * unfolding that by (rule read_all_sound [OF assms])
  moreover have "r = Inr (take len (drop (unat offset) (vf_data f)))"
    if "benign w" "unat offset + len \<le> length (vf_data f)"
    using read_all_benign [OF that(1) assms(1) that(2) assms(2)] * by auto
  ultimately show ?thesis
    using * by blast
qed

theorem read_all_correct_witness:
  "\<exists>w'. aetherfs_read_all 3 4096 10 sample_world = (Inr (replicate 10 0), w')"
  using read_all_correct [of sample_world 3 sample_file 4096 10] sample_benign
  by (auto simp: fd_file_def sample_world_def sample_file_def)

text \<open>
  C9: \<open>aetherfs_write_all\<close> terminates under every sequence of short writes, interruptions
  and errors; it has then stored a prefix of the buffer at the offset and changed nothing
  else, and the prefix is the whole buffer when it succeeds.
\<close>

theorem write_all_correct:
  assumes "w_fds w fd = Some (p, True)" "w_files w p = Some f" "unat offset + length buf < 2 ^ 63"
  shows "\<exists>r w' k. aetherfs_write_all fd offset buf w = (r, w') \<and> k \<le> length buf \<and> (r = Inr () \<longrightarrow> k = length buf) \<and>
    w_files w' = (w_files w)(p \<mapsto> f\<lparr>vf_data := put_bytes (unat offset) (take k buf) (vf_data f)\<rparr>)"
proof -
  obtain r w' where *: "aetherfs_write_all fd offset buf w = (r, w')"
    by fastforce
  show ?thesis
    using write_all_sound [OF assms *] * assms(2) by (auto simp: sched_adv_def set_data_def)
qed

theorem write_all_correct_witness:
  "\<exists>r w' k. aetherfs_write_all 3 0 [1, 2, 3] sample_world = (r, w') \<and> k \<le> 3 \<and> (r = Inr () \<longrightarrow> k = 3) \<and>
    w_files w' = (w_files sample_world)(''a'' \<mapsto>
      sample_file\<lparr>vf_data := put_bytes 0 (take k [1, 2, 3]) (vf_data sample_file)\<rparr>)"
  using write_all_correct [of sample_world 3 "''a''" sample_file 0 "[1, 2, 3]"]
  by (simp add: sample_world_def numeral_3_eq_3)

section \<open>The on-disk format\<close>





text \<open>
  C12: The checksum detects every change confined to a window of at most four bytes: two
  buffers that differ only there have different checksums.
\<close>

theorem crc_detects_window:
  assumes "length ys = length zs" "length ys \<le> 4" "ys \<noteq> zs"
  shows "aetherfs_crc32c_data (xs @ ys @ us) \<noteq> aetherfs_crc32c_data (xs @ zs @ us)"
  using crc_window_inj [OF assms(1,2)] assms(3) by (auto simp: aetherfs_crc32c_data_def)

theorem crc_detects_window_witness:
  "aetherfs_crc32c_data ([1, 2] @ [3, 4] @ [5]) \<noteq> aetherfs_crc32c_data ([1, 2] @ [9, 4] @ [5])"
  by (rule crc_detects_window) simp_all


section \<open>Validation of images\<close>

text \<open>
  C14: The coverage check accepts exact partitions only: when every interval is nonempty
  and ends within the device, an accepted list covers every block from the start of the
  data region to the end of the device exactly once, and no block outside it, although
  the code adds 64-bit starts and lengths without overflow checks.
\<close>

theorem coverage_exact:
  assumes "coverage_check coverage blocks = Inr ()" "\<forall>iv \<in> set coverage. interval_ok blocks iv"
    and "AETHERFS_DATA_START_BLOCK \<le> blocks"
  shows "length (filter (covers b) coverage) = (if 8 \<le> b \<and> b < unat blocks then 1 else 0)"
  using assms by (rule coverage_partition)

theorem coverage_exact_witness:
  "length (filter (covers 12) [Interval 11 4, Interval 8 3]) = 1"
  using coverage_exact [of "[Interval 11 4, Interval 8 3]" 15 12]
  by (simp add: coverage_check_def qsort_intervals_def interval_ok_def less_eq_interval_def aetherfs_interval_compare_def)

text \<open>
  C15: Validating an image writes nothing: it leaves every file and every descriptor as
  it found them, on success and on every error.
\<close>

theorem validate_reads_only:
  assumes "aetherfs_image_validate img w = (r, w')"
  shows "w_files w' = w_files w \<and> w_fds w' = w_fds w"
  using keepsD [OF keeps_validate sched_adv_refl assms] by (simp add: sched_adv_def)

theorem validate_reads_only_witness:
  "w_files (snd (aetherfs_image_validate (sample_image 0) sample_world)) = w_files sample_world"
  using validate_reads_only [OF surjective_pairing] by simp

section \<open>The commands\<close>

text \<open>
  C16: On a machine without errors, formatting a path that holds no file system succeeds,
  and the image it leaves is clean: a scrub finds a single-member pool of the requested
  size with one directory, no file, and every block behind the reserved ones free.
\<close>

theorem mkfs_then_scrub:
  assumes "mkfs_ready options w"
  shows "\<exists>w' out w''. aetherfs_run_mkfs options w = (Inr (), w') \<and>
    aetherfs_run_scrub \<lparr>sc_path = mk_path options, sc_members = []\<rparr> w' = (Inr out, w'') \<and>
    so_profile out = ''single'' \<and> so_members out = 1 \<and> so_checkpoint_root out = AETHERFS_CHECKPOINT_ROOT_BLOCK \<and>
    so_logical_blocks out = mk_blocks options \<and>
    so_report out = \<lparr>rp_files = 0, rp_directories = 1, rp_inodes_used = 1, rp_data_blocks = 0,
      rp_free_blocks = mk_blocks options - AETHERFS_DATA_START_BLOCK\<rparr>"
proof -
  obtain w' where "aetherfs_run_mkfs options w = (Inr (), w')"
    using mkfs_succeeds [OF assms] by blast
  moreover have "mk_blocks options \<noteq> 0" "unat (mk_blocks options) * 4096 < 2 ^ 63"
    using assms by (auto simp: mkfs_ready_def)
  ultimately show ?thesis
    using scrub_laid_out [OF mkfs_laid_out [OF mkfs_ready_formattable [OF assms]]] by blast
qed

theorem mkfs_then_scrub_witness:
  "\<exists>w' out w''. aetherfs_run_mkfs fresh_options fresh_world = (Inr (), w') \<and>
    aetherfs_run_scrub \<lparr>sc_path = ''a'', sc_members = []\<rparr> w' = (Inr out, w'') \<and> rp_free_blocks (so_report out) = 8"
  using mkfs_then_scrub [OF fresh_ready] by (auto simp: fresh_options_def)



text \<open>
  C18: The formatter touches its target only: a file at any other path that nobody has open
  for writing is the same afterwards, whatever the options and the errors on the way.
\<close>

theorem mkfs_touches_target_only:
  assumes "mk_path options \<noteq> p" "intact p f w" "aetherfs_run_mkfs options w = (r, w')"
  shows "w_files w' p = Some f"
  using keepsD [OF mkfs_leaves_others [OF assms(1)] assms(2,3)] by (simp add: intact_def)

theorem mkfs_touches_target_only_witness:
  "w_files (snd (aetherfs_run_mkfs fresh_options fresh_world)) ''d'' = Some old_device"
  by (rule mkfs_touches_target_only [OF _ _ surjective_pairing]) (simp_all add: fresh_options_def intact_def fresh_world_def)



text \<open>
  C20: The strict check of the mount command is a scrub: the same reads in the same order,
  the same error or success and the same world afterwards, without the printed report.
\<close>

theorem strict_check_is_scrub:
  "aetherfs_validate_strict_image p w =
    (case aetherfs_run_scrub \<lparr>sc_path = p, sc_members = []\<rparr> w of
       (Inl e, w') \<Rightarrow> (Inl e, w')
     | (Inr _, w') \<Rightarrow> (Inr (), w'))"
  by (auto simp: strict_scrub bindE_def okE_def split: prod.split sum.split)





text \<open>
  C23: Formatting and mounting work together: on a machine without errors, whose commands
  all succeed, a strict mount of a freshly formatted image on an existing directory
  succeeds.
\<close>

theorem mkfs_then_mount:
  assumes "mkfs_ready fo w" "mo_image_path options = mk_path fo" "mo_behavior options = AETHERFS_MOUNT_STRICT"
    and "mk_path fo \<noteq> mo_mount_path options" "intact (mo_mount_path options) d w" "vf_kind d = S_IFDIR"
    and "\<And>argv w. os_spawn os argv w = (Inr (Exited 0), w)"
  shows "\<exists>w' w''. aetherfs_run_mkfs fo w = (Inr (), w') \<and> aetherfs_run_mount os options w' = (Inr (), w'')"
  using assms by (rule mkfs_mount)

theorem mkfs_then_mount_witness:
  "\<exists>w' w''. aetherfs_run_mkfs fresh_options fresh_world = (Inr (), w') \<and>
    aetherfs_run_mount \<lparr>os_euid = 1000, os_spawn = (\<lambda>_ w. (Inr (Exited 0), w))\<rparr>
      \<lparr>mo_image_path = ''a'', mo_mount_path = ''m'', mo_module_path = None, mo_create_mountpoint = False,
       mo_behavior = AETHERFS_MOUNT_STRICT\<rparr> w' = (Inr (), w'')"
  by (rule mkfs_then_mount [OF fresh_ready, of _ fresh_dir]) (simp_all add: fresh_options_def fresh_intact, simp add: fresh_dir_def)

text \<open>
  C24: The strict check is stronger than the quick one: on a machine without errors, every
  image that passes the strict check passes the quick check that rescue mounts rely on.
\<close>

theorem strict_check_implies_quick:
  assumes "benign w" "aetherfs_validate_strict_image p w = (Inr (), w')"
  shows "\<exists>w''. aetherfs_validate_image p w = (Inr (), w'')"
  using strict_bootable [OF assms(2)] validate_image_complete [OF assms(1)] by blast

theorem strict_check_implies_quick_witness:
  "\<exists>w' w''. aetherfs_run_mkfs fresh_options fresh_world = (Inr (), w') \<and> aetherfs_validate_image ''a'' w' = (Inr (), w'')"
proof -
  have ready: "formattable fresh_world (mk_path fresh_options)" "mk_blocks fresh_options = 16" "mk_path fresh_options = ''a''"
    using mkfs_ready_formattable [OF fresh_ready] by (simp_all add: fresh_options_def)
  obtain w' where w': "aetherfs_run_mkfs fresh_options fresh_world = (Inr (), w')"
    using mkfs_succeeds [OF fresh_ready] by blast
  have "benign w'"
    using mkfs_layout [OF ready(1) _ _ w'] ready(2) by auto
  moreover obtain w1 where "aetherfs_validate_strict_image ''a'' w' = (Inr (), w1)"
    using scrub_laid_out [OF mkfs_laid_out [OF ready(1) _ _ w']] ready(2,3) by (auto simp: strict_scrub bindE_def)
  ultimately show ?thesis
    using strict_check_implies_quick w' by blast
qed

text \<open>
  C25: Rebalancing a regular file is all or nothing: when the command fails, at whatever
  call, the image at the path is the original one, byte for byte; when it succeeds, the file
  there is one that was loaded and validated with the printed report.
\<close>

theorem rebalance_atomic:
  assumes "statvfs_reads os" "vf_kind f = S_IFREG" "intact p f w" "aetherfs_run_rebalance os stale p w = Some (r, w')"
  shows "case r of Inl e \<Rightarrow> w_files w' p = Some f | Inr rep \<Rightarrow> \<exists>g. w_files w' p = Some g \<and> validated g rep"
  using assms by (rule rebalance_all_or_nothing)

theorem rebalance_atomic_witness:
  "\<exists>r w' f. w_files fresh_world ''f'' = Some f \<and>
    aetherfs_run_rebalance \<lparr>to_statvfs = (\<lambda>p w. (Inr (100, 4096), w)), to_pick = (\<lambda>_ _. ''abcdef'')\<rparr> None ''f'' fresh_world = Some (r, w') \<and>
    (case r of Inl e \<Rightarrow> w_files w' ''f'' = Some f | Inr rep \<Rightarrow> \<exists>g. w_files w' ''f'' = Some g \<and> validated g rep)"
proof -
  let ?os = "\<lparr>to_statvfs = (\<lambda>p w. (Inr (100, 4096), w)), to_pick = (\<lambda>_ _. ''abcdef'')\<rparr>"
  obtain f where f: "w_files fresh_world ''f'' = Some f" "vf_kind f = S_IFREG" "intact ''f'' f fresh_world"
    by (simp add: fresh_world_def intact_def)
  obtain r w' where "aetherfs_run_rebalance ?os None ''f'' fresh_world = Some (r, w')"
    using rebalance_returns by (metis surj_pair)
  then show ?thesis
    using rebalance_atomic [of ?os, OF _ f(2,3)] f(1) by (fastforce simp: statvfs_reads_def)
qed




text \<open>
  C28: Numbers on the command line: every printed number below the type's bound is parsed
  back, and every larger one is refused.
\<close>

theorem parse_numbers:
  "aetherfs_parse_u64 (digits n) = (if n < 2 ^ 64 then Inr (of_nat n) else Inl EINVAL) \<and>
   aetherfs_parse_u32 (digits n) = (if n < 2 ^ 32 then Inr (of_nat n) else Inl EINVAL)"
  using parse_u64_digits parse_u32_digits by blast

text \<open>
  C29: A device specification, class names separated by commas, an equals sign and a path,
  is parsed into the path and the union of the classes.
\<close>

theorem parse_device_specification:
  assumes "benign w" "list_all (\<lambda>t. device_class t \<noteq> None) ts" "p \<noteq> []"
  shows "\<exists>w'. aetherfs_parse_device_spec (join (CHR '','') ts @ CHR ''='' # p) w =
    (Inr \<lparr>ds_path = p, ds_class_mask = foldl (\<lambda>m t. m OR the (device_class t)) 0 ts\<rparr>, w') \<and> sched_adv w w'"
  using assms by (rule parse_device_spec_join)

theorem parse_device_specification_witness:
  "\<exists>w'. aetherfs_parse_device_spec (''fast,log=/dev/sda'') fresh_world = (Inr \<lparr>ds_path = ''/dev/sda'', ds_class_mask = 17\<rparr>, w')"
  using parse_device_specification [OF fresh_benign, of "[''fast'', ''log'']" "''/dev/sda''"]
  by (auto simp: device_class_def)

section \<open>The kernel module\<close>



text \<open>
  C31: The directory of the module is a map from names to inode numbers, as long as its block is
  well-formed and its records have room: adding a new name, deleting a name, looking one up and
  renaming a file to a new name have exactly the effect on the map that they should.  Renaming a
  file to a name that exists leaves that name with its old inode, and the file without a name.
\<close>

theorem directory_refines_map:
  assumes "dir_of s js m"
  shows "(\<forall>name ino. m name = None \<and> ino \<noteq> 0 \<and> length name \<le> 255 \<and> free_room (v_disk s) (v_info s) js (length name) \<longrightarrow>
      (\<exists>s'. add_entry name ino s = Some (Inr (), s') \<and> dir_of s' js (m(name \<mapsto> ino)))) \<and>
    (\<forall>name. \<exists>s'. delete_entry name s = Some (if m name = None then Inl ENOENT else Inr (), s') \<and> dir_of s' js (m(name := None))) \<and>
    (\<forall>name. length name \<le> 255 \<longrightarrow> aetherfs_lookup per_block inodes memory name s =
      (case m name of None \<Rightarrow> Some (Inr None, s)
       | Some ino \<Rightarrow> map_option (\<lambda>(r, s). (Inr (Some r), s)) (aetherfs_iget per_block inodes memory ino s))) \<and>
    (\<forall>old new ino. m old = Some ino \<and> m new = None \<and> length new \<le> 255 \<and> all_room s js (length new) \<longrightarrow>
      (\<exists>s'. aetherfs_rename now old_dir old ino new_dir new None exchange s = Some (Inr (), s') \<and> dir_of s' js (m(old := None, new \<mapsto> ino)))) \<and>
    (\<forall>old new ino n. m old = Some ino \<and> m new = Some n \<longrightarrow>
      (\<exists>s'. aetherfs_rename now old_dir old ino new_dir new (Some n) exchange s = Some (Inr (), s') \<and> dir_of s' js (m(old := None))))"
  using add_entry_dir [OF assms] delete_entry_dir [OF assms] lookup_map [OF assms [unfolded dir_of_def]] rename_new_name [OF assms]
    rename_existing_name [OF assms] by (intro conjI allI impI) blast+

theorem directory_refines_map_witness:
  "(\<exists>s'. add_entry [98] 18 sample_vfs = Some (Inr (), s') \<and> dir_of s' [0, 2048] [[97] \<mapsto> 17, [98] \<mapsto> 18]) \<and>
   aetherfs_lookup 8 100 True [98] sample_vfs = Some (Inr None, sample_vfs) \<and>
   (\<exists>s'. aetherfs_rename 0 16 [97] 17 16 [98] None False sample_vfs = Some (Inr (), s') \<and>
     dir_of s' [0, 2048] ((Map.empty([97] \<mapsto> 17))([97] := None, [98] \<mapsto> 17)))"
proof -
  note ref = directory_refines_map [OF sample_dir(1), of 8 100 True 0 16 16 False]
  show ?thesis
    using ref [THEN conjunct1, THEN spec [of _ "[98]"], THEN spec [of _ 18]] ref [THEN conjunct2, THEN conjunct2, THEN conjunct1, THEN spec [of _ "[98]"]]
      ref [THEN conjunct2, THEN conjunct2, THEN conjunct2, THEN conjunct1, THEN spec [of _ "[97]"], THEN spec [of _ "[98]"],
        THEN spec [of _ 17]] sample_dir(2,3)
    by simp
qed



text \<open>
  C33: Freeing a block in use clears its bit and counts it as free, with one exception: the
  first block of every allocation group stays allocated for good, while the free block count
  of the superblock grows all the same.
\<close>

theorem free_blocks_first_leaks:
  assumes "wf_space fsi" "unat b \<in> in_use fsi"
  shows "\<exists>fsi'. aetherfs_free_blocks_extended b 1 (Some fsi) info = Some (Some fsi', info\<lparr>s_free_blocks_k := s_free_blocks_k info + 1\<rparr>) \<and>
    wf_space fsi' \<and> in_use fsi' = (if (unat b - 7) mod 2097152 = 0 then in_use fsi else in_use fsi - {unat b}) \<and>
    free_bits fsi' = (if (unat b - 7) mod 2097152 = 0 then free_bits fsi else Suc (free_bits fsi))"
  using assms by (rule free_extended_in_use)

theorem free_blocks_first_leaks_witness:
  "\<exists>fsi b fsi'. b \<noteq> 0 \<and> unat b \<in> in_use fsi \<and>
    aetherfs_free_blocks_extended b 1 (Some fsi) idle_sb = Some (Some fsi', idle_sb\<lparr>s_free_blocks_k := 60001\<rparr>)"
proof -
  obtain fsi where fsi: "aetherfs_free_space_init True True (\<lambda>_. True) 1 = Inr fsi"
    using free_space_init_succeeds by blast
  have "unat (1 :: u32) \<le> 2047"
    by simp
  note init = free_space_init_ok [OF fsi this]
  have "free_bits fsi \<noteq> 0"
    using init(3) by simp
  then obtain b :: u64 and fsi1 where b: "b \<noteq> 0" "in_use fsi1 = insert (unat b) (in_use fsi)" "wf_space fsi1"
    using alloc_extended_one [OF init(1), of AETHERFS_ALLOC_HOT 0 idle_sb] full_no_free [OF init(1)] by metis
  then have "unat b \<in> in_use fsi1"
    by simp
  from free_blocks_first_leaks [OF b(3) this, of idle_sb] b(1) this show ?thesis
    by (auto simp: idle_sb_def)
qed

text \<open>
  C34: Checksums of the module: what the compute function of a structure writes, its verify
  function accepts, for the superblock, inodes, journal headers, B+tree nodes, snapshot
  references and data blocks.  For directory entries this holds only where the 32-bit sum is
  below 256, because the field is one byte wide.
\<close>

theorem computed_checksums_verify:
  assumes "512 \<le> length m"
  shows "(\<forall>es. aetherfs_compute_superblock_checksum (Some m) = Inr es \<longrightarrow> aetherfs_verify_superblock_checksum (Some es) = Inr ()) \<and>
    aetherfs_verify_inode_checksum (aetherfs_compute_inode_checksum m) = Inr () \<and>
    aetherfs_verify_journal_checksum (aetherfs_compute_journal_checksum m) = Inr () \<and>
    aetherfs_verify_btree_node_checksum sz (aetherfs_compute_btree_node_checksum sz m) = Inr () \<and>
    aetherfs_verify_snapshot_checksum (aetherfs_compute_snapshot_checksum m) = Inr () \<and>
    aetherfs_verify_data_checksum bs (aetherfs_compute_data_checksum bs blocknr m) = Inr () \<and>
    (aetherfs_verify_directory_entry_checksum (aetherfs_compute_directory_entry_checksum m) = Inr () \<longleftrightarrow> dir_entry_sum m < 256)"
proof (intro conjI allI impI)
  show "aetherfs_verify_superblock_checksum (Some es) = Inr ()" if "aetherfs_compute_superblock_checksum (Some m) = Inr es" for es
    using superblock_sealed [OF _ that] assms by simp
qed (use assms inode_sealed journal_sealed btree_node_sealed snapshot_sealed data_sealed directory_entry_sealed_iff in simp_all)

theorem computed_checksums_verify_witness:
  "aetherfs_verify_inode_checksum (aetherfs_compute_inode_checksum (replicate 512 7)) = Inr () \<and>
    aetherfs_verify_data_checksum 512 (aetherfs_compute_data_checksum 512 9 (replicate 512 7)) = Inr ()"
  using computed_checksums_verify [of "replicate 512 7" 512 512 9] by simp

text \<open>
  C35: The log of intents stays well-typed: whatever sequence of its operations runs after
  initialisation, the number of intents in use is at most the capacity of 1024 and every one of
  them carries the magic number, a type, a transaction and one of the states pending, applied
  and committed.
\<close>

theorem journal_log_typed:
  assumes "journal_reachable s"
  shows "log_ok (js_log s)"
  using assms by (rule journal_reachable_log_ok)

theorem journal_log_typed_witness:
  "\<exists>s. journal_reachable s \<and> log_ok (js_log s) \<and> map ie_txn_id (entries (js_log s)) = [7]"
proof -
  obtain l where l: "aetherfs_intent_init True True True True = Inr l"
    by (simp add: aetherfs_intent_init_def)
  note log = intent_init_ok [OF l]
  let ?s = "\<lparr>js_log = l, js_counter = 1\<rparr>\<lparr>js_log := snd (aetherfs_intent_create 1 16 100 200 4096 7 l)\<rparr>"
  have reach: "journal_reachable ?s"
    using journal_reachable.step [OF journal_reachable.init [OF l] journal_step.create [of _ 1 16 100 200 4096 7]] by simp
  have room: "il_count l < il_capacity l"
    using log length_entries [of l] by simp
  have "map ie_txn_id (entries (js_log ?s)) = [7]"
    by (rule intent_create_ok [of l 1 7 16 100 200 4096]) (use log room in simp_all)
  then show ?thesis
    using journal_log_typed [OF reach] reach by (intro exI [of _ ?s]) simp
qed

text \<open>
  C36: A transaction of the intent log: after beginning, adding intents and committing, the log
  has its old intents followed by those of the transaction, all committed, and clearing the
  transaction brings the old intents back.  Intents that find no room are lost, although the
  transaction counts them.
\<close>

theorem transaction_commit_clear:
  assumes "wf_log (js_log s)" "js_counter s \<noteq> 0" "js_counter s \<notin> ie_txn_id ` set (entries (js_log s))"
    "\<forall>(type, _) \<in> set ops. type \<noteq> 0"
    "aetherfs_transaction_begin (Some old) now mode s = (Inr (ret, t0), s0)" "add_all t0 ops s0 = (t1, s1)"
    "aetherfs_transaction_commit now' t1 s1 = (t2, s2)"
  shows "xt_intent_count t2 = of_nat (length ops) \<and> (\<exists>es. entries (js_log s2) = entries (js_log s) @ es \<and>
      (\<forall>e \<in> set es. ie_txn_id e = xt_id t2 \<and> ie_flags e = AETHERFS_INTENT_COMMITTED) \<and>
      map (\<lambda>e. (ie_type e, ie_target_ino e, ie_target_block e, ie_new_block e)) es =
        take (il_capacity (js_log s) - il_count (js_log s)) ops \<and>
      (\<exists>l'. aetherfs_intent_clear (xt_id t2) (js_log s2) = (length es, l') \<and> entries l' = entries (js_log s)))"
  using assms by (rule transaction_commits)

theorem transaction_commit_clear_witness:
  "\<exists>l ret t0 s0 t1 s1 t2 s2 l'. aetherfs_intent_init True True True True = Inr l \<and>
    aetherfs_transaction_begin (Some 0) 50 1 \<lparr>js_log = l, js_counter = 5\<rparr> = (Inr (ret, t0), s0) \<and>
    add_all t0 [(1, 16, 100, 200), (2, 17, 101, 0)] s0 = (t1, s1) \<and> aetherfs_transaction_commit 60 t1 s1 = (t2, s2) \<and>
    map (\<lambda>e. (ie_type e, ie_target_ino e, ie_target_block e, ie_new_block e)) (entries (js_log s2)) =
      [(1, 16, 100, 200), (2, 17, 101, 0)] \<and>
    aetherfs_intent_clear (xt_id t2) (js_log s2) = (2, l') \<and> entries l' = []"
proof -
  obtain l where init: "aetherfs_intent_init True True True True = Inr l"
    by (simp add: aetherfs_intent_init_def)
  note l = intent_init_ok [OF init]
  let ?s = "\<lparr>js_log = l, js_counter = 5\<rparr>" and ?ops = "[(1, 16, 100, 200), (2, 17, 101, 0)]"
  obtain ret t0 s0 where 1: "aetherfs_transaction_begin (Some 0) 50 1 ?s = (Inr (ret, t0), s0)"
    by (simp add: aetherfs_transaction_begin_def Let_def)
  obtain t1 s1 where 2: "add_all t0 ?ops s0 = (t1, s1)"
    by fastforce
  obtain t2 s2 where 3: "aetherfs_transaction_commit 60 t1 s1 = (t2, s2)"
    by fastforce
  obtain es l' where es: "entries (js_log s2) = es"
    "map (\<lambda>e. (ie_type e, ie_target_ino e, ie_target_block e, ie_new_block e)) es = take (1024 - il_count l) ?ops"
    "aetherfs_intent_clear (xt_id t2) (js_log s2) = (length es, l')" "entries l' = []"
    using transaction_commit_clear [OF _ _ _ _ 1 2 3] l by auto
  have map: "map (\<lambda>e. (ie_type e, ie_target_ino e, ie_target_block e, ie_new_block e)) es = ?ops"
    using es(2) length_entries [of l] l by simp
  from arg_cong [OF this, of length] have "length es = 2"
    by simp
  then have "aetherfs_intent_clear (xt_id t2) (js_log s2) = (2, l')"
    using es(3) by simp
  moreover have "map (\<lambda>e. (ie_type e, ie_target_ino e, ie_target_block e, ie_new_block e)) (entries (js_log s2)) = ?ops"
    using es(1) map by simp
  ultimately show ?thesis
    using init 1 2 3 es(4) by (intro exI conjI)
qed



text \<open>
  C38: A path gets the policy of its longest matching prefix, the first such one when several
  have the same length, and ENOENT when there is none.  Prefixes are those of strings, not of
  path components.
\<close>

theorem policy_longest_prefix:
  "aetherfs_get_policy path ps = (case longest (candidates path ps) of None \<Rightarrow> Inl ENOENT | Some p \<Rightarrow> Inr p)"
  by (rule get_policy_longest)

text \<open>
  C39: The table of deduplicated metadata counts references: after any sequence of insertions
  into an empty table and any sequence of releases among them, a value is found exactly when
  it was inserted more often than released.
\<close>

theorem dedup_counts_references:
  assumes "\<forall>k \<in> set ks. k \<noteq> [] \<and> length k \<le> 128" "length ks < 2 ^ 32" "mset js \<subseteq># mset ks" "data \<noteq> []"
  shows "aetherfs_dedup_resolve data
      (foldl (\<lambda>t k. snd (aetherfs_dedup_release k t)) (foldl (\<lambda>t k. snd (aetherfs_dedup_metadata True ino k t)) (\<lambda>_. []) ks) js) =
    (if count (mset js) data < count (mset ks) data then Inr data else Inl ENOENT)"
proof -
  have small: "\<forall>k. dedup_refs (\<lambda>_. []) k + count (mset ks) k < 2 ^ 32"
    using assms(2) count_le_length [of ks] by (metis add_0 count_mset dedup_empty(2) le_less_trans)
  note taken = dedup.take_all_refs [OF dedup_empty(1) _ small, of ino]
  have valid: "\<forall>k \<in> set ks. dedup_valid k"
    using assms(1) by (simp add: dedup_valid_def)
  moreover have "\<forall>k \<in> set js. dedup_valid k"
    using valid mset_subset_eqD [OF assms(3)] by simp
  ultimately have refs: "dedup_ok (dedup.drop_all js (dedup.take_all ino ks (\<lambda>_. [])))"
    "dedup_refs (dedup.drop_all js (dedup.take_all ino ks (\<lambda>_. []))) data = count (mset ks) data - count (mset js) data"
    using dedup.drop_all_refs [of "dedup.take_all ino ks (\<lambda>_. [])" js] taken mset_subset_eq_count [OF assms(3)]
    by (simp_all add: dedup_empty(2))
  show ?thesis
    using dedup_resolve_iff [OF refs(1) assms(4), unfolded refs(2)] by (simp add: dedup.take_all_def dedup.drop_all_def)
qed

theorem dedup_counts_references_witness:
  "aetherfs_dedup_resolve [1] (foldl (\<lambda>t k. snd (aetherfs_dedup_release k t))
      (foldl (\<lambda>t k. snd (aetherfs_dedup_metadata True 16 k t)) (\<lambda>_. []) [[1], [2], [1]]) [[1], [2]]) = Inr [1] \<and>
   aetherfs_dedup_resolve [2] (foldl (\<lambda>t k. snd (aetherfs_dedup_release k t))
      (foldl (\<lambda>t k. snd (aetherfs_dedup_metadata True 16 k t)) (\<lambda>_. []) [[1], [2], [1]]) [[1], [2]]) = Inl ENOENT"
  using dedup_counts_references [of "[[1], [2], [1]]" "[[1], [2]]" "[1]" 16]
    dedup_counts_references [of "[[1], [2], [1]]" "[[1], [2]]" "[2]" 16] by simp



end
